(* ===== verification/Prelude.thy ===== *)
theory Prelude
  imports Main "HOL-Library.AList" "HOL-Library.Word" "HOL-Library.Sublist"
begin

text \<open>
  Shared vocabulary of the development: the collections of simplification rules, the Rust
  integer types, fallible results as sums (\<open>Inl\<close> the error, \<open>Inr\<close> the value), computations
  that thread a state and may fail, hash maps as association lists, decimal rendering.

  Rust strings are modelled by their UTF-8 bytes (Isabelle's \<^typ>\<open>string\<close>, a list of byte-sized
  characters): \<open>len()\<close> is then \<^const>\<open>length\<close>, and a test that only ASCII characters pass fails
  for a code point exactly when it fails for one of the bytes of its encoding.
\<close>

named_theorems conv_simps \<open>round trips of the wire conversions\<close>
named_theorems store_simps \<open>what the resource operations do to the tables\<close>
named_theorems error_simps \<open>unfolding of the error combinators\<close>

type_synonym u16 = "16 word"
type_synonym u32 = "32 word"
type_synonym u64 = "64 word"
type_synonym byte = "8 word"

section \<open>Lists\<close>

lemma find_SomeD: "find P xs = Some x \<Longrightarrow> x \<in> set xs \<and> P x"
  by (induction xs) (auto split: if_splits)

lemma find_eq_None: "find P xs = None \<longleftrightarrow> (\<forall>x\<in>set xs. \<not> P x)"
  by (induction xs) auto

section \<open>Fallible results\<close>

text \<open>\<open>Result::and_then\<close> (and the \<open>?\<close> operator), \<open>map_err\<close>, \<open>Option::ok_or\<close>.\<close>

fun bind_sum :: "'e + 'a \<Rightarrow> ('a \<Rightarrow> 'e + 'b) \<Rightarrow> 'e + 'b" where
  "bind_sum (Inl e) f = Inl e"
| "bind_sum (Inr a) f = f a"

fun map_err :: "('e \<Rightarrow> 'f) \<Rightarrow> 'e + 'a \<Rightarrow> 'f + 'a" where
  "map_err f (Inl e) = Inl (f e)"
| "map_err f (Inr a) = Inr a"

fun map_ok :: "('a \<Rightarrow> 'b) \<Rightarrow> 'e + 'a \<Rightarrow> 'e + 'b" where
  "map_ok f (Inl e) = Inl e"
| "map_ok f (Inr a) = Inr (f a)"

fun ok_or :: "'e \<Rightarrow> 'a option \<Rightarrow> 'e + 'a" where
  "ok_or e None = Inl e"
| "ok_or e (Some a) = Inr a"

lemma bind_sum_Inr_iff: "bind_sum r f = Inr b \<longleftrightarrow> (\<exists>a. r = Inr a \<and> f a = Inr b)"
  by (cases r) auto

lemma bind_sum_Inl_iff:
  "bind_sum r f = Inl e \<longleftrightarrow> r = Inl e \<or> (\<exists>a. r = Inr a \<and> f a = Inl e)"
  by (cases r) auto

lemma map_err_Inr_iff: "map_err f r = Inr a \<longleftrightarrow> r = Inr a"
  by (cases r) auto

lemma map_err_Inl_iff: "map_err f r = Inl e \<longleftrightarrow> (\<exists>e'. r = Inl e' \<and> e = f e')"
  by (cases r) auto

lemma map_ok_Inr_iff: "map_ok f r = Inr b \<longleftrightarrow> (\<exists>a. r = Inr a \<and> b = f a)"
  by (cases r) auto

lemma ok_or_Inr_iff: "ok_or e r = Inr a \<longleftrightarrow> r = Some a"
  by (cases r) auto

lemmas sum_iffs = bind_sum_Inr_iff bind_sum_Inl_iff map_err_Inr_iff map_err_Inl_iff
  map_ok_Inr_iff ok_or_Inr_iff

text \<open>\<open>iter().map(f).collect::<Result<Vec<_>, _>>()\<close>: stops at the first error.\<close>

fun traverse :: "('a \<Rightarrow> 'e + 'b) \<Rightarrow> 'a list \<Rightarrow> 'e + 'b list" where
  "traverse f [] = Inr []"
| "traverse f (x # xs) = bind_sum (f x) (\<lambda>y. map_ok (\<lambda>ys. y # ys) (traverse f xs))"

text \<open>\<open>option.map(f).transpose()\<close>.\<close>

fun transpose_map :: "('a \<Rightarrow> 'e + 'b) \<Rightarrow> 'a option \<Rightarrow> 'e + 'b option" where
  "transpose_map f None = Inr None"
| "transpose_map f (Some a) = map_ok Some (f a)"

lemma traverse_Inr: "(\<And>x. x \<in> set xs \<Longrightarrow> f x = Inr (g x)) \<Longrightarrow> traverse f xs = Inr (map g xs)"
  by (induction xs) auto

lemma traverse_map: "traverse f (map h xs) = traverse (\<lambda>x. f (h x)) xs"
  by (induction xs) auto

lemma traverse_cong [fundef_cong]:
  "xs = ys \<Longrightarrow> (\<And>x. x \<in> set ys \<Longrightarrow> f x = g x) \<Longrightarrow> traverse f xs = traverse g ys"
  by (induction xs arbitrary: ys) auto

lemma traverse_eq_Inr_iff: "traverse f xs = Inr ys \<longleftrightarrow> list_all2 (\<lambda>x y. f x = Inr y) xs ys"
proof (induction xs arbitrary: ys)
  case (Cons x xs)
  then show ?case
    by (cases ys; cases "f x"; cases "traverse f xs") auto
qed auto

lemma traverse_eq_Inl:
  "traverse f xs = Inl e \<Longrightarrow> \<exists>ys x zs. xs = ys @ x # zs \<and> f x = Inl e \<and> (\<forall>y\<in>set ys. \<exists>b. f y = Inr b)"
proof (induction xs)
  case (Cons x xs)
  show ?case
  proof (cases "f x")
    case (Inl e')
    with Cons.prems show ?thesis by (intro exI [of _ "[]"]) auto
  next
    case (Inr b)
    with Cons.prems have "traverse f xs = Inl e" by (cases "traverse f xs") auto
    then obtain ys y zs where "xs = ys @ y # zs" "f y = Inl e" "\<forall>y\<in>set ys. \<exists>b. f y = Inr b"
      using Cons.IH by blast
    with Inr show ?thesis by (intro exI [of _ "x # ys"]) auto
  qed
qed simp

section \<open>Computations with a state that may fail\<close>

text \<open>
  A method on \<open>&mut self\<close> that returns a \<open>Result\<close> is a function from the state to the new
  state and the result; the state changes made before an error stay made.
\<close>

type_synonym ('s, 'e, 'a) run = "'s \<Rightarrow> 's \<times> ('e + 'a)"

definition return_ok :: "'a \<Rightarrow> ('s, 'e, 'a) run" where
  "return_ok a s = (s, Inr a)"

definition fail_with :: "'e \<Rightarrow> ('s, 'e, 'a) run" where
  "fail_with e s = (s, Inl e)"

definition and_then :: "('s, 'e, 'a) run \<Rightarrow> ('a \<Rightarrow> ('s, 'e, 'b) run) \<Rightarrow> ('s, 'e, 'b) run" where
  "and_then m f s = (case m s of (s', Inl e) \<Rightarrow> (s', Inl e) | (s', Inr a) \<Rightarrow> f a s')"

definition map_run_err :: "('e \<Rightarrow> 'f) \<Rightarrow> ('s, 'e, 'a) run \<Rightarrow> ('s, 'f, 'a) run" where
  "map_run_err g m s = (case m s of (s', r) \<Rightarrow> (s', map_err g r))"

definition lift_result :: "'e + 'a \<Rightarrow> ('s, 'e, 'a) run" where
  "lift_result r s = (s, r)"

fun run_list :: "('a \<Rightarrow> ('s, 'e, unit) run) \<Rightarrow> 'a list \<Rightarrow> ('s, 'e, unit) run" where
  "run_list f [] = return_ok ()"
| "run_list f (x # xs) = and_then (f x) (\<lambda>_. run_list f xs)"

text \<open>An error that is logged, not returned.\<close>

definition ignoring_error :: "('s, 'e, 'a) run \<Rightarrow> ('s, 'f, unit) run" where
  "ignoring_error f s = (fst (f s), Inr ())"

lemma ignoring_error_Inr [simp]: "snd (ignoring_error f s) = Inr ()" "fst (ignoring_error f s) = fst (f s)"
  by (simp_all add: ignoring_error_def)

lemmas run_defs = return_ok_def fail_with_def and_then_def map_run_err_def lift_result_def

lemma and_then_Inr_iff:
  "and_then m f s = (s'', Inr b) \<longleftrightarrow> (\<exists>s' a. m s = (s', Inr a) \<and> f a s' = (s'', Inr b))"
  by (auto simp: and_then_def split: prod.splits sum.splits)

lemma map_run_err_Inr_iff: "map_run_err g m s = (s', Inr a) \<longleftrightarrow> m s = (s', Inr a)"
  by (auto simp: map_run_err_def map_err_Inr_iff split: prod.splits)

lemma return_ok_iff: "return_ok a s = (s', Inr b) \<longleftrightarrow> s' = s \<and> b = a"
  by (auto simp: return_ok_def)

lemma lift_result_iff: "lift_result r s = (s', Inr b) \<longleftrightarrow> s' = s \<and> r = Inr b"
  by (auto simp: lift_result_def)

lemma fail_with_Inr [simp]: "fail_with e s \<noteq> (s', Inr a)"
  by (simp add: fail_with_def)

lemmas run_iffs = and_then_Inr_iff map_run_err_Inr_iff return_ok_iff lift_result_iff

section \<open>Hash maps\<close>

text \<open>
  A \<open>HashMap\<close> or a key-value table is the association list of its entries, with distinct keys.
  The position of an entry carries no meaning in the code (iteration order is unspecified):
  the properties below either do not depend on it or hold for every order.
\<close>

definition collect_map :: "('k \<times> 'v) list \<Rightarrow> ('k \<times> 'v) list" where
  "collect_map xs = fold (\<lambda>(k, v). AList.update k v) xs []"

abbreviation keys_of :: "('k \<times> 'v) list \<Rightarrow> 'k list" where
  "keys_of m \<equiv> map fst m"

abbreviation values_of :: "('k \<times> 'v) list \<Rightarrow> 'v list" where
  "values_of m \<equiv> map snd m"

definition hash_map :: "('k \<times> 'v) list \<Rightarrow> bool" where
  "hash_map m \<longleftrightarrow> distinct (keys_of m)"

lemma hash_map_Nil [simp, intro]: "hash_map []"
  by (simp add: hash_map_def)

lemma hash_map_update [simp, intro]: "hash_map m \<Longrightarrow> hash_map (AList.update k v m)"
  by (simp add: hash_map_def distinct_update)

lemma hash_map_delete [simp, intro]: "hash_map m \<Longrightarrow> hash_map (AList.delete k m)"
  by (simp add: hash_map_def distinct_delete)

lemma hash_map_filter [simp, intro]: "hash_map m \<Longrightarrow> hash_map (filter P m)"
  by (induction m) (auto simp: hash_map_def)

lemma set_hash_map: "hash_map m \<Longrightarrow> (k, v) \<in> set m \<longleftrightarrow> map_of m k = Some v"
  by (simp add: hash_map_def)

lemma map_of_update [simp]: "map_of (AList.update k v m) = (map_of m)(k \<mapsto> v)"
  by (simp add: update_conv' fun_eq_iff)

lemma map_of_delete [simp]: "map_of (AList.delete k m) = (map_of m)(k := None)"
  by (simp add: delete_conv' fun_eq_iff)

lemma fold_update_distinct:
  "hash_map m \<Longrightarrow> hash_map (fold (\<lambda>(k, v). AList.update k v) xs m)"
  by (induction xs arbitrary: m) (auto split: prod.splits)

lemma hash_map_collect [simp, intro]: "hash_map (collect_map xs)"
  by (simp add: collect_map_def fold_update_distinct)

lemma map_of_fold_update:
  "map_of (fold (\<lambda>(k, v). AList.update k v) xs m) = map_of m ++ map_of (rev xs)"
proof (induction xs arbitrary: m)
  case (Cons x xs)
  then show ?case by (cases x) (simp add: map_add_def fun_eq_iff split: option.splits)
qed simp

lemma map_of_collect: "map_of (collect_map xs) = map_of (rev xs)"
  by (simp add: collect_map_def map_of_fold_update)

lemma map_of_rev_distinct: "hash_map xs \<Longrightarrow> map_of (rev xs) = map_of xs"
  by (metis hash_map_def map_of_inject_set set_rev rev_map distinct_rev)

lemma map_of_collect_distinct: "hash_map xs \<Longrightarrow> map_of (collect_map xs) = map_of xs"
  by (simp add: map_of_collect map_of_rev_distinct)

lemma update_fresh: "k \<notin> set (keys_of m) \<Longrightarrow> AList.update k v m = m @ [(k, v)]"
  by (induction m) auto

lemma fold_update_fresh:
  "distinct (keys_of (m @ xs)) \<Longrightarrow> fold (\<lambda>(k, v). AList.update k v) xs m = m @ xs"
proof (induction xs arbitrary: m)
  case (Cons x xs)
  obtain k v where x: "x = (k, v)" by (cases x)
  with Cons.prems have "AList.update k v m = m @ [x]" by (auto intro: update_fresh)
  with Cons x show ?case by simp
qed simp

lemma collect_map_distinct: "hash_map xs \<Longrightarrow> collect_map xs = xs"
  using fold_update_fresh [of "[]" xs] by (simp add: collect_map_def hash_map_def)

section \<open>Decimal rendering\<close>

fun show_nat :: "nat \<Rightarrow> string" where
  "show_nat n = (if n < 10 then [char_of (48 + n)] else show_nat (n div 10) @ [char_of (48 + n mod 10)])"

declare show_nat.simps [simp del]

definition read_digits :: "string \<Rightarrow> nat" where
  "read_digits cs = foldl (\<lambda>acc c. acc * 10 + (of_char c - 48)) 0 cs"

lemma read_show_nat [simp]: "read_digits (show_nat n) = n"
proof (induction n rule: show_nat.induct)
  case (1 n)
  show ?case
    using 1 by (cases "n < 10") (simp_all add: show_nat.simps [of n] read_digits_def)
qed

lemma show_nat_inject [simp]: "show_nat m = show_nat n \<longleftrightarrow> m = n"
  by (metis read_show_nat)

lemma show_nat_digits:
  "show_nat 0 = ''0''" "show_nat 1 = ''1''" "show_nat 3 = ''3''" "show_nat 4 = ''4''"
  by code_simp+

lemma show_nat_nonempty [simp]: "show_nat n \<noteq> []"
  by (subst show_nat.simps) simp

lemma length_show_nat: "n < 10 ^ k \<Longrightarrow> 0 < k \<Longrightarrow> length (show_nat n) \<le> k"
proof (induction n arbitrary: k rule: show_nat.induct)
  case (1 n)
  show ?case
  proof (cases "n < 10")
    case True
    with 1 show ?thesis by (simp add: show_nat.simps [of n])
  next
    case False
    with 1 obtain k' where k: "k = Suc k'" "0 < k'"
      by (cases k; cases "k - 1") auto
    with 1 False have "length (show_nat (n div 10)) \<le> k'"
      by (auto simp: less_mult_imp_div_less mult.commute)
    with False k show ?thesis by (simp add: show_nat.simps [of n])
  qed
qed

lemma length_show_nat_ge: "10 ^ k \<le> n \<Longrightarrow> k < length (show_nat n)"
proof (induction n arbitrary: k rule: show_nat.induct)
  case (1 n)
  show ?case
  proof (cases "n < 10")
    case True
    have "k = 0"
    proof (rule ccontr)
      assume "k \<noteq> 0"
      then have "(10::nat) ^ 1 \<le> 10 ^ k" by (intro power_increasing) auto
      with 1 True show False by simp
    qed
    then show ?thesis by simp
  next
    case False
    show ?thesis
    proof (cases k)
      case (Suc k')
      with 1 False have "k' < length (show_nat (n div 10))"
        by (auto simp: less_eq_div_iff_mult_less_eq mult.commute)
      with False Suc show ?thesis by (simp add: show_nat.simps [of n])
    qed simp
  qed
qed

end
