(* ===== verification/Externals.thy ===== *)
theory Externals
  imports Prelude
begin

unbundle bit_operations_syntax

text \<open>
  Third-party code the program calls, as one record of functions that every definition using
  it takes as a parameter: the \<open>uuid\<close> crate (textual form, halves of the 128 bits, name-based
  UUIDs) and the \<open>url\<close> crate. \<open>ext_ok\<close> is what the program relies on, as those crates document
  it: a value survives being split and joined, and being printed and parsed.
\<close>

type_synonym uuid = "128 word"

datatype url = Url (url_text: string)

record ext =
  as_u64_pair :: "uuid \<Rightarrow> u64 \<times> u64"
  from_u64_pair :: "u64 \<times> u64 \<Rightarrow> uuid"
  uuid_parse_str :: "string \<Rightarrow> uuid option"
  uuid_to_string :: "uuid \<Rightarrow> string"
  uuid_of_name_hash :: "string \<Rightarrow> uuid"
  url_parse :: "string \<Rightarrow> string + url"
  url_to_string :: "url \<Rightarrow> string"

definition ext_ok :: "ext \<Rightarrow> bool" where
  "ext_ok x \<longleftrightarrow>
     (\<forall>u. from_u64_pair x (as_u64_pair x u) = u) \<and>
     (\<forall>u. uuid_parse_str x (uuid_to_string x u) = Some u) \<and>
     (\<forall>u. url_parse x (url_to_string x u) = Inr u)"

lemma ext_okD [simp]:
  assumes "ext_ok x"
  shows "from_u64_pair x (as_u64_pair x u) = u"
    and "uuid_parse_str x (uuid_to_string x u) = Some u"
    and "url_parse x (url_to_string x w) = Inr w"
  using assms by (simp_all add: ext_ok_def)

lemma uuid_to_string_inject: "ext_ok x \<Longrightarrow> uuid_to_string x u = uuid_to_string x v \<longleftrightarrow> u = v"
  by (metis ext_okD(2) option.inject)

text \<open>A concrete instance, at which the properties are evaluated.\<close>

definition split_halves :: "uuid \<Rightarrow> u64 \<times> u64" where
  "split_halves u = (ucast (drop_bit 64 u), ucast u)"

definition join_halves :: "u64 \<times> u64 \<Rightarrow> uuid" where
  "join_halves p = push_bit 64 (ucast (fst p)) OR ucast (snd p)"

lemma join_split_halves: "join_halves (split_halves u) = u"
proof (rule bit_word_eqI)
  fix n
  assume "n < LENGTH(128)"
  then show "bit (join_halves (split_halves u)) n \<longleftrightarrow> bit u n"
    by (auto simp: join_halves_def split_halves_def bit_simps)
qed

definition parse_decimal :: "string \<Rightarrow> uuid option" where
  "parse_decimal s = Some (word_of_nat (read_digits s))"

definition show_decimal :: "uuid \<Rightarrow> string" where
  "show_decimal u = show_nat (unat u)"

definition hash_of_name :: "string \<Rightarrow> uuid" where
  "hash_of_name s = word_of_nat (length s)"

definition parse_any_url :: "string \<Rightarrow> string + url" where
  "parse_any_url s = Inr (Url s)"

definition decimal_ext :: ext where
  "decimal_ext = \<lparr> as_u64_pair = split_halves, from_u64_pair = join_halves,
     uuid_parse_str = parse_decimal, uuid_to_string = show_decimal,
     uuid_of_name_hash = hash_of_name, url_parse = parse_any_url, url_to_string = url_text \<rparr>"

lemma ext_ok_decimal [simp]: "ext_ok decimal_ext"
  by (simp add: ext_ok_def decimal_ext_def join_split_halves parse_decimal_def show_decimal_def parse_any_url_def)

end
