(* ===== verification/Names.thy ===== *)
theory Names
  imports Externals
begin

text \<open>
  Validated text: the newtypes over \<open>String\<close> of opendut-types (names, locations, tags, client
  credentials, container settings) with the rules their \<open>TryFrom<String>\<close> enforces. Every type
  is an instance of \<open>validated_text\<close>: its parser accepts exactly the text of its valid values.
\<close>

locale validated_text =
  fixes try_from :: "string \<Rightarrow> 'e + 'n"
    and text_of :: "'n \<Rightarrow> string"
    and valid :: "'n \<Rightarrow> bool"
  assumes try_from_Inr_iff: "try_from s = Inr n \<longleftrightarrow> valid n \<and> text_of n = s"
begin

lemma parse_print: "valid n \<Longrightarrow> try_from (text_of n) = Inr n"
  by (simp add: try_from_Inr_iff)

lemma print_parse: "try_from s = Inr n \<Longrightarrow> text_of n = s"
  by (simp add: try_from_Inr_iff)

lemma parsed_valid: "try_from s = Inr n \<Longrightarrow> valid n"
  by (simp add: try_from_Inr_iff)

lemma print_inject: "valid m \<Longrightarrow> valid n \<Longrightarrow> text_of m = text_of n \<Longrightarrow> m = n"
  by (metis parse_print sum.inject(2))

lemma rejected_iff: "(\<exists>e. try_from s = Inl e) \<longleftrightarrow> (\<forall>n. valid n \<longrightarrow> text_of n \<noteq> s)"
proof -
  have "(\<forall>n. try_from s \<noteq> Inr n) \<longleftrightarrow> (\<forall>n. valid n \<longrightarrow> text_of n \<noteq> s)"
    by (auto simp: try_from_Inr_iff)
  then show ?thesis by (cases "try_from s") auto
qed

end

section \<open>Character rules (opendut-types/src/util/mod.rs)\<close>

definition is_ascii_alphanumeric :: "char \<Rightarrow> bool" where
  "is_ascii_alphanumeric c \<longleftrightarrow>
     (let n = (of_char c :: nat)
      in (48 \<le> n \<and> n \<le> 57) \<or> (65 \<le> n \<and> n \<le> 90) \<or> (97 \<le> n \<and> n \<le> 122))"

definition starts_with :: "string \<Rightarrow> char \<Rightarrow> bool" where
  "starts_with s c \<longleftrightarrow> s \<noteq> [] \<and> hd s = c"

definition ends_with :: "string \<Rightarrow> char \<Rightarrow> bool" where
  "ends_with s c \<longleftrightarrow> s \<noteq> [] \<and> last s = c"

definition valid_characters_in_name :: "char \<Rightarrow> bool" where
  "valid_characters_in_name c \<longleftrightarrow> is_ascii_alphanumeric c \<or> c = CHR ''-'' \<or> c = CHR ''_''"

definition invalid_start_and_end_of_a_name :: "string \<Rightarrow> bool" where
  "invalid_start_and_end_of_a_name s \<longleftrightarrow>
     list_ex (\<lambda>c. starts_with s c \<or> ends_with s c) [CHR ''_'', CHR ''-'']"

definition invalid_start_and_end_of_location :: "string \<Rightarrow> bool" where
  "invalid_start_and_end_of_location s \<longleftrightarrow>
     list_ex (\<lambda>c. starts_with s c \<or> ends_with s c)
       [CHR ''_'', CHR ''-'', CHR ''/'', CHR '' '', CHR ''.'', CHR '','']"

definition valid_characters_in_location :: "char \<Rightarrow> bool" where
  "valid_characters_in_location c \<longleftrightarrow>
     is_ascii_alphanumeric c \<or>
     List.member [CHR ''-'', CHR ''_'', CHR ''/'', CHR '' '', CHR ''.'', CHR '','', CHR ''('', CHR '')''] c"

text \<open>The rules stated as a user would: bounds on the length, allowed characters, and no
  separator at either end.\<close>

definition name_text :: "nat \<Rightarrow> nat \<Rightarrow> string \<Rightarrow> bool" where
  "name_text lo hi s \<longleftrightarrow>
     lo \<le> length s \<and> length s \<le> hi \<and> s \<noteq> [] \<and>
     is_ascii_alphanumeric (hd s) \<and> is_ascii_alphanumeric (last s) \<and>
     (\<forall>c\<in>set s. is_ascii_alphanumeric c \<or> c = CHR ''-'' \<or> c = CHR ''_'')"

definition location_text :: "string \<Rightarrow> bool" where
  "location_text s \<longleftrightarrow>
     length s \<le> 64 \<and>
     (s \<noteq> [] \<longrightarrow> (is_ascii_alphanumeric (hd s) \<or> hd s \<in> set ''()'') \<and>
                (is_ascii_alphanumeric (last s) \<or> last s \<in> set ''()'')) \<and>
     (\<forall>c\<in>set s. is_ascii_alphanumeric c \<or> c \<in> set ''-_/ .,()'')"

lemma name_text_code:
  assumes "1 \<le> lo"
  shows "name_text lo hi s \<longleftrightarrow>
    \<not> length s < lo \<and> \<not> hi < length s \<and> \<not> invalid_start_and_end_of_a_name s \<and>
    \<not> list_ex (\<lambda>c. \<not> valid_characters_in_name c) s"
proof (cases "s = []")
  case True
  with assms show ?thesis by (auto simp: name_text_def)
next
  case False
  moreover have "\<not> is_ascii_alphanumeric CHR ''-''" "\<not> is_ascii_alphanumeric CHR ''_''"
    by (simp_all add: is_ascii_alphanumeric_def)
  ultimately show ?thesis
    by (auto simp: name_text_def invalid_start_and_end_of_a_name_def starts_with_def ends_with_def
        valid_characters_in_name_def list_ex_iff not_less)
qed

lemma location_text_code:
  "location_text s \<longleftrightarrow>
    \<not> 64 < length s \<and> \<not> invalid_start_and_end_of_location s \<and>
    \<not> list_ex (\<lambda>c. \<not> valid_characters_in_location c) s"
proof (cases "s = []")
  case True
  then show ?thesis
    by (simp add: location_text_def invalid_start_and_end_of_location_def starts_with_def ends_with_def)
next
  case False
  define sep where "sep = [CHR ''_'', CHR ''-'', CHR ''/'', CHR '' '', CHR ''.'', CHR '','']"
  have chars: "valid_characters_in_location c \<longleftrightarrow> is_ascii_alphanumeric c \<or> c \<in> set ''-_/ .,()''" for c
    by (simp only: valid_characters_in_location_def List.member_iff)
  have ends: "invalid_start_and_end_of_location s \<longleftrightarrow> hd s \<in> set sep \<or> last s \<in> set sep"
    using False unfolding invalid_start_and_end_of_location_def starts_with_def ends_with_def
      sep_def [symmetric] list_ex_iff by blast
  have "list_all (\<lambda>c. \<not> is_ascii_alphanumeric c \<and> c \<notin> set ''()'') sep"
    by (simp add: sep_def is_ascii_alphanumeric_def)
  then have sep: "\<not> is_ascii_alphanumeric c \<and> c \<notin> set ''()''" if "c \<in> set sep" for c
    using that unfolding list_all_iff by blast
  have "set ''-_/ .,()'' = set sep \<union> set ''()''"
    by (simp add: sep_def insert_commute)
  then have split: "c \<in> set ''-_/ .,()'' \<longleftrightarrow> c \<in> set sep \<or> c \<in> set ''()''" for c
    by (simp only: Un_iff)
  have hd_last: "hd s \<in> set s" "last s \<in> set s" using False by simp_all
  show ?thesis
    unfolding location_text_def ends list_ex_iff chars not_less split
    using False hd_last sep by meson
qed

section \<open>Names with a minimal length and no separator at the ends\<close>

text \<open>Messages quote the value in apostrophes, written here as \<open>quote_char\<close>.\<close>

definition quote_char :: string where
  "quote_char = [char_of (39::nat)]"

subsection \<open>PeerName (peer/mod.rs)\<close>

datatype PeerName = PeerName (peer_name_value: string)

datatype IllegalPeerName =
    PeerNameTooShort string nat nat
  | PeerNameTooLong string nat nat
  | PeerNameInvalidCharacter string
  | PeerNameInvalidStartEndCharacter string

definition PeerName_MIN_LENGTH :: nat where "PeerName_MIN_LENGTH = 4"

definition PeerName_MAX_LENGTH :: nat where "PeerName_MAX_LENGTH = 64"

definition peer_name_try_from :: "string \<Rightarrow> IllegalPeerName + PeerName" where
  "peer_name_try_from value =
     (let len = length value in
      if len < PeerName_MIN_LENGTH then Inl (PeerNameTooShort value PeerName_MIN_LENGTH len)
      else if PeerName_MAX_LENGTH < len then Inl (PeerNameTooLong value PeerName_MAX_LENGTH len)
      else if invalid_start_and_end_of_a_name value then Inl (PeerNameInvalidStartEndCharacter value)
      else if list_ex (\<lambda>c. \<not> valid_characters_in_name c) value then Inl (PeerNameInvalidCharacter value)
      else Inr (PeerName value))"

fun illegal_peer_name_message :: "IllegalPeerName \<Rightarrow> string" where
  "illegal_peer_name_message (PeerNameTooShort v e a) =
     ''Peer name '' @ quote_char @ v @ quote_char @ '' is too short. Expected at least '' @ show_nat e @
     '' characters, got '' @ show_nat a @ ''.''"
| "illegal_peer_name_message (PeerNameTooLong v e a) =
     ''Peer name '' @ quote_char @ v @ quote_char @ '' is too long. Expected at most '' @ show_nat e @
     '' characters, got '' @ show_nat a @ ''.''"
| "illegal_peer_name_message (PeerNameInvalidCharacter v) =
     ''Peer name '' @ quote_char @ v @ quote_char @ '' contains invalid characters.''"
| "illegal_peer_name_message (PeerNameInvalidStartEndCharacter v) =
     ''Peer name '' @ quote_char @ v @ quote_char @ '' contains invalid start or end characters.''"

definition valid_peer_name :: "PeerName \<Rightarrow> bool" where
  "valid_peer_name n \<longleftrightarrow> name_text 4 64 (peer_name_value n)"

interpretation peer_name: validated_text peer_name_try_from peer_name_value valid_peer_name
proof
  fix s n
  show "peer_name_try_from s = Inr n \<longleftrightarrow> valid_peer_name n \<and> peer_name_value n = s"
    by (cases n) (auto simp: peer_name_try_from_def valid_peer_name_def name_text_code Let_def
        PeerName_MIN_LENGTH_def PeerName_MAX_LENGTH_def)
qed

subsection \<open>ClusterName (cluster/mod.rs)\<close>

datatype ClusterName = ClusterName (cluster_name_value: string)

datatype IllegalClusterName =
    ClusterNameTooShort string nat nat
  | ClusterNameTooLong string nat nat
  | ClusterNameInvalidCharacter string
  | ClusterNameInvalidStartEndCharacter string

definition ClusterName_MIN_LENGTH :: nat where "ClusterName_MIN_LENGTH = 4"

definition ClusterName_MAX_LENGTH :: nat where "ClusterName_MAX_LENGTH = 64"

definition cluster_name_try_from :: "string \<Rightarrow> IllegalClusterName + ClusterName" where
  "cluster_name_try_from value =
     (let len = length value in
      if len < ClusterName_MIN_LENGTH then Inl (ClusterNameTooShort value ClusterName_MIN_LENGTH len)
      else if ClusterName_MAX_LENGTH < len then Inl (ClusterNameTooLong value ClusterName_MAX_LENGTH len)
      else if invalid_start_and_end_of_a_name value then Inl (ClusterNameInvalidStartEndCharacter value)
      else if list_ex (\<lambda>c. \<not> valid_characters_in_name c) value then Inl (ClusterNameInvalidCharacter value)
      else Inr (ClusterName value))"

fun illegal_cluster_name_message :: "IllegalClusterName \<Rightarrow> string" where
  "illegal_cluster_name_message (ClusterNameTooShort v e a) =
     ''Cluster name '' @ quote_char @ v @ quote_char @ '' is too short. Expected at least '' @ show_nat e @
     '' characters, got '' @ show_nat a @ ''.''"
| "illegal_cluster_name_message (ClusterNameTooLong v e a) =
     ''Cluster name '' @ quote_char @ v @ quote_char @ '' is too long. Expected at most '' @ show_nat e @
     '' characters, got '' @ show_nat a @ ''.''"
| "illegal_cluster_name_message (ClusterNameInvalidCharacter v) =
     ''Cluster name '' @ quote_char @ v @ quote_char @ '' contains invalid characters.''"
| "illegal_cluster_name_message (ClusterNameInvalidStartEndCharacter v) =
     ''Cluster name '' @ quote_char @ v @ quote_char @ '' contains invalid start or end characters.''"

definition valid_cluster_name :: "ClusterName \<Rightarrow> bool" where
  "valid_cluster_name n \<longleftrightarrow> name_text 4 64 (cluster_name_value n)"

interpretation cluster_name: validated_text cluster_name_try_from cluster_name_value valid_cluster_name
proof
  fix s n
  show "cluster_name_try_from s = Inr n \<longleftrightarrow> valid_cluster_name n \<and> cluster_name_value n = s"
    by (cases n) (auto simp: cluster_name_try_from_def valid_cluster_name_def name_text_code Let_def
        ClusterName_MIN_LENGTH_def ClusterName_MAX_LENGTH_def)
qed

subsection \<open>DeviceName (topology/mod.rs)\<close>

datatype DeviceName = DeviceName (device_name_value: string)

datatype IllegalDeviceName =
    DeviceNameTooShort string nat nat
  | DeviceNameTooLong string nat nat
  | DeviceNameInvalidCharacter string
  | DeviceNameInvalidStartEndCharacter string

definition DeviceName_MIN_LENGTH :: nat where "DeviceName_MIN_LENGTH = 1"

definition DeviceName_MAX_LENGTH :: nat where "DeviceName_MAX_LENGTH = 64"

definition device_name_try_from :: "string \<Rightarrow> IllegalDeviceName + DeviceName" where
  "device_name_try_from value =
     (let len = length value in
      if len < DeviceName_MIN_LENGTH then Inl (DeviceNameTooShort value DeviceName_MIN_LENGTH len)
      else if DeviceName_MAX_LENGTH < len then Inl (DeviceNameTooLong value DeviceName_MAX_LENGTH len)
      else if invalid_start_and_end_of_a_name value then Inl (DeviceNameInvalidStartEndCharacter value)
      else if list_ex (\<lambda>c. \<not> valid_characters_in_name c) value then Inl (DeviceNameInvalidCharacter value)
      else Inr (DeviceName value))"

fun illegal_device_name_message :: "IllegalDeviceName \<Rightarrow> string" where
  "illegal_device_name_message (DeviceNameTooShort v e a) =
     ''Device name '' @ quote_char @ v @ quote_char @ '' is too short. Expected at least '' @ show_nat e @
     '' characters, got '' @ show_nat a @ ''.''"
| "illegal_device_name_message (DeviceNameTooLong v e a) =
     ''Device name '' @ quote_char @ v @ quote_char @ '' is too long. Expected at most '' @ show_nat e @
     '' characters, got '' @ show_nat a @ ''.''"
| "illegal_device_name_message (DeviceNameInvalidCharacter v) =
     ''Device name '' @ quote_char @ v @ quote_char @ '' contains invalid characters.''"
| "illegal_device_name_message (DeviceNameInvalidStartEndCharacter v) =
     ''Device name '' @ quote_char @ v @ quote_char @ '' contains invalid start or end characters.''"

definition valid_device_name :: "DeviceName \<Rightarrow> bool" where
  "valid_device_name n \<longleftrightarrow> name_text 1 64 (device_name_value n)"

interpretation device_name: validated_text device_name_try_from device_name_value valid_device_name
proof
  fix s n
  show "device_name_try_from s = Inr n \<longleftrightarrow> valid_device_name n \<and> device_name_value n = s"
    by (cases n) (auto simp: device_name_try_from_def valid_device_name_def name_text_code Let_def
        DeviceName_MIN_LENGTH_def DeviceName_MAX_LENGTH_def)
qed

subsection \<open>OAuthScope (util/net.rs)\<close>

datatype OAuthScope = OAuthScope (oauth_scope_value: string)

datatype IllegalOAuthScope =
    OAuthScopeTooShort string nat nat
  | OAuthScopeTooLong string nat nat
  | OAuthScopeInvalidCharacter string
  | OAuthScopeInvalidStartEndCharacter string

definition OAuthScope_MIN_LENGTH :: nat where "OAuthScope_MIN_LENGTH = 4"

definition OAuthScope_MAX_LENGTH :: nat where "OAuthScope_MAX_LENGTH = 48"

definition oauth_scope_try_from :: "string \<Rightarrow> IllegalOAuthScope + OAuthScope" where
  "oauth_scope_try_from value =
     (let len = length value in
      if len < OAuthScope_MIN_LENGTH then Inl (OAuthScopeTooShort value OAuthScope_MIN_LENGTH len)
      else if OAuthScope_MAX_LENGTH < len then Inl (OAuthScopeTooLong value OAuthScope_MAX_LENGTH len)
      else if invalid_start_and_end_of_a_name value then Inl (OAuthScopeInvalidStartEndCharacter value)
      else if list_ex (\<lambda>c. \<not> valid_characters_in_name c) value then Inl (OAuthScopeInvalidCharacter value)
      else Inr (OAuthScope value))"

fun illegal_oauth_scope_message :: "IllegalOAuthScope \<Rightarrow> string" where
  "illegal_oauth_scope_message (OAuthScopeTooShort v e a) =
     ''OAuthScope '' @ quote_char @ v @ quote_char @ '' is too short. Expected at least '' @ show_nat e @
     '' characters, got '' @ show_nat a @ ''.''"
| "illegal_oauth_scope_message (OAuthScopeTooLong v e a) =
     ''OAuthScope '' @ quote_char @ v @ quote_char @ '' is too long. Expected at most '' @ show_nat e @
     '' characters, got '' @ show_nat a @ ''.''"
| "illegal_oauth_scope_message (OAuthScopeInvalidCharacter v) =
     ''OAuthScope '' @ quote_char @ v @ quote_char @ '' contains invalid characters.''"
| "illegal_oauth_scope_message (OAuthScopeInvalidStartEndCharacter v) =
     ''OAuthScope '' @ quote_char @ v @ quote_char @ '' contains invalid start or end characters.''"

definition valid_oauth_scope :: "OAuthScope \<Rightarrow> bool" where
  "valid_oauth_scope n \<longleftrightarrow> name_text 4 48 (oauth_scope_value n)"

interpretation oauth_scope: validated_text oauth_scope_try_from oauth_scope_value valid_oauth_scope
proof
  fix s n
  show "oauth_scope_try_from s = Inr n \<longleftrightarrow> valid_oauth_scope n \<and> oauth_scope_value n = s"
    by (cases n) (auto simp: oauth_scope_try_from_def valid_oauth_scope_def name_text_code Let_def
        OAuthScope_MIN_LENGTH_def OAuthScope_MAX_LENGTH_def)
qed

subsection \<open>ClientId (util/net.rs)\<close>

datatype ClientId = ClientId (client_id_value: string)

datatype IllegalClientId =
    ClientIdTooShort string nat nat
  | ClientIdTooLong string nat nat
  | ClientIdInvalidCharacter string
  | ClientIdInvalidStartEndCharacter string

definition ClientId_MIN_LENGTH :: nat where "ClientId_MIN_LENGTH = 8"

definition ClientId_MAX_LENGTH :: nat where "ClientId_MAX_LENGTH = 64"

definition client_id_try_from :: "string \<Rightarrow> IllegalClientId + ClientId" where
  "client_id_try_from value =
     (let len = length value in
      if len < ClientId_MIN_LENGTH then Inl (ClientIdTooShort value ClientId_MIN_LENGTH len)
      else if ClientId_MAX_LENGTH < len then Inl (ClientIdTooLong value ClientId_MAX_LENGTH len)
      else if invalid_start_and_end_of_a_name value then Inl (ClientIdInvalidStartEndCharacter value)
      else if list_ex (\<lambda>c. \<not> valid_characters_in_name c) value then Inl (ClientIdInvalidCharacter value)
      else Inr (ClientId value))"

fun illegal_client_id_message :: "IllegalClientId \<Rightarrow> string" where
  "illegal_client_id_message (ClientIdTooShort v e a) =
     ''Client id '' @ quote_char @ v @ quote_char @ '' is too short. Expected at least '' @ show_nat e @
     '' characters, got '' @ show_nat a @ ''.''"
| "illegal_client_id_message (ClientIdTooLong v e a) =
     ''Client id '' @ quote_char @ v @ quote_char @ '' is too long. Expected at most '' @ show_nat e @
     '' characters, got '' @ show_nat a @ ''.''"
| "illegal_client_id_message (ClientIdInvalidCharacter v) =
     ''Client id '' @ quote_char @ v @ quote_char @ '' contains invalid characters.''"
| "illegal_client_id_message (ClientIdInvalidStartEndCharacter v) =
     ''Client id '' @ quote_char @ v @ quote_char @ '' contains invalid start or end characters.''"

definition valid_client_id :: "ClientId \<Rightarrow> bool" where
  "valid_client_id n \<longleftrightarrow> name_text 8 64 (client_id_value n)"

interpretation client_id: validated_text client_id_try_from client_id_value valid_client_id
proof
  fix s n
  show "client_id_try_from s = Inr n \<longleftrightarrow> valid_client_id n \<and> client_id_value n = s"
    by (cases n) (auto simp: client_id_try_from_def valid_client_id_def name_text_code Let_def
        ClientId_MIN_LENGTH_def ClientId_MAX_LENGTH_def)
qed

section \<open>Text with other rules\<close>

subsection \<open>PeerLocation (peer/mod.rs)\<close>

datatype PeerLocation = PeerLocation (peer_location_value: string)

datatype IllegalLocation =
    LocationTooLong string nat nat
  | LocationInvalidCharacter string
  | LocationInvalidStartEndCharacter string

definition PeerLocation_MAX_LENGTH :: nat where "PeerLocation_MAX_LENGTH = 64"

definition peer_location_default :: PeerLocation where
  "peer_location_default = PeerLocation []"

definition peer_location_try_from :: "string \<Rightarrow> IllegalLocation + PeerLocation" where
  "peer_location_try_from value =
     (let len = length value in
      if PeerLocation_MAX_LENGTH < len then Inl (LocationTooLong value PeerLocation_MAX_LENGTH len)
      else if invalid_start_and_end_of_location value then Inl (LocationInvalidStartEndCharacter value)
      else if list_ex (\<lambda>c. \<not> valid_characters_in_location c) value then Inl (LocationInvalidCharacter value)
      else Inr (PeerLocation value))"

fun illegal_location_message :: "IllegalLocation \<Rightarrow> string" where
  "illegal_location_message (LocationTooLong v e a) =
     ''Peer location '' @ quote_char @ v @ quote_char @ '' is too long. Expected at most '' @ show_nat e @
     '' characters, got '' @ show_nat a @ ''.''"
| "illegal_location_message (LocationInvalidCharacter v) =
     ''Peer location '' @ quote_char @ v @ quote_char @ '' contains invalid characters.''"
| "illegal_location_message (LocationInvalidStartEndCharacter v) =
     ''Peer location '' @ quote_char @ v @ quote_char @ '' contains invalid start or end characters.''"

definition valid_peer_location :: "PeerLocation \<Rightarrow> bool" where
  "valid_peer_location n \<longleftrightarrow> location_text (peer_location_value n)"

interpretation peer_location: validated_text peer_location_try_from peer_location_value valid_peer_location
proof
  fix s n
  show "peer_location_try_from s = Inr n \<longleftrightarrow> valid_peer_location n \<and> peer_location_value n = s"
    by (cases n) (auto simp: peer_location_try_from_def valid_peer_location_def location_text_code
        Let_def PeerLocation_MAX_LENGTH_def)
qed

lemma valid_peer_location_default [simp]: "valid_peer_location peer_location_default"
  by (simp add: valid_peer_location_def peer_location_default_def location_text_def)

subsection \<open>ClientSecret (util/net.rs)\<close>

datatype ClientSecret = ClientSecret (client_secret_value: string)

datatype IllegalClientSecret =
    ClientSecretTooShort string nat nat
  | ClientSecretTooLong string nat nat

definition ClientSecret_MIN_LENGTH :: nat where "ClientSecret_MIN_LENGTH = 20"

definition ClientSecret_MAX_LENGTH :: nat where "ClientSecret_MAX_LENGTH = 512"

definition client_secret_try_from :: "string \<Rightarrow> IllegalClientSecret + ClientSecret" where
  "client_secret_try_from value =
     (let len = length value in
      if len < ClientSecret_MIN_LENGTH then Inl (ClientSecretTooShort value ClientSecret_MIN_LENGTH len)
      else if ClientSecret_MAX_LENGTH < len then Inl (ClientSecretTooLong value ClientSecret_MAX_LENGTH len)
      else Inr (ClientSecret value))"

fun illegal_client_secret_message :: "IllegalClientSecret \<Rightarrow> string" where
  "illegal_client_secret_message (ClientSecretTooShort v e a) =
     ''Client secret '' @ quote_char @ v @ quote_char @ '' is too short. Expected at least '' @ show_nat e @
     '' characters, got '' @ show_nat a @ ''.''"
| "illegal_client_secret_message (ClientSecretTooLong v e a) =
     ''Client secret '' @ quote_char @ v @ quote_char @ '' is too long. Expected at most '' @ show_nat e @
     '' characters, got '' @ show_nat a @ ''.''"

definition valid_client_secret :: "ClientSecret \<Rightarrow> bool" where
  "valid_client_secret n \<longleftrightarrow> 20 \<le> length (client_secret_value n) \<and> length (client_secret_value n) \<le> 512"

interpretation client_secret: validated_text client_secret_try_from client_secret_value valid_client_secret
proof
  fix s n
  show "client_secret_try_from s = Inr n \<longleftrightarrow> valid_client_secret n \<and> client_secret_value n = s"
    by (cases n) (auto simp: client_secret_try_from_def valid_client_secret_def Let_def
        ClientSecret_MIN_LENGTH_def ClientSecret_MAX_LENGTH_def)
qed

subsection \<open>DeviceDescription and DeviceTag (topology/mod.rs)\<close>

datatype DeviceDescription = DeviceDescription (device_description_value: string)

datatype IllegalDeviceDescription = DeviceDescriptionTooLong string nat nat

definition DeviceDescription_MAX_LENGTH :: nat where "DeviceDescription_MAX_LENGTH = 280"

definition device_description_default :: DeviceDescription where
  "device_description_default = DeviceDescription []"

definition device_description_try_from :: "string \<Rightarrow> IllegalDeviceDescription + DeviceDescription" where
  "device_description_try_from value =
     (let len = length value in
      if DeviceDescription_MAX_LENGTH < len
      then Inl (DeviceDescriptionTooLong value DeviceDescription_MAX_LENGTH len)
      else Inr (DeviceDescription value))"

fun illegal_device_description_message :: "IllegalDeviceDescription \<Rightarrow> string" where
  "illegal_device_description_message (DeviceDescriptionTooLong v e a) =
     ''Device description '' @ quote_char @ v @ quote_char @ '' is too long. Expected at most '' @ show_nat e @
     '' characters, got '' @ show_nat a @ ''.''"

definition valid_device_description :: "DeviceDescription \<Rightarrow> bool" where
  "valid_device_description n \<longleftrightarrow> length (device_description_value n) \<le> 280"

interpretation device_description:
  validated_text device_description_try_from device_description_value valid_device_description
proof
  fix s n
  show "device_description_try_from s = Inr n \<longleftrightarrow>
      valid_device_description n \<and> device_description_value n = s"
    by (cases n) (auto simp: device_description_try_from_def valid_device_description_def Let_def
        DeviceDescription_MAX_LENGTH_def)
qed

lemma valid_device_description_default [simp]: "valid_device_description device_description_default"
  by (simp add: valid_device_description_def device_description_default_def)

datatype DeviceTag = DeviceTag (device_tag_value: string)

datatype IllegalDeviceTag = DeviceTagTooLong string nat nat

definition DeviceTag_MAX_LENGTH :: nat where "DeviceTag_MAX_LENGTH = 64"

definition device_tag_try_from :: "string \<Rightarrow> IllegalDeviceTag + DeviceTag" where
  "device_tag_try_from value =
     (let len = length value in
      if DeviceTag_MAX_LENGTH < len then Inl (DeviceTagTooLong value DeviceTag_MAX_LENGTH len)
      else Inr (DeviceTag value))"

fun illegal_device_tag_message :: "IllegalDeviceTag \<Rightarrow> string" where
  "illegal_device_tag_message (DeviceTagTooLong v e a) =
     ''Device tag '' @ quote_char @ v @ quote_char @ '' is too long. Expected at most '' @ show_nat e @
     '' characters, got '' @ show_nat a @ ''.''"

definition valid_device_tag :: "DeviceTag \<Rightarrow> bool" where
  "valid_device_tag n \<longleftrightarrow> length (device_tag_value n) \<le> 64"

interpretation device_tag: validated_text device_tag_try_from device_tag_value valid_device_tag
proof
  fix s n
  show "device_tag_try_from s = Inr n \<longleftrightarrow> valid_device_tag n \<and> device_tag_value n = s"
    by (cases n) (auto simp: device_tag_try_from_def valid_device_tag_def Let_def DeviceTag_MAX_LENGTH_def)
qed

subsection \<open>NetworkInterfaceName (util/net.rs)\<close>

datatype NetworkInterfaceName = NetworkInterfaceName (network_interface_name: string)

datatype NetworkInterfaceNameError =
    NetworkInterfaceNameEmpty
  | NetworkInterfaceNameTooLong string nat

definition NetworkInterfaceName_MAX_LENGTH :: nat where "NetworkInterfaceName_MAX_LENGTH = 15"

definition network_interface_name_try_from :: "string \<Rightarrow> NetworkInterfaceNameError + NetworkInterfaceName" where
  "network_interface_name_try_from value =
     (if value = [] then Inl NetworkInterfaceNameEmpty
      else if NetworkInterfaceName_MAX_LENGTH < length value
      then Inl (NetworkInterfaceNameTooLong value NetworkInterfaceName_MAX_LENGTH)
      else Inr (NetworkInterfaceName value))"

fun network_interface_name_error_message :: "NetworkInterfaceNameError \<Rightarrow> string" where
  "network_interface_name_error_message NetworkInterfaceNameEmpty =
     ''Name for network interface may not be empty!''"
| "network_interface_name_error_message (NetworkInterfaceNameTooLong v m) =
     ''Due to operating system limitations, the name for network interfaces may not be longer than '' @
     show_nat m @ '' characters!''"

definition valid_network_interface_name :: "NetworkInterfaceName \<Rightarrow> bool" where
  "valid_network_interface_name n \<longleftrightarrow>
     0 < length (network_interface_name n) \<and> length (network_interface_name n) \<le> 15"

interpretation network_interface_name:
  validated_text network_interface_name_try_from network_interface_name valid_network_interface_name
proof
  fix s n
  show "network_interface_name_try_from s = Inr n \<longleftrightarrow>
      valid_network_interface_name n \<and> network_interface_name n = s"
    by (cases n) (auto simp: network_interface_name_try_from_def valid_network_interface_name_def
        NetworkInterfaceName_MAX_LENGTH_def)
qed

text \<open>The names of the concrete examples.\<close>

lemma sample_names:
  "valid_peer_name (PeerName ''peer'')" "valid_device_name (DeviceName ''dev'')"
  "valid_network_interface_name (NetworkInterfaceName ''eth0'')"
  "valid_cluster_name (ClusterName ''cluster'')" "valid_cluster_name (ClusterName ''unknown_cluster'')"
  by code_simp+

end
