(* ===== verification/Containers.thy ===== *)
theory Containers
  imports Names
begin

text \<open>
  Settings of a containerised executor (opendut-types/src/peer/executor/container.rs and
  executor/mod.rs): the container engine, the validated settings of a container, and the
  descriptor of an executor.
\<close>

datatype Engine = Docker | Podman

fun engine_display :: "Engine \<Rightarrow> string" where
  "engine_display Docker = ''Docker''"
| "engine_display Podman = ''Podman''"

fun command_name :: "Engine \<Rightarrow> string" where
  "command_name Docker = ''docker''"
| "command_name Podman = ''podman''"

section \<open>Container names\<close>

text \<open>An empty string stands for a container without a name.\<close>

datatype ContainerName = ContainerNameEmpty | ContainerNameValue string

datatype IllegalContainerName =
    ContainerNameInvalidLength string nat nat nat
  | ContainerNameInvalidCharacter string

definition CONTAINER_NAME_MIN_LENGTH :: nat where "CONTAINER_NAME_MIN_LENGTH = 2"

definition CONTAINER_NAME_MAX_LENGTH :: nat where "CONTAINER_NAME_MAX_LENGTH = 60"

fun container_name_text :: "ContainerName \<Rightarrow> string" where
  "container_name_text ContainerNameEmpty = []"
| "container_name_text (ContainerNameValue v) = v"

definition container_name_try_from :: "string \<Rightarrow> IllegalContainerName + ContainerName" where
  "container_name_try_from value =
     (if value = [] then Inr ContainerNameEmpty
      else if length value < CONTAINER_NAME_MIN_LENGTH \<or> CONTAINER_NAME_MAX_LENGTH < length value
      then Inl (ContainerNameInvalidLength value CONTAINER_NAME_MIN_LENGTH CONTAINER_NAME_MAX_LENGTH (length value))
      else if list_ex (\<lambda>c. \<not> valid_characters_in_name c) value then Inl (ContainerNameInvalidCharacter value)
      else Inr (ContainerNameValue value))"

fun illegal_container_name_message :: "IllegalContainerName \<Rightarrow> string" where
  "illegal_container_name_message (ContainerNameInvalidLength v lo hi a) =
     ''Container name '' @ quote_char @ v @ quote_char @ '' is too short. Expected between '' @ show_nat lo @
     '' and '' @ show_nat hi @ '' characters, got '' @ show_nat a @ ''.''"
| "illegal_container_name_message (ContainerNameInvalidCharacter v) =
     ''Container name '' @ quote_char @ v @ quote_char @ '' contains invalid characters.''"

fun valid_container_name :: "ContainerName \<Rightarrow> bool" where
  "valid_container_name ContainerNameEmpty = True"
| "valid_container_name (ContainerNameValue v) =
     (2 \<le> length v \<and> length v \<le> 60 \<and> (\<forall>c\<in>set v. valid_characters_in_name c))"

interpretation container_name:
  validated_text container_name_try_from container_name_text valid_container_name
proof
  fix s n
  show "container_name_try_from s = Inr n \<longleftrightarrow> valid_container_name n \<and> container_name_text n = s"
    by (cases n) (auto simp: container_name_try_from_def CONTAINER_NAME_MIN_LENGTH_def
        CONTAINER_NAME_MAX_LENGTH_def list_ex_iff)
qed

section \<open>Environment variables\<close>

datatype ContainerEnvironmentVariable =
  ContainerEnvironmentVariable (env_name: string) (env_value: string)

datatype IllegalContainerEnvironmentVariable = EnvironmentVariableEmptyName

definition container_environment_variable_new ::
    "string \<Rightarrow> string \<Rightarrow> IllegalContainerEnvironmentVariable + ContainerEnvironmentVariable" where
  "container_environment_variable_new name value =
     (if name = [] then Inl EnvironmentVariableEmptyName
      else Inr (ContainerEnvironmentVariable name value))"

fun illegal_environment_variable_message :: "IllegalContainerEnvironmentVariable \<Rightarrow> string" where
  "illegal_environment_variable_message EnvironmentVariableEmptyName =
     ''Container env name must not be empty.''"

definition valid_environment_variable :: "ContainerEnvironmentVariable \<Rightarrow> bool" where
  "valid_environment_variable e \<longleftrightarrow> env_name e \<noteq> []"

section \<open>Container image\<close>

datatype ContainerImage = ContainerImage (container_image_value: string)

datatype IllegalContainerImage = ContainerImageTooShort string nat nat

definition ContainerImage_MIN_LENGTH :: nat where "ContainerImage_MIN_LENGTH = 1"

definition container_image_try_from :: "string \<Rightarrow> IllegalContainerImage + ContainerImage" where
  "container_image_try_from value =
     (let len = length value in
      if len < ContainerImage_MIN_LENGTH then Inl (ContainerImageTooShort value ContainerImage_MIN_LENGTH len)
      else Inr (ContainerImage value))"

fun illegal_container_image_message :: "IllegalContainerImage \<Rightarrow> string" where
  "illegal_container_image_message (ContainerImageTooShort v e a) =
     ''Container Image '' @ quote_char @ v @ quote_char @ '' is too short. Expected at least '' @ show_nat e @
     '' characters, got '' @ show_nat a @ ''.''"

definition valid_container_image :: "ContainerImage \<Rightarrow> bool" where
  "valid_container_image n \<longleftrightarrow> container_image_value n \<noteq> []"

interpretation container_image:
  validated_text container_image_try_from container_image_value valid_container_image
proof
  fix s n
  show "container_image_try_from s = Inr n \<longleftrightarrow> valid_container_image n \<and> container_image_value n = s"
    by (cases n; cases s) (auto simp: container_image_try_from_def valid_container_image_def
        ContainerImage_MIN_LENGTH_def Let_def)
qed

section \<open>Volumes, devices, ports and arguments: any text but the empty one\<close>

datatype ContainerVolume = ContainerVolume (container_volume_value: string)

datatype IllegalContainerVolume = ContainerVolumeEmpty

definition container_volume_try_from :: "string \<Rightarrow> IllegalContainerVolume + ContainerVolume" where
  "container_volume_try_from value = (if value = [] then Inl ContainerVolumeEmpty else Inr (ContainerVolume value))"

fun illegal_container_volume_message :: "IllegalContainerVolume \<Rightarrow> string" where
  "illegal_container_volume_message ContainerVolumeEmpty = ''Container volume must not be empty.''"

definition valid_container_volume :: "ContainerVolume \<Rightarrow> bool" where
  "valid_container_volume n \<longleftrightarrow> container_volume_value n \<noteq> []"

interpretation container_volume: validated_text container_volume_try_from container_volume_value valid_container_volume
proof
  fix s n
  show "container_volume_try_from s = Inr n \<longleftrightarrow> valid_container_volume n \<and> container_volume_value n = s"
    by (cases n) (auto simp: container_volume_try_from_def valid_container_volume_def)
qed

datatype ContainerDevice = ContainerDevice (container_device_value: string)

datatype IllegalContainerDevice = ContainerDeviceEmpty

definition container_device_try_from :: "string \<Rightarrow> IllegalContainerDevice + ContainerDevice" where
  "container_device_try_from value = (if value = [] then Inl ContainerDeviceEmpty else Inr (ContainerDevice value))"

fun illegal_container_device_message :: "IllegalContainerDevice \<Rightarrow> string" where
  "illegal_container_device_message ContainerDeviceEmpty = ''Container device must not be empty.''"

definition valid_container_device :: "ContainerDevice \<Rightarrow> bool" where
  "valid_container_device n \<longleftrightarrow> container_device_value n \<noteq> []"

interpretation container_device: validated_text container_device_try_from container_device_value valid_container_device
proof
  fix s n
  show "container_device_try_from s = Inr n \<longleftrightarrow> valid_container_device n \<and> container_device_value n = s"
    by (cases n) (auto simp: container_device_try_from_def valid_container_device_def)
qed

datatype ContainerPortSpec = ContainerPortSpec (container_port_spec_value: string)

datatype IllegalContainerPortSpec = ContainerPortSpecEmpty

definition container_port_spec_try_from :: "string \<Rightarrow> IllegalContainerPortSpec + ContainerPortSpec" where
  "container_port_spec_try_from value = (if value = [] then Inl ContainerPortSpecEmpty else Inr (ContainerPortSpec value))"

fun illegal_container_port_spec_message :: "IllegalContainerPortSpec \<Rightarrow> string" where
  "illegal_container_port_spec_message ContainerPortSpecEmpty = ''Container port specification must not be empty.''"

definition valid_container_port_spec :: "ContainerPortSpec \<Rightarrow> bool" where
  "valid_container_port_spec n \<longleftrightarrow> container_port_spec_value n \<noteq> []"

interpretation container_port_spec: validated_text container_port_spec_try_from container_port_spec_value valid_container_port_spec
proof
  fix s n
  show "container_port_spec_try_from s = Inr n \<longleftrightarrow> valid_container_port_spec n \<and> container_port_spec_value n = s"
    by (cases n) (auto simp: container_port_spec_try_from_def valid_container_port_spec_def)
qed

datatype ContainerCommandArgument = ContainerCommandArgument (container_command_argument_value: string)

datatype IllegalContainerCommandArgument = ContainerCommandArgumentEmpty

definition container_command_argument_try_from :: "string \<Rightarrow> IllegalContainerCommandArgument + ContainerCommandArgument" where
  "container_command_argument_try_from value = (if value = [] then Inl ContainerCommandArgumentEmpty else Inr (ContainerCommandArgument value))"

fun illegal_container_command_argument_message :: "IllegalContainerCommandArgument \<Rightarrow> string" where
  "illegal_container_command_argument_message ContainerCommandArgumentEmpty = ''Container command argument must not be empty.''"

definition valid_container_command_argument :: "ContainerCommandArgument \<Rightarrow> bool" where
  "valid_container_command_argument n \<longleftrightarrow> container_command_argument_value n \<noteq> []"

interpretation container_command_argument: validated_text container_command_argument_try_from container_command_argument_value valid_container_command_argument
proof
  fix s n
  show "container_command_argument_try_from s = Inr n \<longleftrightarrow> valid_container_command_argument n \<and> container_command_argument_value n = s"
    by (cases n) (auto simp: container_command_argument_try_from_def valid_container_command_argument_def)
qed

section \<open>Command\<close>

text \<open>Parsing a command never fails: the source's error type has no value.\<close>

datatype ContainerCommand = ContainerCommandDefault | ContainerCommandValue string

fun container_command_text :: "ContainerCommand \<Rightarrow> string" where
  "container_command_text ContainerCommandDefault = []"
| "container_command_text (ContainerCommandValue v) = v"

definition container_command_from :: "string \<Rightarrow> ContainerCommand" where
  "container_command_from value =
     (if value = [] then ContainerCommandDefault else ContainerCommandValue value)"

definition valid_container_command :: "ContainerCommand \<Rightarrow> bool" where
  "valid_container_command c \<longleftrightarrow> c \<noteq> ContainerCommandValue []"

interpretation container_command:
  validated_text "\<lambda>s. Inr (container_command_from s) :: unit + ContainerCommand"
    container_command_text valid_container_command
proof
  fix s n
  show "(Inr (container_command_from s) :: unit + ContainerCommand) = Inr n \<longleftrightarrow>
      valid_container_command n \<and> container_command_text n = s"
    by (cases n) (auto simp: container_command_from_def valid_container_command_def)
qed

section \<open>Executor descriptors\<close>

datatype ExecutorId = ExecutorId (executor_uuid: uuid)

datatype ResultsUrl = ResultsUrl (results_url_value: url)

datatype IllegalResultsUrl = ResultsUrlParseFailure string

definition results_url_try_from :: "ext \<Rightarrow> string \<Rightarrow> IllegalResultsUrl + ResultsUrl" where
  "results_url_try_from x value =
     (case url_parse x value of
        Inr url \<Rightarrow> Inr (ResultsUrl url)
      | Inl cause \<Rightarrow> Inl (ResultsUrlParseFailure cause))"

fun illegal_results_url_message :: "IllegalResultsUrl \<Rightarrow> string" where
  "illegal_results_url_message (ResultsUrlParseFailure cause) = ''Failed to parse results URL: '' @ cause"

definition results_url_text :: "ext \<Rightarrow> ResultsUrl \<Rightarrow> string" where
  "results_url_text x u = url_to_string x (results_url_value u)"

lemma results_url_roundtrip [simp]:
  "ext_ok x \<Longrightarrow> results_url_try_from x (results_url_text x u) = Inr u"
  by (simp add: results_url_try_from_def results_url_text_def)

record Container =
  c_engine :: Engine
  c_name :: ContainerName
  c_image :: ContainerImage
  c_volumes :: "ContainerVolume list"
  c_devices :: "ContainerDevice list"
  c_envs :: "ContainerEnvironmentVariable list"
  c_ports :: "ContainerPortSpec list"
  c_command :: ContainerCommand
  c_args :: "ContainerCommandArgument list"

datatype ExecutorKind = Executable | ContainerKind Container

record ExecutorDescriptor =
  ed_id :: ExecutorId
  ed_kind :: ExecutorKind
  ed_results_url :: "ResultsUrl option"

text \<open>Well-formed: every part is one its own parser could have produced.\<close>

definition wf_container :: "Container \<Rightarrow> bool" where
  "wf_container c \<longleftrightarrow>
     valid_container_name (c_name c) \<and> valid_container_image (c_image c) \<and>
     (\<forall>v\<in>set (c_volumes c). valid_container_volume v) \<and>
     (\<forall>v\<in>set (c_devices c). valid_container_device v) \<and>
     (\<forall>v\<in>set (c_envs c). valid_environment_variable v) \<and>
     (\<forall>v\<in>set (c_ports c). valid_container_port_spec v) \<and>
     valid_container_command (c_command c) \<and>
     (\<forall>v\<in>set (c_args c). valid_container_command_argument v)"

fun wf_executor_kind :: "ExecutorKind \<Rightarrow> bool" where
  "wf_executor_kind Executable = True"
| "wf_executor_kind (ContainerKind c) = wf_container c"

definition wf_executor :: "ExecutorDescriptor \<Rightarrow> bool" where
  "wf_executor e \<longleftrightarrow> wf_executor_kind (ed_kind e)"

end
