(* ===== verification/Types.thy ===== *)
theory Types
  imports Containers
begin

text \<open>
  The data model of opendut-types: network interfaces, topology, peers, clusters and the
  configuration CARL pushes to a peer, with the operations that live beside the data:
  pairing devices with interfaces, the order of parameters in a configuration, short names.
\<close>

section \<open>Identifiers\<close>

datatype PeerId = PeerId (peer_uuid: uuid)

datatype ClusterId = ClusterId (cluster_uuid: uuid)

datatype DeviceId = DeviceId (device_uuid: uuid)

datatype NetworkInterfaceId = NetworkInterfaceId (interface_uuid: uuid)

datatype IllegalPeerId = IllegalPeerId string

datatype IllegalClusterId = IllegalClusterId string

definition peer_id_try_from :: "ext \<Rightarrow> string \<Rightarrow> IllegalPeerId + PeerId" where
  "peer_id_try_from x value =
     (case uuid_parse_str x value of Some u \<Rightarrow> Inr (PeerId u) | None \<Rightarrow> Inl (IllegalPeerId value))"

definition cluster_id_try_from :: "ext \<Rightarrow> string \<Rightarrow> IllegalClusterId + ClusterId" where
  "cluster_id_try_from x value =
     (case uuid_parse_str x value of Some u \<Rightarrow> Inr (ClusterId u) | None \<Rightarrow> Inl (IllegalClusterId value))"

definition peer_id_display :: "ext \<Rightarrow> PeerId \<Rightarrow> string" where
  "peer_id_display x p = uuid_to_string x (peer_uuid p)"

definition cluster_id_display :: "ext \<Rightarrow> ClusterId \<Rightarrow> string" where
  "cluster_id_display x c = uuid_to_string x (cluster_uuid c)"

lemma peer_id_roundtrip: "ext_ok x \<Longrightarrow> peer_id_try_from x (peer_id_display x p) = Inr p"
  by (simp add: peer_id_try_from_def peer_id_display_def)

lemma cluster_id_roundtrip: "ext_ok x \<Longrightarrow> cluster_id_try_from x (cluster_id_display x c) = Inr c"
  by (simp add: cluster_id_try_from_def cluster_id_display_def)

text \<open>\<open>PeerDisplay\<close> and \<open>ClusterDisplay\<close>: the name in quotes when it is known, then the id.\<close>

definition peer_display :: "ext \<Rightarrow> PeerName option \<Rightarrow> PeerId \<Rightarrow> string" where
  "peer_display x peer_name peer_id =
     (case peer_name of Some n \<Rightarrow> quote_char @ peer_name_value n @ quote_char @ '' '' | None \<Rightarrow> '''') @
     ''<'' @ peer_id_display x peer_id @ ''>''"

definition cluster_display :: "ext \<Rightarrow> ClusterName option \<Rightarrow> ClusterId \<Rightarrow> string" where
  "cluster_display x cluster_name cluster_id =
     (case cluster_name of Some n \<Rightarrow> quote_char @ cluster_name_value n @ quote_char @ '' '' | None \<Rightarrow> '''') @
     ''<'' @ cluster_id_display x cluster_id @ ''>''"

section \<open>Network interfaces (util/net.rs)\<close>

datatype CanSamplePoint = CanSamplePoint (sample_point_times_1000: u32)

datatype CanSamplePointError = SamplePointOutOfRangeInt string

definition can_sample_point_try_from :: "u32 \<Rightarrow> CanSamplePointError + CanSamplePoint" where
  "can_sample_point_try_from value =
     (if 0 \<le> value \<and> value < 1000 then Inr (CanSamplePoint value)
      else Inl (SamplePointOutOfRangeInt (show_nat (unat value))))"

fun can_sample_point_error_message :: "CanSamplePointError \<Rightarrow> string" where
  "can_sample_point_error_message (SamplePointOutOfRangeInt v) =
     ''Integer to create sample point from must be in the range [0, 999] but is '' @ v"

definition valid_sample_point :: "CanSamplePoint \<Rightarrow> bool" where
  "valid_sample_point p \<longleftrightarrow> unat (sample_point_times_1000 p) < 1000"

lemma can_sample_point_Inr_iff:
  "can_sample_point_try_from v = Inr p \<longleftrightarrow> valid_sample_point p \<and> sample_point_times_1000 p = v"
  by (cases p) (auto simp: can_sample_point_try_from_def valid_sample_point_def word_less_nat_alt)

text \<open>\<open>Display\<close>: \<open>0.\<close> and the value padded with zeros to three digits.\<close>

definition can_sample_point_display :: "CanSamplePoint \<Rightarrow> string" where
  "can_sample_point_display p =
     (let d = show_nat (unat (sample_point_times_1000 p))
      in ''0.'' @ replicate (3 - length d) CHR ''0'' @ d)"

lemma can_sample_point_display_length:
  assumes "valid_sample_point p"
  shows "length (can_sample_point_display p) = 5"
proof -
  have "length (show_nat (unat (sample_point_times_1000 p))) \<le> 3"
    using assms by (intro length_show_nat) (simp_all add: valid_sample_point_def)
  then show ?thesis by (simp add: can_sample_point_display_def Let_def)
qed

datatype NetworkInterfaceConfiguration =
    Ethernet
  | Can (bitrate: u32) (sample_point: CanSamplePoint) (fd: bool)
        (data_bitrate: u32) (data_sample_point: CanSamplePoint)

record NetworkInterfaceDescriptor =
  ni_id :: NetworkInterfaceId
  ni_name :: NetworkInterfaceName
  ni_configuration :: NetworkInterfaceConfiguration

fun wf_interface_configuration :: "NetworkInterfaceConfiguration \<Rightarrow> bool" where
  "wf_interface_configuration Ethernet = True"
| "wf_interface_configuration (Can b sp f db dsp) = (valid_sample_point sp \<and> valid_sample_point dsp)"

definition wf_interface :: "NetworkInterfaceDescriptor \<Rightarrow> bool" where
  "wf_interface n \<longleftrightarrow>
     valid_network_interface_name (ni_name n) \<and> wf_interface_configuration (ni_configuration n)"

section \<open>Topology and peers\<close>

record DeviceDescriptor =
  dev_id :: DeviceId
  dev_name :: DeviceName
  dev_description :: "DeviceDescription option"
  dev_interface :: NetworkInterfaceId
  dev_tags :: "DeviceTag list"

record Topology = topology_devices :: "DeviceDescriptor list"

record PeerNetworkDescriptor =
  pn_interfaces :: "NetworkInterfaceDescriptor list"
  pn_bridge_name :: "NetworkInterfaceName option"

record ExecutorDescriptors = eds_executors :: "ExecutorDescriptor list"

record PeerDescriptor =
  pd_id :: PeerId
  pd_name :: PeerName
  pd_location :: "PeerLocation option"
  pd_network :: PeerNetworkDescriptor
  pd_topology :: Topology
  pd_executors :: ExecutorDescriptors

abbreviation pd_devices :: "PeerDescriptor \<Rightarrow> DeviceDescriptor list" where
  "pd_devices p \<equiv> topology_devices (pd_topology p)"

abbreviation pd_device_ids :: "PeerDescriptor \<Rightarrow> DeviceId list" where
  "pd_device_ids p \<equiv> map dev_id (pd_devices p)"

text \<open>
  Pairs each device with its interface. The code panics (\<open>expect\<close>) when a device names an
  interface the peer does not have: \<open>None\<close> here.
\<close>

fun interfaces_zipped_with_devices ::
    "PeerNetworkDescriptor \<Rightarrow> DeviceDescriptor list \<Rightarrow>
     (NetworkInterfaceDescriptor \<times> DeviceDescriptor) list option" where
  "interfaces_zipped_with_devices network [] = Some []"
| "interfaces_zipped_with_devices network (device # devices) =
     (case find (\<lambda>interface. ni_id interface = dev_interface device) (pn_interfaces network) of
        None \<Rightarrow> None
      | Some interface \<Rightarrow>
          map_option (\<lambda>rest. (interface, device) # rest) (interfaces_zipped_with_devices network devices))"

definition devices_have_interfaces :: "PeerDescriptor \<Rightarrow> bool" where
  "devices_have_interfaces p \<longleftrightarrow>
     (\<forall>d\<in>set (pd_devices p). \<exists>i\<in>set (pn_interfaces (pd_network p)). ni_id i = dev_interface d)"

lemma interfaces_zipped_Some:
  "interfaces_zipped_with_devices n ds = Some zs \<Longrightarrow>
     map snd zs = ds \<and>
     (\<forall>(i, d)\<in>set zs. i \<in> set (pn_interfaces n) \<and> ni_id i = dev_interface d)"
proof (induction ds arbitrary: zs)
  case (Cons d ds)
  then obtain i rest where i: "find (\<lambda>i. ni_id i = dev_interface d) (pn_interfaces n) = Some i"
    and rest: "interfaces_zipped_with_devices n ds = Some rest" and zs: "zs = (i, d) # rest"
    by (auto split: option.splits)
  from find_SomeD [OF i] have "i \<in> set (pn_interfaces n) \<and> ni_id i = dev_interface d" .
  with Cons.IH [OF rest] zs show ?case by simp
qed simp

lemma interfaces_zipped_defined:
  "(\<exists>zs. interfaces_zipped_with_devices n ds = Some zs) \<longleftrightarrow>
     (\<forall>d\<in>set ds. \<exists>i\<in>set (pn_interfaces n). ni_id i = dev_interface d)"
proof (induction ds)
  case (Cons d ds)
  show ?case
  proof (cases "find (\<lambda>i. ni_id i = dev_interface d) (pn_interfaces n)")
    case None
    moreover from None have "\<not> (\<exists>i\<in>set (pn_interfaces n). ni_id i = dev_interface d)"
      by (simp add: find_None_iff)
    ultimately show ?thesis by simp
  next
    case (Some i)
    from find_SomeD [OF this] have found: "\<exists>i\<in>set (pn_interfaces n). ni_id i = dev_interface d"
      by blast
    have "(\<exists>zs. interfaces_zipped_with_devices n (d # ds) = Some zs) \<longleftrightarrow>
          (\<exists>zs. interfaces_zipped_with_devices n ds = Some zs)"
      using Some by (cases "interfaces_zipped_with_devices n ds") simp_all
    with Cons.IH found show ?thesis by simp
  qed
qed simp

section \<open>States of peers and clusters\<close>

datatype IpAddr = V4 "byte list" | V6 "byte list"

datatype PeerConnectionState = Offline | Online (remote_host: IpAddr)

datatype PeerMemberState = Available | Blocked (by_cluster: ClusterId)

record PeerState =
  ps_connection :: PeerConnectionState
  ps_member :: PeerMemberState

definition peer_connection_state_default :: PeerConnectionState where
  "peer_connection_state_default = Offline"

definition peer_state_default :: PeerState where
  "peer_state_default = \<lparr> ps_connection = Offline, ps_member = Available \<rparr>"

definition peer_state_short_name :: "PeerState \<Rightarrow> string" where
  "peer_state_short_name s =
     (case ps_connection s of
        Offline \<Rightarrow> ''Offline''
      | Online _ \<Rightarrow> (case ps_member s of Available \<Rightarrow> ''Available'' | Blocked _ \<Rightarrow> ''Blocked''))"

datatype DeployedClusterState = Unhealthy | Healthy

datatype ClusterState = Undeployed | Deploying | Deployed DeployedClusterState

fun cluster_state_short_name :: "ClusterState \<Rightarrow> string" where
  "cluster_state_short_name Undeployed = ''Undeployed''"
| "cluster_state_short_name Deploying = ''Deploying''"
| "cluster_state_short_name (Deployed Unhealthy) = ''Unhealthy''"
| "cluster_state_short_name (Deployed Healthy) = ''Healthy''"

fun join_strings :: "string \<Rightarrow> string list \<Rightarrow> string" where
  "join_strings sep [] = []"
| "join_strings sep [s] = s"
| "join_strings sep (s # ss) = s @ sep @ join_strings sep ss"

definition short_names_joined :: "('a \<Rightarrow> string) \<Rightarrow> 'a list \<Rightarrow> string" where
  "short_names_joined short_name elements = join_strings '', '' (map short_name elements)"

section \<open>Clusters\<close>

text \<open>A \<open>HashSet\<close> of devices is a list without duplicates.\<close>

record ClusterConfiguration =
  cc_id :: ClusterId
  cc_name :: ClusterName
  cc_leader :: PeerId
  cc_devices :: "DeviceId list"

record ClusterDeployment = cd_id :: ClusterId

datatype Port = Port (port_value: u16)

record PeerClusterAssignment =
  pca_peer_id :: PeerId
  pca_vpn_address :: IpAddr
  pca_can_server_port :: Port

record ClusterAssignment =
  ca_id :: ClusterId
  ca_leader :: PeerId
  ca_assignments :: "PeerClusterAssignment list"

section \<open>What a peer or a user needs to reach CARL (peer/mod.rs, cleo.rs, vpn.rs, util/net.rs)\<close>

text \<open>A certificate is the PEM tag and content, all the program reads of the \<open>pem\<close> crate's type.\<close>

record Certificate =
  cert_tag :: string
  cert_contents :: "byte list"

datatype Hostname = Hostname (hostname_value: string)

datatype AuthConfig =
    AuthEnabled (issuer_url: url) (client_id: ClientId) (client_secret: ClientSecret)
      (scopes: "OAuthScope list")
  | AuthDisabled

definition auth_config_from_credentials :: "url \<Rightarrow> ClientId \<Rightarrow> ClientSecret \<Rightarrow> AuthConfig" where
  "auth_config_from_credentials issuer cid secret = AuthEnabled issuer cid secret []"

datatype SetupKey = SetupKey (setup_key_uuid: uuid)

datatype VpnPeerConfiguration = VpnDisabled | VpnNetbird (management_url: url) (setup_key: SetupKey)

datatype CleoId = CleoId (cleo_uuid: uuid)

record PeerSetup =
  setup_id :: PeerId
  setup_carl :: url
  setup_ca :: Certificate
  setup_auth_config :: AuthConfig
  setup_vpn :: VpnPeerConfiguration

record CleoSetup =
  cleo_id :: CleoId
  cleo_carl :: url
  cleo_ca :: Certificate
  cleo_auth_config :: AuthConfig

section \<open>Well-formed values: every part is one its own parser could have produced\<close>

definition wf_device :: "DeviceDescriptor \<Rightarrow> bool" where
  "wf_device d \<longleftrightarrow>
     valid_device_name (dev_name d) \<and>
     (\<forall>t. dev_description d = Some t \<longrightarrow> valid_device_description t) \<and>
     (\<forall>t\<in>set (dev_tags d). valid_device_tag t)"

definition wf_network :: "PeerNetworkDescriptor \<Rightarrow> bool" where
  "wf_network n \<longleftrightarrow>
     (\<forall>i\<in>set (pn_interfaces n). wf_interface i) \<and>
     (\<forall>b. pn_bridge_name n = Some b \<longrightarrow> valid_network_interface_name b)"

definition wf_peer :: "PeerDescriptor \<Rightarrow> bool" where
  "wf_peer p \<longleftrightarrow>
     valid_peer_name (pd_name p) \<and>
     (\<forall>l. pd_location p = Some l \<longrightarrow> valid_peer_location l) \<and>
     wf_network (pd_network p) \<and>
     (\<forall>d\<in>set (pd_devices p). wf_device d) \<and>
     (\<forall>e\<in>set (eds_executors (pd_executors p)). wf_executor e)"

fun wf_ip :: "IpAddr \<Rightarrow> bool" where
  "wf_ip (V4 octets) = (length octets = 4)"
| "wf_ip (V6 octets) = (length octets = 16)"

definition wf_cluster :: "ClusterConfiguration \<Rightarrow> bool" where
  "wf_cluster c \<longleftrightarrow> valid_cluster_name (cc_name c) \<and> distinct (cc_devices c)"

definition wf_assignment :: "ClusterAssignment \<Rightarrow> bool" where
  "wf_assignment a \<longleftrightarrow> (\<forall>m\<in>set (ca_assignments a). wf_ip (pca_vpn_address m))"

fun wf_auth :: "AuthConfig \<Rightarrow> bool" where
  "wf_auth AuthDisabled = True"
| "wf_auth (AuthEnabled i c s ss) =
     (valid_client_id c \<and> valid_client_secret s \<and> (\<forall>x\<in>set ss. valid_oauth_scope x))"

end
