(* ===== verification/PeerConfiguration.thy ===== *)
theory PeerConfiguration
  imports Types
begin

text \<open>
  The configuration CARL keeps for a peer and pushes to its EDGAR
  (opendut-types/src/peer/configuration): three lists of parameters, each with an identifier
  and a target, and \<open>PeerConfiguration::set\<close>, which replaces the parameter of the same
  identifier. \<open>parameter_list\<close> is the contract a list of parameters offers its users; it is
  proved for the generic update and used for all three fields.
\<close>

datatype ParameterId = ParameterId (parameter_uuid: uuid)

datatype ParameterTarget = Present | Absent

record 'v Parameter =
  param_id :: ParameterId
  param_dependencies :: "ParameterId list"
  param_target :: ParameterTarget
  param_value :: 'v

record DeviceInterface = di_descriptor :: NetworkInterfaceDescriptor

record EthernetBridge = eb_name :: NetworkInterfaceName

record Executor = ex_descriptor :: ExecutorDescriptor

record OldPeerConfiguration =
  opc_cluster_assignment :: "ClusterAssignment option"

record PeerConfiguration =
  cfg_device_interfaces :: "DeviceInterface Parameter list"
  cfg_ethernet_bridges :: "EthernetBridge Parameter list"
  cfg_executors :: "Executor Parameter list"

definition old_peer_configuration_default :: OldPeerConfiguration where
  "old_peer_configuration_default = \<lparr> opc_cluster_assignment = None \<rparr>"

definition peer_configuration_default :: PeerConfiguration where
  "peer_configuration_default =
     \<lparr> cfg_device_interfaces = [], cfg_ethernet_bridges = [], cfg_executors = [] \<rparr>"

section \<open>Identifiers of parameter values\<close>

definition device_interface_identifier :: "DeviceInterface \<Rightarrow> ParameterId" where
  "device_interface_identifier v = ParameterId (interface_uuid (ni_id (di_descriptor v)))"

text \<open>\<open>DefaultHasher\<close> and \<open>Uuid::new_v5\<close> together are the parameter \<^const>\<open>uuid_of_name_hash\<close>.\<close>

definition ethernet_bridge_identifier :: "ext \<Rightarrow> EthernetBridge \<Rightarrow> ParameterId" where
  "ethernet_bridge_identifier x v =
     ParameterId (uuid_of_name_hash x (network_interface_name (eb_name v)))"

definition executor_identifier :: "Executor \<Rightarrow> ParameterId" where
  "executor_identifier v = ParameterId (executor_uuid (ed_id (ex_descriptor v)))"

section \<open>Setting a parameter\<close>

text \<open>
  \<open>PeerConfiguration::set\<close>: drop the parameters with the same identifier, then push. The
  generic method gets the identifier and the field from the trait \<open>ParameterValue\<close>; the three
  instances follow.
\<close>

definition set_parameter ::
    "('v \<Rightarrow> ParameterId) \<Rightarrow> 'v \<Rightarrow> ParameterTarget \<Rightarrow> 'v Parameter list \<Rightarrow> 'v Parameter list" where
  "set_parameter parameter_identifier v target parameters =
     (let parameter = \<lparr> param_id = parameter_identifier v, param_dependencies = [],
                        param_target = target, param_value = v \<rparr>
      in filter (\<lambda>existing. param_id existing \<noteq> param_id parameter) parameters @ [parameter])"

definition set_device_interface ::
    "DeviceInterface \<Rightarrow> ParameterTarget \<Rightarrow> PeerConfiguration \<Rightarrow> PeerConfiguration" where
  "set_device_interface v target c =
     c\<lparr> cfg_device_interfaces :=
          set_parameter device_interface_identifier v target (cfg_device_interfaces c) \<rparr>"

definition set_ethernet_bridge ::
    "ext \<Rightarrow> EthernetBridge \<Rightarrow> ParameterTarget \<Rightarrow> PeerConfiguration \<Rightarrow> PeerConfiguration" where
  "set_ethernet_bridge x v target c =
     c\<lparr> cfg_ethernet_bridges :=
          set_parameter (ethernet_bridge_identifier x) v target (cfg_ethernet_bridges c) \<rparr>"

definition set_executor ::
    "Executor \<Rightarrow> ParameterTarget \<Rightarrow> PeerConfiguration \<Rightarrow> PeerConfiguration" where
  "set_executor v target c =
     c\<lparr> cfg_executors := set_parameter executor_identifier v target (cfg_executors c) \<rparr>"

section \<open>The contract of a parameter list\<close>

definition lookup_parameter :: "'v Parameter list \<Rightarrow> ParameterId \<Rightarrow> 'v Parameter option" where
  "lookup_parameter ps i = find (\<lambda>p. param_id p = i) ps"

definition unique_parameters :: "'v Parameter list \<Rightarrow> bool" where
  "unique_parameters ps \<longleftrightarrow> distinct (map param_id ps)"

definition described_by :: "('v \<Rightarrow> ParameterId) \<Rightarrow> 'v Parameter list \<Rightarrow> bool" where
  "described_by ident ps \<longleftrightarrow> (\<forall>p\<in>set ps. param_id p = ident (param_value p))"

locale parameter_list =
  fixes ident :: "'v \<Rightarrow> ParameterId"
    and put :: "'v \<Rightarrow> ParameterTarget \<Rightarrow> 'v Parameter list \<Rightarrow> 'v Parameter list"
    and get :: "'v Parameter list \<Rightarrow> ParameterId \<Rightarrow> 'v Parameter option"
    and good :: "'v Parameter list \<Rightarrow> bool"
  assumes good_empty: "good []"
    and good_put: "good ps \<Longrightarrow> good (put v t ps)"
    and get_empty: "get [] i = None"
    and get_put: "get (put v t ps) i =
       (if i = ident v
        then Some \<lparr> param_id = ident v, param_dependencies = [], param_target = t, param_value = v \<rparr>
        else get ps i)"
begin

fun put_all :: "('v \<times> ParameterTarget) list \<Rightarrow> 'v Parameter list \<Rightarrow> 'v Parameter list" where
  "put_all [] ps = ps"
| "put_all ((v, t) # vts) ps = put_all vts (put v t ps)"

lemma good_put_all: "good ps \<Longrightarrow> good (put_all vts ps)"
  by (induction vts ps rule: put_all.induct) (simp_all add: good_put)

lemma put_all_append: "put_all (vts @ wts) ps = put_all wts (put_all vts ps)"
  by (induction vts ps rule: put_all.induct) simp_all

lemma get_put_all_other: "i \<notin> ident ` fst ` set vts \<Longrightarrow> get (put_all vts ps) i = get ps i"
  by (induction vts ps rule: put_all.induct) (simp_all add: get_put)

lemma last_put_wins:
  assumes "ident v \<notin> ident ` fst ` set later"
  shows "map_option param_target (get (put_all (earlier @ (v, t) # later) ps) (ident v)) = Some t"
    and "map_option param_value (get (put_all (earlier @ (v, t) # later) ps) (ident v)) = Some v"
  using assms by (simp_all add: put_all_append get_put_all_other get_put)

lemma put_put: "ident v = ident w \<Longrightarrow> get (put w u (put v t ps)) i = get (put w u ps) i"
  by (simp add: get_put)

end

lemma find_filter_other: "i \<noteq> j \<Longrightarrow>
  find (\<lambda>p. param_id p = i) (filter (\<lambda>p. param_id p \<noteq> j) ps) = find (\<lambda>p. param_id p = i) ps"
  by (induction ps) auto

lemma find_append: "find P (xs @ ys) = (case find P xs of None \<Rightarrow> find P ys | Some x \<Rightarrow> Some x)"
  by (induction xs) auto

lemma lookup_set_parameter:
  "lookup_parameter (set_parameter ident v t ps) i =
     (if i = ident v
      then Some \<lparr> param_id = ident v, param_dependencies = [], param_target = t, param_value = v \<rparr>
      else lookup_parameter ps i)"
proof (cases "i = ident v")
  case True
  then have "find (\<lambda>p. param_id p = i) (filter (\<lambda>p. param_id p \<noteq> ident v) ps) = None"
    by (simp add: find_eq_None)
  with True show ?thesis
    by (simp add: lookup_parameter_def set_parameter_def find_append Let_def)
next
  case False
  then show ?thesis
    by (simp add: lookup_parameter_def set_parameter_def find_append find_filter_other Let_def
        split: option.split)
qed

lemma unique_set_parameter: "unique_parameters ps \<Longrightarrow> unique_parameters (set_parameter ident v t ps)"
  by (auto simp: unique_parameters_def set_parameter_def Let_def distinct_map_filter)

lemma described_set_parameter: "described_by ident ps \<Longrightarrow> described_by ident (set_parameter ident v t ps)"
  by (auto simp: described_by_def set_parameter_def Let_def)

lemma parameter_list_set_parameter:
  "parameter_list ident (set_parameter ident) lookup_parameter unique_parameters"
proof
  show "unique_parameters ([] :: 'v Parameter list)" by (simp add: unique_parameters_def)
  show "lookup_parameter ([] :: 'v Parameter list) i = None" for i
    by (simp add: lookup_parameter_def)
qed (simp_all add: lookup_set_parameter unique_set_parameter)

interpretation device_interfaces: parameter_list device_interface_identifier
    "set_parameter device_interface_identifier" lookup_parameter unique_parameters
  by (rule parameter_list_set_parameter)

interpretation ethernet_bridges: parameter_list "ethernet_bridge_identifier x"
    "set_parameter (ethernet_bridge_identifier x)" lookup_parameter unique_parameters for x
  by (rule parameter_list_set_parameter)

interpretation executors: parameter_list executor_identifier
    "set_parameter executor_identifier" lookup_parameter unique_parameters
  by (rule parameter_list_set_parameter)

definition wf_peer_configuration :: "ext \<Rightarrow> PeerConfiguration \<Rightarrow> bool" where
  "wf_peer_configuration x c \<longleftrightarrow>
     unique_parameters (cfg_device_interfaces c) \<and>
     described_by device_interface_identifier (cfg_device_interfaces c) \<and>
     unique_parameters (cfg_ethernet_bridges c) \<and>
     described_by (ethernet_bridge_identifier x) (cfg_ethernet_bridges c) \<and>
     unique_parameters (cfg_executors c) \<and>
     described_by executor_identifier (cfg_executors c)"

lemmas peer_configuration_setters =
  set_device_interface_def set_ethernet_bridge_def set_executor_def

lemma wf_peer_configuration_default: "wf_peer_configuration x peer_configuration_default"
  by (simp add: wf_peer_configuration_def peer_configuration_default_def unique_parameters_def
      described_by_def)

lemma wf_set_device_interface:
  "wf_peer_configuration x c \<Longrightarrow> wf_peer_configuration x (set_device_interface v t c)"
  by (simp add: wf_peer_configuration_def peer_configuration_setters unique_set_parameter
      described_set_parameter)

lemma wf_set_ethernet_bridge:
  "wf_peer_configuration x c \<Longrightarrow> wf_peer_configuration x (set_ethernet_bridge x v t c)"
  by (simp add: wf_peer_configuration_def peer_configuration_setters unique_set_parameter
      described_set_parameter)

lemma wf_set_executor:
  "wf_peer_configuration x c \<Longrightarrow> wf_peer_configuration x (set_executor v t c)"
  by (simp add: wf_peer_configuration_def peer_configuration_setters unique_set_parameter
      described_set_parameter)

end
