(* ===== verification/EdgarNetwork.thy ===== *)
theory EdgarNetwork
  imports PeerConfiguration
begin

unbundle bit_operations_syntax

text \<open>
  EDGAR's network interfaces (opendut-edgar/src/service/network_interface): listing, creating,
  joining and deleting interfaces of the host, the Ethernet bridge, and the GRE interfaces that
  connect the bridges of a cluster's peers. The kernel's netlink interface and the command line
  programs EDGAR runs are a parameter, the record \<open>netlink\<close> over an unknown state of the host;
  \<open>honest_netlink\<close> says what the kernel documents about it.
\<close>

section \<open>Attributes of a GRE interface (manager/gretap.rs)\<close>

datatype InfoGreTap =
    IFlags u16 | OFlags u16 | IKey u32 | OKey u32 | LocalAddress u32 | RemoteAddress u32 | Ttl byte | Tos byte
  | Pmtudisc byte | EncapType u16 | EncapFlags u16 | EncapSPort u16 | EncapDPort u16 | FwMark u32

definition u16_le :: "u16 \<Rightarrow> byte list" where
  "u16_le v = [ucast v, ucast (drop_bit 8 v)]"

definition u32_le :: "u32 \<Rightarrow> byte list" where
  "u32_le v = [ucast v, ucast (drop_bit 8 v), ucast (drop_bit 16 v), ucast (drop_bit 24 v)]"

text \<open>\<open>u32::from_le_bytes\<close> of the four octets of an address.\<close>

fun u32_from_le_bytes :: "byte list \<Rightarrow> u32" where
  "u32_from_le_bytes (a # b # c # d # _) =
     ucast a OR push_bit 8 (ucast b) OR push_bit 16 (ucast c) OR push_bit 24 (ucast d)"
| "u32_from_le_bytes _ = 0"

text \<open>\<open>NativeEndian::write_u16\<close> and \<open>write_u32\<close>: the order of bytes is the host's.\<close>

definition native :: "bool \<Rightarrow> byte list \<Rightarrow> byte list" where
  "native big_endian bytes = (if big_endian then rev bytes else bytes)"

fun info_value_len :: "InfoGreTap \<Rightarrow> nat" where
  "info_value_len (IFlags _) = 2" | "info_value_len (OFlags _) = 2"
| "info_value_len (IKey _) = 4" | "info_value_len (OKey _) = 4"
| "info_value_len (LocalAddress _) = 4" | "info_value_len (RemoteAddress _) = 4"
| "info_value_len (Ttl _) = 1" | "info_value_len (Tos _) = 1" | "info_value_len (Pmtudisc _) = 1"
| "info_value_len (EncapType _) = 2" | "info_value_len (EncapFlags _) = 2"
| "info_value_len (EncapSPort _) = 2" | "info_value_len (EncapDPort _) = 2"
| "info_value_len (FwMark _) = 4"

fun info_kind :: "InfoGreTap \<Rightarrow> u16" where
  "info_kind (IFlags _) = 0x02" | "info_kind (OFlags _) = 0x03"
| "info_kind (IKey _) = 0x04" | "info_kind (OKey _) = 0x05"
| "info_kind (LocalAddress _) = 0x06" | "info_kind (RemoteAddress _) = 0x07"
| "info_kind (Ttl _) = 0x08" | "info_kind (Tos _) = 0x09" | "info_kind (Pmtudisc _) = 0x0a"
| "info_kind (EncapType _) = 0x0e" | "info_kind (EncapFlags _) = 0x0f"
| "info_kind (EncapSPort _) = 0x10" | "info_kind (EncapDPort _) = 0x11"
| "info_kind (FwMark _) = 0x14"

fun info_emit_value :: "bool \<Rightarrow> InfoGreTap \<Rightarrow> byte list" where
  "info_emit_value big (IFlags v) = native big (u16_le v)" | "info_emit_value big (OFlags v) = native big (u16_le v)"
| "info_emit_value big (IKey v) = native big (u32_le v)" | "info_emit_value big (OKey v) = native big (u32_le v)"
| "info_emit_value big (LocalAddress v) = native big (u32_le v)" | "info_emit_value big (RemoteAddress v) = native big (u32_le v)"
| "info_emit_value big (Ttl v) = [v]" | "info_emit_value big (Tos v) = [v]" | "info_emit_value big (Pmtudisc v) = [v]"
| "info_emit_value big (EncapType v) = native big (u16_le v)" | "info_emit_value big (EncapFlags v) = native big (u16_le v)"
| "info_emit_value big (EncapSPort v) = native big (u16_le v)" | "info_emit_value big (EncapDPort v) = native big (u16_le v)"
| "info_emit_value big (FwMark v) = native big (u32_le v)"

definition gretap_attributes :: "byte list \<Rightarrow> byte list \<Rightarrow> InfoGreTap list" where
  "gretap_attributes local_ip remote_ip =
     [IKey 0, OKey 0, IFlags 0, OFlags 0, LocalAddress (u32_from_le_bytes local_ip),
      RemoteAddress (u32_from_le_bytes remote_ip), Pmtudisc 1, Tos 0, Ttl 0, FwMark 0, EncapType 0, EncapFlags 0,
      EncapSPort 0, EncapDPort 0]"

text \<open>A request to add a link: its name and what it is, for a GRE interface the emitted attributes.\<close>

datatype link_kind = BridgeLink | GretapLink "(u16 \<times> byte list) list" | OtherLink

definition gretap_v4 :: "bool \<Rightarrow> byte list \<Rightarrow> byte list \<Rightarrow> link_kind" where
  "gretap_v4 big local_ip remote_ip =
     GretapLink (map (\<lambda>a. (info_kind a, info_emit_value big a)) (gretap_attributes local_ip remote_ip))"

lemma info_emit_length: "length (info_emit_value big a) = info_value_len a"
  by (cases a) (simp_all add: native_def u16_le_def u32_le_def)

lemma u32_le_from_le_bytes:
  assumes "length bs = 4"
  shows "u32_le (u32_from_le_bytes bs) = bs"
proof -
  obtain a b c d where bs: "bs = [a, b, c, d]"
    using assms by (auto simp: numeral_eq_Suc length_Suc_conv)
  show ?thesis
    unfolding bs u32_le_def u32_from_le_bytes.simps
    by (intro arg_cong2 [where f = Cons] refl; rule bit_word_eqI; auto simp: bit_simps dest: bit_imp_le_length)
qed

lemma gretap_addresses:
  assumes "length local_ip = 4" "length remote_ip = 4"
  shows "gretap_v4 False local_ip remote_ip =
      GretapLink [(4, [0, 0, 0, 0]), (5, [0, 0, 0, 0]), (2, [0, 0]), (3, [0, 0]), (6, local_ip), (7, remote_ip),
        (0x0a, [1]), (9, [0]), (8, [0]), (0x14, [0, 0, 0, 0]), (0x0e, [0, 0]), (0x0f, [0, 0]), (0x10, [0, 0]), (0x11, [0, 0])]"
    and "gretap_v4 True local_ip remote_ip =
      GretapLink [(4, [0, 0, 0, 0]), (5, [0, 0, 0, 0]), (2, [0, 0]), (3, [0, 0]), (6, rev local_ip), (7, rev remote_ip),
        (0x0a, [1]), (9, [0]), (8, [0]), (0x14, [0, 0, 0, 0]), (0x0e, [0, 0]), (0x0f, [0, 0]), (0x10, [0, 0]), (0x11, [0, 0])]"
  using u32_le_from_le_bytes [OF assms(1)] u32_le_from_le_bytes [OF assms(2)]
  by (simp_all add: gretap_v4_def gretap_attributes_def native_def u16_le_def) (simp_all add: u32_le_def)

section \<open>The network interface manager (manager/mod.rs)\<close>

record Interface =
  if_index :: u32
  if_name :: NetworkInterfaceName

record command_output =
  out_success :: bool
  out_stdout :: string
  out_stderr :: string

text \<open>
  The \<open>rtnetlink\<close> handle, \<open>tokio::process::Command\<close> and two renderings of the standard library:
  the debug form of a command and of a program's error output (lossy UTF-8, trimmed, quoted).
\<close>

record 'w netlink =
  nl_big_endian :: bool
  nl_get :: "('w, string, (u32 \<times> string option) list) run"
  nl_add :: "string \<Rightarrow> link_kind \<Rightarrow> ('w, string, unit) run"
  nl_set_up :: "u32 \<Rightarrow> ('w, string, unit) run"
  nl_set_down :: "u32 \<Rightarrow> ('w, string, unit) run"
  nl_set_controller :: "u32 \<Rightarrow> u32 \<Rightarrow> ('w, string, unit) run"
  nl_del :: "u32 \<Rightarrow> ('w, string, unit) run"
  nl_command :: "string \<Rightarrow> string list \<Rightarrow> ('w, string, command_output) run"
  nl_command_debug :: "string \<Rightarrow> string list \<Rightarrow> string"
  nl_quoted :: "string \<Rightarrow> string"

datatype NetworkError =
    BridgeCreation NetworkInterfaceName string
  | NetlinkConnecting string
  | DeleteInterface Interface string
  | GretapCreation NetworkInterfaceName string
  | InterfaceNotFound NetworkInterfaceName
  | ListInterfaces string
  | SetInterfaceUp Interface string
  | SetInterfaceDown Interface string
  | JoinInterfaceToBridge Interface Interface string
  | VCanInterfaceCreation NetworkInterfaceName string
  | CanInterfaceUpdate NetworkInterfaceName string
  | CommandLineProgramExecution string string

text \<open>An interface without a name, or with one that is not accepted, is left out.\<close>

definition interface_of :: "u32 \<times> string option \<Rightarrow> Interface option" where
  "interface_of link =
     (case snd link of
        None \<Rightarrow> None
      | Some name \<Rightarrow>
          (case network_interface_name_try_from name of
             Inl _ \<Rightarrow> None
           | Inr n \<Rightarrow> Some \<lparr> if_index = fst link, if_name = n \<rparr>))"

definition list_interfaces :: "'w netlink \<Rightarrow> ('w, NetworkError, Interface list) run" where
  "list_interfaces nl =
     and_then (map_run_err ListInterfaces (nl_get nl)) (\<lambda>links.
     return_ok (List.map_filter interface_of links))"

definition find_interface :: "'w netlink \<Rightarrow> NetworkInterfaceName \<Rightarrow> ('w, NetworkError, Interface option) run" where
  "find_interface nl name =
     and_then (list_interfaces nl) (\<lambda>interfaces.
     return_ok (find (\<lambda>i. if_name i = name) interfaces))"

definition try_find_interface :: "'w netlink \<Rightarrow> NetworkInterfaceName \<Rightarrow> ('w, NetworkError, Interface) run" where
  "try_find_interface nl name =
     and_then (find_interface nl name) (\<lambda>found. lift_result (ok_or (InterfaceNotFound name) found))"

definition create_empty_bridge :: "'w netlink \<Rightarrow> NetworkInterfaceName \<Rightarrow> ('w, NetworkError, Interface) run" where
  "create_empty_bridge nl name =
     and_then (map_run_err (BridgeCreation name) (nl_add nl (network_interface_name name) BridgeLink)) (\<lambda>_.
     try_find_interface nl name)"

definition create_gretap_v4_interface ::
    "'w netlink \<Rightarrow> NetworkInterfaceName \<Rightarrow> byte list \<Rightarrow> byte list \<Rightarrow> ('w, NetworkError, Interface) run" where
  "create_gretap_v4_interface nl name local_ip remote_ip =
     and_then (map_run_err (GretapCreation name)
       (nl_add nl (network_interface_name name) (gretap_v4 (nl_big_endian nl) local_ip remote_ip))) (\<lambda>_.
     try_find_interface nl name)"

definition set_interface_up :: "'w netlink \<Rightarrow> Interface \<Rightarrow> ('w, NetworkError, unit) run" where
  "set_interface_up nl i = map_run_err (SetInterfaceUp i) (nl_set_up nl (if_index i))"

definition set_interface_down :: "'w netlink \<Rightarrow> Interface \<Rightarrow> ('w, NetworkError, unit) run" where
  "set_interface_down nl i = map_run_err (SetInterfaceDown i) (nl_set_down nl (if_index i))"

definition join_interface_to_bridge :: "'w netlink \<Rightarrow> Interface \<Rightarrow> Interface \<Rightarrow> ('w, NetworkError, unit) run" where
  "join_interface_to_bridge nl i bridge =
     map_run_err (JoinInterfaceToBridge i bridge) (nl_set_controller nl (if_index i) (if_index bridge))"

definition delete_interface :: "'w netlink \<Rightarrow> Interface \<Rightarrow> ('w, NetworkError, unit) run" where
  "delete_interface nl i = map_run_err (DeleteInterface i) (nl_del nl (if_index i))"

text \<open>
  \<open>sample_point().to_string()\<close>: the sample point as a \<open>f32\<close>, printed with the fewest digits that
  identify it, so the thousandths without trailing zeros.
\<close>

definition sample_point_text :: "CanSamplePoint \<Rightarrow> string" where
  "sample_point_text p =
     (if sample_point_times_1000 p = 0 then ''0''
      else rev (dropWhile (\<lambda>c. c = CHR ''0'') (rev (can_sample_point_display p))))"

fun update_can_arguments :: "string \<Rightarrow> NetworkInterfaceConfiguration \<Rightarrow> string list" where
  "update_can_arguments name (Can rate sample flexible data_rate data_sample) =
     [''link'', ''set'', name, ''type'', ''can'', ''bitrate'', show_nat (unat rate),
      ''sample-point'', sample_point_text sample] @
     (if flexible
      then [''dbitrate'', show_nat (unat data_rate), ''dsample-point'', sample_point_text data_sample, ''fd'', ''on'']
      else [''fd'', ''off''])"
| "update_can_arguments name Ethernet = []"

definition update_interface :: "'w netlink \<Rightarrow> NetworkInterfaceDescriptor \<Rightarrow> ('w, NetworkError, unit) run" where
  "update_interface nl descriptor =
     (case ni_configuration descriptor of
        Ethernet \<Rightarrow> return_ok ()
      | Can _ _ _ _ _ \<Rightarrow>
          (let arguments = update_can_arguments (network_interface_name (ni_name descriptor)) (ni_configuration descriptor) in
           and_then (map_run_err (CommandLineProgramExecution (nl_command_debug nl ''ip'' arguments))
             (nl_command nl ''ip'' arguments)) (\<lambda>out.
           if out_success out then return_ok ()
           else fail_with (CanInterfaceUpdate (ni_name descriptor) (nl_quoted nl (out_stderr out))))))"

text \<open>The error of a program \<open>ip\<close> that cannot be started names \<open>cangw\<close>.\<close>

definition create_vcan_interface :: "'w netlink \<Rightarrow> NetworkInterfaceName \<Rightarrow> ('w, NetworkError, Interface) run" where
  "create_vcan_interface nl name =
     and_then (map_run_err (CommandLineProgramExecution ''cangw'')
       (nl_command nl ''ip'' [''link'', ''add'', ''dev'', network_interface_name name, ''type'', ''vcan''])) (\<lambda>out.
     if out_success out then try_find_interface nl name
     else fail_with (VCanInterfaceCreation name (nl_quoted nl (out_stderr out))))"

section \<open>The Ethernet bridge (bridge.rs)\<close>

definition create_bridge :: "'w netlink \<Rightarrow> NetworkInterfaceName \<Rightarrow> ('w, NetworkError, unit) run" where
  "create_bridge nl name = and_then (create_empty_bridge nl name) (set_interface_up nl)"

definition recreate_bridge :: "'w netlink \<Rightarrow> NetworkInterfaceName \<Rightarrow> ('w, NetworkError, unit) run" where
  "recreate_bridge nl name =
     and_then (find_interface nl name) (\<lambda>existing.
     and_then (case existing of None \<Rightarrow> return_ok () | Some bridge \<Rightarrow> delete_interface nl bridge) (\<lambda>_.
     create_bridge nl name))"

section \<open>GRE interfaces (gre.rs)\<close>

definition GRE_INTERFACE_NAME_PREFIX :: string where
  "GRE_INTERFACE_NAME_PREFIX = ''gre-opendut''"

datatype GreError = NetworkInterfaceError NetworkError | GreOther string

definition is_gre_name :: "string \<Rightarrow> bool" where
  "is_gre_name name \<longleftrightarrow> prefix GRE_INTERFACE_NAME_PREFIX name"

definition remove_existing_interfaces :: "'w netlink \<Rightarrow> ('w, GreError, unit) run" where
  "remove_existing_interfaces nl =
     map_run_err NetworkInterfaceError
       (and_then (list_interfaces nl) (\<lambda>interfaces.
        run_list (delete_interface nl) (filter (\<lambda>i. is_gre_name (network_interface_name (if_name i))) interfaces)))"

definition gre_interface_name :: "nat \<Rightarrow> NetworkInterfaceNameError + NetworkInterfaceName" where
  "gre_interface_name i = network_interface_name_try_from (GRE_INTERFACE_NAME_PREFIX @ show_nat i)"

definition create_gre_interface ::
    "'w netlink \<Rightarrow> byte list \<Rightarrow> NetworkInterfaceName \<Rightarrow> nat \<times> byte list \<Rightarrow> ('w, GreError, unit) run" where
  "create_gre_interface nl local_ip bridge_name = (\<lambda>(i, remote_ip).
     and_then (lift_result (map_err (\<lambda>cause. GreOther (''Error while constructing GRE interface name: '' @
       network_interface_name_error_message cause)) (gre_interface_name i))) (\<lambda>name.
     map_run_err NetworkInterfaceError
      (and_then (create_gretap_v4_interface nl name local_ip remote_ip) (\<lambda>gre.
       and_then (set_interface_up nl gre) (\<lambda>_.
       and_then (try_find_interface nl bridge_name) (\<lambda>bridge.
       join_interface_to_bridge nl gre bridge))))))"

definition setup_gre_interfaces ::
    "'w netlink \<Rightarrow> byte list \<Rightarrow> byte list list \<Rightarrow> NetworkInterfaceName \<Rightarrow> ('w, GreError, unit) run" where
  "setup_gre_interfaces nl local_ip remote_ips bridge_name =
     and_then (remove_existing_interfaces nl) (\<lambda>_.
     run_list (create_gre_interface nl local_ip bridge_name) (List.enumerate 0 remote_ips))"

lemma gre_interface_name_iff:
  "(\<exists>n. gre_interface_name i = Inr n) \<longleftrightarrow> i < 10000"
proof -
  have "(\<exists>n. gre_interface_name i = Inr n) \<longleftrightarrow> length (show_nat i) \<le> 4"
    by (auto simp: gre_interface_name_def network_interface_name_try_from_def NetworkInterfaceName_MAX_LENGTH_def
        GRE_INTERFACE_NAME_PREFIX_def)
  also have "\<dots> \<longleftrightarrow> i < 10 ^ 4"
    using length_show_nat [of i 4] length_show_nat_ge [of 4 i] by (cases "i < 10 ^ 4") auto
  finally show ?thesis by simp
qed

end
