(* ===== verification/EdgarTunnels.thy ===== *)
theory EdgarTunnels
  imports EdgarNetwork
begin

text \<open>
  What EDGAR's operations do to the host's links (opendut-edgar/src/service/network_interface/gre.rs):
  \<open>links\<close> is the host's table of links, \<open>honest_netlink\<close> what the kernel documents: names and
  indices are unique, a request that succeeds has its effect and no other.
\<close>

record link =
  l_index :: u32
  l_name :: string
  l_up :: bool
  l_master :: "u32 option"
  l_kind :: link_kind

definition new_link :: "u32 \<Rightarrow> string \<Rightarrow> link_kind \<Rightarrow> link" where
  "new_link i name kind = \<lparr> l_index = i, l_name = name, l_up = False, l_master = None, l_kind = kind \<rparr>"

definition change_link :: "u32 \<Rightarrow> (link \<Rightarrow> link) \<Rightarrow> link list \<Rightarrow> link list" where
  "change_link i f ls = map (\<lambda>l. if l_index l = i then f l else l) ls"

text \<open>Deleting links releases the links they were the master of.\<close>

definition release :: "u32 set \<Rightarrow> link \<Rightarrow> link" where
  "release ifs l = (if l_master l \<in> Some ` ifs then l\<lparr> l_master := None \<rparr> else l)"

definition remove_links :: "u32 set \<Rightarrow> link list \<Rightarrow> link list" where
  "remove_links ifs ls = map (release ifs) (filter (\<lambda>l. l_index l \<notin> ifs) ls)"

definition proper_links :: "link list \<Rightarrow> bool" where
  "proper_links ls \<longleftrightarrow> distinct (map l_index ls) \<and> distinct (map l_name ls) \<and>
     (\<forall>l\<in>set ls. 0 < length (l_name l) \<and> length (l_name l) \<le> 15)"

definition honest_netlink :: "'w netlink \<Rightarrow> ('w \<Rightarrow> link list) \<Rightarrow> bool" where
  "honest_netlink nl links \<longleftrightarrow>
     (\<forall>w. proper_links (links w)) \<and>
     (\<forall>w w' found. nl_get nl w = (w', Inr found) \<longrightarrow>
        links w' = links w \<and> found = map (\<lambda>l. (l_index l, Some (l_name l))) (links w)) \<and>
     (\<forall>w w' name kind. nl_add nl name kind w = (w', Inr ()) \<longrightarrow>
        (\<exists>i. links w' = links w @ [new_link i name kind])) \<and>
     (\<forall>w w' i. nl_set_up nl i w = (w', Inr ()) \<longrightarrow>
        links w' = change_link i (\<lambda>l. l\<lparr> l_up := True \<rparr>) (links w)) \<and>
     (\<forall>w w' i m. nl_set_controller nl i m w = (w', Inr ()) \<longrightarrow>
        links w' = change_link i (\<lambda>l. l\<lparr> l_master := Some m \<rparr>) (links w)) \<and>
     (\<forall>w w' i. nl_del nl i w = (w', Inr ()) \<longrightarrow> links w' = remove_links {i} (links w))"

definition interface_of_link :: "link \<Rightarrow> Interface" where
  "interface_of_link l = \<lparr> if_index = l_index l, if_name = NetworkInterfaceName (l_name l) \<rparr>"

lemma change_link_id: "i \<notin> l_index ` set ls \<Longrightarrow> change_link i f ls = ls"
  by (induction ls) (auto simp: change_link_def)

lemma change_link_append [simp]: "change_link i f (xs @ ys) = change_link i f xs @ change_link i f ys"
  by (simp add: change_link_def)

lemma change_link_last:
  "distinct (map l_index (ls @ [l])) \<Longrightarrow> change_link (l_index l) f (ls @ [l]) = ls @ [f l]"
  by (simp add: change_link_id [of _ ls]) (simp add: change_link_def)

lemma remove_links_empty [simp]: "remove_links {} ls = ls"
  by (induction ls) (simp_all add: remove_links_def release_def)

lemma remove_links_insert: "remove_links ifs (remove_links {i} ls) = remove_links (insert i ifs) ls"
  by (induction ls) (auto simp: remove_links_def release_def)

lemma honest_proper: "honest_netlink nl links \<Longrightarrow> proper_links (links w)"
  by (simp add: honest_netlink_def)

lemma list_interfaces_ok:
  assumes "honest_netlink nl links" "list_interfaces nl w = (w', Inr found)"
  shows "links w' = links w" "found = map interface_of_link (links w)"
proof -
  obtain raw where raw: "nl_get nl w = (w', Inr raw)" and found: "found = List.map_filter interface_of raw"
    using assms(2) by (auto simp: list_interfaces_def run_iffs)
  with assms(1) have "raw = map (\<lambda>l. (l_index l, Some (l_name l))) (links w)" and "links w' = links w"
    unfolding honest_netlink_def by blast+
  moreover have "List.map_filter interface_of (map (\<lambda>l. (l_index l, Some (l_name l))) ls) = map interface_of_link ls"
    if "\<forall>l\<in>set ls. 0 < length (l_name l) \<and> length (l_name l) \<le> 15" for ls
    using that by (induction ls)
      (auto simp: List.map_filter_simps interface_of_def network_interface_name_try_from_def
        NetworkInterfaceName_MAX_LENGTH_def interface_of_link_def)
  moreover have "\<forall>l\<in>set (links w). 0 < length (l_name l) \<and> length (l_name l) \<le> 15"
    using honest_proper [OF assms(1)] by (simp add: proper_links_def)
  ultimately show "links w' = links w" "found = map interface_of_link (links w)" using found by auto
qed

lemma try_find_ok:
  assumes "honest_netlink nl links" "try_find_interface nl name w = (w', Inr i)"
  shows "links w' = links w \<and> (\<exists>l\<in>set (links w). l_name l = network_interface_name name \<and> i = interface_of_link l)"
proof -
  obtain ifs where found: "list_interfaces nl w = (w', Inr ifs)" and i: "find (\<lambda>i. if_name i = name) ifs = Some i"
    using assms(2) by (auto simp: try_find_interface_def find_interface_def run_iffs ok_or_Inr_iff)
  from list_interfaces_ok [OF assms(1) found] find_SomeD [OF i]
  show ?thesis by (force simp: interface_of_link_def)
qed

lemma run_list_delete:
  assumes "honest_netlink nl links" "run_list (delete_interface nl) ifs w = (w', Inr ())"
  shows "links w' = remove_links (if_index ` set ifs) (links w)"
  using assms(2)
proof (induction "ifs" arbitrary: w)
  case Nil
  then show ?case by (simp add: return_ok_def)
next
  case (Cons i "ifs")
  then obtain w1 where 1: "delete_interface nl i w = (w1, Inr ())" "run_list (delete_interface nl) ifs w1 = (w', Inr ())"
    by (auto simp: run_iffs)
  then have "links w1 = remove_links {if_index i} (links w)"
    using assms(1) by (simp add: delete_interface_def run_iffs honest_netlink_def)
  with Cons.IH [OF 1(2)] show ?case by (simp add: remove_links_insert)
qed

text \<open>The links that are not GRE interfaces of EDGAR, released from any that were.\<close>

definition gre_indices :: "link list \<Rightarrow> u32 set" where
  "gre_indices ls = l_index ` {l \<in> set ls. is_gre_name (l_name l)}"

definition kept_links :: "link list \<Rightarrow> link list" where
  "kept_links ls = map (release (gre_indices ls)) (filter (\<lambda>l. \<not> is_gre_name (l_name l)) ls)"

lemma kept_links_not_gre: "l \<in> set (kept_links ls) \<Longrightarrow> \<not> is_gre_name (l_name l)"
  by (auto simp: kept_links_def release_def)

lemma remove_existing_ok:
  assumes "honest_netlink nl links" "remove_existing_interfaces nl w = (w', Inr ())"
  shows "links w' = kept_links (links w)"
proof -
  let ?gre = "\<lambda>ifs. filter (\<lambda>i. is_gre_name (network_interface_name (if_name i))) ifs"
  obtain w1 found where list: "list_interfaces nl w = (w1, Inr found)"
    and del: "run_list (delete_interface nl) (?gre found) w1 = (w', Inr ())"
    using assms(2) by (auto simp: remove_existing_interfaces_def run_iffs)
  note l = list_interfaces_ok [OF assms(1) list]
  have "if_index ` set (?gre found) = gre_indices (links w)"
    unfolding l gre_indices_def by (force simp: interface_of_link_def)
  moreover have "filter (\<lambda>l. l_index l \<notin> gre_indices ls) ls = filter (\<lambda>l. \<not> is_gre_name (l_name l)) ls"
    if "distinct (map l_index ls)" for ls
    using that by (intro filter_cong) (auto simp: gre_indices_def distinct_map dest: inj_onD)
  moreover have "distinct (map l_index (links w))"
    using honest_proper [OF assms(1)] by (simp add: proper_links_def)
  ultimately show ?thesis
    using run_list_delete [OF assms(1) del] by (simp add: l(1) remove_links_def kept_links_def)
qed

section \<open>Creating the tunnels\<close>

definition gre_name :: "nat \<Rightarrow> string" where
  "gre_name i = GRE_INTERFACE_NAME_PREFIX @ show_nat i"

text \<open>A tunnel: the i-th GRE interface, up, joined to the bridge, from this host to a remote one.\<close>

definition tunnel :: "bool \<Rightarrow> byte list \<Rightarrow> u32 \<Rightarrow> nat \<times> byte list \<Rightarrow> link \<Rightarrow> bool" where
  "tunnel big local_ip bridge = (\<lambda>(i, remote_ip) l.
     l_name l = gre_name i \<and> l_up l \<and> l_master l = Some bridge \<and> l_kind l = gretap_v4 big local_ip remote_ip)"

lemma tunnel_gre: "tunnel big local_ip b r l \<Longrightarrow> is_gre_name (l_name l)"
  by (cases r) (simp add: tunnel_def gre_name_def is_gre_name_def)

lemma create_gre_interface_ok:
  assumes "honest_netlink nl links" "create_gre_interface nl local_ip bridge_name (i, remote_ip) w = (w', Inr ())"
    and "\<not> is_gre_name (network_interface_name bridge_name)"
  shows "\<exists>b\<in>set (links w). l_name b = network_interface_name bridge_name \<and>
    (\<exists>g. links w' = links w @ [g] \<and> tunnel (nl_big_endian nl) local_ip (l_index b) (i, remote_ip) g)"
proof -
  let ?kind = "gretap_v4 (nl_big_endian nl) local_ip remote_ip"
  obtain name w1 gre w2 w3 bridge w4 where name: "gre_interface_name i = Inr name"
    and add: "nl_add nl (network_interface_name name) ?kind w = (w1, Inr ())"
    and gre: "try_find_interface nl name w1 = (w2, Inr gre)"
    and up: "set_interface_up nl gre w2 = (w3, Inr ())"
    and bridge: "try_find_interface nl bridge_name w3 = (w4, Inr bridge)"
    and join: "join_interface_to_bridge nl gre bridge w4 = (w', Inr ())"
    using assms(2)
    by (auto simp: create_gre_interface_def create_gretap_v4_interface_def run_iffs map_err_Inr_iff)
  have n: "network_interface_name name = gre_name i"
    using name by (simp add: gre_interface_name_def gre_name_def network_interface_name.try_from_Inr_iff)
  obtain k where 1: "links w1 = links w @ [new_link k (gre_name i) ?kind]"
    using assms(1) add unfolding honest_netlink_def n by blast
  have proper: "distinct (map l_index (links w1))" "distinct (map l_name (links w1))"
    using honest_proper [OF assms(1)] by (simp_all add: proper_links_def)
  obtain l where l: "l \<in> set (links w1)" "l_name l = gre_name i" "gre = interface_of_link l" and 2: "links w2 = links w1"
    using try_find_ok [OF assms(1) gre] n by auto
  then have "if_index gre = k"
    using proper(2) imageI [of l "set (links w)" l_name] by (auto simp: 1 new_link_def interface_of_link_def)
  with up assms(1) 1 2 have "links w3 = change_link k (\<lambda>l. l\<lparr> l_up := True \<rparr>) (links w @ [new_link k (gre_name i) ?kind])"
    by (simp add: set_interface_up_def run_iffs honest_netlink_def)
  with proper(1) have 3: "links w3 = links w @ [new_link k (gre_name i) ?kind\<lparr> l_up := True \<rparr>]"
    using change_link_last [of "links w" "new_link k (gre_name i) ?kind"] by (simp add: 1 new_link_def)
  obtain b where b: "b \<in> set (links w3)" "l_name b = network_interface_name bridge_name" "bridge = interface_of_link b"
    and 4: "links w4 = links w3"
    using try_find_ok [OF assms(1) bridge] by auto
  have "is_gre_name (gre_name i)" by (simp add: is_gre_name_def gre_name_def)
  with b assms(3) have old: "b \<in> set (links w)" by (auto simp: 3 new_link_def)
  have "links w' = change_link k (\<lambda>l. l\<lparr> l_master := Some (l_index b) \<rparr>) (links w3)"
    using join assms(1) 4 b(3) \<open>if_index gre = k\<close>
    by (simp add: join_interface_to_bridge_def run_iffs honest_netlink_def interface_of_link_def)
  with proper(1) have "links w' = links w @ [new_link k (gre_name i) ?kind\<lparr> l_up := True, l_master := Some (l_index b) \<rparr>]"
    using change_link_last [of "links w" "new_link k (gre_name i) ?kind\<lparr> l_up := True \<rparr>"] by (simp add: 1 3 new_link_def)
  with b(2) old show ?thesis by (intro bexI [of _ b]) (auto simp: tunnel_def new_link_def)
qed

lemma create_gre_interfaces_ok:
  assumes "honest_netlink nl links" "\<not> is_gre_name (network_interface_name bridge_name)"
    and "run_list (create_gre_interface nl local_ip bridge_name) rs w = (w', Inr ())" "rs \<noteq> []"
  shows "\<exists>b\<in>set (links w). l_name b = network_interface_name bridge_name \<and>
    (\<exists>gs. links w' = links w @ gs \<and> list_all2 (tunnel (nl_big_endian nl) local_ip (l_index b)) rs gs)"
  using assms(3,4)
proof (induction rs arbitrary: w)
  case (Cons r rs)
  obtain i remote_ip where r: "r = (i, remote_ip)" by (cases r)
  from Cons.prems obtain w1 where 1: "create_gre_interface nl local_ip bridge_name (i, remote_ip) w = (w1, Inr ())"
    and rest: "run_list (create_gre_interface nl local_ip bridge_name) rs w1 = (w', Inr ())"
    by (auto simp: r run_iffs)
  obtain b g where b: "b \<in> set (links w)" "l_name b = network_interface_name bridge_name"
    and g: "links w1 = links w @ [g]" "tunnel (nl_big_endian nl) local_ip (l_index b) r g"
    using create_gre_interface_ok [OF assms(1) 1 assms(2)] r by blast
  show ?case
  proof (cases "rs = []")
    case True
    with rest b g show ?thesis by (intro bexI [of _ b]) (auto simp: return_ok_def)
  next
    case False
    then obtain b' gs where b': "b' \<in> set (links w1)" "l_name b' = network_interface_name bridge_name"
      and gs: "links w' = links w1 @ gs" "list_all2 (tunnel (nl_big_endian nl) local_ip (l_index b')) rs gs"
      using Cons.IH [OF rest] by blast
    have "inj_on l_name (set (links w1))"
      using honest_proper [OF assms(1)] by (simp add: proper_links_def distinct_map)
    moreover have "b \<in> set (links w1)" using b(1) by (simp add: g(1))
    ultimately have "b' = b" using b(2) b' inj_onD by metis
    with b g gs show ?thesis by (intro bexI [of _ b] conjI exI [of _ "g # gs"]) auto
  qed
qed simp

text \<open>C24: setting up the GRE interfaces replaces those of an earlier cluster: when it succeeds, the host
  has all its other links as before (released from deleted ones), and in addition exactly one
  tunnel for each remote address, numbered from 0, up, and joined to the bridge.\<close>

theorem gre_setup_makes_exactly_the_tunnels:
  assumes "honest_netlink nl links" "\<not> is_gre_name (network_interface_name bridge_name)"
    and "setup_gre_interfaces nl local_ip remote_ips bridge_name w = (w', Inr ())"
  shows "\<exists>gs. links w' = kept_links (links w) @ gs \<and> length gs = length remote_ips \<and>
    (remote_ips \<noteq> [] \<longrightarrow> (\<exists>b\<in>set (kept_links (links w)). l_name b = network_interface_name bridge_name \<and>
       list_all2 (tunnel (nl_big_endian nl) local_ip (l_index b)) (List.enumerate 0 remote_ips) gs))"
proof -
  obtain w1 where 1: "remove_existing_interfaces nl w = (w1, Inr ())"
    and rest: "run_list (create_gre_interface nl local_ip bridge_name) (List.enumerate 0 remote_ips) w1 = (w', Inr ())"
    using assms(3) by (auto simp: setup_gre_interfaces_def run_iffs)
  note kept = remove_existing_ok [OF assms(1) 1]
  show ?thesis
  proof (cases "remote_ips = []")
    case True
    with rest kept show ?thesis by (simp add: return_ok_def)
  next
    case False
    then have "List.enumerate 0 remote_ips \<noteq> []" by (cases remote_ips) simp_all
    from create_gre_interfaces_ok [OF assms(1,2) rest this]
    obtain b gs where "b \<in> set (kept_links (links w))" "l_name b = network_interface_name bridge_name"
      "links w' = kept_links (links w) @ gs"
      "list_all2 (tunnel (nl_big_endian nl) local_ip (l_index b)) (List.enumerate 0 remote_ips) gs"
      unfolding kept by blast
    then show ?thesis by (auto dest: list_all2_lengthD)
  qed
qed

section \<open>A kernel\<close>

text \<open>
  A host that is nothing but its table of links, with the next free index; a request for a name
  in use, a name the kernel does not take or an index that is not there fails.
\<close>

typedef host_links = "{ls. proper_links ls}" by (rule exI [of _ "[]"]) (simp add: proper_links_def)

setup_lifting type_definition_host_links

lift_definition host_table :: "host_links \<Rightarrow> link list" is "\<lambda>ls. ls" .

lemma host_table_proper: "proper_links (host_table h)"
  by transfer simp

text \<open>Applying a change of the table that keeps it proper; otherwise the request fails.\<close>

lift_definition host_change :: "(link list \<Rightarrow> link list) \<Rightarrow> host_links \<Rightarrow> host_links" is
  "\<lambda>f ls. if proper_links (f ls) then f ls else ls" by simp

definition host_request :: "(link list \<Rightarrow> link list) \<Rightarrow> (host_links, string, unit) run" where
  "host_request f h =
     (if proper_links (f (host_table h)) then (host_change f h, Inr ()) else (h, Inl ''invalid argument''))"

lemma host_request_ok: "host_request f h = (h', Inr ()) \<Longrightarrow> host_table h' = f (host_table h)"
  by (auto simp: host_request_def split: if_splits) (transfer, simp)

definition kernel :: "host_links netlink" where
  "kernel = \<lparr> nl_big_endian = False,
     nl_get = (\<lambda>h. (h, Inr (map (\<lambda>l. (l_index l, Some (l_name l))) (host_table h)))),
     nl_add = (\<lambda>name kind. host_request (\<lambda>ls. ls @ [new_link (word_of_nat (Suc (length ls))) name kind])),
     nl_set_up = (\<lambda>i. host_request (change_link i (\<lambda>l. l\<lparr> l_up := True \<rparr>))),
     nl_set_down = (\<lambda>i. host_request (change_link i (\<lambda>l. l\<lparr> l_up := False \<rparr>))),
     nl_set_controller = (\<lambda>i m. host_request (change_link i (\<lambda>l. l\<lparr> l_master := Some m \<rparr>))),
     nl_del = (\<lambda>i. host_request (remove_links {i})),
     nl_command = (\<lambda>_ _. fail_with ''not found''),
     nl_command_debug = (\<lambda>_ _. []), nl_quoted = (\<lambda>s. s) \<rparr>"

lemma kernel_honest: "honest_netlink kernel host_table"
  unfolding honest_netlink_def kernel_def netlink.simps
  by (intro conjI allI impI; (drule host_request_ok)?; (erule exI)?; simp add: host_table_proper)

text \<open>A host with its Ethernet interface, its bridge and the GRE interface of an earlier cluster.\<close>

lift_definition sample_host_links :: host_links is
  "[\<lparr> l_index = 1, l_name = ''eth0'', l_up = True, l_master = Some 2, l_kind = OtherLink \<rparr>,
    \<lparr> l_index = 2, l_name = ''br-opendut'', l_up = True, l_master = None, l_kind = BridgeLink \<rparr>,
    \<lparr> l_index = 3, l_name = ''gre-opendut0'', l_up = True, l_master = Some 2, l_kind = OtherLink \<rparr>]"
  by (simp add: proper_links_def)

lemma sample_host_table: "host_table sample_host_links =
   [\<lparr> l_index = 1, l_name = ''eth0'', l_up = True, l_master = Some 2, l_kind = OtherLink \<rparr>,
    \<lparr> l_index = 2, l_name = ''br-opendut'', l_up = True, l_master = None, l_kind = BridgeLink \<rparr>,
    \<lparr> l_index = 3, l_name = ''gre-opendut0'', l_up = True, l_master = Some 2, l_kind = OtherLink \<rparr>]"
  by (simp only: host_table.rep_eq sample_host_links.rep_eq)

lemma host_request_eq: "proper_links (f (host_table h)) \<Longrightarrow>
    \<exists>h'. host_request f h = (h', Inr ()) \<and> host_table h' = f (host_table h)"
  unfolding host_request_def by transfer simp

lemma kernel_list: "list_interfaces kernel h = (h, Inr (map interface_of_link (host_table h)))"
proof -
  obtain found where "list_interfaces kernel h = (h, Inr found)"
    by (simp add: list_interfaces_def run_defs kernel_def)
  with list_interfaces_ok [OF kernel_honest this] show ?thesis by simp
qed

lemma kernel_find: "try_find_interface kernel name h =
    (h, ok_or (InterfaceNotFound name) (find (\<lambda>i. if_name i = name) (map interface_of_link (host_table h))))"
  by (simp add: try_find_interface_def find_interface_def kernel_list run_defs)

lemma kernel_request [simp]:
  "nl_add kernel name kind = host_request (\<lambda>ls. ls @ [new_link (word_of_nat (Suc (length ls))) name kind])"
  "nl_set_up kernel i = host_request (change_link i (\<lambda>l. l\<lparr> l_up := True \<rparr>))"
  "nl_set_controller kernel i m = host_request (change_link i (\<lambda>l. l\<lparr> l_master := Some m \<rparr>))"
  "nl_del kernel i = host_request (remove_links {i})"
  "nl_big_endian kernel = False"
  by (simp_all add: kernel_def)

lemma sample_setup_succeeds:
  "\<exists>h. setup_gre_interfaces kernel [10, 0, 0, 1] [[10, 0, 0, 2]] (NetworkInterfaceName ''br-opendut'') sample_host_links = (h, Inr ())"
proof -
  let ?kind = "gretap_v4 False [10, 0, 0, 1] [10, 0, 0, 2]"
  let ?base = "[\<lparr> l_index = 1, l_name = ''eth0'', l_up = True, l_master = Some 2, l_kind = OtherLink \<rparr>,
    \<lparr> l_index = 2, l_name = ''br-opendut'', l_up = True, l_master = None, l_kind = BridgeLink \<rparr>]"
  let ?gre = "\<lambda>up m. \<lparr> l_index = 3, l_name = ''gre-opendut0'', l_up = up, l_master = m, l_kind = ?kind \<rparr>"
  obtain h1 where 1: "host_request (remove_links {3}) sample_host_links = (h1, Inr ())" "host_table h1 = ?base"
    using host_request_eq [of "remove_links {3}" sample_host_links]
    by (auto simp: sample_host_table remove_links_def release_def proper_links_def)
  obtain h2 where 2: "host_request (\<lambda>ls. ls @ [new_link (word_of_nat (Suc (length ls))) ''gre-opendut0'' ?kind]) h1 = (h2, Inr ())"
    "host_table h2 = ?base @ [?gre False None]"
    using host_request_eq [of "\<lambda>ls. ls @ [new_link (word_of_nat (Suc (length ls))) ''gre-opendut0'' ?kind]" h1]
    by (auto simp: 1(2) new_link_def proper_links_def)
  obtain h3 where 3: "host_request (change_link 3 (\<lambda>l. l\<lparr> l_up := True \<rparr>)) h2 = (h3, Inr ())"
    "host_table h3 = ?base @ [?gre True None]"
    using host_request_eq [of "change_link 3 (\<lambda>l. l\<lparr> l_up := True \<rparr>)" h2]
    by (auto simp: 2(2) change_link_def proper_links_def)
  obtain h4 where 4: "host_request (change_link 3 (\<lambda>l. l\<lparr> l_master := Some 2 \<rparr>)) h3 = (h4, Inr ())"
    using host_request_eq [of "change_link 3 (\<lambda>l. l\<lparr> l_master := Some 2 \<rparr>)" h3]
    by (auto simp: 3(2) change_link_def proper_links_def)
  have name: "gre_interface_name 0 = Inr (NetworkInterfaceName ''gre-opendut0'')"
    by code_simp
  have remove: "remove_existing_interfaces kernel sample_host_links = (h1, Inr ())"
    using 1(1) by (simp add: remove_existing_interfaces_def kernel_list sample_host_table interface_of_link_def
        is_gre_name_def GRE_INTERFACE_NAME_PREFIX_def delete_interface_def run_defs)
  have "create_gre_interface kernel [10, 0, 0, 1] (NetworkInterfaceName ''br-opendut'') (0, [10, 0, 0, 2]) h1 = (h4, Inr ())"
    using 2(1) 3(1) 4
    by (simp add: create_gre_interface_def name create_gretap_v4_interface_def kernel_find set_interface_up_def
        join_interface_to_bridge_def 2(2) 3(2) interface_of_link_def run_defs)
  with remove show ?thesis by (simp add: setup_gre_interfaces_def run_defs)
qed

theorem gre_setup_makes_exactly_the_tunnels_witness:
  "\<exists>h g. setup_gre_interfaces kernel [10, 0, 0, 1] [[10, 0, 0, 2]] (NetworkInterfaceName ''br-opendut'') sample_host_links = (h, Inr ()) \<and>
     host_table h = kept_links (host_table sample_host_links) @ [g] \<and> is_gre_name (l_name g) \<and> l_up g"
proof -
  obtain h where h: "setup_gre_interfaces kernel [10, 0, 0, 1] [[10, 0, 0, 2]] (NetworkInterfaceName ''br-opendut'') sample_host_links = (h, Inr ())"
    using sample_setup_succeeds by blast
  have "\<not> is_gre_name (network_interface_name (NetworkInterfaceName ''br-opendut''))"
    by (simp add: is_gre_name_def GRE_INTERFACE_NAME_PREFIX_def)
  from gre_setup_makes_exactly_the_tunnels [OF kernel_honest this h]
  obtain gs where gs: "host_table h = kept_links (host_table sample_host_links) @ gs" "length gs = 1"
    and all: "\<exists>b. list_all2 (tunnel False [10, 0, 0, 1] b) (List.enumerate 0 [[10, 0, 0, 2]]) gs"
    by auto
  then obtain g b where "gs = [g]" "tunnel False [10, 0, 0, 1] b (0, [10, 0, 0, 2]) g"
    by (auto simp: length_Suc_conv)
  with h gs(1) tunnel_gre show ?thesis by (fastforce simp: tunnel_def)
qed

end
