(* ===== verification/EdgarCan.thy ===== *)
theory EdgarCan
  imports EdgarTunnels
begin

text \<open>
  EDGAR's CAN routing (opendut-edgar/src/service/can_manager.rs, cannelloni_manager.rs): routes
  between the CAN bridge and the local CAN interfaces, made with the program \<open>cangw\<close>, and the
  \<open>cannelloni\<close> processes that tunnel CAN frames to remote peers. Each generation of cannelloni
  managers shares a termination token, an atomic flag that is set when the next generation starts.
\<close>

section \<open>Errors\<close>

definition interface_display :: "Interface \<Rightarrow> string" where
  "interface_display i = ''['' @ show_nat (unat (if_index i)) @ '': '' @ network_interface_name (if_name i) @ '']''"

definition quoted_name :: "NetworkInterfaceName \<Rightarrow> string" where
  "quoted_name n = quote_char @ network_interface_name n @ quote_char"

fun network_error_message :: "NetworkError \<Rightarrow> string" where
  "network_error_message (BridgeCreation n c) = ''Failure while creating bridge '' @ quoted_name n @ '': '' @ c"
| "network_error_message (NetlinkConnecting c) = ''Failed to establish connection to netlink: '' @ c"
| "network_error_message (DeleteInterface i c) = ''Failure while deleting interface '' @ interface_display i @ '': '' @ c"
| "network_error_message (GretapCreation n c) = ''Failure while creating gretap interface '' @ quoted_name n @ '': '' @ c"
| "network_error_message (InterfaceNotFound n) = ''Interface with name '' @ quoted_name n @ '' not found.''"
| "network_error_message (ListInterfaces c) = ''Failure while listing interfaces: '' @ c"
| "network_error_message (SetInterfaceUp i c) =
     ''Failure while setting interface '' @ interface_display i @ '' to state '' @ quote_char @ ''up'' @ quote_char @ '': '' @ c"
| "network_error_message (SetInterfaceDown i c) =
     ''Failure while setting interface '' @ interface_display i @ '' to state '' @ quote_char @ ''down'' @ quote_char @ '': '' @ c"
| "network_error_message (JoinInterfaceToBridge i b c) =
     ''Failure while joining interface '' @ interface_display i @ '' to bridge '' @ interface_display b @ '': '' @ c"
| "network_error_message (VCanInterfaceCreation n c) =
     ''Failure while creating virtual CAN interface '' @ quoted_name n @ '': '' @ c"
| "network_error_message (CanInterfaceUpdate n c) = ''Failure during updating CAN interface '' @ quoted_name n @ '': '' @ c"
| "network_error_message (CommandLineProgramExecution p c) =
     ''Failure while invoking command line program '' @ quote_char @ p @ quote_char @ '': '' @ c"

datatype CanError =
    CanCommandExecution string string
  | CanRouteCreation NetworkInterfaceName NetworkInterfaceName string
  | CanRouteCreationNoCause NetworkInterfaceName NetworkInterfaceName
  | CanRouteFlushing string
  | CanOther string

section \<open>Routes\<close>

text \<open>
  The captures of the regular expression that reads the output of \<open>cangw -L\<close> (source, destination,
  the flag of CAN FD with the blank after it or nothing, hops) are a parameter.
\<close>

type_synonym captures = "string \<Rightarrow> (string \<times> string \<times> string \<times> string) list"

definition is_whitespace :: "char \<Rightarrow> bool" where
  "is_whitespace c \<longleftrightarrow> List.member [CHR '' '', CHR 0x09, CHR 0x0A, CHR 0x0B, CHR 0x0C, CHR 0x0D] c"

definition trim :: "string \<Rightarrow> string" where
  "trim s = rev (dropWhile is_whitespace (rev (dropWhile is_whitespace s)))"

definition check_can_route_exists ::
    "captures \<Rightarrow> 'w netlink \<Rightarrow> NetworkInterfaceName \<Rightarrow> NetworkInterfaceName \<Rightarrow> bool \<Rightarrow> byte \<Rightarrow> ('w, CanError, bool) run" where
  "check_can_route_exists captures nl src dst can_fd max_hops =
     and_then (map_run_err (CanCommandExecution ''cangw'') (nl_command nl ''cangw'' [''-L''])) (\<lambda>out.
     return_ok (list_ex (\<lambda>(exist_src, exist_dst, flag, hops).
       exist_src = network_interface_name src \<and> exist_dst = network_interface_name dst \<and>
       (trim flag = ''-X'') = can_fd \<and> hops = show_nat (unat max_hops)) (captures (out_stdout out))))"

definition can_route_arguments :: "NetworkInterfaceName \<Rightarrow> NetworkInterfaceName \<Rightarrow> bool \<Rightarrow> byte \<Rightarrow> string list" where
  "can_route_arguments src dst can_fd max_hops =
     [''-A'', ''-s'', network_interface_name src, ''-d'', network_interface_name dst, ''-e'', ''-l'',
      show_nat (unat max_hops)] @ (if can_fd then [''-X''] else [])"

definition create_can_route ::
    "captures \<Rightarrow> 'w netlink \<Rightarrow> NetworkInterfaceName \<Rightarrow> NetworkInterfaceName \<Rightarrow> bool \<Rightarrow> byte \<Rightarrow> ('w, CanError, unit) run" where
  "create_can_route captures nl src dst can_fd max_hops =
     and_then (map_run_err (CanCommandExecution ''cangw'')
       (nl_command nl ''cangw'' (can_route_arguments src dst can_fd max_hops))) (\<lambda>out.
     if \<not> out_success out then fail_with (CanRouteCreation src dst (nl_quoted nl (out_stderr out)))
     else and_then (check_can_route_exists captures nl src dst can_fd max_hops) (\<lambda>exists.
       if exists then return_ok () else fail_with (CanRouteCreationNoCause src dst)))"

definition remove_all_can_routes :: "'w netlink \<Rightarrow> ('w, CanError, unit) run" where
  "remove_all_can_routes nl =
     and_then (map_run_err (CanCommandExecution ''cangw'') (nl_command nl ''cangw'' [''-F''])) (\<lambda>out.
     if out_success out then return_ok () else fail_with (CanRouteFlushing (nl_quoted nl (out_stderr out))))"

definition create_can_bridge :: "'w netlink \<Rightarrow> NetworkInterfaceName \<Rightarrow> ('w, NetworkError, unit) run" where
  "create_can_bridge nl bridge_name =
     and_then (find_interface nl bridge_name) (\<lambda>found.
     case found of
       None \<Rightarrow> and_then (create_vcan_interface nl bridge_name) (set_interface_up nl)
     | Some _ \<Rightarrow> return_ok ())"

definition update_can_interface :: "'w netlink \<Rightarrow> NetworkInterfaceDescriptor \<Rightarrow> ('w, NetworkError, unit) run" where
  "update_can_interface nl descriptor =
     and_then (find_interface nl (ni_name descriptor)) (\<lambda>found.
     case found of
       Some i \<Rightarrow>
         and_then (set_interface_down nl i) (\<lambda>_.
         and_then (ignoring_error (update_interface nl descriptor)) (\<lambda>_.
         set_interface_up nl i))
     | None \<Rightarrow> return_ok ())"

definition can_route_requests ::
    "NetworkInterfaceName \<Rightarrow> NetworkInterfaceName \<Rightarrow> (NetworkInterfaceName \<times> NetworkInterfaceName \<times> bool) list" where
  "can_route_requests bridge name = [(bridge, name, True), (bridge, name, False), (name, bridge, True), (name, bridge, False)]"

definition route_can_interface ::
    "captures \<Rightarrow> 'w netlink \<Rightarrow> NetworkInterfaceName \<Rightarrow> NetworkInterfaceDescriptor \<Rightarrow> ('w, CanError, unit) run" where
  "route_can_interface captures nl bridge_name descriptor =
     and_then (ignoring_error (update_can_interface nl descriptor)) (\<lambda>_.
     run_list (\<lambda>(src, dst, can_fd). create_can_route captures nl src dst can_fd 2)
       (can_route_requests bridge_name (ni_name descriptor)))"

definition setup_local_routing ::
    "captures \<Rightarrow> 'w netlink \<Rightarrow> NetworkInterfaceName \<Rightarrow> NetworkInterfaceDescriptor list \<Rightarrow> ('w, CanError, unit) run" where
  "setup_local_routing captures nl bridge_name local_can_interfaces =
     and_then (map_run_err (\<lambda>cause. CanOther (''Error while creating CAN bridge: '' @ network_error_message cause))
       (create_can_bridge nl bridge_name)) (\<lambda>_.
     and_then (remove_all_can_routes nl) (\<lambda>_.
     run_list (route_can_interface captures nl bridge_name) local_can_interfaces))"

section \<open>Cannelloni managers and their generations\<close>

record Cannelloni =
  cl_is_server :: bool
  cl_can_if_name :: NetworkInterfaceName
  cl_server_port :: Port
  cl_remote_ip :: IpAddr
  cl_buffer_timeout_micros :: nat
  cl_token :: nat

text \<open>The atomic flags made so far, which of them is the current one, and the managers spawned.\<close>

record CanManager =
  cm_tokens :: "bool list"
  cm_current :: nat
  cm_spawned :: "Cannelloni list"

definition can_manager_create :: CanManager where
  "can_manager_create = \<lparr> cm_tokens = [False], cm_current = 0, cm_spawned = [] \<rparr>"

definition terminate_cannelloni_managers :: "CanManager \<Rightarrow> CanManager" where
  "terminate_cannelloni_managers m = m\<lparr> cm_tokens := (cm_tokens m)[cm_current m := True] \<rparr>"

definition new_token :: "CanManager \<Rightarrow> CanManager" where
  "new_token m = m\<lparr> cm_tokens := cm_tokens m @ [False], cm_current := length (cm_tokens m) \<rparr>"

definition spawn_cannelloni :: "bool \<Rightarrow> NetworkInterfaceName \<Rightarrow> Port \<Rightarrow> IpAddr \<Rightarrow> CanManager \<Rightarrow> CanManager" where
  "spawn_cannelloni is_server bridge_name port ip m =
     m\<lparr> cm_spawned := cm_spawned m @ [\<lparr> cl_is_server = is_server, cl_can_if_name = bridge_name, cl_server_port = port,
       cl_remote_ip = ip, cl_buffer_timeout_micros = 1, cl_token = cm_current m \<rparr>] \<rparr>"

definition setup_remote_routing_client :: "NetworkInterfaceName \<Rightarrow> IpAddr \<Rightarrow> Port \<Rightarrow> CanManager \<Rightarrow> CanManager" where
  "setup_remote_routing_client bridge_name leader_ip leader_port m =
     spawn_cannelloni False bridge_name leader_port leader_ip (new_token (terminate_cannelloni_managers m))"

definition setup_remote_routing_server :: "NetworkInterfaceName \<Rightarrow> PeerClusterAssignment list \<Rightarrow> CanManager \<Rightarrow> CanManager" where
  "setup_remote_routing_server bridge_name remote_assignments m =
     fold (\<lambda>a. spawn_cannelloni True bridge_name (pca_can_server_port a) (pca_vpn_address a)) remote_assignments
       (new_token (terminate_cannelloni_managers m))"

text \<open>The managers not asked to terminate.\<close>

definition active :: "CanManager \<Rightarrow> Cannelloni list" where
  "active m = filter (\<lambda>c. \<not> cm_tokens m ! cl_token c) (cm_spawned m)"

text \<open>Every manager has a token of the list, and all tokens but the current one are set.\<close>

definition wf_can :: "CanManager \<Rightarrow> bool" where
  "wf_can m \<longleftrightarrow> cm_current m < length (cm_tokens m) \<and> (\<forall>c\<in>set (cm_spawned m). cl_token c < length (cm_tokens m)) \<and>
     (\<forall>k<length (cm_tokens m). cm_tokens m ! k \<longleftrightarrow> k \<noteq> cm_current m)"

lemma wf_can_create: "wf_can can_manager_create"
  by (simp add: wf_can_def can_manager_create_def)

lemma new_generation:
  assumes "wf_can m"
  shows "wf_can (new_token (terminate_cannelloni_managers m)) \<and> active (new_token (terminate_cannelloni_managers m)) = []"
  using assms
  by (auto simp: wf_can_def new_token_def terminate_cannelloni_managers_def active_def nth_append nth_list_update
      filter_empty_conv less_Suc_eq)

lemma spawn_active:
  assumes "wf_can m"
  shows "wf_can (spawn_cannelloni s b p ip m) \<and> cm_current (spawn_cannelloni s b p ip m) = cm_current m \<and>
    active (spawn_cannelloni s b p ip m) = active m @ [\<lparr> cl_is_server = s, cl_can_if_name = b, cl_server_port = p,
       cl_remote_ip = ip, cl_buffer_timeout_micros = 1, cl_token = cm_current m \<rparr>]"
  using assms by (auto simp: wf_can_def spawn_cannelloni_def active_def)

lemma spawn_servers:
  assumes "wf_can m"
  shows "wf_can (fold (\<lambda>a. spawn_cannelloni True b (pca_can_server_port a) (pca_vpn_address a)) as m) \<and>
    active (fold (\<lambda>a. spawn_cannelloni True b (pca_can_server_port a) (pca_vpn_address a)) as m) =
      active m @ map (\<lambda>a. \<lparr> cl_is_server = True, cl_can_if_name = b, cl_server_port = pca_can_server_port a,
        cl_remote_ip = pca_vpn_address a, cl_buffer_timeout_micros = 1, cl_token = cm_current m \<rparr>) as"
  using assms
proof (induction "as" arbitrary: m)
  case (Cons a "as")
  from spawn_active [OF Cons.prems, of True b "pca_can_server_port a" "pca_vpn_address a"] Cons.IH
  show ?case by simp
qed simp

text \<open>starting a generation of cannelloni managers, as client or as server, asks every earlier manager
  to terminate and leaves exactly the new ones running: one client to the leader, or one server
  for each remote member with its port and address. The bookkeeping stays consistent.\<close>

lemma new_generation_replaces_old:
  assumes "wf_can m"
  shows "wf_can (setup_remote_routing_client b ip port m) \<and> wf_can (setup_remote_routing_server b as m) \<and>
    map (\<lambda>c. (cl_is_server c, cl_can_if_name c, cl_server_port c, cl_remote_ip c)) (active (setup_remote_routing_client b ip port m)) =
      [(False, b, port, ip)] \<and>
    map (\<lambda>c. (cl_is_server c, cl_can_if_name c, cl_server_port c, cl_remote_ip c)) (active (setup_remote_routing_server b as m)) =
      map (\<lambda>a. (True, b, pca_can_server_port a, pca_vpn_address a)) as"
proof -
  let ?m = "new_token (terminate_cannelloni_managers m)"
  have m: "wf_can ?m" "active ?m = []" using new_generation [OF assms] by simp_all
  show ?thesis
    using spawn_active [OF m(1), of False b port ip] spawn_servers [OF m(1), of b "as"] m(2)
    by (simp add: setup_remote_routing_client_def setup_remote_routing_server_def)
qed

section \<open>A cannelloni manager (cannelloni_manager.rs)\<close>

definition cannelloni_arguments :: "(IpAddr \<Rightarrow> string) \<Rightarrow> Cannelloni \<Rightarrow> string list" where
  "cannelloni_arguments ip_text c =
     [''-I'', network_interface_name (cl_can_if_name c), ''-S'', (if cl_is_server c then ''s'' else ''c''),
      ''-t'', show_nat (cl_buffer_timeout_micros c), ''-R'', ip_text (cl_remote_ip c),
      (if cl_is_server c then ''-l'' else ''-r''), show_nat (unat (port_value (cl_server_port c)))]"

text \<open>
  The loop of \<open>run_internal\<close> and \<open>monitor_process\<close>: where it stands, whether the process it last
  spawned runs, whether the termination token is set, and how many processes it has spawned.
\<close>

datatype CannelloniError = CannelloniExecution string | CannelloniOther string

datatype monitor_phase =
    Spawning
  | Monitoring
  | RestartCannelloni
  | TerminateManager
  | Returned "CannelloniError + unit"

record cannelloni_run =
  cr_phase :: monitor_phase
  cr_alive :: bool
  cr_token :: bool
  cr_spawned :: nat

inductive cannelloni_step :: "cannelloni_run \<Rightarrow> cannelloni_run \<Rightarrow> bool" where
  spawned: "cr_phase r = Spawning \<Longrightarrow>
    cannelloni_step r (r\<lparr> cr_phase := Monitoring, cr_alive := True, cr_spawned := Suc (cr_spawned r) \<rparr>)"
| not_spawned: "cr_phase r = Spawning \<Longrightarrow> cannelloni_step r (r\<lparr> cr_phase := Returned (Inl (CannelloniExecution cause)) \<rparr>)"
| process_exits: "cr_alive r \<Longrightarrow> cannelloni_step r (r\<lparr> cr_alive := False \<rparr>)"
| token_set: "cannelloni_step r (r\<lparr> cr_token := True \<rparr>)"
| found_exited: "cr_phase r = Monitoring \<Longrightarrow> \<not> cr_alive r \<Longrightarrow> cannelloni_step r (r\<lparr> cr_phase := RestartCannelloni \<rparr>)"
| found_token: "cr_phase r = Monitoring \<Longrightarrow> cr_alive r \<or> wait_failed \<Longrightarrow> cr_token r \<Longrightarrow>
    cannelloni_step r (r\<lparr> cr_phase := TerminateManager \<rparr>)"
| slept: "cr_phase r = RestartCannelloni \<Longrightarrow> cannelloni_step r (r\<lparr> cr_phase := Spawning \<rparr>)"
| killed: "cr_phase r = TerminateManager \<Longrightarrow> cannelloni_step r (r\<lparr> cr_phase := Returned (Inr ()), cr_alive := False \<rparr>)"
| not_killed: "cr_phase r = TerminateManager \<Longrightarrow> cannelloni_step r (r\<lparr> cr_phase := Returned (Inl (CannelloniOther cause)) \<rparr>)"

definition cannelloni_start :: cannelloni_run where
  "cannelloni_start = \<lparr> cr_phase = Spawning, cr_alive = False, cr_token = False, cr_spawned = 0 \<rparr>"

inductive cannelloni_reachable :: "cannelloni_run \<Rightarrow> bool" where
  start: "cannelloni_reachable cannelloni_start"
| step: "cannelloni_reachable r \<Longrightarrow> cannelloni_step r r' \<Longrightarrow> cannelloni_reachable r'"

inductive_cases cannelloni_stepE: "cannelloni_step r r'"

text \<open>No process runs when one is about to be spawned, or when the manager has finished.\<close>

definition one_process :: "cannelloni_run \<Rightarrow> bool" where
  "one_process r \<longleftrightarrow>
     (cr_phase r = Spawning \<or> cr_phase r = RestartCannelloni \<or> cr_phase r = Returned (Inr ()) \<longrightarrow> \<not> cr_alive r) \<and>
     (cr_phase r = TerminateManager \<or> cr_phase r = Returned (Inr ()) \<longrightarrow> cr_token r)"


lemma restarted: "cannelloni_reachable \<lparr> cr_phase = Spawning, cr_alive = False, cr_token = True, cr_spawned = n \<rparr>"
proof (induction n)
  case 0
  from cannelloni_reachable.step [OF cannelloni_reachable.start token_set]
  show ?case by (simp add: cannelloni_start_def)
next
  case (Suc n)
  note run = cannelloni_reachable.step
  from run [OF Suc spawned]
  have 1: "cannelloni_reachable \<lparr> cr_phase = Monitoring, cr_alive = True, cr_token = True, cr_spawned = Suc n \<rparr>" by simp
  from run [OF 1 process_exits]
  have 2: "cannelloni_reachable \<lparr> cr_phase = Monitoring, cr_alive = False, cr_token = True, cr_spawned = Suc n \<rparr>" by simp
  from run [OF 2 found_exited]
  have 3: "cannelloni_reachable \<lparr> cr_phase = RestartCannelloni, cr_alive = False, cr_token = True, cr_spawned = Suc n \<rparr>" by simp
  from run [OF 3 slept] show ?case by simp
qed


text \<open>the token does not bound the number of processes: the manager looks at it only after it has
  found its process running, so one whose processes exit at once restarts them any number of
  times although it was asked to terminate.\<close>

lemma terminated_manager_keeps_restarting:
  "\<exists>r. cannelloni_reachable r \<and> cr_token r \<and> cr_spawned r = n \<and> cr_phase r = Spawning"
  by (rule exI [of _ "\<lparr> cr_phase = Spawning, cr_alive = False, cr_token = True, cr_spawned = n \<rparr>"]) (simp add: restarted)

end
