(* ===== verification/EdgarCluster.thy ===== *)
theory EdgarCluster
  imports EdgarCan
begin

text \<open>
  What EDGAR makes of a cluster assignment (opendut-edgar/src/service/cluster_assignment.rs): which
  remote peers it connects to over GRE, which device interfaces it joins to the bridge, and whether
  it serves or uses CAN tunnels. The last section shows that what the members do fits together.
\<close>

section \<open>Errors\<close>

datatype AssignmentError =
    BridgeRecreationFailed NetworkError
  | LocalPeerAssignmentNotFound PeerId
  | LeaderNotDeterminable
  | Ipv6NotSupported
  | GreInterfaceSetupFailed GreError
  | LocalCanRoutingSetupFailed CanError
  | RemoteCanRoutingSetupFailed CanError
  | JoinDeviceInterfaceToBridgeFailed NetworkError

text \<open>A method returns an error of the enum or panics.\<close>

datatype assignment_fault = AssignmentFailed AssignmentError | AssignmentPanic string

section \<open>Who connects to whom\<close>

definition local_peer_assignment :: "ClusterAssignment \<Rightarrow> PeerId \<Rightarrow> AssignmentError + PeerClusterAssignment" where
  "local_peer_assignment a self_id =
     ok_or (LocalPeerAssignmentNotFound self_id) (find (\<lambda>m. pca_peer_id m = self_id) (ca_assignments a))"

definition determine_leader_assignment :: "ClusterAssignment \<Rightarrow> AssignmentError + PeerClusterAssignment" where
  "determine_leader_assignment a =
     ok_or LeaderNotDeterminable (find (\<lambda>m. pca_peer_id m = ca_leader a) (ca_assignments a))"

definition determine_remote_assignments ::
    "ClusterAssignment \<Rightarrow> PeerId \<Rightarrow> AssignmentError + PeerClusterAssignment list" where
  "determine_remote_assignments a self_id =
     (if ca_leader a = self_id then Inr (filter (\<lambda>m. pca_peer_id m \<noteq> self_id) (ca_assignments a))
      else map_ok (\<lambda>leader. [leader]) (determine_leader_assignment a))"

definition determine_remote_ips :: "ClusterAssignment \<Rightarrow> PeerId \<Rightarrow> AssignmentError + IpAddr list" where
  "determine_remote_ips a self_id = map_ok (map pca_vpn_address) (determine_remote_assignments a self_id)"

fun require_ipv4_for_gre :: "IpAddr \<Rightarrow> AssignmentError + byte list" where
  "require_ipv4_for_gre (V4 octets) = Inr octets"
| "require_ipv4_for_gre (V6 _) = Inl Ipv6NotSupported"

section \<open>Ethernet\<close>

definition setup_ethernet_gre_interfaces ::
    "'w netlink \<Rightarrow> ClusterAssignment \<Rightarrow> PeerId \<Rightarrow> NetworkInterfaceName \<Rightarrow> ('w, AssignmentError, unit) run" where
  "setup_ethernet_gre_interfaces nl a self_id bridge_name =
     and_then (lift_result (local_peer_assignment a self_id)) (\<lambda>local.
     and_then (lift_result (require_ipv4_for_gre (pca_vpn_address local))) (\<lambda>local_ip.
     and_then (lift_result (determine_remote_ips a self_id)) (\<lambda>ips.
     and_then (lift_result (traverse require_ipv4_for_gre ips)) (\<lambda>remote_ips.
     map_run_err GreInterfaceSetupFailed (setup_gre_interfaces nl local_ip remote_ips bridge_name)))))"

definition is_ethernet :: "DeviceInterface Parameter \<Rightarrow> bool" where
  "is_ethernet p \<longleftrightarrow> ni_configuration (di_descriptor (param_value p)) = Ethernet"

definition filter_ethernet_interfaces :: "DeviceInterface Parameter list \<Rightarrow> DeviceInterface Parameter list" where
  "filter_ethernet_interfaces ps = filter is_ethernet ps"

definition filter_can_interfaces :: "DeviceInterface Parameter list \<Rightarrow> DeviceInterface Parameter list" where
  "filter_can_interfaces ps = filter (\<lambda>p. case ni_configuration (di_descriptor (param_value p)) of
     Can _ _ _ _ _ \<Rightarrow> True | _ \<Rightarrow> False) ps"

definition present_values :: "'v Parameter list \<Rightarrow> 'v list" where
  "present_values ps = map param_value (filter (\<lambda>p. param_target p = Present) ps)"

definition join_device_interfaces_to_bridge ::
    "'w netlink \<Rightarrow> DeviceInterface list \<Rightarrow> NetworkInterfaceName \<Rightarrow> ('w, NetworkError, unit) run" where
  "join_device_interfaces_to_bridge nl device_interfaces bridge_name =
     and_then (try_find_interface nl bridge_name) (\<lambda>bridge.
     run_list (\<lambda>d. and_then (try_find_interface nl (ni_name (di_descriptor d))) (\<lambda>i.
       join_interface_to_bridge nl i bridge)) device_interfaces)"

definition join_ethernet_interfaces_to_bridge ::
    "'w netlink \<Rightarrow> DeviceInterface Parameter list \<Rightarrow> NetworkInterfaceName \<Rightarrow> ('w, AssignmentError, unit) run" where
  "join_ethernet_interfaces_to_bridge nl device_interfaces bridge_name =
     map_run_err JoinDeviceInterfaceToBridgeFailed
       (join_device_interfaces_to_bridge nl (present_values (filter_ethernet_interfaces device_interfaces)) bridge_name)"

section \<open>CAN\<close>

definition default_can_bridge_name :: NetworkInterfaceName where
  "default_can_bridge_name = NetworkInterfaceName ''br-vcan-opendut''"

definition no_root_panic :: string where
  "no_root_panic = ''CARL requested to setup CAN interfaces, but EDGAR is not running with root permissions, which is currently required.''"

definition on_host :: "('w, 'e, 'a) run \<Rightarrow> ('w \<times> CanManager, 'e, 'a) run" where
  "on_host f = (\<lambda>(w, m). case f w of (w', r) \<Rightarrow> ((w', m), r))"

definition on_can_manager :: "(CanManager \<Rightarrow> CanManager) \<Rightarrow> ('w \<times> CanManager, 'e, unit) run" where
  "on_can_manager f = (\<lambda>(w, m). ((w, f m), Inr ()))"

definition route_remotely ::
    "ClusterAssignment \<Rightarrow> PeerId \<Rightarrow> ('w \<times> CanManager, AssignmentError, unit) run" where
  "route_remotely a self_id =
     and_then (lift_result (local_peer_assignment a self_id)) (\<lambda>local.
     if ca_leader a = self_id
     then and_then (lift_result (determine_remote_assignments a self_id)) (\<lambda>remotes.
       on_can_manager (setup_remote_routing_server default_can_bridge_name remotes))
     else and_then (lift_result (determine_leader_assignment a)) (\<lambda>leader.
       on_can_manager (setup_remote_routing_client default_can_bridge_name (pca_vpn_address leader) (pca_can_server_port local))))"

definition setup_can_interfaces ::
    "captures \<Rightarrow> 'w netlink \<Rightarrow> bool \<Rightarrow> ClusterAssignment \<Rightarrow> PeerId \<Rightarrow> DeviceInterface Parameter list \<Rightarrow>
     ('w \<times> CanManager, assignment_fault, unit) run" where
  "setup_can_interfaces captures nl running_as_user a self_id device_interfaces =
     (let can_interfaces = map di_descriptor (present_values (filter_can_interfaces device_interfaces)) in
      if running_as_user
      then (if can_interfaces = [] then return_ok () else fail_with (AssignmentPanic no_root_panic))
      else map_run_err AssignmentFailed
        (and_then (map_run_err LocalCanRoutingSetupFailed
           (on_host (setup_local_routing captures nl default_can_bridge_name can_interfaces))) (\<lambda>_.
         route_remotely a self_id)))"

section \<open>The members' views fit together\<close>

text \<open>An assignment as CARL makes it: one entry for each member, the leader among them.\<close>

definition proper_assignment :: "ClusterAssignment \<Rightarrow> bool" where
  "proper_assignment a \<longleftrightarrow> distinct (map pca_peer_id (ca_assignments a)) \<and>
     ca_leader a \<in> pca_peer_id ` set (ca_assignments a)"

lemma same_member:
  "distinct (map f xs) \<Longrightarrow> x \<in> set xs \<Longrightarrow> y \<in> set xs \<Longrightarrow> f x = f y \<Longrightarrow> x = y"
  by (simp add: distinct_map inj_on_def)

lemma length_others:
  "distinct (map f xs) \<Longrightarrow> x \<in> set xs \<Longrightarrow> length (filter (\<lambda>y. f y \<noteq> f x) xs) = length xs - 1"
proof (induction xs)
  case (Cons y ys)
  show ?case
  proof (cases "y = x")
    case True
    with Cons.prems have "filter (\<lambda>z. f z \<noteq> f x) ys = ys" by (intro filter_True) (auto simp: image_iff)
    with True show ?thesis by simp
  next
    case False
    with Cons have "x \<in> set ys" "f y \<noteq> f x" by (auto dest: same_member [of f "y # ys" y x])
    with Cons show ?thesis by (cases ys) auto
  qed
qed simp

lemma find_member:
  assumes "distinct (map pca_peer_id ms)" "m \<in> set ms"
  shows "find (\<lambda>n. pca_peer_id n = pca_peer_id m) ms = Some m"
proof -
  obtain n where "find (\<lambda>n. pca_peer_id n = pca_peer_id m) ms = Some n"
    using assms(2) find_eq_None [of "\<lambda>n. pca_peer_id n = pca_peer_id m" ms] by fastforce
  moreover from find_SomeD [OF this] assms have "n = m" by (auto simp: distinct_map dest: inj_onD)
  ultimately show ?thesis by simp
qed

lemma leader_assignment:
  assumes "proper_assignment a" "l \<in> set (ca_assignments a)" "pca_peer_id l = ca_leader a"
  shows "determine_leader_assignment a = Inr l"
  using assms find_member [of "ca_assignments a" l] by (simp add: determine_leader_assignment_def proper_assignment_def)

lemma remote_assignments:
  assumes "proper_assignment a" "m \<in> set (ca_assignments a)"
  obtains rs where "determine_remote_assignments a (pca_peer_id m) = Inr rs"
    "set rs = {n \<in> set (ca_assignments a). (pca_peer_id n = ca_leader a) \<noteq> (pca_peer_id m = ca_leader a)}"
proof (cases "pca_peer_id m = ca_leader a")
  case True
  then show ?thesis by (intro that) (auto simp: determine_remote_assignments_def)
next
  case False
  obtain l where l: "l \<in> set (ca_assignments a)" "pca_peer_id l = ca_leader a"
    using assms(1) by (auto simp: proper_assignment_def)
  have only: "n = l" if "n \<in> set (ca_assignments a)" "pca_peer_id n = ca_leader a" for n
    using assms(1) l that same_member [of pca_peer_id "ca_assignments a" n l] by (simp add: proper_assignment_def)
  have "{n \<in> set (ca_assignments a). (pca_peer_id n = ca_leader a) \<noteq> (pca_peer_id m = ca_leader a)} = {l}"
    using False l only by blast
  moreover have "determine_remote_assignments a (pca_peer_id m) = Inr [l]"
    using False leader_assignment [OF assms(1) l] by (simp add: determine_remote_assignments_def)
  ultimately show ?thesis by (intro that [of "[l]"]) simp_all
qed

text \<open>C25: the tunnels of a cluster form a star around its leader. No member fails to find its remote
  peers; of two members each connects to the other or neither does, and they connect exactly
  when one of them is the leader. So every tunnel has both its ends, every member reaches every
  other over the leader, and the joined bridges contain no loop.\<close>

theorem tunnels_form_a_star:
  assumes "proper_assignment a" "m \<in> set (ca_assignments a)" "n \<in> set (ca_assignments a)"
  shows "\<exists>ms ns. determine_remote_assignments a (pca_peer_id m) = Inr ms \<and>
    determine_remote_assignments a (pca_peer_id n) = Inr ns \<and>
    (n \<in> set ms \<longleftrightarrow> m \<in> set ns) \<and>
    (n \<in> set ms \<longleftrightarrow> (pca_peer_id m = ca_leader a) \<noteq> (pca_peer_id n = ca_leader a))"
proof -
  obtain ms where ms: "determine_remote_assignments a (pca_peer_id m) = Inr ms"
    "set ms = {k \<in> set (ca_assignments a). (pca_peer_id k = ca_leader a) \<noteq> (pca_peer_id m = ca_leader a)}"
    by (rule remote_assignments [OF assms(1,2)])
  obtain ns where ns: "determine_remote_assignments a (pca_peer_id n) = Inr ns"
    "set ns = {k \<in> set (ca_assignments a). (pca_peer_id k = ca_leader a) \<noteq> (pca_peer_id n = ca_leader a)}"
    by (rule remote_assignments [OF assms(1,3)])
  have "n \<in> set ms \<longleftrightarrow> (pca_peer_id m = ca_leader a) \<noteq> (pca_peer_id n = ca_leader a)"
    "m \<in> set ns \<longleftrightarrow> (pca_peer_id m = ca_leader a) \<noteq> (pca_peer_id n = ca_leader a)"
    unfolding ms(2) ns(2) using assms(2,3) by auto
  with ms(1) ns(1) show ?thesis by blast
qed

definition sample_member :: "nat \<Rightarrow> byte \<Rightarrow> PeerClusterAssignment" where
  "sample_member n host = \<lparr> pca_peer_id = PeerId (word_of_nat n), pca_vpn_address = V4 [10, 0, 0, host],
     pca_can_server_port = Port (10000 + word_of_nat n) \<rparr>"

definition three_members :: ClusterAssignment where
  "three_members = \<lparr> ca_id = ClusterId 5, ca_leader = PeerId 1,
     ca_assignments = [sample_member 1 11, sample_member 2 12, sample_member 3 13] \<rparr>"

lemma three_members_proper: "proper_assignment three_members"
  by (simp add: proper_assignment_def three_members_def sample_member_def)

theorem tunnels_form_a_star_witness:
  "\<exists>ms ns. determine_remote_assignments three_members (PeerId 1) = Inr ms \<and>
     determine_remote_assignments three_members (PeerId 2) = Inr ns \<and>
     sample_member 2 12 \<in> set ms \<and> sample_member 1 11 \<in> set ns"
  using tunnels_form_a_star [OF three_members_proper, of "sample_member 1 11" "sample_member 2 12"]
  by (auto simp: three_members_def sample_member_def)



end
