(* ===== verification/EdgarTasks.thy ===== *)
theory EdgarTasks
  imports EdgarCluster
begin

text \<open>
  EDGAR's task runner (opendut-edgar/src/common/task): tasks that check whether they are needed,
  make a change to the host, and are checked again. The runner reports an outcome for each task it
  comes to and stops at the first that fails; it returns no error. A task may panic.
\<close>

datatype TaskFulfilled = FulfilledYes | FulfilledNo | FulfilledUnchecked

datatype RunMode = Setup | SetupDryRun | Service

datatype Outcome = Changed "string option" | DryRun | Unchanged | OutcomeFailed

datatype 'e task_fault = TaskError 'e | TaskPanic string

text \<open>A \<open>dyn Task\<close>; \<open>Success\<close> is its optional message.\<close>

record ('w, 'e) Task =
  task_description :: string
  task_check_fulfilled :: "('w, 'e task_fault, TaskFulfilled) run"
  task_execute :: "('w, 'e task_fault, string option) run"

text \<open>One task: its outcome, or the panic that unwinds the runner.\<close>

definition check_after :: "('w, 'e) Task \<Rightarrow> string option \<Rightarrow> ('w, string, Outcome) run" where
  "check_after t success w =
     (case task_check_fulfilled t w of
        (w', Inl (TaskPanic m)) \<Rightarrow> (w', Inl m)
      | (w', Inl (TaskError _)) \<Rightarrow> (w', Inr OutcomeFailed)
      | (w', Inr FulfilledNo) \<Rightarrow> (w', Inr OutcomeFailed)
      | (w', Inr _) \<Rightarrow> (w', Inr (Changed success)))"

definition execute_task :: "('w, 'e) Task \<Rightarrow> ('w, string, Outcome) run" where
  "execute_task t w =
     (case task_execute t w of
        (w', Inl (TaskPanic m)) \<Rightarrow> (w', Inl m)
      | (w', Inl (TaskError _)) \<Rightarrow> (w', Inr OutcomeFailed)
      | (w', Inr success) \<Rightarrow> check_after t success w')"

definition run_task :: "RunMode \<Rightarrow> ('w, 'e) Task \<Rightarrow> ('w, string, Outcome) run" where
  "run_task mode t w =
     (case task_check_fulfilled t w of
        (w', Inl (TaskPanic m)) \<Rightarrow> (w', Inl m)
      | (w', Inl (TaskError _)) \<Rightarrow> (w', Inr OutcomeFailed)
      | (w', Inr FulfilledYes) \<Rightarrow> (w', Inr Unchanged)
      | (w', Inr _) \<Rightarrow> if mode = SetupDryRun then (w', Inr DryRun) else execute_task t w')"

text \<open>The outcomes printed, in the order of the tasks.\<close>

fun run_tasks :: "RunMode \<Rightarrow> ('w, 'e) Task list \<Rightarrow> ('w, string, Outcome list) run" where
  "run_tasks mode [] w = (w, Inr [])"
| "run_tasks mode (t # ts) w =
     (case run_task mode t w of
        (w', Inl m) \<Rightarrow> (w', Inl m)
      | (w', Inr OutcomeFailed) \<Rightarrow> (w', Inr [OutcomeFailed])
      | (w', Inr outcome) \<Rightarrow>
          (case run_tasks mode ts w' of
             (w'', Inl m) \<Rightarrow> (w'', Inl m)
           | (w'', Inr outcomes) \<Rightarrow> (w'', Inr (outcome # outcomes))))"

text \<open>What is printed of an outcome when nobody watches (\<open>message\<close> in \<open>print_outcome\<close>).\<close>

fun outcome_message :: "string \<Rightarrow> Outcome \<Rightarrow> string" where
  "outcome_message name (Changed None) = ''Task succeeded: '' @ name"
| "outcome_message name (Changed (Some m)) = ''Task succeeded: '' @ name @ '' ('' @ m @ '')''"
| "outcome_message name DryRun = ''Task succeeded: '' @ name @ '' (Needs Change)''"
| "outcome_message name Unchanged = ''Task succeeded: '' @ name @ '' (Unchanged)''"
| "outcome_message name OutcomeFailed = ''Task failed: '' @ name"

section \<open>What a run of tasks does\<close>

text \<open>A task whose check only looks.\<close>

definition check_is_pure :: "('w, 'e) Task \<Rightarrow> bool" where
  "check_is_pure t \<longleftrightarrow> (\<forall>w. fst (task_check_fulfilled t w) = w)"

lemma run_task_cases:
  assumes "check_is_pure t" "run_task mode t w = (w', Inr outcome)"
  obtains (unchanged) "outcome = Unchanged" "w' = w" "snd (task_check_fulfilled t w) = Inr FulfilledYes"
  | (dry) "outcome = DryRun" "w' = w" "mode = SetupDryRun"
  | (changed) success where "outcome = Changed success" "mode \<noteq> SetupDryRun" "task_execute t w = (w', Inr success)"
      "snd (task_check_fulfilled t w') \<in> {Inr FulfilledYes, Inr FulfilledUnchecked}"
  | (failed) "outcome = OutcomeFailed"
proof -
  obtain r where r: "task_check_fulfilled t w = (w, r)"
    using assms(1) by (metis check_is_pure_def prod.collapse)
  have after: "fst (task_check_fulfilled t u) = u" for u using assms(1) by (simp add: check_is_pure_def)
  consider (fault) f where "r = Inl f" | (yes) "r = Inr FulfilledYes" | (no) "r = Inr FulfilledNo" | (always) "r = Inr FulfilledUnchecked"
    by (metis TaskFulfilled.exhaust old.sum.exhaust)
  then show thesis
  proof cases
    case fault
    with assms(2) r show thesis by (intro that(4)) (auto simp: run_task_def split: task_fault.splits)
  next
    case yes
    with assms(2) r show thesis by (intro that(1)) (auto simp: run_task_def)
  next
    case no
    with assms(2) r after show thesis
      using that by (auto simp: run_task_def execute_task_def check_after_def split: if_splits prod.splits sum.splits
        task_fault.splits TaskFulfilled.splits) (metis fst_conv insertCI snd_conv)+
  next
    case always
    with assms(2) r after show thesis
      using that by (auto simp: run_task_def execute_task_def check_after_def split: if_splits prod.splits sum.splits
        task_fault.splits TaskFulfilled.splits) (metis fst_conv insertCI snd_conv)+
  qed
qed

lemma run_tasks_fulfilled:
  assumes "\<forall>t\<in>set ts. snd (task_check_fulfilled t w) = Inr FulfilledYes" "\<forall>t\<in>set ts. check_is_pure t"
  shows "run_tasks mode ts w = (w, Inr (map (\<lambda>_. Unchanged) ts))"
  using assms
proof (induction ts)
  case (Cons t ts)
  then have "task_check_fulfilled t w = (w, Inr FulfilledYes)"
    by (metis check_is_pure_def list.set_intros(1) prod.collapse)
  with Cons show ?case by (simp add: run_task_def)
qed simp

lemma run_tasks_Cons_ok:
  assumes "run_tasks mode (t # ts) w = (w', Inr os)" "OutcomeFailed \<notin> set os"
  obtains w1 outcome rest where "run_task mode t w = (w1, Inr outcome)" "outcome \<noteq> OutcomeFailed"
    "run_tasks mode ts w1 = (w', Inr rest)" "os = outcome # rest"
  using assms by (auto split: prod.splits sum.splits Outcome.splits)

text \<open>Tasks that do not undo one another, and whose check always says yes or no.\<close>

definition independent_tasks :: "('w, 'e) Task list \<Rightarrow> bool" where
  "independent_tasks ts \<longleftrightarrow>
     (\<forall>t\<in>set ts. check_is_pure t \<and> (\<forall>w. snd (task_check_fulfilled t w) \<noteq> Inr FulfilledUnchecked)) \<and>
     (\<forall>t\<in>set ts. \<forall>u\<in>set ts. \<forall>w w' success. task_execute u w = (w', Inr success) \<and>
        snd (task_check_fulfilled t w) = Inr FulfilledYes \<longrightarrow> snd (task_check_fulfilled t w') = Inr FulfilledYes)"

lemma run_tasks_establishes:
  assumes "independent_tasks all" "mode \<noteq> SetupDryRun" "set ts \<subseteq> set all"
    and "run_tasks mode ts w = (w', Inr os)" "OutcomeFailed \<notin> set os"
    and "t \<in> set ts \<or> t \<in> set all \<and> snd (task_check_fulfilled t w) = Inr FulfilledYes"
  shows "snd (task_check_fulfilled t w') = Inr FulfilledYes"
  using assms(3-)
proof (induction ts arbitrary: w os)
  case (Cons u ts)
  obtain w1 outcome rest where 1: "run_task mode u w = (w1, Inr outcome)" "outcome \<noteq> OutcomeFailed"
    and rest: "run_tasks mode ts w1 = (w', Inr rest)" "os = outcome # rest"
    using run_tasks_Cons_ok [OF Cons.prems(2,3)] by blast
  have u: "u \<in> set all" "check_is_pure u" "\<And>w. snd (task_check_fulfilled u w) \<noteq> Inr FulfilledUnchecked"
    using Cons.prems(1) assms(1) by (auto simp: independent_tasks_def)
  from u(2) 1(1) have "snd (task_check_fulfilled u w1) = Inr FulfilledYes \<and>
      (t \<in> set all \<and> snd (task_check_fulfilled t w) = Inr FulfilledYes \<longrightarrow> snd (task_check_fulfilled t w1) = Inr FulfilledYes)"
  proof (cases rule: run_task_cases)
    case (changed success)
    then have "snd (task_check_fulfilled u w1) = Inr FulfilledYes" using u(3) [of w1] by auto
    with changed u(1) assms(1) show ?thesis unfolding independent_tasks_def by blast
  qed (use 1(2) assms(2) in auto)
  with Cons.prems(1,4) have "t \<in> set ts \<or> t \<in> set all \<and> snd (task_check_fulfilled t w1) = Inr FulfilledYes"
    by auto
  with Cons.IH [of w1 rest] Cons.prems rest show ?case by auto
qed simp

text \<open>a dry run changes nothing: when the tasks' checks only look at the host, running them in the
  mode \<open>SetupDryRun\<close> leaves the host as it was, whatever the tasks would do.\<close>

lemma dry_run_changes_nothing:
  assumes "\<forall>t\<in>set ts. check_is_pure t"
  shows "fst (run_tasks SetupDryRun ts w) = w"
  using assms
proof (induction ts)
  case (Cons t ts)
  then have pure: "\<And>w. fst (task_check_fulfilled t w) = w" by (simp add: check_is_pure_def)
  obtain r where r: "task_check_fulfilled t w = (w, r)" using pure by (metis prod.collapse)
  have "fst (run_task SetupDryRun t w) = w"
    using r by (auto simp: run_task_def split: sum.split task_fault.split TaskFulfilled.split)
  then obtain q where "run_task SetupDryRun t w = (w, q)" by (metis prod.collapse)
  with Cons show ?case by (auto split: sum.split Outcome.split prod.split)
qed simp


text \<open>A task that puts a name into a list, unless it is there.\<close>

definition sample_task :: "string \<Rightarrow> (string list, string) Task" where
  "sample_task name = \<lparr> task_description = name,
     task_check_fulfilled = (\<lambda>w. (w, Inr (if name \<in> set w then FulfilledYes else FulfilledNo))),
     task_execute = (\<lambda>w. (w @ [name], Inr None)) \<rparr>"


end
