(* ===== verification/ProtoUtil.thy ===== *)
theory ProtoUtil
  imports PeerConfiguration
begin

text \<open>
  The wire format (opendut-types/src/proto): the \<open>conversion!\<close> macro and the messages of
  proto/util.rs. Every model type has a message type, a total \<open>from\<close> and a partial \<open>try_from\<close>.
  The locale \<open>conversion\<close> is the contract of such a pair: a value that was sent arrives, up to a
  normalisation of what the wire cannot express. Message types follow the .proto files: a
  singular message field is an \<open>option\<close>, a \<open>oneof\<close> an optional datatype.
\<close>

section \<open>Errors and contract (proto/mod.rs)\<close>

text \<open>
  \<open>ConversionError\<close> carries the names of the two types and the details; \<open>SlicePanic\<close> is the panic
  of a slice index out of range, which \<open>try_from\<close> of the IP addresses can reach.
\<close>

datatype conversion_fault =
    ConversionError (conv_from: string) (conv_to: string) (conv_details: string)
  | SlicePanic (slice_end: nat)

type_synonym 'm conversion_result = "conversion_fault + 'm"

text \<open>Messages quote the type names in backquotes.\<close>

definition backquote :: string where
  "backquote = [char_of (96::nat)]"

definition conversion_error_message :: "string \<Rightarrow> string \<Rightarrow> string \<Rightarrow> string" where
  "conversion_error_message frm to details =
     ''Could not convert from '' @ backquote @ frm @ backquote @ '' to '' @ backquote @ to @
     backquote @ '': '' @ details"

definition field_not_set :: "string \<Rightarrow> string \<Rightarrow> string \<Rightarrow> conversion_fault" where
  "field_not_set frm to field =
     ConversionError frm to (''Field '' @ quote_char @ field @ quote_char @ '' not set'')"

definition extract_field :: "string \<Rightarrow> string \<Rightarrow> string \<Rightarrow> 'a option \<Rightarrow> 'a conversion_result" where
  "extract_field frm to field opt = ok_or (field_not_set frm to field) opt"

lemma extract_field_Some [simp]: "extract_field f t n (Some a) = Inr a"
  by (simp add: extract_field_def)

lemma extract_field_None [simp]: "extract_field f t n None = Inl (field_not_set f t n)"
  by (simp add: extract_field_def)

locale conversion =
  fixes to_proto :: "'m \<Rightarrow> 'p"
    and from_proto :: "'p \<Rightarrow> 'm conversion_result"
    and ok :: "'m \<Rightarrow> bool"
    and norm :: "'m \<Rightarrow> 'm"
  assumes trip [simp]: "ok m \<Longrightarrow> from_proto (to_proto m) = Inr (norm m)"
    and norm_ok: "ok m \<Longrightarrow> ok (norm m)"
    and norm_norm: "norm (norm m) = norm m"
begin

lemma trips [simp]: "\<forall>m\<in>set ms. ok m \<Longrightarrow> traverse from_proto (map to_proto ms) = Inr (map norm ms)"
  by (simp add: traverse_map traverse_Inr)

lemma trip_option [simp]:
  "\<forall>m. opt = Some m \<longrightarrow> ok m \<Longrightarrow> transpose_map from_proto (map_option to_proto opt) = Inr (map_option norm opt)"
  by (cases opt) simp_all

lemma second_trip: "ok m \<Longrightarrow> from_proto (to_proto (norm m)) = Inr (norm m)"
  by (simp add: norm_ok norm_norm)

lemma same_message: "ok m \<Longrightarrow> ok n \<Longrightarrow> to_proto m = to_proto n \<Longrightarrow> norm m = norm n"
  by (metis trip sum.inject(2))

end

locale exact_conversion = conversion to_proto from_proto ok "\<lambda>m. m"
  for to_proto :: "'m \<Rightarrow> 'p" and from_proto and ok
begin

lemma inject: "ok m \<Longrightarrow> ok n \<Longrightarrow> to_proto m = to_proto n \<longleftrightarrow> m = n"
  using same_message by auto

end

lemma exact_conversionI:
  "(\<And>m. ok m \<Longrightarrow> from_proto (to_proto m) = Inr m) \<Longrightarrow> exact_conversion to_proto from_proto ok"
  by (simp add: exact_conversion_def conversion_def)

section \<open>Identifiers and small values (proto/util.rs)\<close>

record ProtoUuid =
  msb :: u64
  lsb :: u64

definition uuid_to_proto :: "ext \<Rightarrow> uuid \<Rightarrow> ProtoUuid" where
  "uuid_to_proto x u = (case as_u64_pair x u of (m, l) \<Rightarrow> \<lparr> msb = m, lsb = l \<rparr>)"

definition uuid_from_proto :: "ext \<Rightarrow> ProtoUuid \<Rightarrow> uuid" where
  "uuid_from_proto x p = from_u64_pair x (msb p, lsb p)"

lemma uuid_proto_trip [simp]: "ext_ok x \<Longrightarrow> uuid_from_proto x (uuid_to_proto x u) = u"
proof -
  assume x: "ext_ok x"
  obtain m l where ml: "as_u64_pair x u = (m, l)" by (cases "as_u64_pair x u")
  have "from_u64_pair x (m, l) = u" using ext_okD(1) [OF x, of u] unfolding ml .
  then show ?thesis by (simp add: uuid_from_proto_def uuid_to_proto_def ml)
qed

datatype ProtoHostname = ProtoHostname (proto_hostname_value: string)

definition hostname_to_proto :: "Hostname \<Rightarrow> ProtoHostname" where
  "hostname_to_proto h = ProtoHostname (hostname_value h)"

definition hostname_from_proto :: "ProtoHostname \<Rightarrow> Hostname" where
  "hostname_from_proto p = Hostname (proto_hostname_value p)"

datatype ProtoPort = ProtoPort (proto_port_value: u32)

definition port_to_proto :: "Port \<Rightarrow> ProtoPort" where
  "port_to_proto p = ProtoPort (ucast (port_value p))"

definition port_from_proto :: "ProtoPort \<Rightarrow> Port conversion_result" where
  "port_from_proto p =
     (if unat (proto_port_value p) < 2 ^ 16 then Inr (Port (ucast (proto_port_value p)))
      else Inl (ConversionError ''proto::util::Port'' ''util::Port'' ''Port value is out of range''))"

lemma port_from_proto_iff:
  "port_from_proto p = Inr q \<longleftrightarrow> unat (port_value q) = unat (proto_port_value p)"
proof (cases p; cases q)
  fix v w
  assume pq: "p = ProtoPort v" "q = Port w"
  have "unat (ucast v :: u16) = unat v mod 2 ^ 16"
    by (simp add: unsigned_ucast_eq take_bit_eq_mod)
  moreover have "unat w < 2 ^ 16" using unsigned_less [of w] by simp
  ultimately show ?thesis
    by (auto simp: pq port_from_proto_def word_unat_eq_iff)
qed

interpretation port_conversion: exact_conversion port_to_proto port_from_proto "\<lambda>_. True"
proof (rule exact_conversionI)
  fix m :: Port
  have "unat (port_value m) < 2 ^ 16"
    using unsigned_less [of "port_value m", where 'a = nat] by simp
  then have "take_bit 32 (unat (port_value m)) = unat (port_value m)"
    by (intro take_bit_nat_eq_self) simp
  then show "port_from_proto (port_to_proto m) = Inr m"
    by (simp add: port_from_proto_iff port_to_proto_def unsigned_ucast_eq)
qed

datatype ProtoUrl = ProtoUrl (proto_url_value: string)

definition url_to_proto :: "ext \<Rightarrow> url \<Rightarrow> ProtoUrl" where
  "url_to_proto x u = ProtoUrl (url_to_string x u)"

definition url_from_proto :: "ext \<Rightarrow> ProtoUrl \<Rightarrow> url conversion_result" where
  "url_from_proto x p =
     map_err (\<lambda>cause. ConversionError ''proto::util::Url'' ''url::Url'' (''Url could not be parsed: '' @ cause))
       (url_parse x (proto_url_value p))"

interpretation url_conversion: exact_conversion "url_to_proto x" "url_from_proto x" "\<lambda>_. ext_ok x" for x
  by (rule exact_conversionI) (simp add: url_to_proto_def url_from_proto_def)

section \<open>IP addresses\<close>

text \<open>
  \<open>value.value[0..N]\<close> panics when there are fewer than \<open>N\<close> bytes and drops the bytes after the
  first \<open>N\<close>; the length check behind it therefore never fails.
\<close>

definition octets_from_proto :: "string \<Rightarrow> string \<Rightarrow> nat \<Rightarrow> byte list \<Rightarrow> byte list conversion_result" where
  "octets_from_proto frm to n bytes =
     (if length bytes < n then Inl (SlicePanic n)
      else let octets = take n bytes in
        if length octets = n then Inr octets
        else Inl (ConversionError frm to ''address did not have the correct length''))"

datatype ProtoIpV4Address = ProtoIpV4Address (proto_ipv4_value: "byte list")

datatype ProtoIpV6Address = ProtoIpV6Address (proto_ipv6_value: "byte list")

datatype ProtoAddress = ProtoIpV4 ProtoIpV4Address | ProtoIpV6 ProtoIpV6Address

datatype ProtoIpAddress = ProtoIpAddress (proto_address: "ProtoAddress option")

definition ipv4_from_proto :: "ProtoIpV4Address \<Rightarrow> byte list conversion_result" where
  "ipv4_from_proto p = octets_from_proto ''proto::util::IpV4Address'' ''std::net::Ipv4Addr'' 4 (proto_ipv4_value p)"

definition ipv6_from_proto :: "ProtoIpV6Address \<Rightarrow> byte list conversion_result" where
  "ipv6_from_proto p = octets_from_proto ''proto::util::IpV6Address'' ''std::net::Ipv6Addr'' 16 (proto_ipv6_value p)"

fun ip_to_proto :: "IpAddr \<Rightarrow> ProtoIpAddress" where
  "ip_to_proto (V4 octets) = ProtoIpAddress (Some (ProtoIpV4 (ProtoIpV4Address octets)))"
| "ip_to_proto (V6 octets) = ProtoIpAddress (Some (ProtoIpV6 (ProtoIpV6Address octets)))"

text \<open>The cause of a failed inner conversion becomes the message; a panic stays a panic.\<close>

fun wrap_cause :: "string \<Rightarrow> string \<Rightarrow> conversion_fault \<Rightarrow> conversion_fault" where
  "wrap_cause frm to (ConversionError f t d) = ConversionError frm to (conversion_error_message f t d)"
| "wrap_cause frm to (SlicePanic n) = SlicePanic n"

definition ip_from_proto :: "ProtoIpAddress \<Rightarrow> IpAddr conversion_result" where
  "ip_from_proto p =
     bind_sum (extract_field ''proto::util::IpAddress'' ''std::net::IpAddr'' ''address'' (proto_address p))
       (\<lambda>address. case address of
          ProtoIpV4 a \<Rightarrow> map_ok V4 (map_err (wrap_cause ''proto::util::IpAddress'' ''std::net::IpAddr'') (ipv4_from_proto a))
        | ProtoIpV6 a \<Rightarrow> map_ok V6 (map_err (wrap_cause ''proto::util::IpAddress'' ''std::net::IpAddr'') (ipv6_from_proto a)))"

interpretation ip_conversion: exact_conversion ip_to_proto ip_from_proto wf_ip
proof (rule exact_conversionI)
  fix m
  assume "wf_ip m"
  then show "ip_from_proto (ip_to_proto m) = Inr m"
    by (cases m) (simp_all add: ip_from_proto_def ipv4_from_proto_def ipv6_from_proto_def octets_from_proto_def)
qed

lemma octets_from_proto_Inr_iff:
  "octets_from_proto f t n bytes = Inr octets \<longleftrightarrow> n \<le> length bytes \<and> octets = take n bytes"
  by (auto simp: octets_from_proto_def)

lemma ip_from_proto_wf:
  assumes "ip_from_proto p = Inr a"
  shows "wf_ip a"
proof -
  obtain address where "proto_address p = Some address"
    using assms by (cases "proto_address p") (simp_all add: ip_from_proto_def)
  with assms show ?thesis
    by (cases address)
      (auto simp: ip_from_proto_def ipv4_from_proto_def ipv6_from_proto_def octets_from_proto_Inr_iff sum_iffs)
qed

section \<open>Network interfaces\<close>

datatype ProtoNetworkInterfaceName = ProtoNetworkInterfaceName (proto_interface_name: string)

definition network_interface_name_to_proto :: "NetworkInterfaceName \<Rightarrow> ProtoNetworkInterfaceName" where
  "network_interface_name_to_proto m = ProtoNetworkInterfaceName (network_interface_name m)"

definition network_interface_name_from_proto :: "ProtoNetworkInterfaceName \<Rightarrow> NetworkInterfaceName conversion_result" where
  "network_interface_name_from_proto p =
     map_err (\<lambda>cause. ConversionError ''proto::util::NetworkInterfaceName'' ''util::net::NetworkInterfaceName'' (''Failed to parse InterfaceName from proto: '' @ network_interface_name_error_message cause))
       (network_interface_name_try_from (proto_interface_name p))"

interpretation network_interface_name_conversion: exact_conversion network_interface_name_to_proto network_interface_name_from_proto valid_network_interface_name
  by (rule exact_conversionI) (simp add: network_interface_name_to_proto_def network_interface_name_from_proto_def network_interface_name.parse_print)

datatype ProtoNetworkInterfaceId = ProtoNetworkInterfaceId (proto_interface_uuid: "ProtoUuid option")

definition network_interface_id_to_proto :: "ext \<Rightarrow> NetworkInterfaceId \<Rightarrow> ProtoNetworkInterfaceId" where
  "network_interface_id_to_proto x m = ProtoNetworkInterfaceId (Some (uuid_to_proto x (interface_uuid m)))"

definition network_interface_id_from_proto :: "ext \<Rightarrow> ProtoNetworkInterfaceId \<Rightarrow> NetworkInterfaceId conversion_result" where
  "network_interface_id_from_proto x p =
     map_ok (\<lambda>u. NetworkInterfaceId (uuid_from_proto x u))
       (extract_field ''proto::util::NetworkInterfaceId'' ''util::net::NetworkInterfaceId'' ''uuid'' (proto_interface_uuid p))"

interpretation network_interface_id_conversion:
  exact_conversion "network_interface_id_to_proto x" "network_interface_id_from_proto x" "\<lambda>_. ext_ok x" for x
  by (rule exact_conversionI) (simp add: network_interface_id_to_proto_def network_interface_id_from_proto_def)

record ProtoCertificate =
  proto_cert_tag :: string
  proto_cert_content :: "byte list"

definition certificate_to_proto :: "Certificate \<Rightarrow> ProtoCertificate" where
  "certificate_to_proto c = \<lparr> proto_cert_tag = cert_tag c, proto_cert_content = cert_contents c \<rparr>"

definition certificate_from_proto :: "ProtoCertificate \<Rightarrow> Certificate conversion_result" where
  "certificate_from_proto p = Inr \<lparr> cert_tag = proto_cert_tag p, cert_contents = proto_cert_content p \<rparr>"

interpretation certificate_conversion:
  exact_conversion certificate_to_proto certificate_from_proto "\<lambda>_. True"
  by (rule exact_conversionI) (simp add: certificate_to_proto_def certificate_from_proto_def)

record ProtoCanInterfaceConfiguration =
  pcan_bitrate :: u32
  pcan_sample_point :: u32
  pcan_flexible_data_rate :: bool
  pcan_data_bitrate :: u32
  pcan_data_sample_point :: u32

datatype ProtoInterfaceConfiguration = ProtoEthernet | ProtoCan ProtoCanInterfaceConfiguration

record ProtoNetworkInterfaceDescriptor =
  pni_id :: "ProtoNetworkInterfaceId option"
  pni_name :: "ProtoNetworkInterfaceName option"
  pni_configuration :: "ProtoInterfaceConfiguration option"

fun interface_configuration_to_proto :: "NetworkInterfaceConfiguration \<Rightarrow> ProtoInterfaceConfiguration" where
  "interface_configuration_to_proto Ethernet = ProtoEthernet"
| "interface_configuration_to_proto (Can b sp f db dsp) =
     ProtoCan \<lparr> pcan_bitrate = b, pcan_sample_point = sample_point_times_1000 sp,
       pcan_flexible_data_rate = f, pcan_data_bitrate = db,
       pcan_data_sample_point = sample_point_times_1000 dsp \<rparr>"

definition sample_point_from_proto :: "u32 \<Rightarrow> CanSamplePoint conversion_result" where
  "sample_point_from_proto v =
     map_err (\<lambda>cause. ConversionError ''proto::util::NetworkInterfaceDescriptor''
         ''util::net::NetworkInterfaceDescriptor''
         (''Sample point could not be converted: '' @ can_sample_point_error_message cause))
       (can_sample_point_try_from v)"

fun interface_configuration_from_proto ::
    "ProtoInterfaceConfiguration \<Rightarrow> NetworkInterfaceConfiguration conversion_result" where
  "interface_configuration_from_proto ProtoEthernet = Inr Ethernet"
| "interface_configuration_from_proto (ProtoCan c) =
     bind_sum (sample_point_from_proto (pcan_sample_point c)) (\<lambda>sp.
     bind_sum (sample_point_from_proto (pcan_data_sample_point c)) (\<lambda>dsp.
       Inr (Can (pcan_bitrate c) sp (pcan_flexible_data_rate c) (pcan_data_bitrate c) dsp)))"

lemma sample_point_trip [simp]:
  "valid_sample_point p \<Longrightarrow> sample_point_from_proto (sample_point_times_1000 p) = Inr p"
  by (simp add: sample_point_from_proto_def sum_iffs can_sample_point_Inr_iff)

interpretation interface_configuration_conversion:
  exact_conversion interface_configuration_to_proto interface_configuration_from_proto
    wf_interface_configuration
proof (rule exact_conversionI)
  fix m
  assume "wf_interface_configuration m"
  then show "interface_configuration_from_proto (interface_configuration_to_proto m) = Inr m"
    by (cases m) simp_all
qed

definition network_interface_to_proto ::
    "ext \<Rightarrow> NetworkInterfaceDescriptor \<Rightarrow> ProtoNetworkInterfaceDescriptor" where
  "network_interface_to_proto x m =
     \<lparr> pni_id = Some (network_interface_id_to_proto x (ni_id m)),
       pni_name = Some (network_interface_name_to_proto (ni_name m)),
       pni_configuration = Some (interface_configuration_to_proto (ni_configuration m)) \<rparr>"

definition network_interface_from_proto ::
    "ext \<Rightarrow> ProtoNetworkInterfaceDescriptor \<Rightarrow> NetworkInterfaceDescriptor conversion_result" where
  "network_interface_from_proto x p =
     bind_sum (bind_sum (extract_field ''proto::util::NetworkInterfaceDescriptor''
         ''util::net::NetworkInterfaceDescriptor'' ''id'' (pni_id p)) (network_interface_id_from_proto x)) (\<lambda>id.
     bind_sum (bind_sum (extract_field ''proto::util::NetworkInterfaceDescriptor''
         ''util::net::NetworkInterfaceDescriptor'' ''name'' (pni_name p)) network_interface_name_from_proto) (\<lambda>name.
     bind_sum (bind_sum (extract_field ''proto::util::NetworkInterfaceDescriptor''
         ''util::net::NetworkInterfaceDescriptor'' ''configuration'' (pni_configuration p))
         interface_configuration_from_proto) (\<lambda>configuration.
       Inr \<lparr> ni_id = id, ni_name = name, ni_configuration = configuration \<rparr>)))"

interpretation network_interface_conversion:
  exact_conversion "network_interface_to_proto x" "network_interface_from_proto x"
    "\<lambda>m. ext_ok x \<and> wf_interface m" for x
  by (rule exact_conversionI)
    (simp add: network_interface_to_proto_def network_interface_from_proto_def wf_interface_def)

section \<open>Credentials\<close>

datatype ProtoClientSecret = ProtoClientSecret (proto_client_secret: string)

definition client_secret_to_proto :: "ClientSecret \<Rightarrow> ProtoClientSecret" where
  "client_secret_to_proto m = ProtoClientSecret (client_secret_value m)"

definition client_secret_from_proto :: "ProtoClientSecret \<Rightarrow> ClientSecret conversion_result" where
  "client_secret_from_proto p =
     map_err (\<lambda>cause. ConversionError ''proto::util::ClientSecret'' ''util::net::ClientSecret'' (illegal_client_secret_message cause))
       (client_secret_try_from (proto_client_secret p))"

interpretation client_secret_conversion: exact_conversion client_secret_to_proto client_secret_from_proto valid_client_secret
  by (rule exact_conversionI) (simp add: client_secret_to_proto_def client_secret_from_proto_def client_secret.parse_print)

datatype ProtoClientId = ProtoClientId (proto_client_id: string)

definition client_id_to_proto :: "ClientId \<Rightarrow> ProtoClientId" where
  "client_id_to_proto m = ProtoClientId (client_id_value m)"

definition client_id_from_proto :: "ProtoClientId \<Rightarrow> ClientId conversion_result" where
  "client_id_from_proto p =
     map_err (\<lambda>cause. ConversionError ''proto::util::ClientId'' ''util::net::ClientId'' (illegal_client_id_message cause))
       (client_id_try_from (proto_client_id p))"

interpretation client_id_conversion: exact_conversion client_id_to_proto client_id_from_proto valid_client_id
  by (rule exact_conversionI) (simp add: client_id_to_proto_def client_id_from_proto_def client_id.parse_print)

datatype ProtoOAuthScope = ProtoOAuthScope (proto_oauth_scope: string)

definition oauth_scope_to_proto :: "OAuthScope \<Rightarrow> ProtoOAuthScope" where
  "oauth_scope_to_proto m = ProtoOAuthScope (oauth_scope_value m)"

definition oauth_scope_from_proto :: "ProtoOAuthScope \<Rightarrow> OAuthScope conversion_result" where
  "oauth_scope_from_proto p =
     map_err (\<lambda>cause. ConversionError ''proto::util::OAuthScope'' ''util::net::OAuthScope'' (illegal_oauth_scope_message cause))
       (oauth_scope_try_from (proto_oauth_scope p))"

interpretation oauth_scope_conversion: exact_conversion oauth_scope_to_proto oauth_scope_from_proto valid_oauth_scope
  by (rule exact_conversionI) (simp add: oauth_scope_to_proto_def oauth_scope_from_proto_def oauth_scope.parse_print)

record ProtoAuthConfigEnabled =
  pauth_issuer_url :: "ProtoUrl option"
  pauth_client_id :: "ProtoClientId option"
  pauth_client_secret :: "ProtoClientSecret option"
  pauth_scopes :: "ProtoOAuthScope list"

datatype ProtoAuth = ProtoAuthEnabled ProtoAuthConfigEnabled | ProtoAuthDisabled

datatype ProtoAuthConfig = ProtoAuthConfig (proto_auth_config: "ProtoAuth option")

fun auth_config_to_proto :: "ext \<Rightarrow> AuthConfig \<Rightarrow> ProtoAuthConfig" where
  "auth_config_to_proto x AuthDisabled = ProtoAuthConfig (Some ProtoAuthDisabled)"
| "auth_config_to_proto x (AuthEnabled issuer cid secret ss) =
     ProtoAuthConfig (Some (ProtoAuthEnabled
       \<lparr> pauth_issuer_url = Some (url_to_proto x issuer),
         pauth_client_id = Some (client_id_to_proto cid),
         pauth_client_secret = Some (client_secret_to_proto secret),
         pauth_scopes = map oauth_scope_to_proto ss \<rparr>))"

definition auth_config_from_proto :: "ext \<Rightarrow> ProtoAuthConfig \<Rightarrow> AuthConfig conversion_result" where
  "auth_config_from_proto x p =
     bind_sum (extract_field ''proto::util::AuthConfig'' ''util::net::AuthConfig'' ''config''
          (proto_auth_config p)) (\<lambda>config.
        case config of
          ProtoAuthDisabled \<Rightarrow> Inr AuthDisabled
        | ProtoAuthEnabled a \<Rightarrow>
            bind_sum (bind_sum (extract_field ''proto::util::AuthConfig'' ''util::net::AuthConfig''
                ''issuer_url'' (pauth_issuer_url a))
              (\<lambda>u. map_err (\<lambda>cause. ConversionError ''proto::util::AuthConfig'' ''util::net::AuthConfig''
                  (''Authorization Provider Issuer URL could not be parsed: '' @ cause))
                (url_parse x (proto_url_value u)))) (\<lambda>issuer.
            bind_sum (bind_sum (extract_field ''proto::util::AuthConfig'' ''util::net::AuthConfig''
                ''client_id'' (pauth_client_id a)) client_id_from_proto) (\<lambda>cid.
            bind_sum (bind_sum (extract_field ''proto::util::AuthConfig'' ''util::net::AuthConfig''
                ''client_secret'' (pauth_client_secret a)) client_secret_from_proto) (\<lambda>secret.
            bind_sum (traverse oauth_scope_from_proto (pauth_scopes a)) (\<lambda>ss.
              Inr (AuthEnabled issuer cid secret ss))))))"

interpretation auth_config_conversion:
  exact_conversion "auth_config_to_proto x" "auth_config_from_proto x" "\<lambda>m. ext_ok x \<and> wf_auth m" for x
proof (rule exact_conversionI)
  fix m
  assume "ext_ok x \<and> wf_auth m"
  then show "auth_config_from_proto x (auth_config_to_proto x m) = Inr m"
    by (cases m) (simp_all add: auth_config_from_proto_def url_to_proto_def)
qed

end
