(* ===== verification/ProtoCluster.thy ===== *)
theory ProtoCluster
  imports ProtoUtil
begin

text \<open>
  The messages of proto/topology.rs and proto/cluster.rs with their conversions. The wire cannot
  express a device without a description: \<open>None\<close> is sent as the empty description, so the
  conversion of a device is exact only up to \<open>norm_device\<close>.
\<close>

section \<open>Topology (proto/topology.rs)\<close>

datatype ProtoDeviceId = ProtoDeviceId (proto_device_uuid: "ProtoUuid option")

definition device_id_to_proto :: "ext \<Rightarrow> DeviceId \<Rightarrow> ProtoDeviceId" where
  "device_id_to_proto x m = ProtoDeviceId (Some (uuid_to_proto x (device_uuid m)))"

definition device_id_from_proto :: "ext \<Rightarrow> ProtoDeviceId \<Rightarrow> DeviceId conversion_result" where
  "device_id_from_proto x p =
     map_ok (\<lambda>u. DeviceId (uuid_from_proto x u))
       (extract_field ''proto::topology::DeviceId'' ''topology::DeviceId'' ''uuid'' (proto_device_uuid p))"

interpretation device_id_conversion:
  exact_conversion "device_id_to_proto x" "device_id_from_proto x" "\<lambda>_. ext_ok x" for x
  by (rule exact_conversionI) (simp add: device_id_to_proto_def device_id_from_proto_def)

datatype ProtoDeviceName = ProtoDeviceName (proto_device_name: string)

definition device_name_to_proto :: "DeviceName \<Rightarrow> ProtoDeviceName" where
  "device_name_to_proto m = ProtoDeviceName (device_name_value m)"

definition device_name_from_proto :: "ProtoDeviceName \<Rightarrow> DeviceName conversion_result" where
  "device_name_from_proto p =
     map_err (\<lambda>cause. ConversionError ''proto::topology::DeviceName'' ''topology::DeviceName'' (illegal_device_name_message cause))
       (device_name_try_from (proto_device_name p))"

interpretation device_name_conversion: exact_conversion device_name_to_proto device_name_from_proto valid_device_name
  by (rule exact_conversionI) (simp add: device_name_to_proto_def device_name_from_proto_def device_name.parse_print)

datatype ProtoDeviceTag = ProtoDeviceTag (proto_device_tag: string)

definition device_tag_to_proto :: "DeviceTag \<Rightarrow> ProtoDeviceTag" where
  "device_tag_to_proto m = ProtoDeviceTag (device_tag_value m)"

definition device_tag_from_proto :: "ProtoDeviceTag \<Rightarrow> DeviceTag conversion_result" where
  "device_tag_from_proto p =
     map_err (\<lambda>cause. ConversionError ''proto::topology::DeviceTag'' ''topology::DeviceTag'' (illegal_device_tag_message cause))
       (device_tag_try_from (proto_device_tag p))"

interpretation device_tag_conversion: exact_conversion device_tag_to_proto device_tag_from_proto valid_device_tag
  by (rule exact_conversionI) (simp add: device_tag_to_proto_def device_tag_from_proto_def device_tag.parse_print)

datatype ProtoDeviceDescription = ProtoDeviceDescription (proto_device_description: string)

fun unwrap_or_default :: "'a \<Rightarrow> 'a option \<Rightarrow> 'a" where
  "unwrap_or_default d None = d"
| "unwrap_or_default d (Some a) = a"

definition device_description_to_proto :: "DeviceDescription option \<Rightarrow> ProtoDeviceDescription" where
  "device_description_to_proto m =
     ProtoDeviceDescription (device_description_value (unwrap_or_default device_description_default m))"

definition device_description_from_proto :: "ProtoDeviceDescription \<Rightarrow> DeviceDescription conversion_result" where
  "device_description_from_proto p =
     map_err (\<lambda>cause. ConversionError ''proto::topology::DeviceDescription'' ''topology::DeviceDescription''
         (illegal_device_description_message cause))
       (device_description_try_from (proto_device_description p))"

lemma device_description_trip [simp]:
  "(\<And>d. m = Some d \<Longrightarrow> valid_device_description d) \<Longrightarrow>
     device_description_from_proto (device_description_to_proto m) =
     Inr (unwrap_or_default device_description_default m)"
  by (cases m) (simp_all add: device_description_from_proto_def device_description_to_proto_def
      device_description.parse_print)

record ProtoDeviceDescriptor =
  pdev_id :: "ProtoDeviceId option"
  pdev_name :: "ProtoDeviceName option"
  pdev_description :: "ProtoDeviceDescription option"
  pdev_interface :: "ProtoNetworkInterfaceId option"
  pdev_tags :: "ProtoDeviceTag list"

definition device_to_proto :: "ext \<Rightarrow> DeviceDescriptor \<Rightarrow> ProtoDeviceDescriptor" where
  "device_to_proto x m =
     \<lparr> pdev_id = Some (device_id_to_proto x (dev_id m)),
       pdev_name = Some (device_name_to_proto (dev_name m)),
       pdev_description = Some (device_description_to_proto (dev_description m)),
       pdev_interface = Some (network_interface_id_to_proto x (dev_interface m)),
       pdev_tags = map device_tag_to_proto (dev_tags m) \<rparr>"

definition device_from_proto :: "ext \<Rightarrow> ProtoDeviceDescriptor \<Rightarrow> DeviceDescriptor conversion_result" where
  "device_from_proto x p =
     bind_sum (bind_sum (extract_field ''proto::topology::DeviceDescriptor'' ''topology::DeviceDescriptor''
         ''id'' (pdev_id p)) (device_id_from_proto x)) (\<lambda>device_id.
     bind_sum (bind_sum (extract_field ''proto::topology::DeviceDescriptor'' ''topology::DeviceDescriptor''
         ''name'' (pdev_name p)) device_name_from_proto) (\<lambda>device_name.
     bind_sum (transpose_map device_description_from_proto (pdev_description p)) (\<lambda>device_description.
     bind_sum (bind_sum (extract_field ''proto::topology::DeviceDescriptor'' ''topology::DeviceDescriptor''
         ''interface'' (pdev_interface p)) (network_interface_id_from_proto x)) (\<lambda>interface.
     bind_sum (traverse device_tag_from_proto (pdev_tags p)) (\<lambda>device_tags.
       Inr \<lparr> dev_id = device_id, dev_name = device_name, dev_description = device_description,
             dev_interface = interface, dev_tags = device_tags \<rparr>)))))"

definition norm_device :: "DeviceDescriptor \<Rightarrow> DeviceDescriptor" where
  "norm_device d =
     d\<lparr> dev_description := Some (unwrap_or_default device_description_default (dev_description d)) \<rparr>"

lemma wf_norm_device [simp]: "wf_device d \<Longrightarrow> wf_device (norm_device d)"
  by (cases "dev_description d") (simp_all add: wf_device_def norm_device_def)

lemma norm_norm_device [simp]: "norm_device (norm_device d) = norm_device d"
  by (simp add: norm_device_def)

interpretation device_conversion:
  conversion "device_to_proto x" "device_from_proto x" "\<lambda>d. ext_ok x \<and> wf_device d" norm_device for x
proof
  fix m
  assume "ext_ok x \<and> wf_device m"
  then show "device_from_proto x (device_to_proto x m) = Inr (norm_device m)"
    by (simp add: device_to_proto_def device_from_proto_def wf_device_def norm_device_def)
qed simp_all

datatype ProtoTopology = ProtoTopology (proto_device_descriptors: "ProtoDeviceDescriptor list")

definition topology_to_proto :: "ext \<Rightarrow> Topology \<Rightarrow> ProtoTopology" where
  "topology_to_proto x m = ProtoTopology (map (device_to_proto x) (topology_devices m))"

definition topology_from_proto :: "ext \<Rightarrow> ProtoTopology \<Rightarrow> Topology conversion_result" where
  "topology_from_proto x p =
     map_ok (\<lambda>devices. \<lparr> topology_devices = devices \<rparr>)
       (traverse (device_from_proto x) (proto_device_descriptors p))"

definition norm_topology :: "Topology \<Rightarrow> Topology" where
  "norm_topology t = \<lparr> topology_devices = map norm_device (topology_devices t) \<rparr>"

interpretation topology_conversion:
  conversion "topology_to_proto x" "topology_from_proto x"
    "\<lambda>t. ext_ok x \<and> (\<forall>d\<in>set (topology_devices t). wf_device d)" norm_topology for x
  by unfold_locales (simp_all add: topology_to_proto_def topology_from_proto_def norm_topology_def)

section \<open>Clusters (proto/cluster.rs, ids and names of proto/peer/mod.rs)\<close>

datatype ProtoPeerId = ProtoPeerId (proto_peer_uuid: "ProtoUuid option")

definition peer_id_to_proto :: "ext \<Rightarrow> PeerId \<Rightarrow> ProtoPeerId" where
  "peer_id_to_proto x m = ProtoPeerId (Some (uuid_to_proto x (peer_uuid m)))"

definition peer_id_from_proto :: "ext \<Rightarrow> ProtoPeerId \<Rightarrow> PeerId conversion_result" where
  "peer_id_from_proto x p =
     map_ok (\<lambda>u. PeerId (uuid_from_proto x u))
       (extract_field ''proto::peer::PeerId'' ''peer::PeerId'' ''uuid'' (proto_peer_uuid p))"

interpretation peer_id_conversion:
  exact_conversion "peer_id_to_proto x" "peer_id_from_proto x" "\<lambda>_. ext_ok x" for x
  by (rule exact_conversionI) (simp add: peer_id_to_proto_def peer_id_from_proto_def)

datatype ProtoClusterId = ProtoClusterId (proto_cluster_uuid: "ProtoUuid option")

definition cluster_id_to_proto :: "ext \<Rightarrow> ClusterId \<Rightarrow> ProtoClusterId" where
  "cluster_id_to_proto x m = ProtoClusterId (Some (uuid_to_proto x (cluster_uuid m)))"

definition cluster_id_from_proto :: "ext \<Rightarrow> ProtoClusterId \<Rightarrow> ClusterId conversion_result" where
  "cluster_id_from_proto x p =
     map_ok (\<lambda>u. ClusterId (uuid_from_proto x u))
       (extract_field ''proto::cluster::ClusterId'' ''cluster::ClusterId'' ''uuid'' (proto_cluster_uuid p))"

interpretation cluster_id_conversion:
  exact_conversion "cluster_id_to_proto x" "cluster_id_from_proto x" "\<lambda>_. ext_ok x" for x
  by (rule exact_conversionI) (simp add: cluster_id_to_proto_def cluster_id_from_proto_def)

datatype ProtoClusterName = ProtoClusterName (proto_cluster_name: string)

definition cluster_name_to_proto :: "ClusterName \<Rightarrow> ProtoClusterName" where
  "cluster_name_to_proto m = ProtoClusterName (cluster_name_value m)"

definition cluster_name_from_proto :: "ProtoClusterName \<Rightarrow> ClusterName conversion_result" where
  "cluster_name_from_proto p =
     map_err (\<lambda>cause. ConversionError ''proto::cluster::ClusterName'' ''cluster::ClusterName'' (illegal_cluster_name_message cause))
       (cluster_name_try_from (proto_cluster_name p))"

interpretation cluster_name_conversion: exact_conversion cluster_name_to_proto cluster_name_from_proto valid_cluster_name
  by (rule exact_conversionI) (simp add: cluster_name_to_proto_def cluster_name_from_proto_def cluster_name.parse_print)

record ProtoClusterConfiguration =
  pcc_id :: "ProtoClusterId option"
  pcc_name :: "ProtoClusterName option"
  pcc_leader :: "ProtoPeerId option"
  pcc_devices :: "ProtoDeviceId list"

definition cluster_configuration_to_proto :: "ext \<Rightarrow> ClusterConfiguration \<Rightarrow> ProtoClusterConfiguration" where
  "cluster_configuration_to_proto x m =
     \<lparr> pcc_id = Some (cluster_id_to_proto x (cc_id m)),
       pcc_name = Some (cluster_name_to_proto (cc_name m)),
       pcc_leader = Some (peer_id_to_proto x (cc_leader m)),
       pcc_devices = map (device_id_to_proto x) (cc_devices m) \<rparr>"

text \<open>The devices are collected into a \<open>HashSet\<close>: duplicates on the wire disappear.\<close>

definition cluster_configuration_from_proto ::
    "ext \<Rightarrow> ProtoClusterConfiguration \<Rightarrow> ClusterConfiguration conversion_result" where
  "cluster_configuration_from_proto x p =
     bind_sum (bind_sum (extract_field ''proto::cluster::ClusterConfiguration'' ''cluster::ClusterConfiguration''
         ''id'' (pcc_id p)) (cluster_id_from_proto x)) (\<lambda>cluster_id.
     bind_sum (bind_sum (extract_field ''proto::cluster::ClusterConfiguration'' ''cluster::ClusterConfiguration''
         ''name'' (pcc_name p)) cluster_name_from_proto) (\<lambda>cluster_name.
     bind_sum (bind_sum (extract_field ''proto::cluster::ClusterConfiguration'' ''cluster::ClusterConfiguration''
         ''leader'' (pcc_leader p)) (peer_id_from_proto x)) (\<lambda>leader.
     bind_sum (traverse (device_id_from_proto x) (pcc_devices p)) (\<lambda>devices.
       Inr \<lparr> cc_id = cluster_id, cc_name = cluster_name, cc_leader = leader, cc_devices = remdups devices \<rparr>))))"

interpretation cluster_configuration_conversion:
  exact_conversion "cluster_configuration_to_proto x" "cluster_configuration_from_proto x"
    "\<lambda>m. ext_ok x \<and> wf_cluster m" for x
  by (rule exact_conversionI)
    (simp add: cluster_configuration_to_proto_def cluster_configuration_from_proto_def wf_cluster_def)

datatype ProtoClusterDeployment = ProtoClusterDeployment (proto_deployment_id: "ProtoClusterId option")

definition cluster_deployment_to_proto :: "ext \<Rightarrow> ClusterDeployment \<Rightarrow> ProtoClusterDeployment" where
  "cluster_deployment_to_proto x m = ProtoClusterDeployment (Some (cluster_id_to_proto x (cd_id m)))"

definition cluster_deployment_from_proto ::
    "ext \<Rightarrow> ProtoClusterDeployment \<Rightarrow> ClusterDeployment conversion_result" where
  "cluster_deployment_from_proto x p =
     bind_sum (bind_sum (extract_field ''proto::cluster::ClusterDeployment'' ''cluster::ClusterDeployment''
         ''id'' (proto_deployment_id p)) (cluster_id_from_proto x)) (\<lambda>cluster_id.
       Inr \<lparr> cd_id = cluster_id \<rparr>)"

interpretation cluster_deployment_conversion:
  exact_conversion "cluster_deployment_to_proto x" "cluster_deployment_from_proto x" "\<lambda>_. ext_ok x" for x
  by (rule exact_conversionI)
    (simp add: cluster_deployment_to_proto_def cluster_deployment_from_proto_def)

datatype ProtoDeployedState = ProtoUnhealthy | ProtoHealthy

datatype ProtoClusterStateInner =
    ProtoUndeployed
  | ProtoDeploying
  | ProtoDeployed (proto_deployed_inner: "ProtoDeployedState option")

datatype ProtoClusterState = ProtoClusterState (proto_cluster_state: "ProtoClusterStateInner option")

fun cluster_state_to_proto :: "ClusterState \<Rightarrow> ProtoClusterState" where
  "cluster_state_to_proto Undeployed = ProtoClusterState (Some ProtoUndeployed)"
| "cluster_state_to_proto Deploying = ProtoClusterState (Some ProtoDeploying)"
| "cluster_state_to_proto (Deployed Unhealthy) = ProtoClusterState (Some (ProtoDeployed (Some ProtoUnhealthy)))"
| "cluster_state_to_proto (Deployed Healthy) = ProtoClusterState (Some (ProtoDeployed (Some ProtoHealthy)))"

definition cluster_state_from_proto :: "ProtoClusterState \<Rightarrow> ClusterState conversion_result" where
  "cluster_state_from_proto p =
     bind_sum (extract_field ''proto::cluster::ClusterState'' ''cluster::state::ClusterState'' ''inner''
         (proto_cluster_state p)) (\<lambda>inner.
       case inner of
         ProtoUndeployed \<Rightarrow> Inr Undeployed
       | ProtoDeploying \<Rightarrow> Inr Deploying
       | ProtoDeployed deployed \<Rightarrow>
           bind_sum (extract_field ''proto::cluster::ClusterState'' ''cluster::state::ClusterState'' ''inner''
               deployed) (\<lambda>inner.
             case inner of
               ProtoUnhealthy \<Rightarrow> Inr (Deployed Unhealthy)
             | ProtoHealthy \<Rightarrow> Inr (Deployed Healthy)))"

interpretation cluster_state_conversion:
  exact_conversion cluster_state_to_proto cluster_state_from_proto "\<lambda>_. True"
proof (rule exact_conversionI)
  fix m
  show "cluster_state_from_proto (cluster_state_to_proto m) = Inr m"
    by (cases m rule: cluster_state_to_proto.cases) (simp_all add: cluster_state_from_proto_def)
qed

record ProtoPeerClusterAssignment =
  ppca_peer_id :: "ProtoPeerId option"
  ppca_vpn_address :: "ProtoIpAddress option"
  ppca_can_server_port :: "ProtoPort option"

definition peer_cluster_assignment_to_proto ::
    "ext \<Rightarrow> PeerClusterAssignment \<Rightarrow> ProtoPeerClusterAssignment" where
  "peer_cluster_assignment_to_proto x m =
     \<lparr> ppca_peer_id = Some (peer_id_to_proto x (pca_peer_id m)),
       ppca_vpn_address = Some (ip_to_proto (pca_vpn_address m)),
       ppca_can_server_port = Some (port_to_proto (pca_can_server_port m)) \<rparr>"

definition peer_cluster_assignment_from_proto ::
    "ext \<Rightarrow> ProtoPeerClusterAssignment \<Rightarrow> PeerClusterAssignment conversion_result" where
  "peer_cluster_assignment_from_proto x p =
     bind_sum (bind_sum (extract_field ''proto::cluster::PeerClusterAssignment'' ''cluster::PeerClusterAssignment''
         ''peer_id'' (ppca_peer_id p)) (peer_id_from_proto x)) (\<lambda>peer_id.
     bind_sum (bind_sum (extract_field ''proto::cluster::PeerClusterAssignment'' ''cluster::PeerClusterAssignment''
         ''vpn_address'' (ppca_vpn_address p)) ip_from_proto) (\<lambda>vpn_address.
     bind_sum (bind_sum (extract_field ''proto::cluster::PeerClusterAssignment'' ''cluster::PeerClusterAssignment''
         ''can_server_port'' (ppca_can_server_port p)) port_from_proto) (\<lambda>can_server_port.
       Inr \<lparr> pca_peer_id = peer_id, pca_vpn_address = vpn_address, pca_can_server_port = can_server_port \<rparr>)))"

interpretation peer_cluster_assignment_conversion:
  exact_conversion "peer_cluster_assignment_to_proto x" "peer_cluster_assignment_from_proto x"
    "\<lambda>m. ext_ok x \<and> wf_ip (pca_vpn_address m)" for x
  by (rule exact_conversionI)
    (simp add: peer_cluster_assignment_to_proto_def peer_cluster_assignment_from_proto_def)

record ProtoClusterAssignment =
  pcas_id :: "ProtoClusterId option"
  pcas_leader :: "ProtoPeerId option"
  pcas_assignments :: "ProtoPeerClusterAssignment list"

definition cluster_assignment_to_proto :: "ext \<Rightarrow> ClusterAssignment \<Rightarrow> ProtoClusterAssignment" where
  "cluster_assignment_to_proto x m =
     \<lparr> pcas_id = Some (cluster_id_to_proto x (ca_id m)),
       pcas_leader = Some (peer_id_to_proto x (ca_leader m)),
       pcas_assignments = map (peer_cluster_assignment_to_proto x) (ca_assignments m) \<rparr>"

definition cluster_assignment_from_proto ::
    "ext \<Rightarrow> ProtoClusterAssignment \<Rightarrow> ClusterAssignment conversion_result" where
  "cluster_assignment_from_proto x p =
     bind_sum (bind_sum (extract_field ''proto::cluster::ClusterAssignment'' ''cluster::ClusterAssignment''
         ''id'' (pcas_id p)) (cluster_id_from_proto x)) (\<lambda>cluster_id.
     bind_sum (bind_sum (extract_field ''proto::cluster::ClusterAssignment'' ''cluster::ClusterAssignment''
         ''leader'' (pcas_leader p)) (peer_id_from_proto x)) (\<lambda>leader.
     bind_sum (traverse (peer_cluster_assignment_from_proto x) (pcas_assignments p)) (\<lambda>assignments.
       Inr \<lparr> ca_id = cluster_id, ca_leader = leader, ca_assignments = assignments \<rparr>)))"

interpretation cluster_assignment_conversion:
  exact_conversion "cluster_assignment_to_proto x" "cluster_assignment_from_proto x"
    "\<lambda>m. ext_ok x \<and> wf_assignment m" for x
  by (rule exact_conversionI)
    (simp add: cluster_assignment_to_proto_def cluster_assignment_from_proto_def wf_assignment_def)

end
