(* ===== verification/ProtoPeer.thy ===== *)
theory ProtoPeer
  imports ProtoCluster
begin

text \<open>
  The messages of proto/peer/executor.rs, proto/peer/mod.rs, proto/vpn.rs and proto/cleo.rs. As
  with devices, a peer without a location arrives with the empty location (\<open>norm_peer\<close>).
\<close>

section \<open>Executors (proto/peer/executor.rs)\<close>

datatype ProtoExecutorId = ProtoExecutorId (proto_executor_uuid: "ProtoUuid option")

definition executor_id_to_proto :: "ext \<Rightarrow> ExecutorId \<Rightarrow> ProtoExecutorId" where
  "executor_id_to_proto x m = ProtoExecutorId (Some (uuid_to_proto x (executor_uuid m)))"

definition executor_id_from_proto :: "ext \<Rightarrow> ProtoExecutorId \<Rightarrow> ExecutorId conversion_result" where
  "executor_id_from_proto x p =
     map_ok (\<lambda>u. ExecutorId (uuid_from_proto x u))
       (extract_field ''proto::peer::executor::ExecutorId'' ''peer::executor::ExecutorId'' ''uuid'' (proto_executor_uuid p))"

interpretation executor_id_conversion:
  exact_conversion "executor_id_to_proto x" "executor_id_from_proto x" "\<lambda>_. ext_ok x" for x
  by (rule exact_conversionI) (simp add: executor_id_to_proto_def executor_id_from_proto_def)

datatype ProtoEngineInner = ProtoDocker | ProtoPodman

datatype ProtoEngine = ProtoEngine (proto_engine_inner: "ProtoEngineInner option")

fun engine_to_proto :: "Engine \<Rightarrow> ProtoEngine" where
  "engine_to_proto Docker = ProtoEngine (Some ProtoDocker)"
| "engine_to_proto Podman = ProtoEngine (Some ProtoPodman)"

definition engine_from_proto :: "ProtoEngine \<Rightarrow> Engine conversion_result" where
  "engine_from_proto p =
     map_ok (\<lambda>inner. case inner of ProtoDocker \<Rightarrow> Docker | ProtoPodman \<Rightarrow> Podman)
       (extract_field ''proto::peer::executor::Engine'' ''peer::executor::container::Engine'' ''inner''
         (proto_engine_inner p))"

interpretation engine_conversion: exact_conversion engine_to_proto engine_from_proto "\<lambda>_. True"
proof (rule exact_conversionI)
  fix m
  show "engine_from_proto (engine_to_proto m) = Inr m"
    by (cases m) (simp_all add: engine_from_proto_def)
qed

datatype ProtoContainerName = ProtoContainerName (proto_container_name: string)

definition container_name_to_proto :: "ContainerName \<Rightarrow> ProtoContainerName" where
  "container_name_to_proto m = ProtoContainerName (container_name_text m)"

definition container_name_from_proto :: "ProtoContainerName \<Rightarrow> ContainerName conversion_result" where
  "container_name_from_proto p =
     map_err (\<lambda>cause. ConversionError ''proto::peer::executor::ContainerName'' ''peer::executor::container::ContainerName'' (illegal_container_name_message cause))
       (container_name_try_from (proto_container_name p))"

interpretation container_name_conversion: exact_conversion container_name_to_proto container_name_from_proto valid_container_name
  by (rule exact_conversionI) (simp add: container_name_to_proto_def container_name_from_proto_def container_name.parse_print)

datatype ProtoContainerImage = ProtoContainerImage (proto_container_image: string)

definition container_image_to_proto :: "ContainerImage \<Rightarrow> ProtoContainerImage" where
  "container_image_to_proto m = ProtoContainerImage (container_image_value m)"

definition container_image_from_proto :: "ProtoContainerImage \<Rightarrow> ContainerImage conversion_result" where
  "container_image_from_proto p =
     map_err (\<lambda>cause. ConversionError ''proto::peer::executor::ContainerImage'' ''peer::executor::container::ContainerImage'' (illegal_container_image_message cause))
       (container_image_try_from (proto_container_image p))"

interpretation container_image_conversion: exact_conversion container_image_to_proto container_image_from_proto valid_container_image
  by (rule exact_conversionI) (simp add: container_image_to_proto_def container_image_from_proto_def container_image.parse_print)

datatype ProtoContainerVolume = ProtoContainerVolume (proto_container_volume: string)

definition container_volume_to_proto :: "ContainerVolume \<Rightarrow> ProtoContainerVolume" where
  "container_volume_to_proto m = ProtoContainerVolume (container_volume_value m)"

definition container_volume_from_proto :: "ProtoContainerVolume \<Rightarrow> ContainerVolume conversion_result" where
  "container_volume_from_proto p =
     map_err (\<lambda>cause. ConversionError ''proto::peer::executor::ContainerVolume'' ''peer::executor::container::ContainerVolume'' (illegal_container_volume_message cause))
       (container_volume_try_from (proto_container_volume p))"

interpretation container_volume_conversion: exact_conversion container_volume_to_proto container_volume_from_proto valid_container_volume
  by (rule exact_conversionI) (simp add: container_volume_to_proto_def container_volume_from_proto_def container_volume.parse_print)

datatype ProtoContainerDevice = ProtoContainerDevice (proto_container_device: string)

definition container_device_to_proto :: "ContainerDevice \<Rightarrow> ProtoContainerDevice" where
  "container_device_to_proto m = ProtoContainerDevice (container_device_value m)"

definition container_device_from_proto :: "ProtoContainerDevice \<Rightarrow> ContainerDevice conversion_result" where
  "container_device_from_proto p =
     map_err (\<lambda>cause. ConversionError ''proto::peer::executor::ContainerDevice'' ''peer::executor::container::ContainerDevice'' (illegal_container_device_message cause))
       (container_device_try_from (proto_container_device p))"

interpretation container_device_conversion: exact_conversion container_device_to_proto container_device_from_proto valid_container_device
  by (rule exact_conversionI) (simp add: container_device_to_proto_def container_device_from_proto_def container_device.parse_print)

datatype ProtoContainerPortSpec = ProtoContainerPortSpec (proto_container_port_spec: string)

definition container_port_spec_to_proto :: "ContainerPortSpec \<Rightarrow> ProtoContainerPortSpec" where
  "container_port_spec_to_proto m = ProtoContainerPortSpec (container_port_spec_value m)"

definition container_port_spec_from_proto :: "ProtoContainerPortSpec \<Rightarrow> ContainerPortSpec conversion_result" where
  "container_port_spec_from_proto p =
     map_err (\<lambda>cause. ConversionError ''proto::peer::executor::ContainerPortSpec'' ''peer::executor::container::ContainerPortSpec'' (illegal_container_port_spec_message cause))
       (container_port_spec_try_from (proto_container_port_spec p))"

interpretation container_port_spec_conversion: exact_conversion container_port_spec_to_proto container_port_spec_from_proto valid_container_port_spec
  by (rule exact_conversionI) (simp add: container_port_spec_to_proto_def container_port_spec_from_proto_def container_port_spec.parse_print)

datatype ProtoContainerCommandArgument = ProtoContainerCommandArgument (proto_container_command_argument: string)

definition container_command_argument_to_proto :: "ContainerCommandArgument \<Rightarrow> ProtoContainerCommandArgument" where
  "container_command_argument_to_proto m = ProtoContainerCommandArgument (container_command_argument_value m)"

definition container_command_argument_from_proto :: "ProtoContainerCommandArgument \<Rightarrow> ContainerCommandArgument conversion_result" where
  "container_command_argument_from_proto p =
     map_err (\<lambda>cause. ConversionError ''proto::peer::executor::ContainerCommandArgument'' ''peer::executor::container::ContainerCommandArgument'' (illegal_container_command_argument_message cause))
       (container_command_argument_try_from (proto_container_command_argument p))"

interpretation container_command_argument_conversion: exact_conversion container_command_argument_to_proto container_command_argument_from_proto valid_container_command_argument
  by (rule exact_conversionI) (simp add: container_command_argument_to_proto_def container_command_argument_from_proto_def container_command_argument.parse_print)

record ProtoEnvironmentVariable =
  penv_name :: string
  penv_value :: string

definition environment_variable_to_proto :: "ContainerEnvironmentVariable \<Rightarrow> ProtoEnvironmentVariable" where
  "environment_variable_to_proto m = \<lparr> penv_name = env_name m, penv_value = env_value m \<rparr>"

definition environment_variable_from_proto ::
    "ProtoEnvironmentVariable \<Rightarrow> ContainerEnvironmentVariable conversion_result" where
  "environment_variable_from_proto p =
     map_err (\<lambda>cause. ConversionError ''proto::peer::executor::ContainerEnvironmentVariable''
         ''peer::executor::container::ContainerEnvironmentVariable'' (illegal_environment_variable_message cause))
       (container_environment_variable_new (penv_name p) (penv_value p))"

interpretation environment_variable_conversion:
  exact_conversion environment_variable_to_proto environment_variable_from_proto valid_environment_variable
  by (rule exact_conversionI)
    (simp add: environment_variable_to_proto_def environment_variable_from_proto_def
      valid_environment_variable_def container_environment_variable_new_def)

datatype ProtoContainerCommand = ProtoContainerCommand (proto_container_command: string)

definition container_command_to_proto :: "ContainerCommand \<Rightarrow> ProtoContainerCommand" where
  "container_command_to_proto m = ProtoContainerCommand (container_command_text m)"

definition container_command_from_proto :: "ProtoContainerCommand \<Rightarrow> ContainerCommand conversion_result" where
  "container_command_from_proto p = Inr (container_command_from (proto_container_command p))"

interpretation container_command_conversion:
  exact_conversion container_command_to_proto container_command_from_proto valid_container_command
proof (rule exact_conversionI)
  fix m
  assume "valid_container_command m"
  then show "container_command_from_proto (container_command_to_proto m) = Inr m"
    using container_command.parse_print [of m]
    by (simp add: container_command_to_proto_def container_command_from_proto_def)
qed

datatype ProtoResultsUrl = ProtoResultsUrl (proto_results_url: string)

definition results_url_to_proto :: "ext \<Rightarrow> ResultsUrl \<Rightarrow> ProtoResultsUrl" where
  "results_url_to_proto x m = ProtoResultsUrl (results_url_text x m)"

definition results_url_from_proto :: "ext \<Rightarrow> ProtoResultsUrl \<Rightarrow> ResultsUrl conversion_result" where
  "results_url_from_proto x p =
     map_err (\<lambda>cause. ConversionError ''proto::peer::executor::ResultsUrl'' ''peer::executor::ResultsUrl''
         (illegal_results_url_message cause))
       (results_url_try_from x (proto_results_url p))"

interpretation results_url_conversion:
  exact_conversion "results_url_to_proto x" "results_url_from_proto x" "\<lambda>_. ext_ok x" for x
  by (rule exact_conversionI) (simp add: results_url_to_proto_def results_url_from_proto_def)

record ProtoContainer =
  pc_engine :: "ProtoEngine option"
  pc_name :: "ProtoContainerName option"
  pc_image :: "ProtoContainerImage option"
  pc_volumes :: "ProtoContainerVolume list"
  pc_devices :: "ProtoContainerDevice list"
  pc_envs :: "ProtoEnvironmentVariable list"
  pc_ports :: "ProtoContainerPortSpec list"
  pc_command :: "ProtoContainerCommand option"
  pc_args :: "ProtoContainerCommandArgument list"

datatype ProtoExecutorKind = ProtoExecutable | ProtoContainerKind ProtoContainer

record ProtoExecutorDescriptor =
  ped_id :: "ProtoExecutorId option"
  ped_kind :: "ProtoExecutorKind option"
  ped_results_url :: "ProtoResultsUrl option"

definition container_to_proto :: "Container \<Rightarrow> ProtoContainer" where
  "container_to_proto c =
     \<lparr> pc_engine = Some (engine_to_proto (c_engine c)),
       pc_name = Some (container_name_to_proto (c_name c)),
       pc_image = Some (container_image_to_proto (c_image c)),
       pc_volumes = map container_volume_to_proto (c_volumes c),
       pc_devices = map container_device_to_proto (c_devices c),
       pc_envs = map environment_variable_to_proto (c_envs c),
       pc_ports = map container_port_spec_to_proto (c_ports c),
       pc_command = Some (container_command_to_proto (c_command c)),
       pc_args = map container_command_argument_to_proto (c_args c) \<rparr>"

definition container_from_proto :: "ProtoContainer \<Rightarrow> Container conversion_result" where
  "container_from_proto p =
     bind_sum (bind_sum (extract_field ''proto::peer::executor::ExecutorDescriptor'' ''peer::executor::ExecutorDescriptor''
         ''engine'' (pc_engine p)) engine_from_proto) (\<lambda>engine.
     bind_sum (bind_sum (extract_field ''proto::peer::executor::ExecutorDescriptor'' ''peer::executor::ExecutorDescriptor''
         ''name'' (pc_name p)) container_name_from_proto) (\<lambda>name.
     bind_sum (bind_sum (extract_field ''proto::peer::executor::ExecutorDescriptor'' ''peer::executor::ExecutorDescriptor''
         ''image'' (pc_image p)) container_image_from_proto) (\<lambda>image.
     bind_sum (traverse container_volume_from_proto (pc_volumes p)) (\<lambda>volumes.
     bind_sum (traverse container_device_from_proto (pc_devices p)) (\<lambda>devices.
     bind_sum (traverse environment_variable_from_proto (pc_envs p)) (\<lambda>envs.
     bind_sum (traverse container_port_spec_from_proto (pc_ports p)) (\<lambda>ports.
     bind_sum (bind_sum (extract_field ''proto::peer::executor::ExecutorDescriptor'' ''peer::executor::ExecutorDescriptor''
         ''command'' (pc_command p)) container_command_from_proto) (\<lambda>command.
     bind_sum (traverse container_command_argument_from_proto (pc_args p)) (\<lambda>args.
       Inr \<lparr> c_engine = engine, c_name = name, c_image = image, c_volumes = volumes, c_devices = devices,
             c_envs = envs, c_ports = ports, c_command = command, c_args = args \<rparr>)))))))))"

interpretation container_conversion: exact_conversion container_to_proto container_from_proto wf_container
  by (rule exact_conversionI) (simp add: container_to_proto_def container_from_proto_def wf_container_def)

fun executor_kind_to_proto :: "ExecutorKind \<Rightarrow> ProtoExecutorKind" where
  "executor_kind_to_proto Executable = ProtoExecutable"
| "executor_kind_to_proto (ContainerKind c) = ProtoContainerKind (container_to_proto c)"

fun executor_kind_from_proto :: "ProtoExecutorKind \<Rightarrow> ExecutorKind conversion_result" where
  "executor_kind_from_proto ProtoExecutable = Inr Executable"
| "executor_kind_from_proto (ProtoContainerKind p) = map_ok ContainerKind (container_from_proto p)"

interpretation executor_kind_conversion:
  exact_conversion executor_kind_to_proto executor_kind_from_proto wf_executor_kind
proof (rule exact_conversionI)
  fix m
  assume "wf_executor_kind m"
  then show "executor_kind_from_proto (executor_kind_to_proto m) = Inr m" by (cases m) simp_all
qed

definition executor_to_proto :: "ext \<Rightarrow> ExecutorDescriptor \<Rightarrow> ProtoExecutorDescriptor" where
  "executor_to_proto x m =
     \<lparr> ped_id = Some (executor_id_to_proto x (ed_id m)),
       ped_kind = Some (executor_kind_to_proto (ed_kind m)),
       ped_results_url = map_option (results_url_to_proto x) (ed_results_url m) \<rparr>"

definition executor_from_proto :: "ext \<Rightarrow> ProtoExecutorDescriptor \<Rightarrow> ExecutorDescriptor conversion_result" where
  "executor_from_proto x p =
     bind_sum (bind_sum (extract_field ''proto::peer::executor::ExecutorDescriptor'' ''peer::executor::ExecutorDescriptor''
         ''id'' (ped_id p)) (executor_id_from_proto x)) (\<lambda>id.
     bind_sum (bind_sum (extract_field ''proto::peer::executor::ExecutorDescriptor'' ''peer::executor::ExecutorDescriptor''
         ''kind'' (ped_kind p)) executor_kind_from_proto) (\<lambda>result_kind.
     bind_sum (transpose_map (results_url_from_proto x) (ped_results_url p)) (\<lambda>results_url.
       Inr \<lparr> ed_id = id, ed_kind = result_kind, ed_results_url = results_url \<rparr>)))"

interpretation executor_conversion:
  exact_conversion "executor_to_proto x" "executor_from_proto x" "\<lambda>m. ext_ok x \<and> wf_executor m" for x
  by (rule exact_conversionI)
    (simp add: executor_to_proto_def executor_from_proto_def wf_executor_def option.map_ident)

datatype ProtoExecutorDescriptors = ProtoExecutorDescriptors (proto_executors: "ProtoExecutorDescriptor list")

definition executors_to_proto :: "ext \<Rightarrow> ExecutorDescriptors \<Rightarrow> ProtoExecutorDescriptors" where
  "executors_to_proto x m = ProtoExecutorDescriptors (map (executor_to_proto x) (eds_executors m))"

definition executors_from_proto :: "ext \<Rightarrow> ProtoExecutorDescriptors \<Rightarrow> ExecutorDescriptors conversion_result" where
  "executors_from_proto x p =
     map_ok (\<lambda>executors. \<lparr> eds_executors = executors \<rparr>)
       (traverse (executor_from_proto x) (proto_executors p))"

interpretation executors_conversion:
  exact_conversion "executors_to_proto x" "executors_from_proto x"
    "\<lambda>m. ext_ok x \<and> (\<forall>e\<in>set (eds_executors m). wf_executor e)" for x
  by (rule exact_conversionI) (simp add: executors_to_proto_def executors_from_proto_def)

section \<open>Peers (proto/peer/mod.rs)\<close>

datatype ProtoPeerName = ProtoPeerName (proto_peer_name: string)

definition peer_name_to_proto :: "PeerName \<Rightarrow> ProtoPeerName" where
  "peer_name_to_proto m = ProtoPeerName (peer_name_value m)"

definition peer_name_from_proto :: "ProtoPeerName \<Rightarrow> PeerName conversion_result" where
  "peer_name_from_proto p =
     map_err (\<lambda>cause. ConversionError ''proto::peer::PeerName'' ''peer::PeerName'' (illegal_peer_name_message cause))
       (peer_name_try_from (proto_peer_name p))"

interpretation peer_name_conversion: exact_conversion peer_name_to_proto peer_name_from_proto valid_peer_name
  by (rule exact_conversionI) (simp add: peer_name_to_proto_def peer_name_from_proto_def peer_name.parse_print)

datatype ProtoPeerLocation = ProtoPeerLocation (proto_peer_location: string)

definition peer_location_to_proto :: "PeerLocation \<Rightarrow> ProtoPeerLocation" where
  "peer_location_to_proto m = ProtoPeerLocation (peer_location_value m)"

definition peer_location_from_proto :: "ProtoPeerLocation \<Rightarrow> PeerLocation conversion_result" where
  "peer_location_from_proto p =
     map_err (\<lambda>cause. ConversionError ''proto::peer::PeerLocation'' ''peer::PeerLocation'' (illegal_location_message cause))
       (peer_location_try_from (proto_peer_location p))"

interpretation peer_location_conversion: exact_conversion peer_location_to_proto peer_location_from_proto valid_peer_location
  by (rule exact_conversionI) (simp add: peer_location_to_proto_def peer_location_from_proto_def peer_location.parse_print)

record ProtoPeerNetworkDescriptor =
  ppn_interfaces :: "ProtoNetworkInterfaceDescriptor list"
  ppn_bridge_name :: "ProtoNetworkInterfaceName option"

definition peer_network_to_proto :: "ext \<Rightarrow> PeerNetworkDescriptor \<Rightarrow> ProtoPeerNetworkDescriptor" where
  "peer_network_to_proto x m =
     \<lparr> ppn_interfaces = map (network_interface_to_proto x) (pn_interfaces m),
       ppn_bridge_name = map_option network_interface_name_to_proto (pn_bridge_name m) \<rparr>"

definition peer_network_from_proto ::
    "ext \<Rightarrow> ProtoPeerNetworkDescriptor \<Rightarrow> PeerNetworkDescriptor conversion_result" where
  "peer_network_from_proto x p =
     bind_sum (transpose_map network_interface_name_from_proto (ppn_bridge_name p)) (\<lambda>bridge_name.
       map_ok (\<lambda>interfaces. \<lparr> pn_interfaces = interfaces, pn_bridge_name = bridge_name \<rparr>)
         (traverse (network_interface_from_proto x) (ppn_interfaces p)))"

interpretation peer_network_conversion:
  exact_conversion "peer_network_to_proto x" "peer_network_from_proto x"
    "\<lambda>m. ext_ok x \<and> wf_network m" for x
  by (rule exact_conversionI)
    (simp add: peer_network_to_proto_def peer_network_from_proto_def wf_network_def option.map_ident)

record ProtoPeerDescriptor =
  ppd_id :: "ProtoPeerId option"
  ppd_name :: "ProtoPeerName option"
  ppd_location :: "ProtoPeerLocation option"
  ppd_network :: "ProtoPeerNetworkDescriptor option"
  ppd_topology :: "ProtoTopology option"
  ppd_executors :: "ProtoExecutorDescriptors option"

definition peer_to_proto :: "ext \<Rightarrow> PeerDescriptor \<Rightarrow> ProtoPeerDescriptor" where
  "peer_to_proto x m =
     \<lparr> ppd_id = Some (peer_id_to_proto x (pd_id m)),
       ppd_name = Some (peer_name_to_proto (pd_name m)),
       ppd_location = Some (peer_location_to_proto (unwrap_or_default peer_location_default (pd_location m))),
       ppd_network = Some (peer_network_to_proto x (pd_network m)),
       ppd_topology = Some (topology_to_proto x (pd_topology m)),
       ppd_executors = Some (executors_to_proto x (pd_executors m)) \<rparr>"

definition peer_from_proto :: "ext \<Rightarrow> ProtoPeerDescriptor \<Rightarrow> PeerDescriptor conversion_result" where
  "peer_from_proto x p =
     bind_sum (bind_sum (extract_field ''proto::peer::PeerDescriptor'' ''peer::PeerDescriptor'' ''id'' (ppd_id p)) (peer_id_from_proto x)) (\<lambda>id.
     bind_sum (bind_sum (extract_field ''proto::peer::PeerDescriptor'' ''peer::PeerDescriptor'' ''name'' (ppd_name p)) peer_name_from_proto) (\<lambda>name.
     bind_sum (transpose_map peer_location_from_proto (ppd_location p)) (\<lambda>location.
     bind_sum (bind_sum (extract_field ''proto::peer::PeerDescriptor'' ''peer::PeerDescriptor'' ''network'' (ppd_network p)) (peer_network_from_proto x)) (\<lambda>network.
     bind_sum (bind_sum (extract_field ''proto::peer::PeerDescriptor'' ''peer::PeerDescriptor'' ''topology'' (ppd_topology p)) (topology_from_proto x)) (\<lambda>topology.
     bind_sum (bind_sum (extract_field ''proto::peer::PeerDescriptor'' ''peer::PeerDescriptor'' ''executors'' (ppd_executors p)) (executors_from_proto x)) (\<lambda>executors.
       Inr \<lparr> pd_id = id, pd_name = name, pd_location = location, pd_network = network,
             pd_topology = topology, pd_executors = executors \<rparr>))))))"

definition norm_peer :: "PeerDescriptor \<Rightarrow> PeerDescriptor" where
  "norm_peer p =
     p\<lparr> pd_location := Some (unwrap_or_default peer_location_default (pd_location p)),
       pd_topology := norm_topology (pd_topology p) \<rparr>"

lemma valid_unwrap_location [simp]:
  "(\<And>l. m = Some l \<Longrightarrow> valid_peer_location l) \<Longrightarrow>
     valid_peer_location (unwrap_or_default peer_location_default m)"
  by (cases m) simp_all

lemma wf_norm_peer [simp]: "wf_peer p \<Longrightarrow> wf_peer (norm_peer p)"
  by (simp add: wf_peer_def norm_peer_def norm_topology_def)

lemma norm_norm_peer [simp]: "norm_peer (norm_peer p) = norm_peer p"
  by (simp add: norm_peer_def norm_topology_def)

interpretation peer_conversion:
  conversion "peer_to_proto x" "peer_from_proto x" "\<lambda>p. ext_ok x \<and> wf_peer p" norm_peer for x
proof
  fix m
  assume "ext_ok x \<and> wf_peer m"
  then show "peer_from_proto x (peer_to_proto x m) = Inr (norm_peer m)"
    by (simp add: peer_to_proto_def peer_from_proto_def wf_peer_def norm_peer_def)
qed simp_all

section \<open>Peer states (proto/peer/mod.rs)\<close>

datatype ProtoConnection =
    ProtoOffline
  | ProtoOnline (proto_remote_host: "ProtoIpAddress option")

datatype ProtoPeerConnectionState = ProtoPeerConnectionState (proto_connection: "ProtoConnection option")

datatype ProtoMember =
    ProtoAvailable
  | ProtoBlocked (proto_by_cluster: "ProtoClusterId option")

datatype ProtoPeerMemberState = ProtoPeerMemberState (proto_member: "ProtoMember option")

record ProtoPeerState =
  pps_connection :: "ProtoPeerConnectionState option"
  pps_member :: "ProtoPeerMemberState option"

fun connection_state_to_proto :: "PeerConnectionState \<Rightarrow> ProtoPeerConnectionState" where
  "connection_state_to_proto Offline = ProtoPeerConnectionState (Some ProtoOffline)"
| "connection_state_to_proto (Online host) =
     ProtoPeerConnectionState (Some (ProtoOnline (Some (ip_to_proto host))))"

definition connection_state_from_proto :: "ProtoPeerConnectionState \<Rightarrow> PeerConnectionState conversion_result" where
  "connection_state_from_proto p =
     bind_sum (extract_field ''proto::peer::PeerConnectionState'' ''peer::state::PeerConnectionState'' ''state''
         (proto_connection p)) (\<lambda>state.
       case state of
         ProtoOnline host \<Rightarrow>
           map_ok Online (bind_sum (extract_field ''proto::peer::PeerConnectionState''
             ''peer::state::PeerConnectionState'' ''remote_host'' host) ip_from_proto)
       | ProtoOffline \<Rightarrow> Inr Offline)"

fun wf_connection :: "PeerConnectionState \<Rightarrow> bool" where
  "wf_connection Offline = True"
| "wf_connection (Online host) = wf_ip host"

interpretation connection_state_conversion:
  exact_conversion connection_state_to_proto connection_state_from_proto wf_connection
proof (rule exact_conversionI)
  fix m
  assume "wf_connection m"
  then show "connection_state_from_proto (connection_state_to_proto m) = Inr m"
    by (cases m) (simp_all add: connection_state_from_proto_def)
qed

fun member_state_to_proto :: "ext \<Rightarrow> PeerMemberState \<Rightarrow> ProtoPeerMemberState" where
  "member_state_to_proto x Available = ProtoPeerMemberState (Some ProtoAvailable)"
| "member_state_to_proto x (Blocked cluster) =
     ProtoPeerMemberState (Some (ProtoBlocked (Some (cluster_id_to_proto x cluster))))"

definition member_state_from_proto :: "ext \<Rightarrow> ProtoPeerMemberState \<Rightarrow> PeerMemberState conversion_result" where
  "member_state_from_proto x p =
     bind_sum (extract_field ''proto::peer::PeerMemberState'' ''peer::state::PeerMemberState'' ''state''
         (proto_member p)) (\<lambda>member.
       case member of
         ProtoAvailable \<Rightarrow> Inr Available
       | ProtoBlocked cluster \<Rightarrow>
           map_ok Blocked (bind_sum (extract_field ''proto::peer::PeerMemberState''
             ''peer::state::PeerMemberState'' ''by_cluster'' cluster) (cluster_id_from_proto x)))"

interpretation member_state_conversion:
  exact_conversion "member_state_to_proto x" "member_state_from_proto x" "\<lambda>_. ext_ok x" for x
proof (rule exact_conversionI)
  fix m
  assume "ext_ok x"
  then show "member_state_from_proto x (member_state_to_proto x m) = Inr m"
    by (cases m) (simp_all add: member_state_from_proto_def)
qed

definition peer_state_to_proto :: "ext \<Rightarrow> PeerState \<Rightarrow> ProtoPeerState" where
  "peer_state_to_proto x s =
     \<lparr> pps_connection = Some (connection_state_to_proto (ps_connection s)),
       pps_member = Some (member_state_to_proto x (ps_member s)) \<rparr>"

definition peer_state_from_proto :: "ext \<Rightarrow> ProtoPeerState \<Rightarrow> PeerState conversion_result" where
  "peer_state_from_proto x p =
     bind_sum (extract_field ''proto::peer::PeerState'' ''peer::state::PeerState'' ''member'' (pps_member p)) (\<lambda>member.
     bind_sum (extract_field ''proto::peer::PeerState'' ''peer::state::PeerState'' ''connection''
       (pps_connection p)) (\<lambda>connection.
     bind_sum (connection_state_from_proto connection) (\<lambda>c.
     bind_sum (member_state_from_proto x member) (\<lambda>m.
       Inr \<lparr> ps_connection = c, ps_member = m \<rparr>))))"

interpretation peer_state_conversion:
  exact_conversion "peer_state_to_proto x" "peer_state_from_proto x"
    "\<lambda>s. ext_ok x \<and> wf_connection (ps_connection s)" for x
  by (rule exact_conversionI) (simp add: peer_state_to_proto_def peer_state_from_proto_def)

section \<open>VPN (proto/vpn.rs)\<close>

datatype ProtoSetupKey = ProtoSetupKey (proto_setup_key_uuid: "ProtoUuid option")

definition setup_key_to_proto :: "ext \<Rightarrow> SetupKey \<Rightarrow> ProtoSetupKey" where
  "setup_key_to_proto x m = ProtoSetupKey (Some (uuid_to_proto x (setup_key_uuid m)))"

definition setup_key_from_proto :: "ext \<Rightarrow> ProtoSetupKey \<Rightarrow> SetupKey conversion_result" where
  "setup_key_from_proto x p =
     map_ok (\<lambda>u. SetupKey (uuid_from_proto x u))
       (extract_field ''proto::vpn::SetupKey'' ''vpn::netbird::SetupKey'' ''uuid'' (proto_setup_key_uuid p))"

interpretation setup_key_conversion:
  exact_conversion "setup_key_to_proto x" "setup_key_from_proto x" "\<lambda>_. ext_ok x" for x
  by (rule exact_conversionI) (simp add: setup_key_to_proto_def setup_key_from_proto_def)

datatype ProtoCleoId = ProtoCleoId (proto_cleo_uuid: "ProtoUuid option")

definition cleo_id_to_proto :: "ext \<Rightarrow> CleoId \<Rightarrow> ProtoCleoId" where
  "cleo_id_to_proto x m = ProtoCleoId (Some (uuid_to_proto x (cleo_uuid m)))"

definition cleo_id_from_proto :: "ext \<Rightarrow> ProtoCleoId \<Rightarrow> CleoId conversion_result" where
  "cleo_id_from_proto x p =
     map_ok (\<lambda>u. CleoId (uuid_from_proto x u))
       (extract_field ''proto::cleo::CleoId'' ''cleo::CleoId'' ''uuid'' (proto_cleo_uuid p))"

interpretation cleo_id_conversion:
  exact_conversion "cleo_id_to_proto x" "cleo_id_from_proto x" "\<lambda>_. ext_ok x" for x
  by (rule exact_conversionI) (simp add: cleo_id_to_proto_def cleo_id_from_proto_def)

record ProtoVpnNetbird =
  pvpn_management_url :: "ProtoUrl option"
  pvpn_setup_key :: "ProtoSetupKey option"

datatype ProtoVpn = ProtoVpnDisabled | ProtoVpnNetbirdConfig ProtoVpnNetbird

datatype ProtoVpnPeerConfig = ProtoVpnPeerConfig (proto_vpn_config: "ProtoVpn option")

fun vpn_config_to_proto :: "ext \<Rightarrow> VpnPeerConfiguration \<Rightarrow> ProtoVpnPeerConfig" where
  "vpn_config_to_proto x VpnDisabled = ProtoVpnPeerConfig (Some ProtoVpnDisabled)"
| "vpn_config_to_proto x (VpnNetbird url key) =
     ProtoVpnPeerConfig (Some (ProtoVpnNetbirdConfig
       \<lparr> pvpn_management_url = Some (url_to_proto x url), pvpn_setup_key = Some (setup_key_to_proto x key) \<rparr>))"

definition vpn_config_from_proto :: "ext \<Rightarrow> ProtoVpnPeerConfig \<Rightarrow> VpnPeerConfiguration conversion_result" where
  "vpn_config_from_proto x p =
     bind_sum (extract_field ''proto::vpn::VpnPeerConfig'' ''vpn::VpnPeerConfiguration'' ''config'' (proto_vpn_config p)) (\<lambda>config.
       case config of
         ProtoVpnDisabled \<Rightarrow> Inr VpnDisabled
       | ProtoVpnNetbirdConfig n \<Rightarrow>
           bind_sum (bind_sum (extract_field ''proto::vpn::VpnPeerConfig'' ''vpn::VpnPeerConfiguration'' ''management_url'' (pvpn_management_url n)) (url_from_proto x)) (\<lambda>url.
           bind_sum (bind_sum (extract_field ''proto::vpn::VpnPeerConfig'' ''vpn::VpnPeerConfiguration'' ''setup_key'' (pvpn_setup_key n)) (setup_key_from_proto x)) (\<lambda>key.
             Inr (VpnNetbird url key))))"

interpretation vpn_config_conversion:
  exact_conversion "vpn_config_to_proto x" "vpn_config_from_proto x" "\<lambda>_. ext_ok x" for x
proof (rule exact_conversionI)
  fix m
  assume "ext_ok x"
  then show "vpn_config_from_proto x (vpn_config_to_proto x m) = Inr m"
    by (cases m) (simp_all add: vpn_config_from_proto_def)
qed

section \<open>Setups (proto/peer/mod.rs, proto/cleo.rs)\<close>

text \<open>The URL of CARL is parsed here, not by the conversion of \<open>Url\<close>, for a message of its own.\<close>

definition carl_url_from_proto :: "ext \<Rightarrow> string \<Rightarrow> string \<Rightarrow> ProtoUrl \<Rightarrow> url conversion_result" where
  "carl_url_from_proto x frm to u =
     map_err (\<lambda>cause. ConversionError frm to (''Carl URL could not be parsed: '' @ cause))
       (url_parse x (proto_url_value u))"

lemma carl_url_trip [simp]: "ext_ok x \<Longrightarrow> carl_url_from_proto x f t (url_to_proto x u) = Inr u"
  by (simp add: carl_url_from_proto_def url_to_proto_def)

record ProtoPeerSetup =
  psetup_id :: "ProtoPeerId option"
  psetup_carl :: "ProtoUrl option"
  psetup_ca :: "ProtoCertificate option"
  psetup_auth_config :: "ProtoAuthConfig option"
  psetup_vpn :: "ProtoVpnPeerConfig option"

definition peer_setup_to_proto :: "ext \<Rightarrow> PeerSetup \<Rightarrow> ProtoPeerSetup" where
  "peer_setup_to_proto x m =
     \<lparr> psetup_id = Some (peer_id_to_proto x (setup_id m)),
       psetup_carl = Some (url_to_proto x (setup_carl m)),
       psetup_ca = Some (certificate_to_proto (setup_ca m)),
       psetup_auth_config = Some (auth_config_to_proto x (setup_auth_config m)),
       psetup_vpn = Some (vpn_config_to_proto x (setup_vpn m)) \<rparr>"

definition peer_setup_from_proto :: "ext \<Rightarrow> ProtoPeerSetup \<Rightarrow> PeerSetup conversion_result" where
  "peer_setup_from_proto x p =
     bind_sum (bind_sum (extract_field ''proto::peer::PeerSetup'' ''peer::PeerSetup'' ''id'' (psetup_id p)) (peer_id_from_proto x)) (\<lambda>id.
     bind_sum (bind_sum (extract_field ''proto::peer::PeerSetup'' ''peer::PeerSetup'' ''carl'' (psetup_carl p)) (carl_url_from_proto x ''proto::peer::PeerSetup'' ''peer::PeerSetup'')) (\<lambda>carl.
     bind_sum (bind_sum (extract_field ''proto::peer::PeerSetup'' ''peer::PeerSetup'' ''ca'' (psetup_ca p)) certificate_from_proto) (\<lambda>ca.
     bind_sum (bind_sum (extract_field ''proto::peer::PeerSetup'' ''peer::PeerSetup'' ''vpn'' (psetup_vpn p)) (vpn_config_from_proto x)) (\<lambda>vpn.
     bind_sum (bind_sum (extract_field ''proto::peer::PeerSetup'' ''peer::PeerSetup'' ''auth_config'' (psetup_auth_config p)) (auth_config_from_proto x)) (\<lambda>auth_config.
       Inr \<lparr> setup_id = id, setup_carl = carl, setup_ca = ca, setup_auth_config = auth_config, setup_vpn = vpn \<rparr>)))))"

interpretation peer_setup_conversion:
  exact_conversion "peer_setup_to_proto x" "peer_setup_from_proto x"
    "\<lambda>m. ext_ok x \<and> wf_auth (setup_auth_config m)" for x
  by (rule exact_conversionI) (simp add: peer_setup_to_proto_def peer_setup_from_proto_def)

record ProtoCleoSetup =
  pcleo_id :: "ProtoCleoId option"
  pcleo_carl :: "ProtoUrl option"
  pcleo_ca :: "ProtoCertificate option"
  pcleo_auth_config :: "ProtoAuthConfig option"

definition cleo_setup_to_proto :: "ext \<Rightarrow> CleoSetup \<Rightarrow> ProtoCleoSetup" where
  "cleo_setup_to_proto x m =
     \<lparr> pcleo_id = Some (cleo_id_to_proto x (cleo_id m)),
       pcleo_carl = Some (url_to_proto x (cleo_carl m)),
       pcleo_ca = Some (certificate_to_proto (cleo_ca m)),
       pcleo_auth_config = Some (auth_config_to_proto x (cleo_auth_config m)) \<rparr>"

definition cleo_setup_from_proto :: "ext \<Rightarrow> ProtoCleoSetup \<Rightarrow> CleoSetup conversion_result" where
  "cleo_setup_from_proto x p =
     bind_sum (bind_sum (extract_field ''proto::cleo::CleoSetup'' ''cleo::CleoSetup'' ''id'' (pcleo_id p)) (cleo_id_from_proto x)) (\<lambda>id.
     bind_sum (bind_sum (extract_field ''proto::cleo::CleoSetup'' ''cleo::CleoSetup'' ''carl'' (pcleo_carl p)) (carl_url_from_proto x ''proto::cleo::CleoSetup'' ''cleo::CleoSetup'')) (\<lambda>carl.
     bind_sum (bind_sum (extract_field ''proto::cleo::CleoSetup'' ''cleo::CleoSetup'' ''ca'' (pcleo_ca p)) certificate_from_proto) (\<lambda>ca.
     bind_sum (bind_sum (extract_field ''proto::cleo::CleoSetup'' ''cleo::CleoSetup'' ''auth_config'' (pcleo_auth_config p)) (auth_config_from_proto x)) (\<lambda>auth_config.
       Inr \<lparr> cleo_id = id, cleo_carl = carl, cleo_ca = ca, cleo_auth_config = auth_config \<rparr>))))"

interpretation cleo_setup_conversion:
  exact_conversion "cleo_setup_to_proto x" "cleo_setup_from_proto x"
    "\<lambda>m. ext_ok x \<and> wf_auth (cleo_auth_config m)" for x
  by (rule exact_conversionI) (simp add: cleo_setup_to_proto_def cleo_setup_from_proto_def)

end
