(* ===== verification/ProtoConfiguration.thy ===== *)
theory ProtoConfiguration
  imports ProtoPeer
begin

text \<open>
  The configuration of a peer on the wire (proto/peer/configuration/api.rs and parameter.rs).
  The three kinds of parameter share the generic part: identifier, dependencies, target.
\<close>

section \<open>Parameter values (parameter.rs)\<close>

datatype ProtoDeviceInterface = ProtoDeviceInterface (proto_di_descriptor: "ProtoNetworkInterfaceDescriptor option")

definition device_interface_to_proto :: "ext \<Rightarrow> DeviceInterface \<Rightarrow> ProtoDeviceInterface" where
  "device_interface_to_proto x m = ProtoDeviceInterface (Some (network_interface_to_proto x (di_descriptor m)))"

definition device_interface_from_proto :: "ext \<Rightarrow> ProtoDeviceInterface \<Rightarrow> DeviceInterface conversion_result" where
  "device_interface_from_proto x p =
     map_ok (\<lambda>descriptor. \<lparr> di_descriptor = descriptor \<rparr>)
       (bind_sum (extract_field ''proto::peer::configuration::parameter::DeviceInterface''
           ''peer::configuration::parameter::DeviceInterface'' ''descriptor'' (proto_di_descriptor p))
         (network_interface_from_proto x))"

interpretation device_interface_conversion:
  exact_conversion "device_interface_to_proto x" "device_interface_from_proto x"
    "\<lambda>m. ext_ok x \<and> wf_interface (di_descriptor m)" for x
  by (rule exact_conversionI) (simp add: device_interface_to_proto_def device_interface_from_proto_def)

datatype ProtoEthernetBridge = ProtoEthernetBridge (proto_eb_name: "ProtoNetworkInterfaceName option")

definition ethernet_bridge_to_proto :: "EthernetBridge \<Rightarrow> ProtoEthernetBridge" where
  "ethernet_bridge_to_proto m = ProtoEthernetBridge (Some (network_interface_name_to_proto (eb_name m)))"

definition ethernet_bridge_from_proto :: "ProtoEthernetBridge \<Rightarrow> EthernetBridge conversion_result" where
  "ethernet_bridge_from_proto p =
     map_ok (\<lambda>name. \<lparr> eb_name = name \<rparr>)
       (bind_sum (extract_field ''proto::peer::configuration::parameter::EthernetBridge''
           ''peer::configuration::parameter::EthernetBridge'' ''name'' (proto_eb_name p))
         network_interface_name_from_proto)"

interpretation ethernet_bridge_conversion:
  exact_conversion ethernet_bridge_to_proto ethernet_bridge_from_proto
    "\<lambda>m. valid_network_interface_name (eb_name m)"
  by (rule exact_conversionI) (simp add: ethernet_bridge_to_proto_def ethernet_bridge_from_proto_def)

datatype ProtoExecutor = ProtoExecutor (proto_ex_descriptor: "ProtoExecutorDescriptor option")

definition executor_parameter_to_proto :: "ext \<Rightarrow> Executor \<Rightarrow> ProtoExecutor" where
  "executor_parameter_to_proto x m = ProtoExecutor (Some (executor_to_proto x (ex_descriptor m)))"

definition executor_parameter_from_proto :: "ext \<Rightarrow> ProtoExecutor \<Rightarrow> Executor conversion_result" where
  "executor_parameter_from_proto x p =
     map_ok (\<lambda>descriptor. \<lparr> ex_descriptor = descriptor \<rparr>)
       (bind_sum (extract_field ''proto::peer::configuration::parameter::Executor''
           ''peer::configuration::parameter::Executor'' ''descriptor'' (proto_ex_descriptor p))
         (executor_from_proto x))"

interpretation executor_parameter_conversion:
  exact_conversion "executor_parameter_to_proto x" "executor_parameter_from_proto x"
    "\<lambda>m. ext_ok x \<and> wf_executor (ex_descriptor m)" for x
  by (rule exact_conversionI) (simp add: executor_parameter_to_proto_def executor_parameter_from_proto_def)

section \<open>Parameters (api.rs)\<close>

datatype ProtoParameterId = ProtoParameterId (proto_parameter_uuid: "ProtoUuid option")

definition parameter_id_to_proto :: "ext \<Rightarrow> ParameterId \<Rightarrow> ProtoParameterId" where
  "parameter_id_to_proto x m = ProtoParameterId (Some (uuid_to_proto x (parameter_uuid m)))"

definition parameter_id_from_proto :: "ext \<Rightarrow> ProtoParameterId \<Rightarrow> ParameterId conversion_result" where
  "parameter_id_from_proto x p =
     map_ok (\<lambda>u. ParameterId (uuid_from_proto x u))
       (extract_field ''proto::peer::configuration::PeerConfigurationParameterId'' ''peer::configuration::ParameterId'' ''uuid'' (proto_parameter_uuid p))"

interpretation parameter_id_conversion:
  exact_conversion "parameter_id_to_proto x" "parameter_id_from_proto x" "\<lambda>_. ext_ok x" for x
  by (rule exact_conversionI) (simp add: parameter_id_to_proto_def parameter_id_from_proto_def)

datatype ProtoTarget = ProtoPresent | ProtoAbsent

record ProtoParameter =
  pparam_id :: "ProtoParameterId option"
  pparam_dependencies :: "ProtoParameterId list"
  pparam_target :: "ProtoTarget option"

record 'v ProtoTypedParameter =
  ptyped_parameter :: "ProtoParameter option"
  ptyped_value :: "'v option"

fun target_to_proto :: "ParameterTarget \<Rightarrow> ProtoTarget" where
  "target_to_proto Present = ProtoPresent"
| "target_to_proto Absent = ProtoAbsent"

fun target_from_proto :: "ProtoTarget \<Rightarrow> ParameterTarget" where
  "target_from_proto ProtoPresent = Present"
| "target_from_proto ProtoAbsent = Absent"

lemma target_trip [simp]: "target_from_proto (target_to_proto t) = t"
  by (cases t) simp_all

definition parameter_to_proto :: "ext \<Rightarrow> 'v Parameter \<Rightarrow> ProtoParameter" where
  "parameter_to_proto x m =
     \<lparr> pparam_id = Some (parameter_id_to_proto x (param_id m)),
       pparam_dependencies = map (parameter_id_to_proto x) (param_dependencies m),
       pparam_target = Some (target_to_proto (param_target m)) \<rparr>"

definition typed_parameter_to_proto :: "ext \<Rightarrow> ('v \<Rightarrow> 'p) \<Rightarrow> 'v Parameter \<Rightarrow> 'p ProtoTypedParameter" where
  "typed_parameter_to_proto x value_to_proto m =
     \<lparr> ptyped_parameter = Some (parameter_to_proto x m), ptyped_value = Some (value_to_proto (param_value m)) \<rparr>"

definition typed_parameter_from_proto ::
    "ext \<Rightarrow> string \<Rightarrow> string \<Rightarrow> ('p \<Rightarrow> 'v conversion_result) \<Rightarrow> 'p ProtoTypedParameter \<Rightarrow>
     'v Parameter conversion_result" where
  "typed_parameter_from_proto x frm to value_from_proto p =
     bind_sum (extract_field frm to ''parameter'' (ptyped_parameter p)) (\<lambda>parameter.
     bind_sum (bind_sum (extract_field frm to ''value'' (ptyped_value p)) value_from_proto) (\<lambda>v.
     bind_sum (bind_sum (extract_field frm to ''id'' (pparam_id parameter)) (parameter_id_from_proto x)) (\<lambda>id.
     bind_sum (traverse (parameter_id_from_proto x) (pparam_dependencies parameter)) (\<lambda>dependencies.
     bind_sum (extract_field frm to ''target'' (pparam_target parameter)) (\<lambda>target.
       Inr \<lparr> param_id = id, param_dependencies = dependencies, param_target = target_from_proto target,
             param_value = v \<rparr>)))))"

lemma typed_parameter_conversion:
  assumes "\<And>v. good v \<Longrightarrow> value_from_proto (value_to_proto v) = Inr v"
  shows "exact_conversion (typed_parameter_to_proto x value_to_proto)
           (typed_parameter_from_proto x frm to value_from_proto)
           (\<lambda>m. ext_ok x \<and> good (param_value m))"
  by (rule exact_conversionI)
    (simp add: typed_parameter_to_proto_def typed_parameter_from_proto_def parameter_to_proto_def assms)

definition device_interface_parameter_from_proto ::
    "ext \<Rightarrow> ProtoDeviceInterface ProtoTypedParameter \<Rightarrow> DeviceInterface Parameter conversion_result" where
  "device_interface_parameter_from_proto x =
     typed_parameter_from_proto x ''proto::peer::configuration::PeerConfigurationParameterDeviceInterface''
       ''peer::configuration::Parameter<DeviceInterface>'' (device_interface_from_proto x)"

definition executor_parameter_parameter_from_proto ::
    "ext \<Rightarrow> ProtoExecutor ProtoTypedParameter \<Rightarrow> Executor Parameter conversion_result" where
  "executor_parameter_parameter_from_proto x =
     typed_parameter_from_proto x ''proto::peer::configuration::PeerConfigurationParameterExecutor''
       ''peer::configuration::Parameter<Executor>'' (executor_parameter_from_proto x)"

definition ethernet_bridge_parameter_from_proto ::
    "ext \<Rightarrow> ProtoEthernetBridge ProtoTypedParameter \<Rightarrow> EthernetBridge Parameter conversion_result" where
  "ethernet_bridge_parameter_from_proto x =
     typed_parameter_from_proto x ''proto::peer::configuration::PeerConfigurationParameterEthernetBridge''
       ''peer::configuration::Parameter<EthernetBridge>'' ethernet_bridge_from_proto"

interpretation device_interface_parameter_conversion:
  exact_conversion "typed_parameter_to_proto x (device_interface_to_proto x)"
    "device_interface_parameter_from_proto x"
    "\<lambda>m. ext_ok x \<and> ext_ok x \<and> wf_interface (di_descriptor (param_value m))" for x
  unfolding device_interface_parameter_from_proto_def
  by (rule typed_parameter_conversion) simp

interpretation executor_parameter_parameter_conversion:
  exact_conversion "typed_parameter_to_proto x (executor_parameter_to_proto x)"
    "executor_parameter_parameter_from_proto x"
    "\<lambda>m. ext_ok x \<and> ext_ok x \<and> wf_executor (ex_descriptor (param_value m))" for x
  unfolding executor_parameter_parameter_from_proto_def
  by (rule typed_parameter_conversion) simp

interpretation ethernet_bridge_parameter_conversion:
  exact_conversion "typed_parameter_to_proto x ethernet_bridge_to_proto"
    "ethernet_bridge_parameter_from_proto x"
    "\<lambda>m. ext_ok x \<and> valid_network_interface_name (eb_name (param_value m))" for x
  unfolding ethernet_bridge_parameter_from_proto_def
  by (rule typed_parameter_conversion) simp

section \<open>Configurations (api.rs)\<close>

datatype ProtoOldPeerConfiguration =
  ProtoOldPeerConfiguration (proto_cluster_assignment: "ProtoClusterAssignment option")

definition old_configuration_to_proto :: "ext \<Rightarrow> OldPeerConfiguration \<Rightarrow> ProtoOldPeerConfiguration" where
  "old_configuration_to_proto x m =
     ProtoOldPeerConfiguration (map_option (cluster_assignment_to_proto x) (opc_cluster_assignment m))"

definition old_configuration_from_proto ::
    "ext \<Rightarrow> ProtoOldPeerConfiguration \<Rightarrow> OldPeerConfiguration conversion_result" where
  "old_configuration_from_proto x p =
     map_ok (\<lambda>assignment. \<lparr> opc_cluster_assignment = assignment \<rparr>)
       (transpose_map (cluster_assignment_from_proto x) (proto_cluster_assignment p))"

interpretation old_configuration_conversion:
  exact_conversion "old_configuration_to_proto x" "old_configuration_from_proto x"
    "\<lambda>m. ext_ok x \<and> (\<forall>a. opc_cluster_assignment m = Some a \<longrightarrow> wf_assignment a)" for x
  by (rule exact_conversionI)
    (simp add: old_configuration_to_proto_def old_configuration_from_proto_def option.map_ident)

record ProtoPeerConfiguration =
  pcfg_executors :: "ProtoExecutor ProtoTypedParameter list"
  pcfg_ethernet_bridges :: "ProtoEthernetBridge ProtoTypedParameter list"
  pcfg_device_interfaces :: "ProtoDeviceInterface ProtoTypedParameter list"

definition configuration_to_proto :: "ext \<Rightarrow> PeerConfiguration \<Rightarrow> ProtoPeerConfiguration" where
  "configuration_to_proto x m =
     \<lparr> pcfg_executors = map (typed_parameter_to_proto x (executor_parameter_to_proto x)) (cfg_executors m),
       pcfg_ethernet_bridges = map (typed_parameter_to_proto x ethernet_bridge_to_proto) (cfg_ethernet_bridges m),
       pcfg_device_interfaces =
         map (typed_parameter_to_proto x (device_interface_to_proto x)) (cfg_device_interfaces m) \<rparr>"

definition configuration_from_proto :: "ext \<Rightarrow> ProtoPeerConfiguration \<Rightarrow> PeerConfiguration conversion_result" where
  "configuration_from_proto x p =
     bind_sum (traverse (executor_parameter_parameter_from_proto x) (pcfg_executors p)) (\<lambda>executors.
     bind_sum (traverse (ethernet_bridge_parameter_from_proto x) (pcfg_ethernet_bridges p)) (\<lambda>ethernet_bridges.
     bind_sum (traverse (device_interface_parameter_from_proto x) (pcfg_device_interfaces p)) (\<lambda>device_interfaces.
       Inr \<lparr> cfg_device_interfaces = device_interfaces, cfg_ethernet_bridges = ethernet_bridges,
             cfg_executors = executors \<rparr>)))"

text \<open>Every value in the configuration is well-formed.\<close>

definition wf_configuration_values :: "PeerConfiguration \<Rightarrow> bool" where
  "wf_configuration_values c \<longleftrightarrow>
     (\<forall>p\<in>set (cfg_device_interfaces c). wf_interface (di_descriptor (param_value p))) \<and>
     (\<forall>p\<in>set (cfg_ethernet_bridges c). valid_network_interface_name (eb_name (param_value p))) \<and>
     (\<forall>p\<in>set (cfg_executors c). wf_executor (ex_descriptor (param_value p)))"

interpretation configuration_conversion:
  exact_conversion "configuration_to_proto x" "configuration_from_proto x"
    "\<lambda>m. ext_ok x \<and> wf_configuration_values m" for x
  by (rule exact_conversionI)
    (simp add: configuration_to_proto_def configuration_from_proto_def wf_configuration_values_def)

end
