(* ===== verification/Storage.thy ===== *)
theory Storage
  imports ProtoConfiguration
begin

text \<open>
  CARL's key-value storage (opendut-carl/src/resource: storage/mod.rs, persistence/mod.rs,
  persistence/persistable.rs, persistence/error.rs, api/id.rs): every resource is converted to
  its message, encoded and kept under its id in the table of its type, in the database file or
  in memory. The encoded form (\<open>prost\<close>) and the failures of \<open>redb\<close> are parameters; bytes are a
  type variable. \<open>resource_store\<close> is the contract of the four operations for one resource type.
\<close>

section \<open>Errors (persistence/error.rs)\<close>

datatype PersistenceOperation = OpInsert | OpRemove | OpGet | OpList

fun verb :: "PersistenceOperation \<Rightarrow> string" where
  "verb OpInsert = ''inserting''"
| "verb OpRemove = ''removing''"
| "verb OpGet = ''getting''"
| "verb OpList = ''listing''"

datatype PersistenceErrorKind =
    Custom (pe_resource_name: string) (pe_operation: PersistenceOperation)
      (pe_identifier: "string option") (pe_source: "string option")
  | ProtobufDecode string
  | ProtobufConversion string string string
  | KeyValueStore string

record PersistenceError =
  perr_source :: PersistenceErrorKind
  perr_context_messages :: "string list"

definition persistence_error_new ::
    "string \<Rightarrow> string option \<Rightarrow> PersistenceOperation \<Rightarrow> string option \<Rightarrow> PersistenceError" where
  "persistence_error_new resource_name identifier operation cause =
     \<lparr> perr_source = Custom resource_name operation identifier cause, perr_context_messages = [] \<rparr>"

definition persistence_error_insert :: "string \<Rightarrow> string \<Rightarrow> string \<Rightarrow> PersistenceError" where
  "persistence_error_insert name identifier cause = persistence_error_new name (Some identifier) OpInsert (Some cause)"

definition persistence_error_remove :: "string \<Rightarrow> string \<Rightarrow> string \<Rightarrow> PersistenceError" where
  "persistence_error_remove name identifier cause = persistence_error_new name (Some identifier) OpRemove (Some cause)"

definition persistence_error_get :: "string \<Rightarrow> string \<Rightarrow> string \<Rightarrow> PersistenceError" where
  "persistence_error_get name identifier cause = persistence_error_new name (Some identifier) OpGet (Some cause)"

definition persistence_error_list :: "string \<Rightarrow> string \<Rightarrow> PersistenceError" where
  "persistence_error_list name cause = persistence_error_new name None OpList (Some cause)"

definition error_context :: "string \<Rightarrow> PersistenceError \<Rightarrow> PersistenceError" where
  "error_context message e = e\<lparr> perr_context_messages := perr_context_messages e @ [message] \<rparr>"

definition decode_error :: "string \<Rightarrow> PersistenceError" where
  "decode_error cause = \<lparr> perr_source = ProtobufDecode cause, perr_context_messages = [] \<rparr>"

definition kv_error :: "string \<Rightarrow> PersistenceError" where
  "kv_error cause = \<lparr> perr_source = KeyValueStore cause, perr_context_messages = [] \<rparr>"

text \<open>What an operation of the storage can end with: an error it returns, or a panic.\<close>

datatype storage_fault = Persistence PersistenceError | StoragePanic string

fun conversion_storage_fault :: "conversion_fault \<Rightarrow> storage_fault" where
  "conversion_storage_fault (ConversionError frm to details) =
     Persistence \<lparr> perr_source = ProtobufConversion frm to details, perr_context_messages = [] \<rparr>"
| "conversion_storage_fault (SlicePanic n) = StoragePanic ''range end index out of range for slice''"

text \<open>\<open>MapErrToInner\<close>: the error of the transaction becomes an error of the inner result.\<close>

fun map_err_to_inner :: "('p \<Rightarrow> 'e) \<Rightarrow> 'p + ('e + 'a) \<Rightarrow> 'e + 'a" where
  "map_err_to_inner f (Inl cause) = Inl (f cause)"
| "map_err_to_inner f (Inr r) = r"

section \<open>Persistable resources (persistence/persistable.rs, api/id.rs)\<close>

datatype StorageKind = Persistent | Volatile

text \<open>The trait \<open>Persistable\<close> with \<open>ResourceId\<close> as a record; \<open>'b\<close> is the type of encoded bytes.\<close>

record ('i, 'r, 'p, 'b) persistable =
  into_id :: "'i \<Rightarrow> uuid"
  from_id :: "uuid \<Rightarrow> 'i"
  into_proto :: "'r \<Rightarrow> 'p"
  try_from_proto :: "'p \<Rightarrow> 'r conversion_result"
  encode_to_vec :: "'p \<Rightarrow> 'b"
  decode :: "'b \<Rightarrow> string + 'p"
  TABLE :: string
  STORAGE :: StorageKind

definition try_from_bytes :: "('i, 'r, 'p, 'b) persistable \<Rightarrow> 'b \<Rightarrow> storage_fault + 'r" where
  "try_from_bytes R bytes =
     bind_sum (map_err (\<lambda>cause. Persistence (decode_error cause)) (decode R bytes)) (\<lambda>msg.
       map_err conversion_storage_fault (try_from_proto R msg))"

definition to_bytes :: "('i, 'r, 'p, 'b) persistable \<Rightarrow> 'r \<Rightarrow> 'b" where
  "to_bytes R resource = encode_to_vec R (into_proto R resource)"

text \<open>\<open>prost\<close>, for the message types that are stored.\<close>

record 'b prost =
  encode_cluster_configuration :: "ProtoClusterConfiguration \<Rightarrow> 'b"
  decode_cluster_configuration :: "'b \<Rightarrow> string + ProtoClusterConfiguration"
  encode_cluster_deployment :: "ProtoClusterDeployment \<Rightarrow> 'b"
  decode_cluster_deployment :: "'b \<Rightarrow> string + ProtoClusterDeployment"
  encode_old_peer_configuration :: "ProtoOldPeerConfiguration \<Rightarrow> 'b"
  decode_old_peer_configuration :: "'b \<Rightarrow> string + ProtoOldPeerConfiguration"
  encode_peer_configuration :: "ProtoPeerConfiguration \<Rightarrow> 'b"
  decode_peer_configuration :: "'b \<Rightarrow> string + ProtoPeerConfiguration"
  encode_peer_connection_state :: "ProtoPeerConnectionState \<Rightarrow> 'b"
  decode_peer_connection_state :: "'b \<Rightarrow> string + ProtoPeerConnectionState"
  encode_peer_descriptor :: "ProtoPeerDescriptor \<Rightarrow> 'b"
  decode_peer_descriptor :: "'b \<Rightarrow> string + ProtoPeerDescriptor"

definition prost_ok :: "'b prost \<Rightarrow> bool" where
  "prost_ok c \<longleftrightarrow>
     (\<forall>m. decode_cluster_configuration c (encode_cluster_configuration c m) = Inr m) \<and>
     (\<forall>m. decode_cluster_deployment c (encode_cluster_deployment c m) = Inr m) \<and>
     (\<forall>m. decode_old_peer_configuration c (encode_old_peer_configuration c m) = Inr m) \<and>
     (\<forall>m. decode_peer_configuration c (encode_peer_configuration c m) = Inr m) \<and>
     (\<forall>m. decode_peer_connection_state c (encode_peer_connection_state c m) = Inr m) \<and>
     (\<forall>m. decode_peer_descriptor c (encode_peer_descriptor c m) = Inr m)"

definition persistable_cluster_configuration ::
    "ext \<Rightarrow> 'b prost \<Rightarrow> (ClusterId, ClusterConfiguration, ProtoClusterConfiguration, 'b) persistable" where
  "persistable_cluster_configuration x c =
     \<lparr> into_id = cluster_uuid, from_id = ClusterId,
       into_proto = cluster_configuration_to_proto x, try_from_proto = cluster_configuration_from_proto x,
       encode_to_vec = encode_cluster_configuration c, decode = decode_cluster_configuration c,
       TABLE = ''cluster_configuration'', STORAGE = Persistent \<rparr>"

definition persistable_cluster_deployment ::
    "ext \<Rightarrow> 'b prost \<Rightarrow> (ClusterId, ClusterDeployment, ProtoClusterDeployment, 'b) persistable" where
  "persistable_cluster_deployment x c =
     \<lparr> into_id = cluster_uuid, from_id = ClusterId,
       into_proto = cluster_deployment_to_proto x, try_from_proto = cluster_deployment_from_proto x,
       encode_to_vec = encode_cluster_deployment c, decode = decode_cluster_deployment c,
       TABLE = ''cluster_deployment'', STORAGE = Persistent \<rparr>"

definition persistable_old_peer_configuration ::
    "ext \<Rightarrow> 'b prost \<Rightarrow> (PeerId, OldPeerConfiguration, ProtoOldPeerConfiguration, 'b) persistable" where
  "persistable_old_peer_configuration x c =
     \<lparr> into_id = peer_uuid, from_id = PeerId,
       into_proto = old_configuration_to_proto x, try_from_proto = old_configuration_from_proto x,
       encode_to_vec = encode_old_peer_configuration c, decode = decode_old_peer_configuration c,
       TABLE = ''old_peer_configuration'', STORAGE = Volatile \<rparr>"

definition persistable_peer_configuration ::
    "ext \<Rightarrow> 'b prost \<Rightarrow> (PeerId, PeerConfiguration, ProtoPeerConfiguration, 'b) persistable" where
  "persistable_peer_configuration x c =
     \<lparr> into_id = peer_uuid, from_id = PeerId,
       into_proto = configuration_to_proto x, try_from_proto = configuration_from_proto x,
       encode_to_vec = encode_peer_configuration c, decode = decode_peer_configuration c,
       TABLE = ''peer_configuration'', STORAGE = Volatile \<rparr>"

definition persistable_peer_connection_state ::
    "'b prost \<Rightarrow> (PeerId, PeerConnectionState, ProtoPeerConnectionState, 'b) persistable" where
  "persistable_peer_connection_state c =
     \<lparr> into_id = peer_uuid, from_id = PeerId,
       into_proto = connection_state_to_proto, try_from_proto = connection_state_from_proto,
       encode_to_vec = encode_peer_connection_state c, decode = decode_peer_connection_state c,
       TABLE = ''peer_connection_state'', STORAGE = Volatile \<rparr>"

definition persistable_peer_descriptor ::
    "ext \<Rightarrow> 'b prost \<Rightarrow> (PeerId, PeerDescriptor, ProtoPeerDescriptor, 'b) persistable" where
  "persistable_peer_descriptor x c =
     \<lparr> into_id = peer_uuid, from_id = PeerId,
       into_proto = peer_to_proto x, try_from_proto = peer_from_proto x,
       encode_to_vec = encode_peer_descriptor c, decode = decode_peer_descriptor c,
       TABLE = ''peer_descriptor'', STORAGE = Persistent \<rparr>"

text \<open>What the storage relies on for a resource type: ids convert back and forth, and a good
  resource is decoded to its normal form.\<close>

definition persistable_ok ::
    "('i, 'r, 'p, 'b) persistable \<Rightarrow> ('r \<Rightarrow> bool) \<Rightarrow> ('r \<Rightarrow> 'r) \<Rightarrow> bool" where
  "persistable_ok R good norm \<longleftrightarrow>
     (\<forall>i. from_id R (into_id R i) = i) \<and> (\<forall>u. into_id R (from_id R u) = u) \<and>
     (\<forall>r. good r \<longrightarrow> try_from_bytes R (to_bytes R r) = Inr (norm r))"

lemma persistable_okI:
  assumes "\<And>i. from_id R (into_id R i) = i" "\<And>u. into_id R (from_id R u) = u"
    and "\<And>m. decode R (encode_to_vec R m) = Inr m"
    and "\<And>r. good r \<Longrightarrow> try_from_proto R (into_proto R r) = Inr (norm r)"
  shows "persistable_ok R good norm"
  using assms by (simp add: persistable_ok_def try_from_bytes_def to_bytes_def)

lemma persistable_ok_instances:
  assumes "ext_ok x" "prost_ok c"
  shows "persistable_ok (persistable_cluster_configuration x c) wf_cluster (\<lambda>r. r)"
    and "persistable_ok (persistable_cluster_deployment x c) (\<lambda>_. True) (\<lambda>r. r)"
    and "persistable_ok (persistable_old_peer_configuration x c)
           (\<lambda>m. \<forall>a. opc_cluster_assignment m = Some a \<longrightarrow> wf_assignment a) (\<lambda>r. r)"
    and "persistable_ok (persistable_peer_configuration x c) wf_configuration_values (\<lambda>r. r)"
    and "persistable_ok (persistable_peer_connection_state c) wf_connection (\<lambda>r. r)"
    and "persistable_ok (persistable_peer_descriptor x c) wf_peer norm_peer"
  using assms
  by (auto intro!: persistable_okI simp: persistable_cluster_configuration_def
      persistable_cluster_deployment_def persistable_old_peer_configuration_def
      persistable_peer_configuration_def persistable_peer_connection_state_def
      persistable_peer_descriptor_def prost_ok_def)

section \<open>The key-value store (persistence/mod.rs)\<close>

type_synonym 'b table = "(uuid \<times> 'b) list"

record 'b storage =
  st_db :: "(string \<times> 'b table) list"
  st_memory :: "(string \<times> 'b table) list"

text \<open>A transaction is opened for reading or for writing; \<open>redb\<close> decides which accesses fail.\<close>

datatype access = Read | ReadWrite

record redb =
  open_fault :: "string \<Rightarrow> string option"
  key_fault :: "string \<Rightarrow> PersistenceOperation \<Rightarrow> uuid \<Rightarrow> string option"
  iter_fault :: "string \<Rightarrow> string option"

definition no_redb_faults :: redb where
  "no_redb_faults = \<lparr> open_fault = (\<lambda>_. None), key_fault = (\<lambda>_ _ _. None), iter_fault = (\<lambda>_. None) \<rparr>"

definition get_db_for_resource :: "('i, 'r, 'p, 'b) persistable \<Rightarrow> 'b storage \<Rightarrow> (string \<times> 'b table) list" where
  "get_db_for_resource R st = (case STORAGE R of Persistent \<Rightarrow> st_db st | Volatile \<Rightarrow> st_memory st)"

definition put_db_for_resource ::
    "('i, 'r, 'p, 'b) persistable \<Rightarrow> (string \<times> 'b table) list \<Rightarrow> 'b storage \<Rightarrow> 'b storage" where
  "put_db_for_resource R db st =
     (case STORAGE R of Persistent \<Rightarrow> st\<lparr> st_db := db \<rparr> | Volatile \<Rightarrow> st\<lparr> st_memory := db \<rparr>)"

text \<open>
  \<open>read_table\<close>: a missing table is \<open>None\<close> for a reader, and created for a writer (an empty table
  behaves like a missing one, so its creation is not recorded before something is written).
\<close>

definition read_table ::
    "redb \<Rightarrow> access \<Rightarrow> (string \<times> 'b table) list \<Rightarrow> string \<Rightarrow> storage_fault + 'b table option" where
  "read_table kv acc db t =
     (case open_fault kv t of
        Some cause \<Rightarrow> Inl (Persistence (kv_error cause))
      | None \<Rightarrow>
          (case map_of db t of
             Some tb \<Rightarrow> Inr (Some tb)
           | None \<Rightarrow> (case acc of Read \<Rightarrow> Inr None | ReadWrite \<Rightarrow> Inr (Some []))))"

definition read_write_table ::
    "redb \<Rightarrow> access \<Rightarrow> (string \<times> 'b table) list \<Rightarrow> string \<Rightarrow> storage_fault + 'b table" where
  "read_write_table kv acc db t =
     (case acc of
        Read \<Rightarrow> Inl (StoragePanic ''Called read_write_table() on a Db::Read() variant'')
      | ReadWrite \<Rightarrow>
          (case open_fault kv t of
             Some cause \<Rightarrow> Inl (Persistence (kv_error cause))
           | None \<Rightarrow> Inr (case map_of db t of Some tb \<Rightarrow> tb | None \<Rightarrow> [])))"

definition key_access :: "redb \<Rightarrow> string \<Rightarrow> PersistenceOperation \<Rightarrow> uuid \<Rightarrow> storage_fault + unit" where
  "key_access kv t op key =
     (case key_fault kv t op key of Some cause \<Rightarrow> Inl (Persistence (kv_error cause)) | None \<Rightarrow> Inr ())"

section \<open>The operations of a transaction (storage/mod.rs)\<close>

definition storage_insert ::
    "redb \<Rightarrow> access \<Rightarrow> ('i, 'r, 'p, 'b) persistable \<Rightarrow> 'i \<Rightarrow> 'r \<Rightarrow> ('b storage, storage_fault, unit) run" where
  "storage_insert kv acc R i resource st =
     (let db = get_db_for_resource R st; key = into_id R i; bytes = to_bytes R resource in
      case read_write_table kv acc db (TABLE R) of
        Inl e \<Rightarrow> (st, Inl e)
      | Inr tb \<Rightarrow>
          (case key_access kv (TABLE R) OpInsert key of
             Inl e \<Rightarrow> (st, Inl e)
           | Inr _ \<Rightarrow>
               (put_db_for_resource R (AList.update (TABLE R) (AList.update key bytes tb) db) st, Inr ())))"

definition storage_remove ::
    "redb \<Rightarrow> access \<Rightarrow> ('i, 'r, 'p, 'b) persistable \<Rightarrow> 'i \<Rightarrow> ('b storage, storage_fault, 'r option) run" where
  "storage_remove kv acc R i st =
     (let db = get_db_for_resource R st; key = into_id R i in
      case read_write_table kv acc db (TABLE R) of
        Inl e \<Rightarrow> (st, Inl e)
      | Inr tb \<Rightarrow>
          (case key_access kv (TABLE R) OpRemove key of
             Inl e \<Rightarrow> (st, Inl e)
           | Inr _ \<Rightarrow>
               (put_db_for_resource R (AList.update (TABLE R) (AList.delete key tb) db) st,
                transpose_map (try_from_bytes R) (map_of tb key))))"

definition storage_get ::
    "redb \<Rightarrow> access \<Rightarrow> ('i, 'r, 'p, 'b) persistable \<Rightarrow> 'i \<Rightarrow> 'b storage \<Rightarrow> storage_fault + 'r option" where
  "storage_get kv acc R i st =
     bind_sum (read_table kv acc (get_db_for_resource R st) (TABLE R)) (\<lambda>table.
       case table of
         None \<Rightarrow> Inr None
       | Some tb \<Rightarrow>
           bind_sum (key_access kv (TABLE R) OpGet (into_id R i)) (\<lambda>_.
             transpose_map (try_from_bytes R) (map_of tb (into_id R i))))"

definition storage_list ::
    "redb \<Rightarrow> access \<Rightarrow> ('i, 'r, 'p, 'b) persistable \<Rightarrow> 'b storage \<Rightarrow> storage_fault + ('i \<times> 'r) list" where
  "storage_list kv acc R st =
     bind_sum (read_table kv acc (get_db_for_resource R st) (TABLE R)) (\<lambda>table.
       case table of
         None \<Rightarrow> Inr []
       | Some tb \<Rightarrow>
           (case iter_fault kv (TABLE R) of
              Some cause \<Rightarrow> Inl (Persistence (kv_error cause))
            | None \<Rightarrow>
                map_ok collect_map
                  (traverse (\<lambda>(key, bytes). map_ok (\<lambda>r. (from_id R key, r)) (try_from_bytes R bytes)) tb)))"

section \<open>The contract of the four operations\<close>

locale resource_store =
  fixes ins :: "'i \<Rightarrow> 'r \<Rightarrow> 's \<Rightarrow> 's"
    and del :: "'i \<Rightarrow> 's \<Rightarrow> 's"
    and look :: "'i \<Rightarrow> 's \<Rightarrow> 'r option"
    and entries :: "'s \<Rightarrow> ('i \<times> 'r) list"
    and norm :: "'r \<Rightarrow> 'r"
    and good :: "'r \<Rightarrow> bool"
    and inv :: "'s \<Rightarrow> bool"
  assumes inv_ins: "inv s \<Longrightarrow> good r \<Longrightarrow> inv (ins i r s)"
    and inv_del: "inv s \<Longrightarrow> inv (del i s)"
    and look_ins: "inv s \<Longrightarrow> good r \<Longrightarrow> look j (ins i r s) = (if j = i then Some (norm r) else look j s)"
    and look_del: "inv s \<Longrightarrow> look j (del i s) = (if j = i then None else look j s)"
    and entries_look: "inv s \<Longrightarrow> (i, r) \<in> set (entries s) \<longleftrightarrow> look i s = Some r"
    and entries_hash_map: "inv s \<Longrightarrow> hash_map (entries s)"
begin

lemma ins_ins: "inv s \<Longrightarrow> good r \<Longrightarrow> good q \<Longrightarrow> look j (ins i q (ins i r s)) = look j (ins i q s)"
  by (simp add: inv_ins look_ins)

lemma ins_commute:
  "inv s \<Longrightarrow> good r \<Longrightarrow> good q \<Longrightarrow> i \<noteq> k \<Longrightarrow> look j (ins i r (ins k q s)) = look j (ins k q (ins i r s))"
  by (simp add: inv_ins look_ins)

lemma del_ins: "inv s \<Longrightarrow> good r \<Longrightarrow> look j (del i (ins i r s)) = look j (del i s)"
  by (simp add: inv_ins look_ins look_del)

lemma map_of_entries: "inv s \<Longrightarrow> map_of (entries s) = (\<lambda>i. look i s)"
proof
  fix i
  assume s: "inv s"
  have "map_of (entries s) i = Some r \<longleftrightarrow> look i s = Some r" for r
    using entries_look [OF s] set_hash_map [OF entries_hash_map [OF s]] by blast
  then show "map_of (entries s) i = look i s"
    by (cases "look i s"; cases "map_of (entries s) i") auto
qed

lemma entries_ins:
  "inv s \<Longrightarrow> good r \<Longrightarrow> map_of (entries (ins i r s)) = (map_of (entries s))(i \<mapsto> norm r)"
  by (simp add: map_of_entries inv_ins look_ins fun_eq_iff)

lemma entries_del: "inv s \<Longrightarrow> map_of (entries (del i s)) = (map_of (entries s))(i := None)"
  by (simp add: map_of_entries inv_del look_del fun_eq_iff)

end

section \<open>The storage keeps the contract\<close>

definition the_table :: "('i, 'r, 'p, 'b) persistable \<Rightarrow> 'b storage \<Rightarrow> 'b table" where
  "the_table R st = (case map_of (get_db_for_resource R st) (TABLE R) of Some tb \<Rightarrow> tb | None \<Rightarrow> [])"

text \<open>The table as the program sees it: every entry decoded.\<close>

definition decoded :: "('i, 'r, 'p, 'b) persistable \<Rightarrow> 'b table \<Rightarrow> ('i \<times> 'r) list" where
  "decoded R tb = map (\<lambda>(key, bytes). (from_id R key, projr (try_from_bytes R bytes))) tb"

definition table_ok :: "('i, 'r, 'p, 'b) persistable \<Rightarrow> 'b table \<Rightarrow> bool" where
  "table_ok R tb \<longleftrightarrow> hash_map tb \<and> (\<forall>(key, bytes)\<in>set tb. \<exists>r. try_from_bytes R bytes = Inr r)"

lemma get_put_db [simp]: "get_db_for_resource R (put_db_for_resource R db st) = db"
  by (simp add: get_db_for_resource_def put_db_for_resource_def split: StorageKind.split)

lemma get_put_db_other: "STORAGE R \<noteq> STORAGE Q \<Longrightarrow>
  get_db_for_resource Q (put_db_for_resource R db st) = get_db_for_resource Q st"
  by (cases "STORAGE R"; cases "STORAGE Q") (simp_all add: get_db_for_resource_def put_db_for_resource_def)

lemma get_put_db_same: "STORAGE R = STORAGE Q \<Longrightarrow>
  get_db_for_resource Q (put_db_for_resource R db st) = db"
  by (simp add: get_db_for_resource_def put_db_for_resource_def split: StorageKind.splits)

lemma the_table_put [simp]:
  "the_table R (put_db_for_resource R (AList.update (TABLE R) tb db) st) = tb"
  by (simp add: the_table_def)

lemma the_table_put_other:
  assumes "TABLE R \<noteq> TABLE Q"
  shows "the_table Q (put_db_for_resource R (AList.update (TABLE R) tb (get_db_for_resource R st)) st) =
         the_table Q st"
proof (cases "STORAGE R = STORAGE Q")
  case True
  then have "get_db_for_resource R st = get_db_for_resource Q st"
    by (simp add: get_db_for_resource_def)
  with True assms show ?thesis by (simp add: the_table_def get_put_db_same)
next
  case False
  then show ?thesis by (simp add: the_table_def get_put_db_other)
qed

text \<open>Without failures of the store the operations work on \<open>the_table\<close>.\<close>

lemma storage_insert_eq:
  "storage_insert no_redb_faults ReadWrite R i r st =
     (put_db_for_resource R
        (AList.update (TABLE R) (AList.update (into_id R i) (to_bytes R r) (the_table R st))
          (get_db_for_resource R st)) st, Inr ())"
  by (simp add: storage_insert_def read_write_table_def key_access_def no_redb_faults_def the_table_def Let_def)

lemma storage_remove_eq:
  "storage_remove no_redb_faults ReadWrite R i st =
     (put_db_for_resource R
        (AList.update (TABLE R) (AList.delete (into_id R i) (the_table R st)) (get_db_for_resource R st)) st,
      transpose_map (try_from_bytes R) (map_of (the_table R st) (into_id R i)))"
  by (simp add: storage_remove_def read_write_table_def key_access_def no_redb_faults_def the_table_def Let_def)

lemma storage_get_eq:
  "storage_get no_redb_faults acc R i st =
     transpose_map (try_from_bytes R) (map_of (the_table R st) (into_id R i))"
  by (cases acc) (simp_all add: storage_get_def read_table_def key_access_def no_redb_faults_def
      the_table_def split: option.split)

lemma storage_list_eq:
  "storage_list no_redb_faults acc R st =
     map_ok collect_map
       (traverse (\<lambda>(key, bytes). map_ok (\<lambda>r. (from_id R key, r)) (try_from_bytes R bytes)) (the_table R st))"
  by (cases acc) (simp_all add: storage_list_def read_table_def no_redb_faults_def the_table_def
      collect_map_def split: option.split)

lemmas storage_eqs = storage_insert_eq storage_remove_eq storage_get_eq storage_list_eq

lemma table_ok_update:
  assumes "persistable_ok R good norm" "good r" "table_ok R tb"
  shows "table_ok R (AList.update (into_id R i) (to_bytes R r) tb)"
proof -
  have "set (AList.update k b tb) \<subseteq> insert (k, b) (set tb)" for k and b :: 'd
    by (induction tb) auto
  with assms show ?thesis
    unfolding table_ok_def persistable_ok_def by fastforce
qed

lemma table_ok_delete: "table_ok R tb \<Longrightarrow> table_ok R (AList.delete k tb)"
  by (auto simp: table_ok_def AList.delete_eq)

lemma decoded_update:
  assumes "persistable_ok R good norm" "good r"
  shows "decoded R (AList.update (into_id R i) (to_bytes R r) tb) = AList.update i (norm r) (decoded R tb)"
proof (induction tb)
  case Nil
  with assms show ?case by (simp add: decoded_def persistable_ok_def)
next
  case (Cons e tb)
  obtain k b where e: "e = (k, b)" by (cases e)
  have "k = into_id R i \<longleftrightarrow> from_id R k = i"
    using assms(1) by (metis persistable_ok_def)
  with Cons assms show ?case
    by (auto simp: e decoded_def persistable_ok_def)
qed

lemma decoded_delete:
  assumes "persistable_ok R good norm"
  shows "decoded R (AList.delete (into_id R i) tb) = AList.delete i (decoded R tb)"
proof (induction tb)
  case (Cons e tb)
  obtain k b where e: "e = (k, b)" by (cases e)
  have "k = into_id R i \<longleftrightarrow> from_id R k = i"
    using assms by (metis persistable_ok_def)
  with Cons show ?case by (auto simp: e decoded_def)
qed (simp add: decoded_def)

lemma decoded_lookup:
  assumes "persistable_ok R good norm" "table_ok R tb"
  shows "transpose_map (try_from_bytes R) (map_of tb (into_id R i)) = Inr (map_of (decoded R tb) i)"
  using assms(2)
proof (induction tb)
  case (Cons e tb)
  obtain k b where e: "e = (k, b)" by (cases e)
  have "k = into_id R i \<longleftrightarrow> from_id R k = i"
    using assms(1) by (metis persistable_ok_def)
  moreover obtain r where "try_from_bytes R b = Inr r"
    using Cons.prems by (auto simp: e table_ok_def)
  moreover have "table_ok R tb"
    using Cons.prems by (simp add: e table_ok_def hash_map_def)
  ultimately show ?case
    using Cons.IH by (auto simp: e decoded_def)
qed (simp add: decoded_def)

lemma hash_map_decoded:
  assumes "persistable_ok R good norm" "table_ok R tb"
  shows "hash_map (decoded R tb)"
proof -
  have "inj_on (from_id R) A" for A
    using assms(1) by (metis inj_onI persistable_ok_def)
  moreover have "distinct (keys_of tb)"
    using assms(2) by (simp add: table_ok_def hash_map_def)
  ultimately have "distinct (map (from_id R) (keys_of tb))"
    by (simp only: distinct_map)
  moreover have "keys_of (decoded R tb) = map (from_id R) (keys_of tb)"
    by (simp add: decoded_def case_prod_beta comp_def)
  ultimately show ?thesis by (simp only: hash_map_def)
qed

lemma traverse_decoded:
  "table_ok R tb \<Longrightarrow>
     traverse (\<lambda>(key, bytes). map_ok (\<lambda>r. (from_id R key, r)) (try_from_bytes R bytes)) tb = Inr (decoded R tb)"
  unfolding decoded_def by (rule traverse_Inr) (fastforce simp: table_ok_def)

section \<open>The storage as an instance of the contract\<close>

definition stored_insert ::
    "('i, 'r, 'p, 'b) persistable \<Rightarrow> 'i \<Rightarrow> 'r \<Rightarrow> 'b storage \<Rightarrow> 'b storage" where
  "stored_insert R i r st = fst (storage_insert no_redb_faults ReadWrite R i r st)"

definition stored_remove :: "('i, 'r, 'p, 'b) persistable \<Rightarrow> 'i \<Rightarrow> 'b storage \<Rightarrow> 'b storage" where
  "stored_remove R i st = fst (storage_remove no_redb_faults ReadWrite R i st)"

definition stored_get :: "('i, 'r, 'p, 'b) persistable \<Rightarrow> 'i \<Rightarrow> 'b storage \<Rightarrow> 'r option" where
  "stored_get R i st = projr (storage_get no_redb_faults Read R i st)"

definition stored_list :: "('i, 'r, 'p, 'b) persistable \<Rightarrow> 'b storage \<Rightarrow> ('i \<times> 'r) list" where
  "stored_list R st = projr (storage_list no_redb_faults Read R st)"

lemmas stored_defs = stored_insert_def stored_remove_def stored_get_def stored_list_def

lemma storage_get_decoded:
  "persistable_ok R good norm \<Longrightarrow> table_ok R (the_table R st) \<Longrightarrow>
     storage_get no_redb_faults acc R i st = Inr (map_of (decoded R (the_table R st)) i)"
  by (simp add: storage_get_eq decoded_lookup)

lemma storage_list_decoded:
  "persistable_ok R good norm \<Longrightarrow> table_ok R (the_table R st) \<Longrightarrow>
     storage_list no_redb_faults acc R st = Inr (decoded R (the_table R st))"
  by (simp add: storage_list_eq traverse_decoded collect_map_distinct hash_map_decoded)

interpretation stored:
  resource_store "stored_insert R" "stored_remove R" "stored_get R" "stored_list R" norm good
    "\<lambda>st. persistable_ok R good norm \<and> table_ok R (the_table R st)" for R norm good
proof
  fix s i j r
  assume inv: "persistable_ok R good norm \<and> table_ok R (the_table R s)"
  note ok = conjunct1 [OF inv]
  show "persistable_ok R good norm \<and> table_ok R (the_table R (stored_remove R i s))"
    using inv by (simp add: stored_defs storage_eqs table_ok_delete)
  show "stored_get R j (stored_remove R i s) = (if j = i then None else stored_get R j s)"
    using inv by (simp add: stored_defs storage_remove_eq storage_get_decoded [OF ok] table_ok_delete decoded_delete [OF ok])
  show "(i, r) \<in> set (stored_list R s) \<longleftrightarrow> stored_get R i s = Some r"
    using inv by (simp add: stored_defs storage_list_decoded [OF ok] storage_get_decoded [OF ok] set_hash_map hash_map_decoded [OF ok])
  show "hash_map (stored_list R s)"
    using inv by (simp add: stored_defs storage_list_decoded [OF ok] hash_map_decoded [OF ok])
  assume good: "good r"
  show "persistable_ok R good norm \<and> table_ok R (the_table R (stored_insert R i r s))"
    using inv good by (simp add: stored_defs storage_insert_eq table_ok_update [OF ok good])
  show "stored_get R j (stored_insert R i r s) = (if j = i then Some (norm r) else stored_get R j s)"
    using inv good by (simp add: stored_defs storage_insert_eq storage_get_decoded [OF ok] table_ok_update [OF ok good] decoded_update [OF ok good])
qed

end
