(* ===== verification/Resources.thy ===== *)
theory Resources
  imports Storage
begin

text \<open>
  The resources as the managers use them (opendut-carl/src/resource: api/resources.rs,
  manager.rs, subscription.rs): a transaction over the six typed tables that queues an event for
  every change, and the resource manager, which commits a transaction and relays its events only
  when the closure succeeded. The typed tables are the decoded tables of theory Storage.
\<close>

section \<open>Tables and events\<close>

record tables =
  t_cluster_configurations :: "(ClusterId \<times> ClusterConfiguration) list"
  t_cluster_deployments :: "(ClusterId \<times> ClusterDeployment) list"
  t_old_peer_configurations :: "(PeerId \<times> OldPeerConfiguration) list"
  t_peer_configurations :: "(PeerId \<times> PeerConfiguration) list"
  t_peer_connection_states :: "(PeerId \<times> PeerConnectionState) list"
  t_peer_descriptors :: "(PeerId \<times> PeerDescriptor) list"

datatype ('i, 'r) SubscriptionEvent = Inserted 'i 'r | Removed 'i 'r

fun display_name :: "('i, 'r) SubscriptionEvent \<Rightarrow> string" where
  "display_name (Inserted i v) = ''inserted''"
| "display_name (Removed i v) = ''removed''"

text \<open>\<open>ResourceSubscriptionChannels\<close>: what was sent on the channel of each resource type.\<close>

record channels =
  ch_cluster_configuration :: "(ClusterId, ClusterConfiguration) SubscriptionEvent list"
  ch_cluster_deployment :: "(ClusterId, ClusterDeployment) SubscriptionEvent list"
  ch_old_peer_configuration :: "(PeerId, OldPeerConfiguration) SubscriptionEvent list"
  ch_peer_configuration :: "(PeerId, PeerConfiguration) SubscriptionEvent list"
  ch_peer_connection_state :: "(PeerId, PeerConnectionState) SubscriptionEvent list"
  ch_peer_descriptor :: "(PeerId, PeerDescriptor) SubscriptionEvent list"

definition no_events :: channels where
  "no_events = \<lparr> ch_cluster_configuration = [], ch_cluster_deployment = [],
     ch_old_peer_configuration = [], ch_peer_configuration = [], ch_peer_connection_state = [],
     ch_peer_descriptor = [] \<rparr>"

definition no_tables :: tables where
  "no_tables = \<lparr> t_cluster_configurations = [], t_cluster_deployments = [],
     t_old_peer_configurations = [], t_peer_configurations = [], t_peer_connection_states = [],
     t_peer_descriptors = [] \<rparr>"

record resources =
  r_tables :: tables
  r_events :: channels

section \<open>Resource types\<close>

text \<open>
  A resource type picks its table and its channel; \<open>k_norm\<close> is what a resource looks like after
  it was stored and loaded (\<open>normalised\<close> descriptions and locations).
\<close>

datatype resource_tag =
    TagClusterConfiguration | TagClusterDeployment | TagOldPeerConfiguration
  | TagPeerConfiguration | TagPeerConnectionState | TagPeerDescriptor

record ('i, 'r) kind =
  k_tag :: resource_tag
  k_uuid :: "'i \<Rightarrow> uuid"
  k_table :: "tables \<Rightarrow> ('i \<times> 'r) list"
  k_put_table :: "('i \<times> 'r) list \<Rightarrow> tables \<Rightarrow> tables"
  k_channel :: "channels \<Rightarrow> ('i, 'r) SubscriptionEvent list"
  k_put_channel :: "('i, 'r) SubscriptionEvent list \<Rightarrow> channels \<Rightarrow> channels"
  k_norm :: "'r \<Rightarrow> 'r"

definition ClusterConfigurations :: "(ClusterId, ClusterConfiguration) kind" where
  "ClusterConfigurations = \<lparr> k_tag = TagClusterConfiguration, k_uuid = cluster_uuid,
     k_table = t_cluster_configurations, k_put_table = (\<lambda>t s. s\<lparr> t_cluster_configurations := t \<rparr>),
     k_channel = ch_cluster_configuration, k_put_channel = (\<lambda>e s. s\<lparr> ch_cluster_configuration := e \<rparr>),
     k_norm = (\<lambda>r. r) \<rparr>"

definition ClusterDeployments :: "(ClusterId, ClusterDeployment) kind" where
  "ClusterDeployments = \<lparr> k_tag = TagClusterDeployment, k_uuid = cluster_uuid,
     k_table = t_cluster_deployments, k_put_table = (\<lambda>t s. s\<lparr> t_cluster_deployments := t \<rparr>),
     k_channel = ch_cluster_deployment, k_put_channel = (\<lambda>e s. s\<lparr> ch_cluster_deployment := e \<rparr>),
     k_norm = (\<lambda>r. r) \<rparr>"

definition OldPeerConfigurations :: "(PeerId, OldPeerConfiguration) kind" where
  "OldPeerConfigurations = \<lparr> k_tag = TagOldPeerConfiguration, k_uuid = peer_uuid,
     k_table = t_old_peer_configurations, k_put_table = (\<lambda>t s. s\<lparr> t_old_peer_configurations := t \<rparr>),
     k_channel = ch_old_peer_configuration, k_put_channel = (\<lambda>e s. s\<lparr> ch_old_peer_configuration := e \<rparr>),
     k_norm = (\<lambda>r. r) \<rparr>"

definition PeerConfigurations :: "(PeerId, PeerConfiguration) kind" where
  "PeerConfigurations = \<lparr> k_tag = TagPeerConfiguration, k_uuid = peer_uuid,
     k_table = t_peer_configurations, k_put_table = (\<lambda>t s. s\<lparr> t_peer_configurations := t \<rparr>),
     k_channel = ch_peer_configuration, k_put_channel = (\<lambda>e s. s\<lparr> ch_peer_configuration := e \<rparr>),
     k_norm = (\<lambda>r. r) \<rparr>"

definition PeerConnectionStates :: "(PeerId, PeerConnectionState) kind" where
  "PeerConnectionStates = \<lparr> k_tag = TagPeerConnectionState, k_uuid = peer_uuid,
     k_table = t_peer_connection_states, k_put_table = (\<lambda>t s. s\<lparr> t_peer_connection_states := t \<rparr>),
     k_channel = ch_peer_connection_state, k_put_channel = (\<lambda>e s. s\<lparr> ch_peer_connection_state := e \<rparr>),
     k_norm = (\<lambda>r. r) \<rparr>"

definition PeerDescriptors :: "(PeerId, PeerDescriptor) kind" where
  "PeerDescriptors = \<lparr> k_tag = TagPeerDescriptor, k_uuid = peer_uuid,
     k_table = t_peer_descriptors, k_put_table = (\<lambda>t s. s\<lparr> t_peer_descriptors := t \<rparr>),
     k_channel = ch_peer_descriptor, k_put_channel = (\<lambda>e s. s\<lparr> ch_peer_descriptor := e \<rparr>),
     k_norm = norm_peer \<rparr>"

lemmas kind_defs = ClusterConfigurations_def ClusterDeployments_def OldPeerConfigurations_def
  PeerConfigurations_def PeerConnectionStates_def PeerDescriptors_def

text \<open>What every resource type promises: reading back what was put.\<close>

definition lawful_kind :: "('i, 'r) kind \<Rightarrow> bool" where
  "lawful_kind K \<longleftrightarrow>
     (\<forall>t s. k_table K (k_put_table K t s) = t) \<and> (\<forall>e s. k_channel K (k_put_channel K e s) = e)"

lemma lawful_kinds [simp]:
  "lawful_kind ClusterConfigurations" "lawful_kind ClusterDeployments"
  "lawful_kind OldPeerConfigurations" "lawful_kind PeerConfigurations"
  "lawful_kind PeerConnectionStates" "lawful_kind PeerDescriptors"
  by (simp_all add: lawful_kind_def kind_defs)

section \<open>The environment\<close>

text \<open>Which accesses of the store fail, and how many events a channel holds, is up to the
  libraries: parameters. \<open>fair\<close> is an environment in which nothing fails.\<close>

record env =
  access_fault :: "resource_tag \<Rightarrow> PersistenceOperation \<Rightarrow> uuid option \<Rightarrow> PersistenceError option"
  begin_fault :: "PersistenceError option"
  commit_db_fault :: "PersistenceError option"
  commit_memory_fault :: "PersistenceError option"
  channel_capacity :: nat

definition fair :: "env \<Rightarrow> bool" where
  "fair E \<longleftrightarrow> (\<forall>t op i. access_fault E t op i = None) \<and> begin_fault E = None \<and>
     commit_db_fault E = None \<and> commit_memory_fault E = None"

definition fair_env :: env where
  "fair_env = \<lparr> access_fault = (\<lambda>_ _ _. None), begin_fault = None, commit_db_fault = None,
     commit_memory_fault = None, channel_capacity = 128 \<rparr>"

lemma fair_env [simp]: "fair fair_env"
  by (simp add: fair_def fair_env_def)

lemma fair_access [simp]: "fair E \<Longrightarrow> access_fault E t op i = None"
  by (simp add: fair_def)

section \<open>Operations of a transaction (api/resources.rs)\<close>

text \<open>The event of an insertion carries the resource as given, not as stored.\<close>

definition resources_insert ::
    "env \<Rightarrow> ('i, 'r) kind \<Rightarrow> 'i \<Rightarrow> 'r \<Rightarrow> (resources, PersistenceError, unit) run" where
  "resources_insert E K i resource s =
     (case access_fault E (k_tag K) OpInsert (Some (k_uuid K i)) of
        Some e \<Rightarrow> (s, Inl e)
      | None \<Rightarrow>
          (s\<lparr> r_tables := k_put_table K (AList.update i (k_norm K resource) (k_table K (r_tables s))) (r_tables s),
              r_events := k_put_channel K (k_channel K (r_events s) @ [Inserted i resource]) (r_events s) \<rparr>,
           Inr ()))"

definition resources_remove ::
    "env \<Rightarrow> ('i, 'r) kind \<Rightarrow> 'i \<Rightarrow> (resources, PersistenceError, 'r option) run" where
  "resources_remove E K i s =
     (case access_fault E (k_tag K) OpRemove (Some (k_uuid K i)) of
        Some e \<Rightarrow> (s, Inl e)
      | None \<Rightarrow>
          (let removed = map_of (k_table K (r_tables s)) i;
               s' = s\<lparr> r_tables := k_put_table K (AList.delete i (k_table K (r_tables s))) (r_tables s) \<rparr>
           in case removed of
                None \<Rightarrow> (s', Inr None)
              | Some resource \<Rightarrow>
                  (s'\<lparr> r_events := k_put_channel K (k_channel K (r_events s) @ [Removed i resource]) (r_events s) \<rparr>,
                   Inr (Some resource))))"

definition resources_get :: "env \<Rightarrow> ('i, 'r) kind \<Rightarrow> 'i \<Rightarrow> tables \<Rightarrow> PersistenceError + 'r option" where
  "resources_get E K i t =
     (case access_fault E (k_tag K) OpGet (Some (k_uuid K i)) of
        Some e \<Rightarrow> Inl e
      | None \<Rightarrow> Inr (map_of (k_table K t) i))"

definition resources_list :: "env \<Rightarrow> ('i, 'r) kind \<Rightarrow> tables \<Rightarrow> PersistenceError + ('i \<times> 'r) list" where
  "resources_list E K t =
     (case access_fault E (k_tag K) OpList None of
        Some e \<Rightarrow> Inl e
      | None \<Rightarrow> Inr (k_table K t))"

text \<open>Reading inside a writing transaction.\<close>

definition read_resources :: "(tables \<Rightarrow> 'e + 'a) \<Rightarrow> (resources, 'e, 'a) run" where
  "read_resources f s = (s, f (r_tables s))"

lemma resources_get_fair [simp]: "fair E \<Longrightarrow> resources_get E K i t = Inr (map_of (k_table K t) i)"
  by (simp add: resources_get_def)

lemma resources_list_fair [simp]: "fair E \<Longrightarrow> resources_list E K t = Inr (k_table K t)"
  by (simp add: resources_list_def)

section \<open>The resource manager (manager.rs, resources_mut of storage/mod.rs)\<close>

record resource_manager =
  rm_tables :: tables
  rm_sent :: channels

text \<open>
  \<open>send_relayed_subscription_events\<close> drains each relay channel with \<open>while let Ok(event) =
  try_recv()\<close>. A broadcast channel that was sent more events than it holds answers the first
  \<open>try_recv\<close> with \<open>Lagged\<close>, which ends the loop: then no event of that type is relayed.
\<close>

definition relay :: "nat \<Rightarrow> 'e list \<Rightarrow> 'e list \<Rightarrow> 'e list" where
  "relay capacity queued sent = sent @ (if length queued \<le> capacity then queued else [])"

definition send_relayed_subscription_events :: "nat \<Rightarrow> channels \<Rightarrow> channels \<Rightarrow> channels" where
  "send_relayed_subscription_events capacity queued sent =
     \<lparr> ch_cluster_configuration =
         relay capacity (ch_cluster_configuration queued) (ch_cluster_configuration sent),
       ch_cluster_deployment = relay capacity (ch_cluster_deployment queued) (ch_cluster_deployment sent),
       ch_old_peer_configuration =
         relay capacity (ch_old_peer_configuration queued) (ch_old_peer_configuration sent),
       ch_peer_configuration = relay capacity (ch_peer_configuration queued) (ch_peer_configuration sent),
       ch_peer_connection_state =
         relay capacity (ch_peer_connection_state queued) (ch_peer_connection_state sent),
       ch_peer_descriptor = relay capacity (ch_peer_descriptor queued) (ch_peer_descriptor sent) \<rparr>"

text \<open>The tables of the database file; those in memory are committed after them.\<close>

definition persistent_part :: "tables \<Rightarrow> tables \<Rightarrow> tables" where
  "persistent_part new old =
     old\<lparr> t_cluster_configurations := t_cluster_configurations new,
          t_cluster_deployments := t_cluster_deployments new,
          t_peer_descriptors := t_peer_descriptors new \<rparr>"

text \<open>
  The closure of a transaction may also act on the world outside the tables (\<open>'w\<close>: the VPN and
  authentication servers, the streams to the peers); what it did there is not rolled back.
\<close>

definition resources_mut_io ::
    "env \<Rightarrow> (resources \<times> 'w, 'e, 'a) run \<Rightarrow> (resource_manager \<times> 'w, PersistenceError, 'e + 'a) run" where
  "resources_mut_io E code s =
     (case s of (m, w) \<Rightarrow>
       (case begin_fault E of
          Some e \<Rightarrow> ((m, w), Inl e)
        | None \<Rightarrow>
            (case code (\<lparr> r_tables = rm_tables m, r_events = no_events \<rparr>, w) of
               ((s, w'), Inl cause) \<Rightarrow> ((m, w'), Inr (Inl cause))
             | ((s, w'), Inr a) \<Rightarrow>
                 (case commit_db_fault E of
                    Some e \<Rightarrow> ((m, w'), Inl e)
                  | None \<Rightarrow>
                      (case commit_memory_fault E of
                         Some e \<Rightarrow> ((m\<lparr> rm_tables := persistent_part (r_tables s) (rm_tables m) \<rparr>, w'), Inl e)
                       | None \<Rightarrow>
                           ((\<lparr> rm_tables = r_tables s,
                               rm_sent = send_relayed_subscription_events (channel_capacity E) (r_events s) (rm_sent m) \<rparr>,
                             w'), Inr (Inr a)))))))"

definition on_fst :: "('s, 'e, 'a) run \<Rightarrow> ('s \<times> 'w, 'e, 'a) run" where
  "on_fst f sw = (case sw of (s, w) \<Rightarrow> (case f s of (s', r) \<Rightarrow> ((s', w), r)))"

definition on_snd :: "('w, 'e, 'a) run \<Rightarrow> ('s \<times> 'w, 'e, 'a) run" where
  "on_snd f sw = (case sw of (s, w) \<Rightarrow> (case f w of (w', r) \<Rightarrow> ((s, w'), r)))"

definition resources_mut ::
    "env \<Rightarrow> (resources, 'e, 'a) run \<Rightarrow> (resource_manager, PersistenceError, 'e + 'a) run" where
  "resources_mut E code m =
     (case resources_mut_io E (on_fst code) (m, ()) of ((m', _), r) \<Rightarrow> (m', r))"

lemma resources_mut_eq:
  "resources_mut E code m =
     (case begin_fault E of
        Some e \<Rightarrow> (m, Inl e)
      | None \<Rightarrow>
          (case code \<lparr> r_tables = rm_tables m, r_events = no_events \<rparr> of
             (s, Inl cause) \<Rightarrow> (m, Inr (Inl cause))
           | (s, Inr a) \<Rightarrow>
               (case commit_db_fault E of
                  Some e \<Rightarrow> (m, Inl e)
                | None \<Rightarrow>
                    (case commit_memory_fault E of
                       Some e \<Rightarrow> (m\<lparr> rm_tables := persistent_part (r_tables s) (rm_tables m) \<rparr>, Inl e)
                     | None \<Rightarrow>
                         (\<lparr> rm_tables = r_tables s,
                            rm_sent = send_relayed_subscription_events (channel_capacity E) (r_events s) (rm_sent m) \<rparr>,
                          Inr (Inr a))))))"
  by (cases "code \<lparr> r_tables = rm_tables m, r_events = no_events \<rparr>")
    (simp add: resources_mut_def resources_mut_io_def on_fst_def split: option.split sum.split)

definition resources_read :: "env \<Rightarrow> (tables \<Rightarrow> 'a) \<Rightarrow> resource_manager \<Rightarrow> PersistenceError + 'a" where
  "resources_read E code m =
     (case begin_fault E of Some e \<Rightarrow> Inl e | None \<Rightarrow> Inr (code (rm_tables m)))"

definition collapse :: "('p \<Rightarrow> 'e) \<Rightarrow> ('s, 'p, 'e + 'a) run \<Rightarrow> ('s, 'e, 'a) run" where
  "collapse f run s = (case run s of (s', r) \<Rightarrow> (s', map_err_to_inner f r))"

definition manager_insert ::
    "env \<Rightarrow> ('i, 'r) kind \<Rightarrow> 'i \<Rightarrow> 'r \<Rightarrow> (resource_manager, PersistenceError, unit) run" where
  "manager_insert E K i resource = collapse (\<lambda>e. e) (resources_mut E (resources_insert E K i resource))"

definition manager_remove ::
    "env \<Rightarrow> ('i, 'r) kind \<Rightarrow> 'i \<Rightarrow> (resource_manager, PersistenceError, 'r option) run" where
  "manager_remove E K i = collapse (\<lambda>e. e) (resources_mut E (resources_remove E K i))"

definition manager_get :: "env \<Rightarrow> ('i, 'r) kind \<Rightarrow> 'i \<Rightarrow> resource_manager \<Rightarrow> PersistenceError + 'r option" where
  "manager_get E K i m = bind_sum (resources_read E (resources_get E K i) m) (\<lambda>r. r)"

definition manager_list :: "env \<Rightarrow> ('i, 'r) kind \<Rightarrow> resource_manager \<Rightarrow> PersistenceError + ('i \<times> 'r) list" where
  "manager_list E K m = bind_sum (resources_read E (resources_list E K) m) (\<lambda>r. r)"

section \<open>What a transaction does\<close>

lemma resources_mut_error:
  assumes "snd (code \<lparr> r_tables = rm_tables m, r_events = no_events \<rparr>) = Inl cause"
  shows "fst (resources_mut E code m) = m"
  using assms by (cases "code \<lparr> r_tables = rm_tables m, r_events = no_events \<rparr>")
    (simp add: resources_mut_eq split: option.split)

lemma resources_mut_fair:
  "fair E \<Longrightarrow> resources_mut E code m =
     (case code \<lparr> r_tables = rm_tables m, r_events = no_events \<rparr> of
        (s, Inl cause) \<Rightarrow> (m, Inr (Inl cause))
      | (s, Inr a) \<Rightarrow>
          (\<lparr> rm_tables = r_tables s,
             rm_sent = send_relayed_subscription_events (channel_capacity E) (r_events s) (rm_sent m) \<rparr>,
           Inr (Inr a)))"
  by (simp add: resources_mut_eq fair_def split: prod.split sum.split)

lemma resources_mut_io_fair:
  "fair E \<Longrightarrow> resources_mut_io E code (m, w) =
     (case code (\<lparr> r_tables = rm_tables m, r_events = no_events \<rparr>, w) of
        ((s, w'), Inl cause) \<Rightarrow> ((m, w'), Inr (Inl cause))
      | ((s, w'), Inr a) \<Rightarrow>
          ((\<lparr> rm_tables = r_tables s,
              rm_sent = send_relayed_subscription_events (channel_capacity E) (r_events s) (rm_sent m) \<rparr>, w'),
           Inr (Inr a)))"
  by (simp add: resources_mut_io_def fair_def split: prod.split sum.split)

lemma resources_read_fair [simp]: "fair E \<Longrightarrow> resources_read E code m = Inr (code (rm_tables m))"
  by (simp add: resources_read_def fair_def)

text \<open>Whatever fails, the tables are the old ones, the new ones, or the old ones with the new
  persistent part; events are sent in the second case only.\<close>

lemma resources_mut_cases:
  assumes "resources_mut E code m = (m', r)"
    and "code \<lparr> r_tables = rm_tables m, r_events = no_events \<rparr> = (s, res)"
  shows "m' = m \<or>
    (\<exists>a. res = Inr a \<and> rm_tables m' = persistent_part (r_tables s) (rm_tables m) \<and> rm_sent m' = rm_sent m \<and>
       (\<exists>e. r = Inl e)) \<or>
    (\<exists>a. res = Inr a \<and> r = Inr (Inr a) \<and> rm_tables m' = r_tables s \<and>
       rm_sent m' = send_relayed_subscription_events (channel_capacity E) (r_events s) (rm_sent m))"
  using assms by (auto simp: resources_mut_eq split: option.splits sum.splits)

section \<open>A typed table keeps the contract of a resource store\<close>

interpretation typed:
  resource_store "\<lambda>i r s. fst (resources_insert E K i r s)" "\<lambda>i s. fst (resources_remove E K i s)"
    "\<lambda>i s. map_of (k_table K (r_tables s)) i" "\<lambda>s. k_table K (r_tables s)" "k_norm K" "\<lambda>_. True"
    "\<lambda>s. fair E \<and> lawful_kind K \<and> hash_map (k_table K (r_tables s))" for E K
  by unfold_locales
    (auto simp: resources_insert_def resources_remove_def lawful_kind_def set_hash_map Let_def split: option.split)

section \<open>The typed tables are the decoded tables of the storage\<close>

definition wf_old_configuration :: "OldPeerConfiguration \<Rightarrow> bool" where
  "wf_old_configuration m \<longleftrightarrow> (\<forall>a. opc_cluster_assignment m = Some a \<longrightarrow> wf_assignment a)"

definition abs_tables :: "ext \<Rightarrow> 'b prost \<Rightarrow> 'b storage \<Rightarrow> tables" where
  "abs_tables x c st =
     \<lparr> t_cluster_configurations = decoded (persistable_cluster_configuration x c) (the_table (persistable_cluster_configuration x c) st),
       t_cluster_deployments = decoded (persistable_cluster_deployment x c) (the_table (persistable_cluster_deployment x c) st),
       t_old_peer_configurations = decoded (persistable_old_peer_configuration x c) (the_table (persistable_old_peer_configuration x c) st),
       t_peer_configurations = decoded (persistable_peer_configuration x c) (the_table (persistable_peer_configuration x c) st),
       t_peer_connection_states = decoded (persistable_peer_connection_state c) (the_table (persistable_peer_connection_state c) st),
       t_peer_descriptors = decoded (persistable_peer_descriptor x c) (the_table (persistable_peer_descriptor x c) st) \<rparr>"

definition storage_ok :: "ext \<Rightarrow> 'b prost \<Rightarrow> 'b storage \<Rightarrow> bool" where
  "storage_ok x c st \<longleftrightarrow>
     table_ok (persistable_cluster_configuration x c) (the_table (persistable_cluster_configuration x c) st) \<and>
     table_ok (persistable_cluster_deployment x c) (the_table (persistable_cluster_deployment x c) st) \<and>
     table_ok (persistable_old_peer_configuration x c) (the_table (persistable_old_peer_configuration x c) st) \<and>
     table_ok (persistable_peer_configuration x c) (the_table (persistable_peer_configuration x c) st) \<and>
     table_ok (persistable_peer_connection_state c) (the_table (persistable_peer_connection_state c) st) \<and>
     table_ok (persistable_peer_descriptor x c) (the_table (persistable_peer_descriptor x c) st)"

text \<open>A change to the tables, carried out on the storage and on the typed tables.\<close>

datatype change =
    Insert_cluster_configuration ClusterId ClusterConfiguration | Remove_cluster_configuration ClusterId
  | Insert_cluster_deployment ClusterId ClusterDeployment | Remove_cluster_deployment ClusterId
  | Insert_old_peer_configuration PeerId OldPeerConfiguration | Remove_old_peer_configuration PeerId
  | Insert_peer_configuration PeerId PeerConfiguration | Remove_peer_configuration PeerId
  | Insert_peer_connection_state PeerId PeerConnectionState | Remove_peer_connection_state PeerId
  | Insert_peer_descriptor PeerId PeerDescriptor | Remove_peer_descriptor PeerId

fun storage_change :: "ext \<Rightarrow> 'b prost \<Rightarrow> change \<Rightarrow> 'b storage \<Rightarrow> 'b storage" where
  "storage_change x c (Insert_cluster_configuration i r) st = stored_insert (persistable_cluster_configuration x c) i r st"
| "storage_change x c (Remove_cluster_configuration i) st = stored_remove (persistable_cluster_configuration x c) i st"
| "storage_change x c (Insert_cluster_deployment i r) st = stored_insert (persistable_cluster_deployment x c) i r st"
| "storage_change x c (Remove_cluster_deployment i) st = stored_remove (persistable_cluster_deployment x c) i st"
| "storage_change x c (Insert_old_peer_configuration i r) st = stored_insert (persistable_old_peer_configuration x c) i r st"
| "storage_change x c (Remove_old_peer_configuration i) st = stored_remove (persistable_old_peer_configuration x c) i st"
| "storage_change x c (Insert_peer_configuration i r) st = stored_insert (persistable_peer_configuration x c) i r st"
| "storage_change x c (Remove_peer_configuration i) st = stored_remove (persistable_peer_configuration x c) i st"
| "storage_change x c (Insert_peer_connection_state i r) st = stored_insert (persistable_peer_connection_state c) i r st"
| "storage_change x c (Remove_peer_connection_state i) st = stored_remove (persistable_peer_connection_state c) i st"
| "storage_change x c (Insert_peer_descriptor i r) st = stored_insert (persistable_peer_descriptor x c) i r st"
| "storage_change x c (Remove_peer_descriptor i) st = stored_remove (persistable_peer_descriptor x c) i st"

fun good_change :: "change \<Rightarrow> bool" where
  "good_change (Insert_cluster_configuration i r) = wf_cluster r"
| "good_change (Remove_cluster_configuration i) = True"
| "good_change (Insert_cluster_deployment i r) = (\<lambda>_. True) r"
| "good_change (Remove_cluster_deployment i) = True"
| "good_change (Insert_old_peer_configuration i r) = wf_old_configuration r"
| "good_change (Remove_old_peer_configuration i) = True"
| "good_change (Insert_peer_configuration i r) = wf_configuration_values r"
| "good_change (Remove_peer_configuration i) = True"
| "good_change (Insert_peer_connection_state i r) = wf_connection r"
| "good_change (Remove_peer_connection_state i) = True"
| "good_change (Insert_peer_descriptor i r) = wf_peer r"
| "good_change (Remove_peer_descriptor i) = True"

fun tables_change :: "env \<Rightarrow> change \<Rightarrow> resources \<Rightarrow> resources" where
  "tables_change E (Insert_cluster_configuration i r) s = fst (resources_insert E ClusterConfigurations i r s)"
| "tables_change E (Remove_cluster_configuration i) s = fst (resources_remove E ClusterConfigurations i s)"
| "tables_change E (Insert_cluster_deployment i r) s = fst (resources_insert E ClusterDeployments i r s)"
| "tables_change E (Remove_cluster_deployment i) s = fst (resources_remove E ClusterDeployments i s)"
| "tables_change E (Insert_old_peer_configuration i r) s = fst (resources_insert E OldPeerConfigurations i r s)"
| "tables_change E (Remove_old_peer_configuration i) s = fst (resources_remove E OldPeerConfigurations i s)"
| "tables_change E (Insert_peer_configuration i r) s = fst (resources_insert E PeerConfigurations i r s)"
| "tables_change E (Remove_peer_configuration i) s = fst (resources_remove E PeerConfigurations i s)"
| "tables_change E (Insert_peer_connection_state i r) s = fst (resources_insert E PeerConnectionStates i r s)"
| "tables_change E (Remove_peer_connection_state i) s = fst (resources_remove E PeerConnectionStates i s)"
| "tables_change E (Insert_peer_descriptor i r) s = fst (resources_insert E PeerDescriptors i r s)"
| "tables_change E (Remove_peer_descriptor i) s = fst (resources_remove E PeerDescriptors i s)"

definition run_on_storage :: "ext \<Rightarrow> 'b prost \<Rightarrow> change list \<Rightarrow> 'b storage \<Rightarrow> 'b storage" where
  "run_on_storage x c changes st = fold (storage_change x c) changes st"

definition run_on_tables :: "env \<Rightarrow> change list \<Rightarrow> resources \<Rightarrow> resources" where
  "run_on_tables E changes s = fold (tables_change E) changes s"

lemma TABLE_simps [simp]:
  "TABLE (persistable_cluster_configuration x c) = ''cluster_configuration''"
  "TABLE (persistable_cluster_deployment x c) = ''cluster_deployment''"
  "TABLE (persistable_old_peer_configuration x c) = ''old_peer_configuration''"
  "TABLE (persistable_peer_configuration x c) = ''peer_configuration''"
  "TABLE (persistable_peer_connection_state c) = ''peer_connection_state''"
  "TABLE (persistable_peer_descriptor x c) = ''peer_descriptor''"
  by (simp_all add: persistable_cluster_configuration_def persistable_cluster_deployment_def persistable_old_peer_configuration_def persistable_peer_configuration_def persistable_peer_connection_state_def persistable_peer_descriptor_def)

lemma the_table_insert:
  "the_table R (stored_insert R i r st) = AList.update (into_id R i) (to_bytes R r) (the_table R st)"
  by (simp add: stored_insert_def storage_insert_eq)

lemma the_table_insert_other: "TABLE R \<noteq> TABLE Q \<Longrightarrow> the_table Q (stored_insert R i r st) = the_table Q st"
  by (simp add: stored_insert_def storage_insert_eq the_table_put_other)

lemma the_table_remove: "the_table R (stored_remove R i st) = AList.delete (into_id R i) (the_table R st)"
  by (simp add: stored_remove_def storage_remove_eq)

lemma the_table_remove_other: "TABLE R \<noteq> TABLE Q \<Longrightarrow> the_table Q (stored_remove R i st) = the_table Q st"
  by (simp add: stored_remove_def storage_remove_eq the_table_put_other)

lemmas the_table_simps = the_table_insert the_table_insert_other the_table_remove the_table_remove_other

lemma r_tables_insert:
  "fair E \<Longrightarrow> r_tables (fst (resources_insert E K i r s)) =
     k_put_table K (AList.update i (k_norm K r) (k_table K (r_tables s))) (r_tables s)"
  by (simp add: resources_insert_def)

lemma r_tables_remove:
  "fair E \<Longrightarrow> r_tables (fst (resources_remove E K i s)) =
     k_put_table K (AList.delete i (k_table K (r_tables s))) (r_tables s)"
  by (simp add: resources_remove_def Let_def split: option.split)

lemma storage_change_refines:
  assumes "ext_ok x" "prost_ok c" "fair E" "storage_ok x c st" "good_change ch" "r_tables s = abs_tables x c st"
  shows "r_tables (tables_change E ch s) = abs_tables x c (storage_change x c ch st) \<and>
         storage_ok x c (storage_change x c ch st)"
proof -
  note ok = persistable_ok_instances [OF assms(1,2)]
  note tables = ok [THEN decoded_update] ok [THEN decoded_delete] ok [THEN table_ok_update] table_ok_delete
  show ?thesis
    using assms(3-)
    by (cases ch) (simp_all add: abs_tables_def storage_ok_def the_table_simps r_tables_insert r_tables_remove
        kind_defs tables wf_old_configuration_def)
qed

end
