(* ===== verification/PeerQueries.thy ===== *)
theory PeerQueries
  imports Resources
begin

text \<open>
  Questions CARL asks its tables (opendut-carl/src/manager/peer_manager and cluster_manager):
  which clusters are deployed, which peer is blocked by which of them, which peers a cluster
  uses, whether a cluster can be deployed. A peer's membership is not stored: it is computed
  from the deployments, and the computation panics when two deployed clusters use one peer.
  Results are \<open>storage_fault + 'a\<close>: the error of the store, or the panic.
\<close>

definition fetch :: "PersistenceError + 'a \<Rightarrow> storage_fault + 'a" where
  "fetch r = map_err Persistence r"

lemma fetch_Inr [simp]: "fetch (Inr a) = Inr a"
  by (simp add: fetch_def)

section \<open>Deployed clusters (list_deployed_clusters.rs)\<close>

definition list_deployed_clusters :: "env \<Rightarrow> tables \<Rightarrow> PersistenceError + ClusterConfiguration list" where
  "list_deployed_clusters E t =
     bind_sum (resources_list E ClusterDeployments t) (\<lambda>deployments.
     bind_sum (resources_list E ClusterConfigurations t) (\<lambda>configurations.
       Inr (filter (\<lambda>c. List.member (map cd_id (values_of deployments)) (cc_id c)) (values_of configurations))))"

section \<open>Member states (list_peer_member_states.rs, get_peer_member_state.rs)\<close>

text \<open>The \<open>HashMap\<close> from device to deployed cluster: of two clusters with the device, one wins.\<close>

definition deployed_devices :: "ClusterConfiguration list \<Rightarrow> (DeviceId \<times> ClusterId) list" where
  "deployed_devices clusters =
     collect_map (concat (map (\<lambda>c. map (\<lambda>d. (d, cc_id c)) (cc_devices c)) clusters))"

definition blocking_clusters :: "(DeviceId \<times> ClusterId) list \<Rightarrow> PeerDescriptor \<Rightarrow> ClusterId list" where
  "blocking_clusters deployed peer = List.map_filter (\<lambda>d. map_of deployed (dev_id d)) (pd_devices peer)"

definition peer_member_state ::
    "(DeviceId \<times> ClusterId) list \<Rightarrow> PeerDescriptor \<Rightarrow> storage_fault + (PeerId \<times> PeerMemberState)" where
  "peer_member_state deployed peer =
     (case blocking_clusters deployed peer of
        [] \<Rightarrow> Inr (pd_id peer, Available)
      | cluster # others \<Rightarrow>
          (if list_all (\<lambda>c. cluster = c) (cluster # others) then Inr (pd_id peer, Blocked cluster)
           else Inl (StoragePanic ''Expected all devices of the peer belonging to the same cluster!'')))"

definition list_peer_member_states :: "env \<Rightarrow> tables \<Rightarrow> storage_fault + (PeerId \<times> PeerMemberState) list" where
  "list_peer_member_states E t =
     bind_sum (fetch (list_deployed_clusters E t)) (\<lambda>deployed.
     bind_sum (fetch (resources_list E PeerDescriptors t)) (\<lambda>peers.
       map_ok collect_map (traverse (peer_member_state (deployed_devices deployed)) (values_of peers))))"

definition get_peer_member_state :: "env \<Rightarrow> PeerId \<Rightarrow> tables \<Rightarrow> storage_fault + PeerMemberState option" where
  "get_peer_member_state E p t = map_ok (\<lambda>states. map_of states p) (list_peer_member_states E t)"

section \<open>Peer states and devices (get_peer_state.rs, list_peer_states.rs, list_devices.rs)\<close>

datatype GetPeerStateError =
    GetPeerStateNotFound PeerId
  | GetPeerStatePersistence PeerId PersistenceError
  | GetPeerStatePanic string

fun get_peer_state_fault :: "PeerId \<Rightarrow> storage_fault \<Rightarrow> GetPeerStateError" where
  "get_peer_state_fault p (Persistence e) = GetPeerStatePersistence p e"
| "get_peer_state_fault p (StoragePanic m) = GetPeerStatePanic m"

definition get_peer_state :: "env \<Rightarrow> PeerId \<Rightarrow> tables \<Rightarrow> GetPeerStateError + PeerState" where
  "get_peer_state E p t =
     bind_sum (bind_sum (map_err (get_peer_state_fault p) (get_peer_member_state E p t))
         (ok_or (GetPeerStateNotFound p))) (\<lambda>member.
     bind_sum (map_err (GetPeerStatePersistence p) (resources_get E PeerConnectionStates p t)) (\<lambda>connection.
       Inr \<lparr> ps_connection = unwrap_or_default peer_connection_state_default connection, ps_member = member \<rparr>))"

definition list_peer_states :: "env \<Rightarrow> tables \<Rightarrow> storage_fault + (PeerId \<times> PeerState) list" where
  "list_peer_states E t =
     bind_sum (list_peer_member_states E t) (\<lambda>members.
     bind_sum (fetch (resources_list E PeerConnectionStates t)) (\<lambda>connections.
       Inr (collect_map (map (\<lambda>(p, member).
         (p, \<lparr> ps_connection = unwrap_or_default peer_connection_state_default (map_of connections p),
               ps_member = member \<rparr>)) members))))"

definition list_devices :: "env \<Rightarrow> tables \<Rightarrow> PersistenceError + DeviceDescriptor list" where
  "list_devices E t =
     bind_sum (resources_list E PeerDescriptors t) (\<lambda>peers.
       Inr (values_of (collect_map (map (\<lambda>d. (dev_id d, d)) (concat (map pd_devices (values_of peers)))))))"

section \<open>Peers of a cluster (list_cluster_peers.rs, list_cluster_peer_states.rs)\<close>

datatype ListClusterPeersError =
    ListClusterPeersNotFound ClusterId
  | ListClusterPeersPersistence ClusterId PersistenceError

definition cluster_uses_peer :: "ClusterConfiguration \<Rightarrow> PeerDescriptor \<Rightarrow> bool" where
  "cluster_uses_peer c peer \<longleftrightarrow> list_ex (\<lambda>d. List.member (cc_devices c) (dev_id d)) (pd_devices peer)"

definition list_cluster_peers :: "env \<Rightarrow> ClusterId \<Rightarrow> tables \<Rightarrow> ListClusterPeersError + PeerDescriptor list" where
  "list_cluster_peers E c t =
     bind_sum (bind_sum (map_err (ListClusterPeersPersistence c) (resources_get E ClusterConfigurations c t))
         (ok_or (ListClusterPeersNotFound c))) (\<lambda>configuration.
     bind_sum (map_err (ListClusterPeersPersistence c) (resources_list E PeerDescriptors t)) (\<lambda>peers.
       Inr (filter (cluster_uses_peer configuration) (values_of peers))))"

datatype ClusterDeployable =
    AllPeersAvailable
  | AlreadyDeployed
  | NotAllPeersAvailable (unavailable_peers: "PeerId list")

record ClusterPeerStates =
  cps_cluster_id :: ClusterId
  cps_peer_states :: "(PeerId \<times> PeerState) list"
  cps_blocked_peers :: "(PeerId \<times> ClusterId) list"
  cps_offline_peers :: "PeerId list"
  cps_blocked_by_another :: "(PeerId \<times> ClusterId) list"
  cps_only_blocked_by_self :: bool

fun blocked_by :: "PeerMemberState \<Rightarrow> ClusterId option" where
  "blocked_by Available = None"
| "blocked_by (Blocked c) = Some c"

definition cluster_peer_states_new :: "ClusterId \<Rightarrow> (PeerId \<times> PeerState) list \<Rightarrow> ClusterPeerStates" where
  "cluster_peer_states_new cluster_id peer_states =
     (let blocked_peers =
            List.map_filter (\<lambda>(p, s). map_option (\<lambda>c. (p, c)) (blocked_by (ps_member s))) peer_states;
          offline_peers =
            List.map_filter (\<lambda>(p, s). case ps_connection s of Offline \<Rightarrow> Some p | Online _ \<Rightarrow> None) peer_states
      in \<lparr> cps_cluster_id = cluster_id, cps_peer_states = peer_states, cps_blocked_peers = blocked_peers,
           cps_offline_peers = offline_peers,
           cps_blocked_by_another = filter (\<lambda>(p, c). c \<noteq> cluster_id) blocked_peers,
           cps_only_blocked_by_self = list_all (\<lambda>c. c = cluster_id) (values_of blocked_peers) \<rparr>)"

definition check_cluster_deployable :: "ClusterPeerStates \<Rightarrow> ClusterDeployable" where
  "check_cluster_deployable s =
     (let unavailable = List.union (keys_of (cps_blocked_peers s)) (cps_offline_peers s) in
      if unavailable = [] then AllPeersAvailable
      else if cps_only_blocked_by_self s \<and> cps_offline_peers s = [] then AlreadyDeployed
      else NotAllPeersAvailable unavailable)"

definition check_all_peers_are_available_not_necessarily_online :: "ClusterPeerStates \<Rightarrow> ClusterDeployable" where
  "check_all_peers_are_available_not_necessarily_online s =
     (if cps_blocked_peers s = [] then AllPeersAvailable
      else if cps_only_blocked_by_self s then AlreadyDeployed
      else NotAllPeersAvailable (keys_of (cps_blocked_by_another s)))"

datatype ListClusterPeerStatesError =
    StatesListClusterPeers ClusterId ListClusterPeersError
  | StatesListPeerStates ClusterId PersistenceError
  | StatesPersistence ClusterId PersistenceError
  | StatesPanic string

fun list_peer_states_fault :: "ClusterId \<Rightarrow> storage_fault \<Rightarrow> ListClusterPeerStatesError" where
  "list_peer_states_fault c (Persistence e) = StatesListPeerStates c e"
| "list_peer_states_fault c (StoragePanic m) = StatesPanic m"

definition list_cluster_peer_states ::
    "env \<Rightarrow> ClusterId \<Rightarrow> tables \<Rightarrow> ListClusterPeerStatesError + ClusterPeerStates" where
  "list_cluster_peer_states E c t =
     bind_sum (map_err (StatesListClusterPeers c) (list_cluster_peers E c t)) (\<lambda>peers.
     bind_sum (map_err (list_peer_states_fault c) (list_peer_states E t)) (\<lambda>all_states.
       Inr (cluster_peer_states_new c
         (filter (\<lambda>(p, _). List.member (map pd_id peers) p) all_states))))"

section \<open>Well-formed tables and the abstract view\<close>

definition keyed :: "('r \<Rightarrow> 'i) \<Rightarrow> ('i \<times> 'r) list \<Rightarrow> bool" where
  "keyed id_of tb \<longleftrightarrow> hash_map tb \<and> (\<forall>(i, r)\<in>set tb. id_of r = i)"

definition wf_tables :: "tables \<Rightarrow> bool" where
  "wf_tables t \<longleftrightarrow>
     keyed cc_id (t_cluster_configurations t) \<and> keyed cd_id (t_cluster_deployments t) \<and>
     keyed pd_id (t_peer_descriptors t) \<and> hash_map (t_old_peer_configurations t) \<and>
     hash_map (t_peer_configurations t) \<and> hash_map (t_peer_connection_states t)"

definition deployed_cluster :: "tables \<Rightarrow> ClusterConfiguration \<Rightarrow> bool" where
  "deployed_cluster t c \<longleftrightarrow>
     map_of (t_cluster_configurations t) (cc_id c) = Some c \<and>
     map_of (t_cluster_deployments t) (cc_id c) \<noteq> None"

definition blocked_in :: "tables \<Rightarrow> PeerDescriptor \<Rightarrow> ClusterId \<Rightarrow> bool" where
  "blocked_in t peer i \<longleftrightarrow> (\<exists>c. deployed_cluster t c \<and> cc_id c = i \<and> cluster_uses_peer c peer)"

text \<open>No peer is used by two deployed clusters.\<close>

definition exclusive :: "tables \<Rightarrow> bool" where
  "exclusive t \<longleftrightarrow>
     (\<forall>(p, peer)\<in>set (t_peer_descriptors t). \<forall>i j. blocked_in t peer i \<and> blocked_in t peer j \<longrightarrow> i = j)"

lemma keyed_lookup: "keyed f tb \<Longrightarrow> map_of tb i = Some r \<Longrightarrow> f r = i"
  by (auto simp: keyed_def dest!: map_of_SomeD)

lemma keyed_in: "keyed f tb \<Longrightarrow> r \<in> set (values_of tb) \<longleftrightarrow> map_of tb (f r) = Some r"
  by (force simp: keyed_def set_hash_map [symmetric])

lemma keyed_update: "keyed f tb \<Longrightarrow> f r = i \<Longrightarrow> keyed f (AList.update i r tb)"
proof -
  assume *: "keyed f tb" "f r = i"
  have "set (AList.update i r tb) \<subseteq> insert (i, r) (set tb)" by (induction tb) auto
  with * show ?thesis unfolding keyed_def by auto
qed

lemma keyed_delete: "keyed f tb \<Longrightarrow> keyed f (AList.delete i tb)"
  by (auto simp: keyed_def AList.delete_eq)

lemma set_map_filter: "set (List.map_filter f xs) = {y. \<exists>x\<in>set xs. f x = Some y}"
  by (induction xs) (auto simp: map_filter_simps split: option.split)

lemma cluster_uses_peer_iff:
  "cluster_uses_peer c peer \<longleftrightarrow> (\<exists>d\<in>set (pd_devices peer). dev_id d \<in> set (cc_devices c))"
  by (simp add: cluster_uses_peer_def list_ex_iff List.member_iff)

lemma set_list_deployed_clusters:
  assumes "fair E" "wf_tables t"
  shows "\<exists>cs. list_deployed_clusters E t = Inr cs \<and> (\<forall>c. c \<in> set cs \<longleftrightarrow> deployed_cluster t c)"
proof -
  have cd: "keyed cd_id (t_cluster_deployments t)" and cc: "keyed cc_id (t_cluster_configurations t)"
    using assms by (simp_all add: wf_tables_def)
  have "i \<in> cd_id ` set (values_of (t_cluster_deployments t)) \<longleftrightarrow> map_of (t_cluster_deployments t) i \<noteq> None" for i
    using cd keyed_in [OF cd] keyed_lookup [OF cd] by (metis (no_types, lifting) image_iff not_None_eq)
  then show ?thesis
    using assms keyed_in [OF cc]
    by (simp add: list_deployed_clusters_def kind_defs List.member_iff deployed_cluster_def image_image)
qed

section \<open>Member states, computed and specified\<close>

lemma set_deployed_devices:
  "map_of (deployed_devices cs) d = Some i \<Longrightarrow> \<exists>c\<in>set cs. cc_id c = i \<and> d \<in> set (cc_devices c)"
  by (auto simp: deployed_devices_def map_of_collect dest!: map_of_SomeD)

lemma dom_deployed_devices:
  assumes "c \<in> set cs" "d \<in> set (cc_devices c)"
  shows "map_of (deployed_devices cs) d \<noteq> None"
proof -
  have "d \<in> fst ` set (concat (map (\<lambda>c. map (\<lambda>d. (d, cc_id c)) (cc_devices c)) cs))"
    using assms by force
  then show ?thesis by (simp add: deployed_devices_def map_of_collect map_of_eq_None_iff)
qed

definition member_spec :: "tables \<Rightarrow> PeerDescriptor \<Rightarrow> PeerMemberState \<Rightarrow> bool" where
  "member_spec t peer s \<longleftrightarrow>
     (case s of Available \<Rightarrow> \<forall>i. \<not> blocked_in t peer i | Blocked i \<Rightarrow> blocked_in t peer i)"

lemma peer_member_state_spec:
  assumes deployed: "\<And>c. c \<in> set cs \<longleftrightarrow> deployed_cluster t c"
    and one: "\<And>i j. blocked_in t peer i \<Longrightarrow> blocked_in t peer j \<Longrightarrow> i = j"
  shows "\<exists>s. peer_member_state (deployed_devices cs) peer = Inr (pd_id peer, s) \<and> member_spec t peer s"
proof -
  have blocking: "blocked_in t peer i" if blocks: "i \<in> set (blocking_clusters (deployed_devices cs) peer)" for i
  proof -
    obtain d where d: "d \<in> set (pd_devices peer)" "map_of (deployed_devices cs) (dev_id d) = Some i"
      using blocks by (auto simp: blocking_clusters_def set_map_filter)
    with set_deployed_devices obtain c where "c \<in> set cs" "cc_id c = i" "dev_id d \<in> set (cc_devices c)"
      by blast
    with d show ?thesis
      unfolding blocked_in_def cluster_uses_peer_iff deployed [symmetric] by blast
  qed
  have found: "blocking_clusters (deployed_devices cs) peer \<noteq> []" if blocked: "blocked_in t peer i" for i
  proof -
    obtain c d where "c \<in> set cs" "d \<in> set (pd_devices peer)" "dev_id d \<in> set (cc_devices c)"
      using blocked by (auto simp: blocked_in_def cluster_uses_peer_iff deployed)
    then obtain j where "map_of (deployed_devices cs) (dev_id d) = Some j"
      using dom_deployed_devices by blast
    then have "j \<in> set (blocking_clusters (deployed_devices cs) peer)"
      using \<open>d \<in> set (pd_devices peer)\<close> by (auto simp: blocking_clusters_def set_map_filter)
    then show ?thesis by auto
  qed
  show ?thesis
  proof (cases "blocking_clusters (deployed_devices cs) peer")
    case Nil
    with found show ?thesis by (auto simp: peer_member_state_def member_spec_def)
  next
    case (Cons i js)
    then have "blocked_in t peer i" "\<forall>j\<in>set js. i = j"
      using blocking one by auto
    with Cons show ?thesis by (simp add: peer_member_state_def member_spec_def list_all_iff)
  qed
qed

lemma traverse_choose:
  "(\<And>x. x \<in> set xs \<Longrightarrow> \<exists>y. f x = Inr y \<and> P x y) \<Longrightarrow> \<exists>ys. traverse f xs = Inr ys \<and> list_all2 P xs ys"
proof (induction xs)
  case (Cons x xs)
  then obtain y ys where "f x = Inr y" "P x y" "traverse f xs = Inr ys" "list_all2 P xs ys"
    by (metis list.set_intros)
  then show ?case by auto
qed simp

theorem list_peer_member_states_spec:
  assumes "fair E" "wf_tables t" "exclusive t"
  shows "\<exists>states. list_peer_member_states E t = Inr states \<and> hash_map states \<and>
    (\<forall>p. map_of states p = None \<longleftrightarrow> map_of (t_peer_descriptors t) p = None) \<and>
    (\<forall>p peer s. map_of (t_peer_descriptors t) p = Some peer \<longrightarrow> map_of states p = Some s \<longrightarrow> member_spec t peer s)"
proof -
  obtain cs where cs: "list_deployed_clusters E t = Inr cs" "\<And>c. c \<in> set cs \<longleftrightarrow> deployed_cluster t c"
    using set_list_deployed_clusters [OF assms(1,2)] by auto
  let ?P = "\<lambda>peer (i, s). i = pd_id peer \<and> member_spec t peer s"
  let ?peers = "values_of (t_peer_descriptors t)"
  have keyed: "keyed pd_id (t_peer_descriptors t)" using assms by (simp add: wf_tables_def)
  have "\<exists>y. peer_member_state (deployed_devices cs) peer = Inr y \<and> ?P peer y" if "peer \<in> set ?peers" for peer
    using peer_member_state_spec [OF cs(2), of peer] that assms(3) by (fastforce simp: exclusive_def)
  then obtain ys where ys: "traverse (peer_member_state (deployed_devices cs)) ?peers = Inr ys"
    and all: "list_all2 ?P ?peers ys"
    using traverse_choose [of ?peers "peer_member_state (deployed_devices cs)" ?P] by blast
  have keys: "keys_of ys = map pd_id ?peers"
    using all by (induction rule: list_all2_induct) auto
  have ids: "map pd_id ?peers = keys_of (t_peer_descriptors t)"
    using keyed by (auto simp: keyed_def)
  with keyed keys have "hash_map ys"
    by (simp only: hash_map_def keyed_def)
  moreover have "list_peer_member_states E t = Inr ys"
    using assms(1) ys \<open>hash_map ys\<close>
    by (simp add: list_peer_member_states_def cs(1) kind_defs collect_map_distinct)
  moreover have "map_of ys p = None \<longleftrightarrow> map_of (t_peer_descriptors t) p = None" for p
    using keys ids by (metis map_of_eq_None_iff set_map)
  moreover have "member_spec t peer s"
    if peer: "map_of (t_peer_descriptors t) p = Some peer" and state: "map_of ys p = Some s" for p peer s
  proof -
    obtain n where n: "n < length ys" "ys ! n = (p, s)"
      using state by (metis in_set_conv_nth map_of_SomeD)
    then have len: "n < length ?peers" "?P (?peers ! n) (p, s)"
      using all by (auto simp: list_all2_conv_all_nth)
    then have "?peers ! n \<in> set ?peers" "pd_id (?peers ! n) = p" by (auto intro: nth_mem)
    then have "?peers ! n = peer"
      using keyed_in [OF keyed] peer by fastforce
    with len show ?thesis by simp
  qed
  ultimately show ?thesis by blast
qed

section \<open>States of the peers of a cluster\<close>

lemma list_peer_states_spec:
  assumes "fair E" "wf_tables t" "exclusive t"
  shows "\<exists>states. list_peer_states E t = Inr states \<and> hash_map states \<and>
    (\<forall>p. map_of states p = None \<longleftrightarrow> map_of (t_peer_descriptors t) p = None) \<and>
    (\<forall>p peer s. map_of (t_peer_descriptors t) p = Some peer \<longrightarrow> map_of states p = Some s \<longrightarrow>
       member_spec t peer (ps_member s) \<and>
       ps_connection s = unwrap_or_default Offline (map_of (t_peer_connection_states t) p))"
proof -
  obtain ms where ms: "list_peer_member_states E t = Inr ms" "hash_map ms"
    "\<And>p. map_of ms p = None \<longleftrightarrow> map_of (t_peer_descriptors t) p = None"
    "\<And>p peer s. map_of (t_peer_descriptors t) p = Some peer \<Longrightarrow> map_of ms p = Some s \<Longrightarrow> member_spec t peer s"
    using list_peer_member_states_spec [OF assms] by blast
  let ?f = "\<lambda>p member. \<lparr> ps_connection =
      unwrap_or_default Offline (map_of (t_peer_connection_states t) p), ps_member = member \<rparr>"
  let ?states = "map (\<lambda>(p, m). (p, ?f p m)) ms"
  have hash: "hash_map ?states" using ms(2) by (simp add: hash_map_def case_prod_beta comp_def)
  have "list_peer_states E t = Inr (collect_map ?states)"
    using assms(1) by (simp add: list_peer_states_def ms(1) kind_defs peer_connection_state_default_def)
  moreover have "map_of ?states p = map_option (?f p) (map_of ms p)" for p
    by (induction ms) auto
  ultimately show ?thesis
    using hash ms(3,4) by (auto simp: collect_map_distinct)
qed

lemma map_of_filter_keys: "map_of (filter (\<lambda>(k, _). P k) m) k = (if P k then map_of m k else None)"
  by (induction m) auto

text \<open>The states \<open>list_cluster_peer_states\<close> hands on: those of the peers the cluster uses.\<close>

lemma list_cluster_peer_states_spec:
  assumes "fair E" "wf_tables t" "exclusive t" "map_of (t_cluster_configurations t) c = Some cfg"
  shows "\<exists>states. list_cluster_peer_states E c t = Inr (cluster_peer_states_new c states) \<and> hash_map states \<and>
    (\<forall>p. map_of states p \<noteq> None \<longleftrightarrow>
       (\<exists>peer. map_of (t_peer_descriptors t) p = Some peer \<and> cluster_uses_peer cfg peer)) \<and>
    (\<forall>p peer s. map_of (t_peer_descriptors t) p = Some peer \<longrightarrow> map_of states p = Some s \<longrightarrow>
       member_spec t peer (ps_member s) \<and>
       ps_connection s = unwrap_or_default Offline (map_of (t_peer_connection_states t) p))"
proof -
  obtain all where all: "list_peer_states E t = Inr all" "hash_map all"
    "\<And>p. map_of all p = None \<longleftrightarrow> map_of (t_peer_descriptors t) p = None"
    "\<And>p peer s. map_of (t_peer_descriptors t) p = Some peer \<Longrightarrow> map_of all p = Some s \<Longrightarrow>
       member_spec t peer (ps_member s) \<and>
       ps_connection s = unwrap_or_default Offline (map_of (t_peer_connection_states t) p)"
    using list_peer_states_spec [OF assms(1-3)] by blast
  have keyed: "keyed pd_id (t_peer_descriptors t)" using assms by (simp add: wf_tables_def)
  let ?ids = "pd_id ` {peer \<in> set (values_of (t_peer_descriptors t)). cluster_uses_peer cfg peer}"
  let ?states = "filter (\<lambda>(p, _). p \<in> ?ids) all"
  have ids: "p \<in> ?ids \<longleftrightarrow> (\<exists>peer. map_of (t_peer_descriptors t) p = Some peer \<and> cluster_uses_peer cfg peer)" for p
    using keyed_in [OF keyed] keyed_lookup [OF keyed] by (auto simp del: set_map)
  have "list_cluster_peer_states E c t = Inr (cluster_peer_states_new c ?states)"
    using assms(1,4) by (simp add: list_cluster_peer_states_def list_cluster_peers_def kind_defs all(1)
        List.member_iff case_prod_beta)
  moreover have "hash_map ?states" using all(2) by (rule hash_map_filter)
  moreover have "map_of ?states p =
      (if \<exists>peer. map_of (t_peer_descriptors t) p = Some peer \<and> cluster_uses_peer cfg peer
       then map_of all p else None)" for p
    by (simp only: map_of_filter_keys ids)
  moreover obtain states where "states = ?states" by blast
  ultimately have "list_cluster_peer_states E c t = Inr (cluster_peer_states_new c states)" "hash_map states"
    and val: "\<And>p. map_of states p =
      (if \<exists>peer. map_of (t_peer_descriptors t) p = Some peer \<and> cluster_uses_peer cfg peer
       then map_of all p else None)"
    by (simp_all only:)
  moreover have "\<exists>s. map_of all p = Some s" if "map_of (t_peer_descriptors t) p = Some peer" for p peer
    using all(3) [of p] that by (cases "map_of all p") auto
  ultimately show ?thesis
    using all(4) by (intro exI [of _ states]) (auto simp: val split: if_splits)
qed

lemma blocked_peers_new:
  assumes "hash_map states"
  shows "(p, i) \<in> set (cps_blocked_peers (cluster_peer_states_new c states)) \<longleftrightarrow>
    (\<exists>s. map_of states p = Some s \<and> ps_member s = Blocked i)"
proof -
  have "map_option (\<lambda>c. (q, c)) (blocked_by m) = Some (p, i) \<longleftrightarrow> q = p \<and> m = Blocked i" for q m
    by (cases m) auto
  then show ?thesis
    using assms by (force simp: cluster_peer_states_new_def Let_def set_map_filter set_hash_map [symmetric])
qed

lemma offline_peers_new:
  assumes "hash_map states"
  shows "p \<in> set (cps_offline_peers (cluster_peer_states_new c states)) \<longleftrightarrow>
    (\<exists>s. map_of states p = Some s \<and> ps_connection s = Offline)"
  using assms by (force simp: cluster_peer_states_new_def Let_def set_map_filter set_hash_map [symmetric]
      split: PeerConnectionState.splits)

lemma cluster_peer_states_sel:
  "cps_cluster_id (cluster_peer_states_new c states) = c"
  "cps_only_blocked_by_self (cluster_peer_states_new c states) \<longleftrightarrow>
     (\<forall>(p, i)\<in>set (cps_blocked_peers (cluster_peer_states_new c states)). i = c)"
  "cps_blocked_by_another (cluster_peer_states_new c states) =
     filter (\<lambda>(p, i). i \<noteq> c) (cps_blocked_peers (cluster_peer_states_new c states))"
  by (auto simp: cluster_peer_states_new_def Let_def list_all_iff)

text \<open>What the two checks decide, in terms of the tables.\<close>

definition used_peer :: "tables \<Rightarrow> ClusterConfiguration \<Rightarrow> PeerId \<Rightarrow> PeerDescriptor \<Rightarrow> bool" where
  "used_peer t cfg p peer \<longleftrightarrow> map_of (t_peer_descriptors t) p = Some peer \<and> cluster_uses_peer cfg peer"

definition peer_online :: "tables \<Rightarrow> PeerId \<Rightarrow> bool" where
  "peer_online t p \<longleftrightarrow> (\<exists>host. map_of (t_peer_connection_states t) p = Some (Online host))"

lemma unwrap_offline: "unwrap_or_default Offline (map_of (t_peer_connection_states t) p) = Offline \<longleftrightarrow> \<not> peer_online t p"
  unfolding peer_online_def
  by (cases "map_of (t_peer_connection_states t) p"; cases "the (map_of (t_peer_connection_states t) p)") auto

lemma cluster_states_meaning:
  assumes "fair E" "wf_tables t" "exclusive t" "map_of (t_cluster_configurations t) c = Some cfg"
  obtains s where "list_cluster_peer_states E c t = Inr s" "cps_cluster_id s = c"
    "\<And>p i. (p, i) \<in> set (cps_blocked_peers s) \<longleftrightarrow> (\<exists>peer. used_peer t cfg p peer \<and> blocked_in t peer i)"
    "\<And>p. p \<in> set (cps_offline_peers s) \<longleftrightarrow> (\<exists>peer. used_peer t cfg p peer \<and> \<not> peer_online t p)"
    "cps_only_blocked_by_self s \<longleftrightarrow> (\<forall>(p, i)\<in>set (cps_blocked_peers s). i = c)"
    "cps_blocked_by_another s = filter (\<lambda>(p, i). i \<noteq> c) (cps_blocked_peers s)"
proof -
  obtain states where st: "list_cluster_peer_states E c t = Inr (cluster_peer_states_new c states)" "hash_map states"
    and dom: "\<And>p. map_of states p \<noteq> None \<longleftrightarrow> (\<exists>peer. used_peer t cfg p peer)"
    and val: "\<And>p peer s. map_of (t_peer_descriptors t) p = Some peer \<Longrightarrow> map_of states p = Some s \<Longrightarrow>
       member_spec t peer (ps_member s) \<and>
       ps_connection s = unwrap_or_default Offline (map_of (t_peer_connection_states t) p)"
    using list_cluster_peer_states_spec [OF assms] unfolding used_peer_def by blast
  have one: "i = j" if "used_peer t cfg p peer" "blocked_in t peer i" "blocked_in t peer j" for p peer i j
    using assms(3) that by (auto simp: exclusive_def used_peer_def dest!: map_of_SomeD)
  have member: "ps_member s = Blocked i \<longleftrightarrow> blocked_in t peer i"
    if "used_peer t cfg p peer" "map_of states p = Some s" for p peer s i
    using val [of p peer s] that one [OF that(1)]
    by (cases "ps_member s") (auto simp: used_peer_def member_spec_def)
  have blocked: "(\<exists>s. map_of states p = Some s \<and> ps_member s = Blocked i) \<longleftrightarrow>
      (\<exists>peer. used_peer t cfg p peer \<and> blocked_in t peer i)" for p i
    using dom [of p] member [of p] by (metis not_None_eq)
  have offline: "(\<exists>s. map_of states p = Some s \<and> ps_connection s = Offline) \<longleftrightarrow>
      (\<exists>peer. used_peer t cfg p peer \<and> \<not> peer_online t p)" for p
  proof -
    have "ps_connection s = Offline \<longleftrightarrow> \<not> peer_online t p"
      if "used_peer t cfg p peer" "map_of states p = Some s" for peer s
      using val [of p peer s] that unwrap_offline by (simp add: used_peer_def)
    then show ?thesis using dom [of p] by (metis not_None_eq)
  qed
  show ?thesis
    by (rule that [OF st(1)])
      (simp_all add: blocked_peers_new [OF st(2)] offline_peers_new [OF st(2)] blocked offline
        cluster_peer_states_sel)
qed

section \<open>What the checks decide\<close>

lemma check_all_available_iff:
  assumes "\<And>p i. (p, i) \<in> set (cps_blocked_peers s) \<longleftrightarrow> B p i"
    and "cps_only_blocked_by_self s \<longleftrightarrow> (\<forall>(p, i)\<in>set (cps_blocked_peers s). i = c)"
    and "cps_blocked_by_another s = filter (\<lambda>(p, i). i \<noteq> c) (cps_blocked_peers s)"
  shows "check_all_peers_are_available_not_necessarily_online s = AllPeersAvailable \<longleftrightarrow> (\<forall>p i. \<not> B p i)"
    and "check_all_peers_are_available_not_necessarily_online s = AlreadyDeployed \<longleftrightarrow>
           (\<exists>p i. B p i) \<and> (\<forall>p i. B p i \<longrightarrow> i = c)"
    and "check_all_peers_are_available_not_necessarily_online s = NotAllPeersAvailable ps \<Longrightarrow>
           set ps = {p. \<exists>i. B p i \<and> i \<noteq> c} \<and> ps \<noteq> []"
proof -
  have nil: "cps_blocked_peers s = [] \<longleftrightarrow> (\<forall>p i. \<not> B p i)"
    using assms(1) by (metis list.set_intros(1) emptyE list.set(1) surj_pair neq_Nil_conv)
  have self: "cps_only_blocked_by_self s \<longleftrightarrow> (\<forall>p i. B p i \<longrightarrow> i = c)"
    using assms(1,2) by auto
  have another: "set (keys_of (cps_blocked_by_another s)) = {p. \<exists>i. B p i \<and> i \<noteq> c}"
    using assms(1,3) by force
  show "check_all_peers_are_available_not_necessarily_online s = AllPeersAvailable \<longleftrightarrow> (\<forall>p i. \<not> B p i)"
    unfolding check_all_peers_are_available_not_necessarily_online_def nil by simp
  show "check_all_peers_are_available_not_necessarily_online s = AlreadyDeployed \<longleftrightarrow>
      (\<exists>p i. B p i) \<and> (\<forall>p i. B p i \<longrightarrow> i = c)"
    unfolding check_all_peers_are_available_not_necessarily_online_def nil self by auto
  assume "check_all_peers_are_available_not_necessarily_online s = NotAllPeersAvailable ps"
  then have ps: "ps = keys_of (cps_blocked_by_another s)" and "\<not> cps_only_blocked_by_self s"
    by (auto simp: check_all_peers_are_available_not_necessarily_online_def split: if_splits)
  then have "{p. \<exists>i. B p i \<and> i \<noteq> c} \<noteq> {}" using self by auto
  then show "set ps = {p. \<exists>i. B p i \<and> i \<noteq> c} \<and> ps \<noteq> []"
    unfolding ps using another by (metis list.set(1))
qed

lemma check_deployable_iff:
  assumes "\<And>p i. (p, i) \<in> set (cps_blocked_peers s) \<longleftrightarrow> B p i"
    and "\<And>p. p \<in> set (cps_offline_peers s) \<longleftrightarrow> Off p"
    and "cps_only_blocked_by_self s \<longleftrightarrow> (\<forall>(p, i)\<in>set (cps_blocked_peers s). i = c)"
  shows "check_cluster_deployable s = AllPeersAvailable \<longleftrightarrow> (\<forall>p i. \<not> B p i) \<and> (\<forall>p. \<not> Off p)"
    and "check_cluster_deployable s = AlreadyDeployed \<longleftrightarrow>
           (\<exists>p i. B p i) \<and> (\<forall>p i. B p i \<longrightarrow> i = c) \<and> (\<forall>p. \<not> Off p)"
proof -
  have empty: "L = [] \<longleftrightarrow> set L = {}" for L :: "PeerId list" by simp
  have pick: "(if N \<and> F then AllPeersAvailable else if S \<and> F then AlreadyDeployed
      else NotAllPeersAvailable L) = AlreadyDeployed \<longleftrightarrow> \<not> N \<and> S \<and> F" for N F S L by simp
  have un: "set (List.union (keys_of (cps_blocked_peers s)) (cps_offline_peers s)) = {p. Off p \<or> (\<exists>i. B p i)}"
    using assms(1,2) by force
  have nil: "List.union (keys_of (cps_blocked_peers s)) (cps_offline_peers s) = [] \<longleftrightarrow>
      (\<forall>p i. \<not> B p i) \<and> (\<forall>p. \<not> Off p)"
    unfolding empty un by blast
  have self: "cps_only_blocked_by_self s \<longleftrightarrow> (\<forall>p i. B p i \<longrightarrow> i = c)"
    using assms(1,3) by auto
  have off: "cps_offline_peers s = [] \<longleftrightarrow> (\<forall>p. \<not> Off p)"
  proof (cases "cps_offline_peers s")
    case Nil
    then have "\<not> Off p" for p using assms(2) [of p] by simp
    with Nil show ?thesis by simp
  next
    case (Cons q qs)
    then have "Off q" using assms(2) [of q] by simp
    with Cons show ?thesis by auto
  qed
  show "check_cluster_deployable s = AllPeersAvailable \<longleftrightarrow> (\<forall>p i. \<not> B p i) \<and> (\<forall>p. \<not> Off p)"
    unfolding check_cluster_deployable_def Let_def nil by simp
  obtain S where S: "S \<longleftrightarrow> (\<forall>p i. B p i \<longrightarrow> i = c)" by blast
  have "check_cluster_deployable s = AlreadyDeployed \<longleftrightarrow> \<not> (\<forall>p i. \<not> B p i) \<and> S \<and> (\<forall>p. \<not> Off p)"
    unfolding check_cluster_deployable_def Let_def nil self off pick S ..
  then show "check_cluster_deployable s = AlreadyDeployed \<longleftrightarrow>
      (\<exists>p i. B p i) \<and> (\<forall>p i. B p i \<longrightarrow> i = c) \<and> (\<forall>p. \<not> Off p)"
    unfolding S [symmetric] by simp
qed

section \<open>What keeps the deployed clusters apart\<close>

lemma blocked_in_new_deployment:
  assumes "blocked_in (t\<lparr> t_cluster_deployments := AList.update c \<lparr> cd_id = c \<rparr> (t_cluster_deployments t) \<rparr>) peer i"
    and "map_of (t_cluster_configurations t) c = Some cfg" "cc_id cfg = c"
  shows "blocked_in t peer i \<or> i = c \<and> cluster_uses_peer cfg peer"
proof -
  obtain x where x: "map_of (t_cluster_configurations t) i = Some x" "cc_id x = i" "cluster_uses_peer x peer"
    and "i = c \<or> map_of (t_cluster_deployments t) i \<noteq> None"
    using assms(1) unfolding blocked_in_def deployed_cluster_def by (auto split: if_splits)
  then consider "i = c" | "deployed_cluster t x" by (auto simp: deployed_cluster_def)
  then show ?thesis
  proof cases
    case 1
    with x assms(2) show ?thesis by simp
  next
    case 2
    with x show ?thesis unfolding blocked_in_def by blast
  qed
qed

lemma exclusive_store_deployment:
  assumes "wf_tables t" "exclusive t" "map_of (t_cluster_configurations t) c = Some cfg"
    and free: "\<And>p peer i. used_peer t cfg p peer \<Longrightarrow> \<not> blocked_in t peer i"
  shows "exclusive (t\<lparr> t_cluster_deployments := AList.update c \<lparr> cd_id = c \<rparr> (t_cluster_deployments t) \<rparr>)"
proof -
  let ?t = "t\<lparr> t_cluster_deployments := AList.update c \<lparr> cd_id = c \<rparr> (t_cluster_deployments t) \<rparr>"
  have cc: "keyed cc_id (t_cluster_configurations t)" and pd: "keyed pd_id (t_peer_descriptors t)"
    using assms(1) by (simp_all add: wf_tables_def)
  have id: "cc_id cfg = c" using keyed_lookup [OF cc assms(3)] .
  have "i = j" if p: "(p, peer) \<in> set (t_peer_descriptors t)" and ij: "blocked_in ?t peer i" "blocked_in ?t peer j"
    for p peer i j
  proof (cases "cluster_uses_peer cfg peer")
    case True
    then have "used_peer t cfg p peer" using p pd by (auto simp: used_peer_def keyed_def set_hash_map)
    then have "\<not> blocked_in t peer i" "\<not> blocked_in t peer j" using free by auto
    then show ?thesis using ij [THEN blocked_in_new_deployment, OF assms(3) id] by auto
  next
    case False
    then have "blocked_in t peer i" "blocked_in t peer j"
      using ij [THEN blocked_in_new_deployment, OF assms(3) id] by auto
    then show ?thesis using assms(2) p by (auto simp: exclusive_def)
  qed
  then show ?thesis by (auto simp: exclusive_def)
qed

text \<open>Fewer deployments, configurations or peers keep it: deleting never breaks it.\<close>

lemma exclusive_antimono:
  assumes "exclusive t"
    and "set (t_peer_descriptors u) \<subseteq> set (t_peer_descriptors t)"
    and "\<And>c. deployed_cluster u c \<Longrightarrow> deployed_cluster t c"
  shows "exclusive u"
proof -
  have "blocked_in t peer i" if "blocked_in u peer i" for peer i
    using that assms(3) by (auto simp: blocked_in_def)
  then show ?thesis using assms(1,2) by (fastforce simp: exclusive_def)
qed

end
