(* ===== verification/PeerManager.thy ===== *)
theory PeerManager
  imports PeerQueries
begin

text \<open>
  The operations on peers (opendut-carl/src/manager/peer_manager): storing and deleting a peer
  descriptor together with its registration at the VPN server and its OIDC clients, generating
  the setup strings of a peer and of a CLEO. The two servers are reached through clients, which
  are parameters; they act on an outside world \<open>'w\<close> that a rolled back transaction leaves as it is.
\<close>

section \<open>Clients of the outside servers\<close>

text \<open>The trait \<open>VpnManagementClient\<close> (opendut-vpn/src/lib.rs) and the setting \<open>Vpn\<close>.\<close>

record 'w vpn_client =
  vpn_create_cluster :: "ClusterId \<Rightarrow> PeerId list \<Rightarrow> ('w, string, unit) run"
  vpn_delete_cluster :: "ClusterId \<Rightarrow> ('w, string, unit) run"
  vpn_create_peer :: "PeerId \<Rightarrow> ('w, string, unit) run"
  vpn_delete_peer :: "PeerId \<Rightarrow> ('w, string, unit) run"
  vpn_generate_peer_configuration :: "PeerId \<Rightarrow> ('w, string, VpnPeerConfiguration) run"

datatype 'w vpn = VpnEnabled (the_vpn_client: "'w vpn_client") | VpnOff

text \<open>The registration client of opendut-auth, as far as the managers use it.\<close>

record 'w registration_client =
  reg_issuer_remote_url :: url
  reg_delete_client_by_resource_id :: "uuid \<Rightarrow> ('w, string, string list) run"
  reg_register_new_client_for_user :: "uuid \<Rightarrow> string \<Rightarrow> ('w, string, ClientId \<times> ClientSecret) run"

section \<open>Storing a peer (store_peer_descriptor.rs)\<close>

datatype StorePeerDescriptorError =
    StorePeerIllegalState PeerId PeerName PeerState "PeerState list"
  | StorePeerPersistence PeerId PeerName PersistenceError
  | StorePeerVpnClient PeerId PeerName string

definition vpn_undo_create :: "'w vpn \<Rightarrow> bool \<Rightarrow> PeerId \<Rightarrow> 'w \<Rightarrow> 'w" where
  "vpn_undo_create vpn is_new_peer peer_id w =
     (if is_new_peer then (case vpn of VpnEnabled client \<Rightarrow> fst (vpn_delete_peer client peer_id w) | VpnOff \<Rightarrow> w)
      else w)"

definition vpn_create_new :: "'w vpn \<Rightarrow> bool \<Rightarrow> PeerId \<Rightarrow> ('w, string, unit) run" where
  "vpn_create_new vpn is_new_peer peer_id =
     (if is_new_peer then (case vpn of VpnEnabled client \<Rightarrow> vpn_create_peer client peer_id | VpnOff \<Rightarrow> return_ok ())
      else return_ok ())"

definition store_peer_descriptor ::
    "env \<Rightarrow> 'w vpn \<Rightarrow> PeerDescriptor \<Rightarrow> (resources \<times> 'w, StorePeerDescriptorError, PeerId) run" where
  "store_peer_descriptor E vpn peer =
     (let peer_id = pd_id peer; peer_name = pd_name peer in
      and_then (map_run_err (StorePeerPersistence peer_id peer_name)
          (on_fst (read_resources (resources_get E PeerDescriptors peer_id)))) (\<lambda>existing.
      let is_new_peer = (existing = None) in
      and_then (map_run_err (StorePeerVpnClient peer_id peer_name)
          (on_snd (vpn_create_new vpn is_new_peer peer_id))) (\<lambda>_.
      \<lambda>sw. case map_run_err (StorePeerPersistence peer_id peer_name)
                  (on_fst (resources_insert E PeerDescriptors peer_id peer)) sw of
             (sw', Inr _) \<Rightarrow> (sw', Inr peer_id)
           | ((s, w), Inl e) \<Rightarrow> ((s, vpn_undo_create vpn is_new_peer peer_id w), Inl e))))"

section \<open>Deleting a peer (delete_peer_descriptor.rs)\<close>

datatype DeletePeerDescriptorError =
    DeletePeerNotFound PeerId
  | DeletePeerDeploymentExists PeerId ClusterId
  | DeletePeerIllegalState PeerId PeerName PeerState "PeerState list"
  | DeletePeerPersistence PeerId "PeerName option" PersistenceError
  | DeletePeerAuthRegistration PeerId PeerName string
  | DeletePeerVpnClient PeerId PeerName string
  | DeletePeerPanic string

fun delete_peer_fault :: "PeerId \<Rightarrow> storage_fault \<Rightarrow> DeletePeerDescriptorError" where
  "delete_peer_fault p (Persistence e) = DeletePeerPersistence p None e"
| "delete_peer_fault p (StoragePanic m) = DeletePeerPanic m"

definition delete_oidc_clients ::
    "'w registration_client option \<Rightarrow> PeerId \<Rightarrow> ('w, string, string list) run" where
  "delete_oidc_clients oidc peer_id =
     (case oidc of
        Some client \<Rightarrow> reg_delete_client_by_resource_id client (peer_uuid peer_id)
      | None \<Rightarrow> return_ok [])"

definition delete_vpn_peer :: "'w vpn \<Rightarrow> PeerId \<Rightarrow> ('w, string, unit) run" where
  "delete_vpn_peer vpn peer_id =
     (case vpn of VpnEnabled client \<Rightarrow> vpn_delete_peer client peer_id | VpnOff \<Rightarrow> return_ok ())"

definition delete_peer_descriptor ::
    "env \<Rightarrow> 'w vpn \<Rightarrow> 'w registration_client option \<Rightarrow> PeerId \<Rightarrow>
     (resources \<times> 'w, DeletePeerDescriptorError, PeerDescriptor) run" where
  "delete_peer_descriptor E vpn oidc peer_id =
     and_then (map_run_err (delete_peer_fault peer_id)
         (on_fst (read_resources (list_peer_member_states E)))) (\<lambda>peer_member_states.
     case map_of peer_member_states peer_id of
       Some (Blocked cluster) \<Rightarrow> fail_with (DeletePeerDeploymentExists peer_id cluster)
     | _ \<Rightarrow>
         and_then (map_run_err (DeletePeerPersistence peer_id None)
             (on_fst (resources_remove E PeerDescriptors peer_id))) (\<lambda>removed.
         and_then (lift_result (ok_or (DeletePeerNotFound peer_id) removed)) (\<lambda>peer_descriptor.
         and_then (map_run_err (DeletePeerAuthRegistration peer_id (pd_name peer_descriptor))
             (on_snd (delete_oidc_clients oidc peer_id))) (\<lambda>_.
         and_then (map_run_err (DeletePeerVpnClient peer_id (pd_name peer_descriptor))
             (on_snd (delete_vpn_peer vpn peer_id))) (\<lambda>_.
         return_ok peer_descriptor)))))"

section \<open>Setup strings (generate_peer_setup.rs, generate_cleo_setup.rs)\<close>

datatype GeneratePeerSetupError =
    PeerSetupPeerNotFound PeerId
  | PeerSetupPersistence PeerId PersistenceError
  | PeerSetupInternal PeerId PeerName string

definition auth_config_for ::
    "'w registration_client option \<Rightarrow> uuid \<Rightarrow> string \<Rightarrow> ('w, string, AuthConfig) run" where
  "auth_config_for oidc resource_id user_id =
     (case oidc of
        None \<Rightarrow> return_ok AuthDisabled
      | Some client \<Rightarrow>
          and_then (reg_register_new_client_for_user client resource_id user_id) (\<lambda>(cid, secret).
            return_ok (auth_config_from_credentials (reg_issuer_remote_url client) cid secret)))"

definition generate_peer_setup ::
    "env \<Rightarrow> 'w vpn \<Rightarrow> 'w registration_client option \<Rightarrow> PeerId \<Rightarrow> url \<Rightarrow> Certificate \<Rightarrow> string \<Rightarrow>
     (tables \<times> 'w, GeneratePeerSetupError, PeerSetup) run" where
  "generate_peer_setup E vpn oidc peer_id carl_url ca user_id =
     and_then (\<lambda>sw. (sw, map_err (PeerSetupPersistence peer_id) (resources_get E PeerDescriptors peer_id (fst sw)))) (\<lambda>found.
     and_then (lift_result (ok_or (PeerSetupPeerNotFound peer_id) found)) (\<lambda>peer_descriptor.
     and_then (map_run_err (PeerSetupInternal peer_id (pd_name peer_descriptor))
         (on_snd (case vpn of VpnEnabled client \<Rightarrow> vpn_generate_peer_configuration client peer_id
                            | VpnOff \<Rightarrow> return_ok VpnDisabled))) (\<lambda>vpn_config.
     and_then (map_run_err (PeerSetupInternal peer_id (pd_name peer_descriptor))
         (on_snd (auth_config_for oidc (peer_uuid peer_id) user_id))) (\<lambda>auth_config.
     return_ok \<lparr> setup_id = peer_id, setup_carl = carl_url, setup_ca = ca,
                 setup_auth_config = auth_config, setup_vpn = vpn_config \<rparr>))))"

datatype GenerateCleoSetupError = CleoSetupInternal string

definition generate_cleo_setup ::
    "'w registration_client option \<Rightarrow> CleoId \<Rightarrow> url \<Rightarrow> Certificate \<Rightarrow> string \<Rightarrow>
     ('w, GenerateCleoSetupError, CleoSetup) run" where
  "generate_cleo_setup oidc i carl_url ca user_id =
     and_then (map_run_err CleoSetupInternal (auth_config_for oidc (cleo_uuid i) user_id)) (\<lambda>auth_config.
       return_ok \<lparr> cleo_id = i, cleo_carl = carl_url, cleo_ca = ca, cleo_auth_config = auth_config \<rparr>)"

lemmas run_unfolds = run_defs on_fst_def on_snd_def read_resources_def

section \<open>A failed store leaves no trace\<close>

text \<open>
  What a VPN client promises in the states that are \<open>ok\<close>, with the set of registered peers as its
  abstract state: a success changes it as announced, a failure leaves it. Theory NetbirdServer
  shows it for the client for NetBird.
\<close>

definition vpn_keeps_books :: "'w vpn_client \<Rightarrow> ('w \<Rightarrow> bool) \<Rightarrow> ('w \<Rightarrow> PeerId set) \<Rightarrow> bool" where
  "vpn_keeps_books client ok reg \<longleftrightarrow>
     (\<forall>p w. ok w \<longrightarrow> ok (fst (vpn_create_peer client p w)) \<and> reg (fst (vpn_create_peer client p w)) =
        (case snd (vpn_create_peer client p w) of Inr _ \<Rightarrow> insert p (reg w) | Inl _ \<Rightarrow> reg w)) \<and>
     (\<forall>p w. ok w \<longrightarrow> ok (fst (vpn_delete_peer client p w)) \<and> reg (fst (vpn_delete_peer client p w)) =
        (case snd (vpn_delete_peer client p w) of Inr _ \<Rightarrow> reg w - {p} | Inl _ \<Rightarrow> reg w))"

lemma store_peer_descriptor_eq:
  "store_peer_descriptor E vpn peer (s, w) =
     (case resources_get E PeerDescriptors (pd_id peer) (r_tables s) of
        Inl e \<Rightarrow> ((s, w), Inl (StorePeerPersistence (pd_id peer) (pd_name peer) e))
      | Inr existing \<Rightarrow>
          (case vpn_create_new vpn (existing = None) (pd_id peer) w of
             (w1, Inl e) \<Rightarrow> ((s, w1), Inl (StorePeerVpnClient (pd_id peer) (pd_name peer) e))
           | (w1, Inr _) \<Rightarrow>
               (case resources_insert E PeerDescriptors (pd_id peer) peer s of
                  (s', Inr _) \<Rightarrow> ((s', w1), Inr (pd_id peer))
                | (s', Inl e) \<Rightarrow> ((s', vpn_undo_create vpn (existing = None) (pd_id peer) w1),
                    Inl (StorePeerPersistence (pd_id peer) (pd_name peer) e)))))"
  by (simp add: store_peer_descriptor_def run_unfolds Let_def split: sum.split prod.split)

lemma store_peer_descriptor_error:
  assumes books: "vpn_keeps_books client ok reg" and "ok w"
    and deletable: "snd (vpn_delete_peer client (pd_id peer) (fst (vpn_create_peer client (pd_id peer) w))) = Inr ()"
    and unknown: "map_of (t_peer_descriptors (r_tables s)) (pd_id peer) = None \<Longrightarrow> pd_id peer \<notin> reg w"
    and run: "store_peer_descriptor E (VpnEnabled client) peer (s, w) = ((s', w'), Inl e)"
  shows "s' = s \<and> reg w' = reg w"
proof (cases "resources_get E PeerDescriptors (pd_id peer) (r_tables s)")
  case (Inl e)
  with run show ?thesis by (simp add: store_peer_descriptor_eq)
next
  case (Inr existing)
  have insert: "fst (resources_insert E PeerDescriptors (pd_id peer) peer s) = s"
    if "snd (resources_insert E PeerDescriptors (pd_id peer) peer s) = Inl e" for e
    using that by (simp add: resources_insert_def split: option.splits)
  show ?thesis
  proof (cases "existing = None")
    case True
    then have new: "pd_id peer \<notin> reg w"
      using Inr unknown by (auto simp: resources_get_def kind_defs split: option.splits)
    obtain w1 r where create: "vpn_create_peer client (pd_id peer) w = (w1, r)"
      by (cases "vpn_create_peer client (pd_id peer) w")
    have reg: "ok w1 \<and> reg w1 = (case r of Inr _ \<Rightarrow> insert (pd_id peer) (reg w) | Inl _ \<Rightarrow> reg w)"
      using books create \<open>ok w\<close> unfolding vpn_keeps_books_def by (metis fst_conv snd_conv)
    have undo: "reg (fst (vpn_delete_peer client (pd_id peer) w1)) = reg w1 - {pd_id peer}"
      using books deletable reg unfolding vpn_keeps_books_def by (simp add: create)
    show ?thesis
      using run insert new reg undo
      by (cases r; cases "resources_insert E PeerDescriptors (pd_id peer) peer s")
        (auto simp: store_peer_descriptor_eq Inr True vpn_create_new_def vpn_undo_create_def create split: sum.splits)
  next
    case False
    then show ?thesis
      using run insert by (cases "resources_insert E PeerDescriptors (pd_id peer) peer s")
        (auto simp: store_peer_descriptor_eq Inr vpn_create_new_def vpn_undo_create_def return_ok_def split: sum.splits)
  qed
qed


text \<open>A VPN client over the list of registered peers, for the witnesses.\<close>

definition list_vpn_client :: "PeerId list vpn_client" where
  "list_vpn_client =
     \<lparr> vpn_create_cluster = (\<lambda>_ _. return_ok ()), vpn_delete_cluster = (\<lambda>_. return_ok ()),
       vpn_create_peer = (\<lambda>p w. (List.insert p w, Inr ())),
       vpn_delete_peer = (\<lambda>p w. (removeAll p w, Inr ())),
       vpn_generate_peer_configuration = (\<lambda>_. return_ok VpnDisabled) \<rparr>"

definition sample_peer :: "nat \<Rightarrow> DeviceDescriptor list \<Rightarrow> PeerDescriptor" where
  "sample_peer n devices =
     \<lparr> pd_id = PeerId (word_of_nat n), pd_name = PeerName ''peer'', pd_location = None,
       pd_network = \<lparr> pn_interfaces = [\<lparr> ni_id = NetworkInterfaceId 7,
           ni_name = NetworkInterfaceName ''eth0'', ni_configuration = Ethernet \<rparr>], pn_bridge_name = None \<rparr>,
       pd_topology = \<lparr> topology_devices = devices \<rparr>,
       pd_executors = \<lparr> eds_executors = [] \<rparr> \<rparr>"

definition sample_device :: "nat \<Rightarrow> DeviceDescriptor" where
  "sample_device n =
     \<lparr> dev_id = DeviceId (word_of_nat n), dev_name = DeviceName ''dev'', dev_description = None,
       dev_interface = NetworkInterfaceId 7, dev_tags = [] \<rparr>"

definition full_disk_env :: env where
  "full_disk_env = fair_env\<lparr> access_fault := (\<lambda>t op _. if op = OpInsert then Some (kv_error ''disk full'') else None) \<rparr>"

lemma wf_sample_peer: "wf_peer (sample_peer n [sample_device m])"
  using sample_names
  by (simp add: wf_peer_def sample_peer_def sample_device_def wf_network_def wf_interface_def wf_device_def)

lemma vpn_keeps_books_list: "vpn_keeps_books list_vpn_client (\<lambda>_. True) set"
  by (simp add: vpn_keeps_books_def list_vpn_client_def)

definition empty_manager :: resource_manager where
  "empty_manager = \<lparr> rm_tables = no_tables, rm_sent = no_events \<rparr>"


section \<open>A deleted peer is in no deployed cluster\<close>

lemma delete_peer_descriptor_eq:
  "delete_peer_descriptor E vpn oidc p (s, w) =
     (case list_peer_member_states E (r_tables s) of
        Inl e \<Rightarrow> ((s, w), Inl (delete_peer_fault p e))
      | Inr states \<Rightarrow>
          (case map_of states p of
             Some (Blocked cluster) \<Rightarrow> ((s, w), Inl (DeletePeerDeploymentExists p cluster))
           | _ \<Rightarrow>
               (case resources_remove E PeerDescriptors p s of
                  (s', Inl e) \<Rightarrow> ((s', w), Inl (DeletePeerPersistence p None e))
                | (s', Inr None) \<Rightarrow> ((s', w), Inl (DeletePeerNotFound p))
                | (s', Inr (Some peer)) \<Rightarrow>
                    (case delete_oidc_clients oidc p w of
                       (w1, Inl e) \<Rightarrow> ((s', w1), Inl (DeletePeerAuthRegistration p (pd_name peer) e))
                     | (w1, Inr _) \<Rightarrow>
                         (case delete_vpn_peer vpn p w1 of
                            (w2, Inl e) \<Rightarrow> ((s', w2), Inl (DeletePeerVpnClient p (pd_name peer) e))
                          | (w2, Inr _) \<Rightarrow> ((s', w2), Inr peer))))))"
  by (auto simp: delete_peer_descriptor_def run_unfolds Let_def split: sum.split prod.split option.split
      PeerMemberState.split)

lemma resources_remove_fair_eq:
  "fair E \<Longrightarrow> resources_remove E PeerDescriptors p s =
     (let s' = s\<lparr> r_tables := (r_tables s)\<lparr> t_peer_descriptors := AList.delete p (t_peer_descriptors (r_tables s)) \<rparr> \<rparr>
      in case map_of (t_peer_descriptors (r_tables s)) p of
           None \<Rightarrow> (s', Inr None)
         | Some peer \<Rightarrow>
             (s'\<lparr> r_events := (r_events s)\<lparr> ch_peer_descriptor := ch_peer_descriptor (r_events s) @ [Removed p peer] \<rparr> \<rparr>,
              Inr (Some peer)))"
  by (simp add: resources_remove_def kind_defs Let_def split: option.split)

text \<open>A deletion that gets past the guard was of a peer no deployed cluster uses.\<close>

lemma delete_peer_descriptor_ok:
  assumes "fair E" "wf_tables (r_tables s)" "exclusive (r_tables s)"
    and run: "delete_peer_descriptor E vpn oidc p (s, w) = ((s', w'), Inr peer)"
  shows "map_of (t_peer_descriptors (r_tables s)) p = Some peer \<and> (\<forall>i. \<not> blocked_in (r_tables s) peer i) \<and>
    r_tables s' = (r_tables s)\<lparr> t_peer_descriptors := AList.delete p (t_peer_descriptors (r_tables s)) \<rparr>"
proof -
  obtain states where states: "list_peer_member_states E (r_tables s) = Inr states"
    and dom: "\<And>p. map_of states p = None \<longleftrightarrow> map_of (t_peer_descriptors (r_tables s)) p = None"
    and spec: "\<And>p peer st. map_of (t_peer_descriptors (r_tables s)) p = Some peer \<Longrightarrow> map_of states p = Some st \<Longrightarrow>
       member_spec (r_tables s) peer st"
    using list_peer_member_states_spec [OF assms(1-3)] by blast
  have peer: "map_of (t_peer_descriptors (r_tables s)) p = Some peer"
    and rest: "r_tables s' = (r_tables s)\<lparr> t_peer_descriptors := AList.delete p (t_peer_descriptors (r_tables s)) \<rparr>"
    and free: "\<forall>c. map_of states p \<noteq> Some (Blocked c)"
    using run states
    by (auto simp: delete_peer_descriptor_eq resources_remove_fair_eq [OF assms(1)] Let_def
        split: option.splits PeerMemberState.splits prod.splits sum.splits)
  obtain st where st: "map_of states p = Some st" using dom [of p] peer by (cases "map_of states p") auto
  with free have "st = Available" by (cases st) auto
  with spec [OF peer st] peer rest show ?thesis by (simp add: member_spec_def)
qed

text \<open>C7: deleting a peer that a deployed cluster uses is refused, and refused without any effect:
  neither the tables nor the servers outside change, and the error names the cluster.\<close>

theorem delete_blocked_peer_refused:
  assumes "fair E" "wf_tables (rm_tables m)" "exclusive (rm_tables m)"
    and "map_of (t_peer_descriptors (rm_tables m)) p = Some peer" "blocked_in (rm_tables m) peer c"
  shows "resources_mut_io E (delete_peer_descriptor E vpn oidc p) (m, w) =
    ((m, w), Inr (Inl (DeletePeerDeploymentExists p c)))"
proof -
  obtain states where states: "list_peer_member_states E (rm_tables m) = Inr states"
    and dom: "\<And>p. map_of states p = None \<longleftrightarrow> map_of (t_peer_descriptors (rm_tables m)) p = None"
    and spec: "\<And>p peer st. map_of (t_peer_descriptors (rm_tables m)) p = Some peer \<Longrightarrow> map_of states p = Some st \<Longrightarrow>
       member_spec (rm_tables m) peer st"
    using list_peer_member_states_spec [OF assms(1-3)] by blast
  obtain st where st: "map_of states p = Some st" using dom [of p] assms(4) by (cases "map_of states p") auto
  have one: "i = c" if "blocked_in (rm_tables m) peer i" for i
    using assms(3-5) that by (auto simp: exclusive_def dest!: map_of_SomeD)
  have "st = Blocked c"
    using spec [OF assms(4) st] assms(5) one by (cases st) (auto simp: member_spec_def)
  with states st assms(1) show ?thesis
    by (simp add: resources_mut_io_fair delete_peer_descriptor_eq)
qed

definition sample_cluster :: "nat \<Rightarrow> nat \<Rightarrow> DeviceId list \<Rightarrow> ClusterConfiguration" where
  "sample_cluster n leader devices =
     \<lparr> cc_id = ClusterId (word_of_nat n), cc_name = ClusterName ''cluster'',
       cc_leader = PeerId (word_of_nat leader), cc_devices = devices \<rparr>"

lemma wf_sample_cluster: "distinct devices \<Longrightarrow> wf_cluster (sample_cluster n leader devices)"
  using sample_names by (simp add: wf_cluster_def sample_cluster_def)

text \<open>Peer 3 with device 10, used by the deployed cluster 5.\<close>

definition sample_tables :: tables where
  "sample_tables = no_tables\<lparr>
     t_cluster_configurations := [(ClusterId 5, sample_cluster 5 3 [DeviceId 10])],
     t_cluster_deployments := [(ClusterId 5, \<lparr> cd_id = ClusterId 5 \<rparr>)],
     t_peer_descriptors := [(PeerId 3, sample_peer 3 [sample_device 10])] \<rparr>"

lemma wf_sample_tables: "wf_tables sample_tables"
  by (simp add: wf_tables_def sample_tables_def no_tables_def keyed_def hash_map_def sample_cluster_def
      sample_peer_def)

lemma deployed_sample: "deployed_cluster sample_tables c \<longleftrightarrow> c = sample_cluster 5 3 [DeviceId 10]"
  by (auto simp: deployed_cluster_def sample_tables_def no_tables_def sample_cluster_def split: if_splits)

lemma blocked_in_sample: "blocked_in sample_tables peer i \<longleftrightarrow>
    i = ClusterId 5 \<and> cluster_uses_peer (sample_cluster 5 3 [DeviceId 10]) peer"
  by (auto simp: blocked_in_def deployed_sample sample_cluster_def)

lemma exclusive_sample: "exclusive sample_tables"
  by (auto simp: exclusive_def blocked_in_sample)

definition sample_manager :: resource_manager where
  "sample_manager = \<lparr> rm_tables = sample_tables, rm_sent = no_events \<rparr>"

lemma sample_peer_lookup:
  "map_of (t_peer_descriptors sample_tables) (PeerId 3) = Some (sample_peer 3 [sample_device 10])"
  by (simp add: sample_tables_def no_tables_def)

lemma sample_peer_blocked: "blocked_in sample_tables (sample_peer 3 [sample_device 10]) (ClusterId 5)"
  by (simp add: blocked_in_sample cluster_uses_peer_iff sample_cluster_def sample_peer_def sample_device_def)

theorem delete_blocked_peer_refused_witness:
  "resources_mut_io fair_env (delete_peer_descriptor fair_env (VpnEnabled list_vpn_client) None (PeerId 3))
     (sample_manager, [PeerId 3]) =
   ((sample_manager, [PeerId 3]), Inr (Inl (DeletePeerDeploymentExists (PeerId 3) (ClusterId 5))))"
  by (rule delete_blocked_peer_refused [where peer = "sample_peer 3 [sample_device 10]"])
    (simp_all add: sample_manager_def wf_sample_tables exclusive_sample sample_peer_lookup sample_peer_blocked)

text \<open>C3: a successful deletion returns the stored descriptor of a peer that no deployed cluster
  used, removes exactly this entry, keeps the tables well-formed and the deployed clusters apart.\<close>

theorem delete_peer_descriptor_keeps_invariants:
  assumes "fair E" "wf_tables (r_tables s)" "exclusive (r_tables s)"
    and "delete_peer_descriptor E vpn oidc p (s, w) = ((s', w'), Inr peer)"
  shows "map_of (t_peer_descriptors (r_tables s)) p = Some peer \<and>
    (\<forall>i. \<not> blocked_in (r_tables s) peer i) \<and>
    r_tables s' = (r_tables s)\<lparr> t_peer_descriptors := AList.delete p (t_peer_descriptors (r_tables s)) \<rparr> \<and>
    wf_tables (r_tables s') \<and> exclusive (r_tables s')"
proof -
  note ok = delete_peer_descriptor_ok [OF assms]
  have "set (AList.delete p tb) \<subseteq> set tb" for tb :: "(PeerId \<times> PeerDescriptor) list"
    by (auto simp: AList.delete_eq)
  with ok have "exclusive (r_tables s')"
    by (intro exclusive_antimono [OF assms(3)]) (auto simp: deployed_cluster_def)
  with ok assms(2) show ?thesis by (auto simp: wf_tables_def keyed_delete)
qed

definition undeployed_tables :: tables where
  "undeployed_tables = sample_tables\<lparr> t_cluster_deployments := [] \<rparr>"

lemma undeployed_member_states: "list_peer_member_states fair_env undeployed_tables = Inr [(PeerId 3, Available)]"
  by (simp add: list_peer_member_states_def list_deployed_clusters_def kind_defs undeployed_tables_def sample_tables_def
      no_tables_def deployed_devices_def peer_member_state_def blocking_clusters_def map_filter_def sample_peer_def collect_map_def)

lemma undeployed_peer: "map_of (t_peer_descriptors undeployed_tables) (PeerId 3) = Some (sample_peer 3 [sample_device 10])"
  by (simp add: undeployed_tables_def sample_tables_def)

theorem delete_peer_descriptor_keeps_invariants_witness:
  "let s = \<lparr> r_tables = undeployed_tables, r_events = no_events \<rparr>;
       s' = fst (fst (delete_peer_descriptor fair_env VpnOff None (PeerId 3) (s, ())))
   in t_peer_descriptors (r_tables s') = [] \<and> wf_tables (r_tables s') \<and> exclusive (r_tables s')"
proof -
  let ?s = "\<lparr> r_tables = undeployed_tables, r_events = no_events \<rparr>"
  let ?r = "delete_peer_descriptor fair_env VpnOff None (PeerId 3) (?s, ())"
  have none: "\<not> deployed_cluster undeployed_tables c" for c
    by (simp add: deployed_cluster_def undeployed_tables_def)
  then have ex: "exclusive (r_tables ?s)" by (simp add: exclusive_def blocked_in_def)
  have wf: "wf_tables (r_tables ?s)"
    using wf_sample_tables by (simp add: undeployed_tables_def wf_tables_def keyed_def)
  obtain s' w' r where r: "?r = ((s', w'), r)" by (metis surj_pair)
  moreover have "snd ?r = Inr (sample_peer 3 [sample_device 10])"
    by (simp add: delete_peer_descriptor_eq undeployed_member_states undeployed_peer resources_remove_fair_eq Let_def
        delete_oidc_clients_def delete_vpn_peer_def return_ok_def)
  ultimately have run: "?r = ((s', w'), Inr (sample_peer 3 [sample_device 10]))" by simp
  note keeps = delete_peer_descriptor_keeps_invariants [OF fair_env wf ex run]
  then have "r_tables s' = (r_tables ?s)\<lparr> t_peer_descriptors := AList.delete (PeerId 3) (t_peer_descriptors (r_tables ?s)) \<rparr>"
    by blast
  then have "t_peer_descriptors (r_tables s') = []"
    by (simp add: undeployed_tables_def sample_tables_def)
  moreover from keeps have "wf_tables (r_tables s')" "exclusive (r_tables s')" by blast+
  ultimately show ?thesis unfolding Let_def run by (simp only: fst_conv simp_thms)
qed

text \<open>C11: deleting is not all or nothing. When the VPN server fails after the OIDC clients of the
  peer were deleted, the transaction is rolled back and the descriptor stays, but the world is the
  one in which the clients are gone: the peer is still stored and can no longer authenticate.\<close>

theorem delete_peer_vpn_failure_loses_clients:
  assumes "fair E" "wf_tables (rm_tables m)" "exclusive (rm_tables m)"
    and "map_of (t_peer_descriptors (rm_tables m)) p = Some peer" "\<forall>i. \<not> blocked_in (rm_tables m) peer i"
    and "delete_oidc_clients oidc p w = (wa, Inr clients)" "delete_vpn_peer vpn p wa = (wb, Inl e)"
  shows "resources_mut_io E (delete_peer_descriptor E vpn oidc p) (m, w) =
    ((m, wb), Inr (Inl (DeletePeerVpnClient p (pd_name peer) e)))"
proof -
  obtain states where states: "list_peer_member_states E (rm_tables m) = Inr states"
    and dom: "\<And>p. map_of states p = None \<longleftrightarrow> map_of (t_peer_descriptors (rm_tables m)) p = None"
    and spec: "\<And>p peer st. map_of (t_peer_descriptors (rm_tables m)) p = Some peer \<Longrightarrow> map_of states p = Some st \<Longrightarrow>
       member_spec (rm_tables m) peer st"
    using list_peer_member_states_spec [OF assms(1-3)] by blast
  obtain st where st: "map_of states p = Some st" using dom [of p] assms(4) by (cases "map_of states p") auto
  have "st = Available"
    using spec [OF assms(4) st] assms(5) by (cases st) (auto simp: member_spec_def)
  with states st assms show ?thesis
    by (simp add: resources_mut_io_fair delete_peer_descriptor_eq resources_remove_fair_eq Let_def)
qed

definition sample_oidc :: "string list registration_client" where
  "sample_oidc = \<lparr> reg_issuer_remote_url = Url ''issuer'',
     reg_delete_client_by_resource_id = (\<lambda>_ w. ([], Inr w)),
     reg_register_new_client_for_user = (\<lambda>_ u w. (u # w, Inr (ClientId ''client-id'', ClientSecret ''secret''))) \<rparr>"

definition broken_vpn_client :: "'w vpn_client" where
  "broken_vpn_client =
     \<lparr> vpn_create_cluster = (\<lambda>_ _. fail_with ''down''), vpn_delete_cluster = (\<lambda>_. fail_with ''down''),
       vpn_create_peer = (\<lambda>_. fail_with ''down''), vpn_delete_peer = (\<lambda>_. fail_with ''down''),
       vpn_generate_peer_configuration = (\<lambda>_. fail_with ''down'') \<rparr>"

definition undeployed_manager :: resource_manager where
  "undeployed_manager = \<lparr> rm_tables = undeployed_tables, rm_sent = no_events \<rparr>"

theorem delete_peer_vpn_failure_loses_clients_witness:
  "resources_mut_io fair_env
      (delete_peer_descriptor fair_env (VpnEnabled broken_vpn_client) (Some sample_oidc) (PeerId 3))
      (undeployed_manager, [''edgar'']) =
   ((undeployed_manager, []), Inr (Inl (DeletePeerVpnClient (PeerId 3) (PeerName ''peer'') ''down'')))"
proof -
  have none: "\<not> deployed_cluster undeployed_tables c" for c
    by (simp add: deployed_cluster_def undeployed_tables_def)
  have wf: "wf_tables undeployed_tables"
    using wf_sample_tables by (simp add: undeployed_tables_def wf_tables_def keyed_def)
  have "resources_mut_io fair_env
      (delete_peer_descriptor fair_env (VpnEnabled broken_vpn_client) (Some sample_oidc) (PeerId 3))
      (undeployed_manager, [''edgar'']) =
    ((undeployed_manager, []), Inr (Inl (DeletePeerVpnClient (PeerId 3) (pd_name (sample_peer 3 [sample_device 10])) ''down'')))"
    by (rule delete_peer_vpn_failure_loses_clients [where wa = "[]" and clients = "[''edgar'']"])
      (simp_all add: undeployed_manager_def wf exclusive_def blocked_in_def none sample_oidc_def broken_vpn_client_def
        delete_oidc_clients_def delete_vpn_peer_def fail_with_def, simp add: undeployed_tables_def sample_peer_lookup)
  then show ?thesis by (simp add: sample_peer_def)
qed

end
