(* ===== verification/PeerBroker.thy ===== *)
theory PeerBroker
  imports PeerManager
begin

text \<open>
  CARL's peer messaging broker (opendut-carl/src/manager/peer_messaging_broker): the streams to
  the connected peers, the connection state kept for each of them, and what happens when a
  stream opens, receives, ends, or when its peer is deleted. The first half models the methods;
  the second half the concurrent tasks as a step relation whose steps are the code's atomic
  sections (one transaction, or one access to the locked map of peers).
\<close>

section \<open>Streams and messages\<close>

text \<open>\<open>Downstream\<close> messages, without the tracing context; the only upstream message is a ping.\<close>

datatype Message =
    Pong
  | DisconnectNotice
  | ApplyPeerConfiguration ProtoOldPeerConfiguration ProtoPeerConfiguration

datatype Upstream = Ping

text \<open>
  A stream as the broker's tasks see it: whose it is, what was put into its outbound channel,
  whether the receiving end is gone, and how far its task got. \<open>Opening\<close> phases are the lines of
  \<open>open\<close>, \<open>Removing\<close> phases those of \<open>remove_peer_impl\<close>; a failed stream is \<open>Rejected\<close> when it
  failed before the connection state was set and \<open>Leaked\<close> after.
\<close>

datatype phase =
    OpenRequested IpAddr
  | OpenKnown IpAddr
  | OpenOnline
  | OpenListed
  | Running
  | Removing
  | RemovingKnown
  | RemovingDecided bool
  | RemovingListed
  | Rejected
  | Leaked
  | Ended

record stream =
  s_peer :: PeerId
  s_sent :: "Message list"
  s_receiver_gone :: bool
  s_phase :: phase

record PeerMessagingRef =
  pm_downstream :: nat
  pm_disconnected :: bool

record broker =
  b_peers :: "(PeerId \<times> PeerMessagingRef) list"
  b_streams :: "stream list"

datatype BrokerError = DownstreamSend Message | BrokerPeerNotFound PeerId

section \<open>Sending (send_to_peer, disconnect)\<close>

text \<open>Sending on a channel fails when its receiver is gone. (A full channel makes the sender wait,
  which changes when a message arrives, not whether.)\<close>

definition channel_send :: "nat \<Rightarrow> Message \<Rightarrow> (broker, Message, unit) run" where
  "channel_send k message b =
     (if k < length (b_streams b) \<and> \<not> s_receiver_gone (b_streams b ! k)
      then (b\<lparr> b_streams := (b_streams b)[k := (b_streams b ! k)\<lparr> s_sent := s_sent (b_streams b ! k) @ [message] \<rparr>] \<rparr>,
            Inr ())
      else (b, Inl message))"

definition send_to_peer :: "PeerId \<Rightarrow> Message \<Rightarrow> (broker, BrokerError, unit) run" where
  "send_to_peer p message b =
     (case map_of (b_peers b) p of
        None \<Rightarrow> (b, Inl (BrokerPeerNotFound p))
      | Some peer \<Rightarrow> map_run_err DownstreamSend (channel_send (pm_downstream peer) message) b)"

definition disconnect :: "PeerId \<Rightarrow> (broker, BrokerError, unit) run" where
  "disconnect p b =
     (case map_of (b_peers b) p of
        None \<Rightarrow> (b, Inl (BrokerPeerNotFound p))
      | Some peer \<Rightarrow>
          (case map_run_err DownstreamSend (channel_send (pm_downstream peer) DisconnectNotice) b of
             (b', Inl e) \<Rightarrow> (b', Inl e)
           | (b', Inr _) \<Rightarrow>
               (b'\<lparr> b_peers := AList.update p \<lparr> pm_downstream = pm_downstream peer, pm_disconnected = True \<rparr> (b_peers b') \<rparr>,
                Inr ())))"

text \<open>\<open>remove_peer\<close>, called when a descriptor was deleted; its results and errors are ignored.\<close>

definition remove_peer :: "env \<Rightarrow> PeerId \<Rightarrow> resource_manager \<times> broker \<Rightarrow> resource_manager \<times> broker" where
  "remove_peer E p s =
     (case s of (m, b) \<Rightarrow>
       (case manager_get E PeerConnectionStates p m of
          Inr (Some Offline) \<Rightarrow> (fst (manager_remove E PeerConnectionStates p m), b)
        | Inr (Some (Online _)) \<Rightarrow> (m, fst (disconnect p b))
        | _ \<Rightarrow> (m, b)))"

section \<open>Opening a stream (open)\<close>

datatype OpenError =
    OpenPeerAlreadyConnected PeerId
  | OpenPeerNotFound PeerId
  | OpenSendApplyPeerConfiguration PeerId BrokerError
  | OpenPersistence PeerId PersistenceError

definition expect_known_peer_descriptor ::
    "env \<Rightarrow> PeerId \<Rightarrow> (resource_manager, OpenError, PeerDescriptor option) run" where
  "expect_known_peer_descriptor E p =
     collapse (OpenPersistence p)
       (resources_mut E (map_run_err (OpenPersistence p)
         (read_resources (resources_get E PeerDescriptors p))))"

definition online_unless_connected :: "env \<Rightarrow> PeerId \<Rightarrow> IpAddr \<Rightarrow> (resources, OpenError, unit) run" where
  "online_unless_connected E p host =
     and_then (map_run_err (OpenPersistence p) (read_resources (resources_get E PeerConnectionStates p))) (\<lambda>maybe.
     and_then (lift_result (case maybe of
         None \<Rightarrow> Inr (Online host)
       | Some Offline \<Rightarrow> Inr (Online host)
       | Some (Online _) \<Rightarrow> Inl (OpenPeerAlreadyConnected p))) (\<lambda>new_state.
     map_run_err (OpenPersistence p) (resources_insert E PeerConnectionStates p new_state)))"

definition update_peer_connection_state ::
    "env \<Rightarrow> PeerId \<Rightarrow> IpAddr \<Rightarrow> (resource_manager, OpenError, unit) run" where
  "update_peer_connection_state E p host =
     collapse (OpenPersistence p) (resources_mut E (online_unless_connected E p host))"

definition list_stream :: "PeerId \<Rightarrow> nat \<Rightarrow> broker \<Rightarrow> broker" where
  "list_stream p k b =
     b\<lparr> b_peers := AList.update p \<lparr> pm_downstream = k, pm_disconnected = False \<rparr> (b_peers b) \<rparr>"

definition send_initial_peer_configuration ::
    "ext \<Rightarrow> env \<Rightarrow> PeerId \<Rightarrow> (resource_manager \<times> broker, OpenError, unit) run" where
  "send_initial_peer_configuration x E p s =
     (case s of (m, b) \<Rightarrow>
       (case map_err (OpenPersistence p) (manager_get E OldPeerConfigurations p m) of
          Inl e \<Rightarrow> ((m, b), Inl e)
        | Inr old \<Rightarrow>
            (case map_err (OpenPersistence p) (manager_get E PeerConfigurations p m) of
               Inl e \<Rightarrow> ((m, b), Inl e)
             | Inr new \<Rightarrow>
                 on_snd (map_run_err (OpenSendApplyPeerConfiguration p)
                   (send_to_peer p (ApplyPeerConfiguration
                     (old_configuration_to_proto x (unwrap_or_default old_peer_configuration_default old))
                     (configuration_to_proto x (unwrap_or_default peer_configuration_default new))))) (m, b))))"

definition new_stream :: "PeerId \<Rightarrow> IpAddr \<Rightarrow> stream" where
  "new_stream p host =
     \<lparr> s_peer = p, s_sent = [], s_receiver_gone = False, s_phase = OpenRequested host \<rparr>"

definition set_phase :: "nat \<Rightarrow> phase \<Rightarrow> broker \<Rightarrow> broker" where
  "set_phase k ph b = b\<lparr> b_streams := (b_streams b)[k := (b_streams b ! k)\<lparr> s_phase := ph \<rparr>] \<rparr>"

text \<open>When \<open>open\<close> fails, the receiver it would have returned is dropped.\<close>

definition fail_stream :: "nat \<Rightarrow> phase \<Rightarrow> broker \<Rightarrow> broker" where
  "fail_stream k ph b =
     b\<lparr> b_streams := (b_streams b)[k := (b_streams b ! k)\<lparr> s_phase := ph, s_receiver_gone := True \<rparr>] \<rparr>"

text \<open>\<open>open\<close> from its first to its last line, when no other task runs in between (the phases it
  passes through are recorded for the step relation below).\<close>

definition open_stream ::
    "ext \<Rightarrow> env \<Rightarrow> PeerId \<Rightarrow> IpAddr \<Rightarrow> (resource_manager \<times> broker, OpenError, nat) run" where
  "open_stream x E p host s =
     (case s of (m, b) \<Rightarrow>
       let k = length (b_streams b); b = b\<lparr> b_streams := b_streams b @ [new_stream p host] \<rparr> in
       (case expect_known_peer_descriptor E p m of
          (m, Inl e) \<Rightarrow> ((m, fail_stream k Rejected b), Inl e)
        | (m, Inr None) \<Rightarrow> ((m, fail_stream k Rejected b), Inl (OpenPeerNotFound p))
        | (m, Inr (Some _)) \<Rightarrow>
            let b = set_phase k (OpenKnown host) b in
            (case update_peer_connection_state E p host m of
               (m, Inl e) \<Rightarrow> ((m, fail_stream k Rejected b), Inl e)
             | (m, Inr _) \<Rightarrow>
                 let b = set_phase k OpenListed (list_stream p k (set_phase k OpenOnline b)) in
                 (case send_initial_peer_configuration x E p (m, b) of
                    ((m, b), Inl e) \<Rightarrow> ((m, fail_stream k Leaked b), Inl e)
                  | ((m, b), Inr _) \<Rightarrow> ((m, set_phase k Running b), Inr k)))))"

section \<open>Receiving and ending (the spawned task, handle_stream_message, remove_peer_impl)\<close>

fun handle_stream_message :: "Upstream \<Rightarrow> nat \<Rightarrow> broker \<Rightarrow> broker" where
  "handle_stream_message Ping k b = fst (channel_send k Pong b)"

definition shall_disconnect :: "PeerId \<Rightarrow> broker \<Rightarrow> bool" where
  "shall_disconnect p b =
     (case map_of (b_peers b) p of Some peer \<Rightarrow> pm_disconnected peer | None \<Rightarrow> False)"

datatype RemovePeerError = RemovePeerNotFound PeerId | RemovePersistence PeerId PersistenceError

definition remove_known :: "env \<Rightarrow> PeerId \<Rightarrow> resource_manager \<Rightarrow> RemovePeerError + PeerConnectionState" where
  "remove_known E p m =
     bind_sum (map_err (RemovePersistence p) (manager_get E PeerConnectionStates p m))
       (ok_or (RemovePeerNotFound p))"

definition remove_decide :: "env \<Rightarrow> PeerId \<Rightarrow> resource_manager \<Rightarrow> RemovePeerError + bool" where
  "remove_decide E p m =
     map_ok (\<lambda>found. found = None) (map_err (RemovePersistence p) (manager_get E PeerDescriptors p m))"

definition remove_state :: "env \<Rightarrow> PeerId \<Rightarrow> bool \<Rightarrow> (resource_manager, RemovePeerError, unit) run" where
  "remove_state E p descriptor_deleted =
     map_run_err (RemovePersistence p)
       (if descriptor_deleted
        then and_then (manager_remove E PeerConnectionStates p) (\<lambda>_. return_ok ())
        else manager_insert E PeerConnectionStates p Offline)"

definition unlist :: "PeerId \<Rightarrow> (broker, RemovePeerError, unit) run" where
  "unlist p b =
     (b\<lparr> b_peers := AList.delete p (b_peers b) \<rparr>,
      case map_of (b_peers b) p of Some _ \<Rightarrow> Inr () | None \<Rightarrow> Inl (RemovePeerNotFound p))"

definition remove_peer_impl :: "env \<Rightarrow> PeerId \<Rightarrow> (resource_manager \<times> broker, RemovePeerError, unit) run" where
  "remove_peer_impl E p =
     and_then (\<lambda>s. (s, remove_known E p (fst s))) (\<lambda>_.
     and_then (\<lambda>s. (s, remove_decide E p (fst s))) (\<lambda>deleted.
     and_then (on_fst (remove_state E p deleted)) (\<lambda>_.
     on_snd (unlist p))))"

section \<open>All tasks together\<close>

text \<open>
  The steps of the tasks serving the streams, of the observer of deleted descriptors, and of
  everything else that writes resources (which leaves the connection states alone). Each step is
  one transaction or one access to the locked map, with two exceptions in which several reads are
  taken together: sending the initial configuration (two reads and a send), and \<open>remove_peer\<close>.
\<close>

abbreviation peer_of :: "broker \<Rightarrow> nat \<Rightarrow> PeerId" where
  "peer_of b k \<equiv> s_peer (b_streams b ! k)"

definition in_phase :: "broker \<Rightarrow> nat \<Rightarrow> phase \<Rightarrow> bool" where
  "in_phase b k ph \<longleftrightarrow> k < length (b_streams b) \<and> s_phase (b_streams b ! k) = ph"

inductive broker_step :: "ext \<Rightarrow> env \<Rightarrow> resource_manager \<times> broker \<Rightarrow> resource_manager \<times> broker \<Rightarrow> bool"
  for x :: ext and E :: env where
  request: "broker_step x E (m, b) (m, b\<lparr> b_streams := b_streams b @ [new_stream p host] \<rparr>)"
| known: "in_phase b k (OpenRequested host) \<Longrightarrow>
    expect_known_peer_descriptor E (peer_of b k) m = (m', Inr (Some d)) \<Longrightarrow>
    broker_step x E (m, b) (m', set_phase k (OpenKnown host) b)"
| unknown: "in_phase b k (OpenRequested host) \<Longrightarrow>
    expect_known_peer_descriptor E (peer_of b k) m = (m', r) \<Longrightarrow> (\<forall>d. r \<noteq> Inr (Some d)) \<Longrightarrow>
    broker_step x E (m, b) (m', fail_stream k Rejected b)"
| online: "in_phase b k (OpenKnown host) \<Longrightarrow>
    update_peer_connection_state E (peer_of b k) host m = (m', Inr u) \<Longrightarrow>
    broker_step x E (m, b) (m', set_phase k OpenOnline b)"
| refused: "in_phase b k (OpenKnown host) \<Longrightarrow>
    update_peer_connection_state E (peer_of b k) host m = (m', Inl e) \<Longrightarrow>
    broker_step x E (m, b) (m', fail_stream k Rejected b)"
| listed: "in_phase b k OpenOnline \<Longrightarrow>
    broker_step x E (m, b) (m, set_phase k OpenListed (list_stream (peer_of b k) k b))"
| configured: "in_phase b k OpenListed \<Longrightarrow>
    send_initial_peer_configuration x E (peer_of b k) (m, b) = ((m', b'), Inr u) \<Longrightarrow>
    broker_step x E (m, b) (m', set_phase k Running b')"
| unconfigured: "in_phase b k OpenListed \<Longrightarrow>
    send_initial_peer_configuration x E (peer_of b k) (m, b) = ((m', b'), Inl oe) \<Longrightarrow>
    broker_step x E (m, b) (m', fail_stream k Leaked b')"
| received: "in_phase b k Running \<Longrightarrow> broker_step x E (m, b) (m, handle_stream_message upstream k b)"
| ended: "in_phase b k Running \<Longrightarrow> broker_step x E (m, b) (m, set_phase k Removing b)"
| remove_found: "in_phase b k Removing \<Longrightarrow> remove_known E (peer_of b k) m = Inr st \<Longrightarrow>
    broker_step x E (m, b) (m, set_phase k RemovingKnown b)"
| remove_missing: "in_phase b k Removing \<Longrightarrow> remove_known E (peer_of b k) m = Inl re \<Longrightarrow>
    broker_step x E (m, b) (m, set_phase k Leaked b)"
| decided: "in_phase b k RemovingKnown \<Longrightarrow> remove_decide E (peer_of b k) m = Inr deleted \<Longrightarrow>
    broker_step x E (m, b) (m, set_phase k (RemovingDecided deleted) b)"
| undecided: "in_phase b k RemovingKnown \<Longrightarrow> remove_decide E (peer_of b k) m = Inl re \<Longrightarrow>
    broker_step x E (m, b) (m, set_phase k Leaked b)"
| offline: "in_phase b k (RemovingDecided deleted) \<Longrightarrow>
    remove_state E (peer_of b k) deleted m = (m', Inr u) \<Longrightarrow>
    broker_step x E (m, b) (m', set_phase k RemovingListed b)"
| stuck: "in_phase b k (RemovingDecided deleted) \<Longrightarrow>
    remove_state E (peer_of b k) deleted m = (m', Inl re) \<Longrightarrow>
    broker_step x E (m, b) (m', set_phase k Leaked b)"
| unlisted: "in_phase b k RemovingListed \<Longrightarrow>
    broker_step x E (m, b) (m, set_phase k Ended (fst (unlist (peer_of b k) b)))"
| receiver_gone: "k < length (b_streams b) \<Longrightarrow>
    broker_step x E (m, b) (m, b\<lparr> b_streams := (b_streams b)[k := (b_streams b ! k)\<lparr> s_receiver_gone := True \<rparr>] \<rparr>)"
| deleted: "broker_step x E s (remove_peer E p s)"
| other: "t_peer_connection_states (rm_tables m') = t_peer_connection_states (rm_tables m) \<Longrightarrow>
    broker_step x E (m, b) (m', b)"

definition broker_start :: "resource_manager \<times> broker \<Rightarrow> bool" where
  "broker_start s \<longleftrightarrow> t_peer_connection_states (rm_tables (fst s)) = [] \<and>
     snd s = \<lparr> b_peers = [], b_streams = [] \<rparr>"

inductive broker_reachable :: "ext \<Rightarrow> env \<Rightarrow> resource_manager \<times> broker \<Rightarrow> bool" for x :: ext and E :: env where
  start: "broker_start s \<Longrightarrow> broker_reachable x E s"
| step: "broker_reachable x E s \<Longrightarrow> broker_step x E s s' \<Longrightarrow> broker_reachable x E s'"

section \<open>Effects of the atomic actions on the connection states\<close>

abbreviation connections :: "resource_manager \<Rightarrow> (PeerId \<times> PeerConnectionState) list" where
  "connections m \<equiv> t_peer_connection_states (rm_tables m)"

definition connected :: "resource_manager \<Rightarrow> PeerId \<Rightarrow> bool" where
  "connected m p \<longleftrightarrow> (\<exists>host. map_of (connections m) p = Some (Online host))"

lemma persistent_part_connections [simp]:
  "t_peer_connection_states (persistent_part new old) = t_peer_connection_states old"
  by (simp add: persistent_part_def)

text \<open>A transaction commits or leaves the connection states as they were.\<close>

lemma transaction_ok:
  assumes "collapse f (resources_mut E code) m = (m', Inr a)"
  obtains s where "code \<lparr> r_tables = rm_tables m, r_events = no_events \<rparr> = (s, Inr a)"
    "rm_tables m' = r_tables s"
  using assms by (auto simp: collapse_def resources_mut_eq split: option.splits prod.splits sum.splits)

lemma transaction_error:
  assumes "collapse f (resources_mut E code) m = (m', Inl e)"
  shows "connections m' = connections m"
  using assms by (auto simp: collapse_def resources_mut_eq split: option.splits prod.splits sum.splits)

lemma expect_known_connections:
  assumes "expect_known_peer_descriptor E p m = (m', r)"
  shows "connections m' = connections m"
proof (cases r)
  case (Inl e)
  with assms show ?thesis
    unfolding expect_known_peer_descriptor_def by (auto dest: transaction_error)
next
  case (Inr a)
  with assms show ?thesis unfolding expect_known_peer_descriptor_def
    by (auto elim!: transaction_ok simp: run_unfolds)
qed

lemma resources_insert_Inr:
  "resources_insert E PeerConnectionStates p v s = (s', Inr u) \<Longrightarrow>
     t_peer_connection_states (r_tables s') = AList.update p v (t_peer_connection_states (r_tables s))"
  by (auto simp: resources_insert_def kind_defs split: option.splits)

lemma resources_remove_Inr:
  "resources_remove E PeerConnectionStates p s = (s', Inr v) \<Longrightarrow>
     t_peer_connection_states (r_tables s') = AList.delete p (t_peer_connection_states (r_tables s))"
  by (auto simp: resources_remove_def kind_defs Let_def split: option.splits)

lemma update_ok:
  assumes "update_peer_connection_state E p host m = (m', Inr u)"
  shows "\<not> connected m p \<and> connections m' = AList.update p (Online host) (connections m)"
proof -
  obtain s where code: "online_unless_connected E p host \<lparr> r_tables = rm_tables m, r_events = no_events \<rparr> = (s, Inr u)"
    and m': "rm_tables m' = r_tables s"
    using assms unfolding update_peer_connection_state_def by (rule transaction_ok)
  obtain maybe where maybe: "resources_get E PeerConnectionStates p (rm_tables m) = Inr maybe"
    using code by (cases "resources_get E PeerConnectionStates p (rm_tables m)")
      (auto simp: online_unless_connected_def run_unfolds)
  then have "maybe = map_of (connections m) p"
    by (simp add: resources_get_def kind_defs split: option.splits)
  with code maybe m' show ?thesis
    by (auto simp: online_unless_connected_def run_unfolds connected_def sum_iffs
        dest!: resources_insert_Inr split: option.splits PeerConnectionState.splits prod.splits sum.splits)
qed

lemma update_error:
  "update_peer_connection_state E p host m = (m', Inl e) \<Longrightarrow> connections m' = connections m"
  unfolding update_peer_connection_state_def by (rule transaction_error)

lemma manager_insert_ok:
  assumes "manager_insert E PeerConnectionStates p v m = (m', Inr u)"
  shows "connections m' = AList.update p v (connections m)"
  using assms unfolding manager_insert_def
  by (rule transaction_ok) (auto dest!: resources_insert_Inr)

lemma manager_insert_error:
  "manager_insert E PeerConnectionStates p v m = (m', Inl e) \<Longrightarrow> connections m' = connections m"
  unfolding manager_insert_def by (rule transaction_error)

lemma manager_remove_ok:
  assumes "manager_remove E PeerConnectionStates p m = (m', Inr v)"
  shows "connections m' = AList.delete p (connections m)"
  using assms unfolding manager_remove_def
  by (rule transaction_ok) (auto dest!: resources_remove_Inr)

lemma manager_remove_error:
  "manager_remove E PeerConnectionStates p m = (m', Inl e) \<Longrightarrow> connections m' = connections m"
  unfolding manager_remove_def by (rule transaction_error)

lemma manager_get_Inr:
  "manager_get E PeerConnectionStates p m = Inr v \<Longrightarrow> v = map_of (connections m) p"
  by (auto simp: manager_get_def resources_read_def resources_get_def kind_defs split: option.splits)

lemma remove_state_ok:
  assumes "remove_state E p d m = (m', Inr u)"
  shows "connected m' q \<longleftrightarrow> q \<noteq> p \<and> connected m q"
proof (cases d)
  case True
  then obtain v where "manager_remove E PeerConnectionStates p m = (m', Inr v)"
    using assms by (auto simp: remove_state_def run_unfolds sum_iffs split: prod.splits sum.splits)
  then show ?thesis by (auto simp: connected_def manager_remove_ok)
next
  case False
  then have "manager_insert E PeerConnectionStates p Offline m = (m', Inr u)"
    using assms by (auto simp: remove_state_def run_unfolds sum_iffs split: prod.splits)
  then show ?thesis by (auto simp: connected_def manager_insert_ok)
qed

lemma remove_state_error:
  assumes "remove_state E p d m = (m', Inl e)"
  shows "connections m' = connections m"
  using assms manager_remove_error [of E p m m'] manager_insert_error [of E p Offline m m']
  by (auto simp: remove_state_def run_unfolds sum_iffs split: prod.splits sum.splits if_splits)

section \<open>What the actions do to the streams\<close>

text \<open>The streams without their messages: to whom each belongs, and its phase.\<close>

definition shape :: "broker \<Rightarrow> (PeerId \<times> phase) list" where
  "shape b = map (\<lambda>s. (s_peer s, s_phase s)) (b_streams b)"

lemma shape_set_phase: "k < length (b_streams b) \<Longrightarrow> shape (set_phase k ph b) = (shape b)[k := (peer_of b k, ph)]"
  by (simp add: shape_def set_phase_def map_update)

lemma shape_fail_stream: "k < length (b_streams b) \<Longrightarrow> shape (fail_stream k ph b) = (shape b)[k := (peer_of b k, ph)]"
  by (simp add: shape_def fail_stream_def map_update)

lemma shape_peers [simp]: "shape (b\<lparr> b_peers := ps \<rparr>) = shape b"
  by (simp add: shape_def)

lemma shape_channel_send: "channel_send k msg b = (b', r) \<Longrightarrow> shape b' = shape b"
  by (auto simp: channel_send_def shape_def map_update list_update_same_conv split: if_splits)

lemma shape_send_to_peer: "send_to_peer p msg b = (b', r) \<Longrightarrow> shape b' = shape b"
  by (auto simp: send_to_peer_def run_unfolds dest: shape_channel_send split: option.splits prod.splits)

lemma shape_disconnect: "shape (fst (disconnect p b)) = shape b"
  by (auto simp: disconnect_def run_unfolds dest: shape_channel_send
      split: option.splits prod.splits sum.splits)

lemma initial_configuration_effect:
  "send_initial_peer_configuration x E p (m, b) = ((m', b'), r) \<Longrightarrow> m' = m \<and> shape b' = shape b"
  by (auto simp: send_initial_peer_configuration_def run_unfolds dest: shape_send_to_peer
      split: sum.splits prod.splits)

lemma length_streams_shape: "length (shape b) = length (b_streams b)"
  by (simp add: shape_def)

lemma length_shape_eq: "shape b' = shape b \<Longrightarrow> length (b_streams b') = length (b_streams b)"
  by (metis length_streams_shape)

lemma nth_shape: "k < length (b_streams b) \<Longrightarrow> shape b ! k = (peer_of b k, s_phase (b_streams b ! k))"
  by (simp add: shape_def)

section \<open>At most one stream per peer holds the connection\<close>

text \<open>The phases in which a stream holds its peer's connection state \<open>Online\<close>.\<close>

fun owning :: "phase \<Rightarrow> bool" where
  "owning OpenOnline = True"
| "owning OpenListed = True"
| "owning Running = True"
| "owning Removing = True"
| "owning RemovingKnown = True"
| "owning (RemovingDecided d) = True"
| "owning Leaked = True"
| "owning _ = False"

definition owners :: "PeerId \<Rightarrow> broker \<Rightarrow> nat" where
  "owners p b = length (filter (\<lambda>(q, ph). q = p \<and> owning ph) (shape b))"

definition one_owner :: "resource_manager \<times> broker \<Rightarrow> bool" where
  "one_owner s \<longleftrightarrow> (\<forall>p. owners p (snd s) = (if connected (fst s) p then 1 else 0))"

lemma length_filter_update:
  "k < length xs \<Longrightarrow> length (filter P (xs[k := y])) + (if P (xs ! k) then 1 else 0) =
     length (filter P xs) + (if P y then 1 else 0)"
proof (induction xs arbitrary: k)
  case (Cons x xs)
  then show ?case by (cases k) auto
qed simp

lemma owners_update:
  assumes "shape b' = (shape b)[k := (peer_of b k, ph)]" "in_phase b k old"
  shows "owners p b' + (if peer_of b k = p \<and> owning old then 1 else 0) =
         owners p b + (if peer_of b k = p \<and> owning ph then 1 else 0)"
  using length_filter_update [of k "shape b" "\<lambda>(q, ph). q = p \<and> owning ph" "(peer_of b k, ph)"] assms
  by (simp add: owners_def in_phase_def length_streams_shape nth_shape)

lemma owners_shape: "shape b' = shape b \<Longrightarrow> owners p b' = owners p b"
  by (simp add: owners_def)

lemma connected_cong: "connections m' = connections m \<Longrightarrow> connected m' = connected m"
  by (simp add: connected_def fun_eq_iff)

text \<open>A step that keeps the connection states and moves a stream between phases of one kind.\<close>

lemma one_owner_same:
  assumes "one_owner (m, b)" "connections m' = connections m"
    and "shape b' = (shape b)[k := (peer_of b k, ph)]" "in_phase b k old" "owning old \<longleftrightarrow> owning ph"
  shows "one_owner (m', b')"
  using assms(1,5) connected_cong [OF assms(2)] owners_update [OF assms(3,4)]
  by (auto simp: one_owner_def split: if_splits)

lemma one_owner_shape:
  assumes "one_owner (m, b)" "connected m' = connected m" "shape b' = shape b"
  shows "one_owner (m', b')"
  using assms owners_shape [OF assms(3)] by (simp add: one_owner_def)

lemma one_owner_step:
  assumes "broker_step x E s s'" "one_owner s"
  shows "one_owner s'"
  using assms
proof (induction rule: broker_step.induct)
  case (request m b p host)
  have "shape (b\<lparr> b_streams := b_streams b @ [new_stream p host] \<rparr>) = shape b @ [(p, OpenRequested host)]"
    by (simp add: shape_def new_stream_def)
  with request show ?case by (simp add: one_owner_def owners_def)
next
  case (known b k host m m' d)
  then show ?case
    by (intro one_owner_same [OF known(3) _ shape_set_phase known(1)])
      (auto dest: expect_known_connections simp: in_phase_def)
next
  case (unknown b k host m m' r)
  then show ?case
    by (intro one_owner_same [OF unknown(4) _ shape_fail_stream unknown(1)])
      (auto dest: expect_known_connections simp: in_phase_def)
next
  case (online b k host m m' u)
  have k: "k < length (b_streams b)" using online(1) by (simp add: in_phase_def)
  note own = owners_update [OF shape_set_phase [OF k, of OpenOnline] online(1)]
  show ?case
    unfolding one_owner_def fst_conv snd_conv
  proof
    fix p
    have "owners p b = (if connected m p then 1 else 0)" using online(3) by (simp add: one_owner_def)
    moreover have "connected m' p \<longleftrightarrow> p = peer_of b k \<or> connected m p"
      using update_ok [OF online(2)] by (auto simp: connected_def)
    ultimately show "owners p (set_phase k OpenOnline b) = (if connected m' p then 1 else 0)"
      using own [of p] update_ok [OF online(2)] by (auto split: if_splits)
  qed
next
  case (refused b k host m m' e)
  then show ?case
    by (intro one_owner_same [OF refused(3) _ shape_fail_stream refused(1)])
      (auto dest: update_error simp: in_phase_def)
next
  case (listed b k m)
  then show ?case
    by (intro one_owner_same [OF listed(2) _ _ listed(1)])
      (auto simp: in_phase_def list_stream_def shape_set_phase)
next
  case (configured b k m m' b' u)
  note eff = initial_configuration_effect [OF configured(2)]
  have k: "k < length (b_streams b')"
    using configured(1) length_shape_eq [OF conjunct2 [OF eff]] by (simp add: in_phase_def)
  have "peer_of b' k = peer_of b k"
    using eff k nth_shape [of k b'] nth_shape [of k b] configured(1) by (simp add: in_phase_def)
  with eff show ?case
    by (intro one_owner_same [OF configured(3) _ _ configured(1)]) (auto simp: shape_set_phase [OF k])
next
  case (unconfigured b k m m' b' oe)
  note eff = initial_configuration_effect [OF unconfigured(2)]
  have k: "k < length (b_streams b')"
    using unconfigured(1) length_shape_eq [OF conjunct2 [OF eff]] by (simp add: in_phase_def)
  have "peer_of b' k = peer_of b k"
    using eff k nth_shape [of k b'] nth_shape [of k b] unconfigured(1) by (simp add: in_phase_def)
  with eff show ?case
    by (intro one_owner_same [OF unconfigured(3) _ _ unconfigured(1)]) (auto simp: shape_fail_stream [OF k])
next
  case (received b k m upstream)
  obtain b' r where send: "channel_send k Pong b = (b', r)" by (metis surj_pair)
  then have "handle_stream_message upstream k b = b'" by (cases upstream) simp
  then show ?case using one_owner_shape [OF received(2) refl shape_channel_send [OF send]] by simp
next
  case (ended b k m)
  then show ?case
    by (intro one_owner_same [OF ended(2) _ shape_set_phase ended(1)]) (auto simp: in_phase_def)
next
  case (remove_found b k m st)
  then show ?case
    by (intro one_owner_same [OF remove_found(3) _ shape_set_phase remove_found(1)]) (auto simp: in_phase_def)
next
  case (remove_missing b k m re)
  then show ?case
    by (intro one_owner_same [OF remove_missing(3) _ shape_set_phase remove_missing(1)]) (auto simp: in_phase_def)
next
  case (decided b k m deleted)
  then show ?case
    by (intro one_owner_same [OF decided(3) _ shape_set_phase decided(1)]) (auto simp: in_phase_def)
next
  case (undecided b k m re)
  then show ?case
    by (intro one_owner_same [OF undecided(3) _ shape_set_phase undecided(1)]) (auto simp: in_phase_def)
next
  case (offline b k deleted m m' u)
  have k: "k < length (b_streams b)" using offline(1) by (simp add: in_phase_def)
  note own = owners_update [OF shape_set_phase [OF k, of RemovingListed] offline(1)]
  show ?case
    unfolding one_owner_def fst_conv snd_conv
  proof
    fix p
    have "owners p b = (if connected m p then 1 else 0)" using offline(3) by (simp add: one_owner_def)
    then show "owners p (set_phase k RemovingListed b) = (if connected m' p then 1 else 0)"
      using own [of p] remove_state_ok [OF offline(2), of p] by (auto split: if_splits)
  qed
next
  case (stuck b k deleted m m' re)
  then show ?case
    by (intro one_owner_same [OF stuck(3) _ shape_set_phase stuck(1)])
      (auto dest: remove_state_error simp: in_phase_def)
next
  case (unlisted b k m)
  then show ?case
    by (intro one_owner_same [OF unlisted(2) _ _ unlisted(1)])
      (auto simp: in_phase_def unlist_def shape_set_phase)
next
  case (receiver_gone k b m)
  then have "shape (b\<lparr> b_streams := (b_streams b)[k := (b_streams b ! k)\<lparr> s_receiver_gone := True \<rparr>] \<rparr>) = shape b"
    by (simp add: shape_def map_update list_update_same_conv)
  then show ?case using one_owner_shape [OF receiver_gone(2) refl] by blast
next
  case (deleted s p)
  obtain m b where s: "s = (m, b)" by (cases s)
  have "connected (fst (manager_remove E PeerConnectionStates p m)) = connected m"
    if off: "manager_get E PeerConnectionStates p m = Inr (Some Offline)"
  proof -
    obtain m' r where run: "manager_remove E PeerConnectionStates p m = (m', r)" by (metis surj_pair)
    have "map_of (connections m) p = Some Offline" using manager_get_Inr [OF off] by simp
    have "connected m' = connected m"
    proof (cases r)
      case (Inl e)
      with run manager_remove_error show ?thesis by (blast intro: connected_cong)
    next
      case (Inr v)
      with run have "connections m' = AList.delete p (connections m)" by (blast intro: manager_remove_ok)
      with \<open>map_of (connections m) p = Some Offline\<close> show ?thesis by (auto simp: connected_def fun_eq_iff)
    qed
    then show ?thesis by (simp add: run)
  qed
  moreover have "shape (snd (remove_peer E p s)) = shape b"
    by (auto simp: s remove_peer_def shape_disconnect split: sum.split option.split PeerConnectionState.split)
  moreover have "connected (fst (remove_peer E p s)) = connected m"
    using calculation(1) by (auto simp: s remove_peer_def split: sum.split option.split PeerConnectionState.split)
  ultimately show ?case
    using deleted one_owner_shape [of m b "fst (remove_peer E p s)" "snd (remove_peer E p s)"] s by simp
next
  case (other m' m b)
  then show ?case using one_owner_shape [of m b m' b] connected_cong by blast
qed

lemma one_owner_reachable: "broker_reachable x E s \<Longrightarrow> one_owner s"
proof (induction rule: broker_reachable.induct)
  case (start s)
  then show ?case by (simp add: broker_start_def one_owner_def owners_def shape_def connected_def)
next
  case (step s s')
  then show ?case using one_owner_step by blast
qed

lemma filter_two:
  assumes "k < length xs" "l < length xs" "k \<noteq> l" "P (xs ! k)" "P (xs ! l)"
  shows "2 \<le> length (filter P xs)"
proof -
  have "{k, l} \<subseteq> {i. i < length xs \<and> P (xs ! i)}" using assms by auto
  then have "card {k, l} \<le> card {i. i < length xs \<and> P (xs ! i)}" by (intro card_mono) auto
  with assms(3) show ?thesis by (simp add: length_filter_conv_card)
qed


section \<open>Opening a stream is a run of steps\<close>

text \<open>\<open>open_stream\<close>, in which no other task interferes, is one of the runs of the step relation.\<close>

lemma in_phase_set: "k < length (b_streams b) \<Longrightarrow> in_phase (set_phase k ph b) k ph"
  by (simp add: in_phase_def set_phase_def)

lemma set_phase_peer: "k < length (b_streams b) \<Longrightarrow> peer_of (set_phase k ph b) j = peer_of b j"
  by (cases "j = k") (simp_all add: set_phase_def)

lemma set_phase_length [simp]: "length (b_streams (set_phase k ph b)) = length (b_streams b)"
  by (simp add: set_phase_def)

lemma list_stream_streams [simp]: "b_streams (list_stream p k b) = b_streams b"
  by (simp add: list_stream_def)

lemma list_stream_set_phase: "list_stream p k (set_phase j ph b) = set_phase j ph (list_stream p k b)"
  by (simp add: list_stream_def set_phase_def)

lemma set_phase_set_phase:
  "k < length (b_streams b) \<Longrightarrow> set_phase k ph' (set_phase k ph b) = set_phase k ph' b"
  by (simp add: set_phase_def)

lemma fail_stream_set_phase:
  "k < length (b_streams b) \<Longrightarrow> fail_stream k ph' (set_phase k ph b) = fail_stream k ph' b"
  by (simp add: set_phase_def fail_stream_def)

lemma open_stream_runs:
  assumes "open_stream x E p host s = (s', r)"
  shows "(broker_step x E)\<^sup>*\<^sup>* s s'"
proof -
  obtain m b where s: "s = (m, b)" by (cases s)
  let ?k = "length (b_streams b)" and ?b = "b\<lparr> b_streams := b_streams b @ [new_stream p host] \<rparr>"
  have k: "?k < length (b_streams ?b)" and peer: "peer_of ?b ?k = p" and req: "in_phase ?b ?k (OpenRequested host)"
    by (simp_all add: in_phase_def new_stream_def)
  have start: "broker_step x E s (m, ?b)" unfolding s by (rule broker_step.request)
  obtain m1 r1 where known: "expect_known_peer_descriptor E p m = (m1, r1)" by (metis surj_pair)
  show ?thesis
  proof (cases "\<exists>d. r1 = Inr (Some d)")
    case False
    then have "s' = (m1, fail_stream ?k Rejected ?b)"
      using assms known by (auto simp: s open_stream_def Let_def split: sum.splits option.splits)
    then show ?thesis
      using start broker_step.unknown [OF req, of E m m1 r1 x] known False unfolding peer by auto
  next
    case True
    then obtain d where d: "r1 = Inr (Some d)" by blast
    let ?b1 = "set_phase ?k (OpenKnown host) ?b"
    have peer1: "peer_of ?b1 ?k = p" and ph1: "in_phase ?b1 ?k (OpenKnown host)"
      using peer k by (simp_all add: set_phase_peer in_phase_set)
    have run1: "(broker_step x E)\<^sup>*\<^sup>* s (m1, ?b1)"
      using start broker_step.known [OF req, of E m m1 d x] known d unfolding peer by simp
    obtain m2 r2 where upd: "update_peer_connection_state E p host m1 = (m2, r2)" by (metis surj_pair)
    show ?thesis
    proof (cases r2)
      case (Inl e)
      then have "s' = (m2, fail_stream ?k Rejected ?b1)"
        using assms known d upd by (simp add: s open_stream_def Let_def)
      then show ?thesis
        using run1 broker_step.refused [OF ph1, of E m1 m2 e x] upd Inl unfolding peer1 by simp
    next
      case (Inr u)
      let ?b2 = "set_phase ?k OpenOnline ?b1"
      let ?b3 = "set_phase ?k OpenListed (list_stream p ?k ?b2)"
      have len: "?k < length (b_streams ?b1)" "?k < length (b_streams ?b2)" "?k < length (b_streams ?b3)" by simp_all
      have peer2: "peer_of ?b2 ?k = p" and ph2: "in_phase ?b2 ?k OpenOnline"
        using peer1 len by (simp_all add: set_phase_peer in_phase_set)
      have peer3: "peer_of ?b3 ?k = p" and ph3: "in_phase ?b3 ?k OpenListed"
        using peer2 by (simp_all add: set_phase_peer in_phase_set)
      have "broker_step x E (m1, ?b1) (m2, ?b2)"
        using broker_step.online [OF ph1, of E m1 m2 u x] upd Inr unfolding peer1 by simp
      moreover have "broker_step x E (m2, ?b2) (m2, ?b3)"
        using broker_step.listed [OF ph2, of x E m2] unfolding peer2 .
      ultimately have run3: "(broker_step x E)\<^sup>*\<^sup>* s (m2, ?b3)" using run1 by simp
      obtain m4 b4 r4 where send: "send_initial_peer_configuration x E p (m2, ?b3) = ((m4, b4), r4)"
        by (metis surj_pair)
      show ?thesis
      proof (cases r4)
        case (Inl e)
        then have "s' = (m4, fail_stream ?k Leaked b4)"
          using assms known d upd Inr send by (simp add: s open_stream_def Let_def)
        then show ?thesis
          using run3 broker_step.unconfigured [OF ph3, of x E m2 m4 b4 e] send Inl unfolding peer3 by simp
      next
        case (Inr u')
        then have "s' = (m4, set_phase ?k Running b4)"
          using assms known d upd \<open>r2 = Inr u\<close> send by (simp add: s open_stream_def Let_def)
        then show ?thesis
          using run3 broker_step.configured [OF ph3, of x E m2 m4 b4 u'] send Inr unfolding peer3 by simp
      qed
    qed
  qed
qed

lemma broker_reachable_run: "(broker_step x E)\<^sup>*\<^sup>* s s' \<Longrightarrow> broker_reachable x E s \<Longrightarrow> broker_reachable x E s'"
  by (induction rule: rtranclp_induct) (auto intro: broker_reachable.step)

end
