(* ===== verification/BrokerRuns.thy ===== *)
theory BrokerRuns
  imports PeerBroker
begin

text \<open>
  Concrete runs of the peer messaging broker: a stream that opens, the race between the removal
  of a peer's old stream and its next one, and a stream that fails after its peer was set online.
\<close>

section \<open>Opening a stream when nothing fails\<close>

text \<open>The stream that \<open>open\<close> leaves when the peer has no stored configuration.\<close>

definition opened_stream :: "ext \<Rightarrow> PeerId \<Rightarrow> stream" where
  "opened_stream x p =
     \<lparr> s_peer = p,
       s_sent = [ApplyPeerConfiguration (old_configuration_to_proto x old_peer_configuration_default)
                   (configuration_to_proto x peer_configuration_default)],
       s_receiver_gone = False, s_phase = Running \<rparr>"

definition with_opened :: "ext \<Rightarrow> PeerId \<Rightarrow> broker \<Rightarrow> broker" where
  "with_opened x p b =
     \<lparr> b_peers = AList.update p \<lparr> pm_downstream = length (b_streams b), pm_disconnected = False \<rparr> (b_peers b),
       b_streams = b_streams b @ [opened_stream x p] \<rparr>"

lemma relay_nothing [simp]: "send_relayed_subscription_events n no_events sent = sent"
  by (simp add: send_relayed_subscription_events_def relay_def no_events_def)

lemma open_stream_fair:
  assumes "fair E" "map_of (t_peer_descriptors (rm_tables m)) p = Some d"
    and "map_of (connections m) p = None \<or> map_of (connections m) p = Some Offline"
    and "map_of (t_old_peer_configurations (rm_tables m)) p = None"
    and "map_of (t_peer_configurations (rm_tables m)) p = None"
  shows "\<exists>sent. open_stream x E p host (m, b) =
    ((\<lparr> rm_tables = (rm_tables m)\<lparr> t_peer_connection_states := AList.update p (Online host) (connections m) \<rparr>,
        rm_sent = sent \<rparr>, with_opened x p b), Inr (length (b_streams b)))"
proof -
  have known: "expect_known_peer_descriptor E p m = (m, Inr (Some d))"
    using assms(1,2) by (simp add: expect_known_peer_descriptor_def collapse_def resources_mut_fair run_unfolds kind_defs)
  obtain sent where updated: "update_peer_connection_state E p host m =
     (\<lparr> rm_tables = (rm_tables m)\<lparr> t_peer_connection_states := AList.update p (Online host) (connections m) \<rparr>,
        rm_sent = sent \<rparr>, Inr ())"
    using assms(1,3) by (auto simp: update_peer_connection_state_def collapse_def resources_mut_fair
        online_unless_connected_def run_unfolds resources_insert_def kind_defs)
  show ?thesis
    using assms known updated
    by (simp add: open_stream_def Let_def send_initial_peer_configuration_def manager_get_def kind_defs
        list_stream_def set_phase_def new_stream_def on_snd_def run_unfolds send_to_peer_def channel_send_def
        with_opened_def opened_stream_def)
qed

section \<open>A peer that reconnects while its old stream is being removed\<close>

definition sample_host :: IpAddr where
  "sample_host = V4 [10, 0, 0, 7]"

definition no_broker :: broker where
  "no_broker = \<lparr> b_peers = [], b_streams = [] \<rparr>"

text \<open>The sample peer after it opened its first stream.\<close>

definition one_stream :: "resource_manager \<times> broker" where
  "one_stream = fst (open_stream decimal_ext fair_env (PeerId 3) sample_host (sample_manager, no_broker))"

lemma sample_start: "broker_reachable x E (sample_manager, no_broker)"
  by (rule broker_reachable.start)
    (simp add: broker_start_def sample_manager_def sample_tables_def no_tables_def no_broker_def)

lemma open_stream_reachable:
  "broker_reachable x E s \<Longrightarrow> broker_reachable x E (fst (open_stream x E p host s))"
  using open_stream_runs broker_reachable_run by (metis surj_pair fst_conv)

lemma one_stream_reachable: "broker_reachable decimal_ext fair_env one_stream"
  unfolding one_stream_def by (rule open_stream_reachable [OF sample_start])

lemma one_stream_value:
  "\<exists>sent. one_stream =
     (\<lparr> rm_tables = sample_tables\<lparr> t_peer_connection_states := [(PeerId 3, Online sample_host)] \<rparr>, rm_sent = sent \<rparr>,
      with_opened decimal_ext (PeerId 3) no_broker)"
  using open_stream_fair [of fair_env sample_manager "PeerId 3" _ decimal_ext sample_host no_broker] sample_peer_lookup
  by (auto simp: one_stream_def sample_manager_def sample_tables_def no_tables_def)

lemma one_stream_parts:
  "rm_tables (fst one_stream) = sample_tables\<lparr> t_peer_connection_states := [(PeerId 3, Online sample_host)] \<rparr>"
  "snd one_stream = with_opened decimal_ext (PeerId 3) no_broker"
  using one_stream_value by (metis fst_conv resource_manager.select_convs(1), metis snd_conv)

lemma one_stream_running:
  "in_phase (snd one_stream) 0 Running \<and> peer_of (snd one_stream) 0 = PeerId 3"
  by (simp add: one_stream_parts in_phase_def with_opened_def opened_stream_def no_broker_def)


text \<open>
  Its first stream ends; the task that removes it has set the state to offline, but has not taken
  the peer off the map yet when the peer's next stream opens.
\<close>

definition leaving :: "resource_manager \<times> broker" where
  "leaving =
     (fst (remove_state fair_env (PeerId 3) False (fst one_stream)),
      set_phase 0 RemovingListed (set_phase 0 (RemovingDecided False)
        (set_phase 0 RemovingKnown (set_phase 0 Removing (snd one_stream)))))"

definition reopened :: "resource_manager \<times> broker" where
  "reopened = fst (open_stream decimal_ext fair_env (PeerId 3) sample_host leaving)"

definition raced :: "resource_manager \<times> broker" where
  "raced = (fst reopened, set_phase 0 Ended (fst (unlist (PeerId 3) (snd reopened))))"

lemma leaving_reachable: "broker_reachable decimal_ext fair_env leaving"
proof -
  let ?m = "fst one_stream" and ?b0 = "snd one_stream"
  let ?b1 = "set_phase 0 Removing ?b0"
  let ?b2 = "set_phase 0 RemovingKnown ?b1"
  let ?b3 = "set_phase 0 (RemovingDecided False) ?b2"
  have run0: "in_phase ?b0 0 Running" and peer0: "peer_of ?b0 0 = PeerId 3"
    using one_stream_running by auto
  then have len: "0 < length (b_streams ?b0)" by (simp add: in_phase_def)
  then have ph: "in_phase ?b1 0 Removing" "in_phase ?b2 0 RemovingKnown" "in_phase ?b3 0 (RemovingDecided False)"
    and peers: "peer_of ?b1 0 = PeerId 3" "peer_of ?b2 0 = PeerId 3" "peer_of ?b3 0 = PeerId 3"
    using peer0 by (simp_all add: in_phase_set set_phase_peer)
  have known: "remove_known fair_env (PeerId 3) ?m = Inr (Online sample_host)"
    by (simp add: one_stream_parts remove_known_def manager_get_def kind_defs)
  have decide: "remove_decide fair_env (PeerId 3) ?m = Inr False"
    by (simp add: one_stream_parts remove_decide_def manager_get_def kind_defs sample_tables_def)
  have "snd (remove_state fair_env (PeerId 3) False ?m) = Inr ()"
    by (simp add: one_stream_parts remove_state_def manager_insert_def collapse_def resources_mut_fair resources_insert_def
        run_unfolds)
  then have state: "remove_state fair_env (PeerId 3) False ?m = (fst leaving, Inr ())"
    unfolding leaving_def by (simp add: prod_eq_iff)
  have s1: "broker_reachable decimal_ext fair_env (?m, ?b1)"
    using broker_reachable.step [OF _ broker_step.ended [OF run0]] one_stream_reachable by simp
  have s2: "broker_reachable decimal_ext fair_env (?m, ?b2)"
    by (rule broker_reachable.step [OF s1 broker_step.remove_found [OF ph(1)]]) (simp add: peers known)
  have s3: "broker_reachable decimal_ext fair_env (?m, ?b3)"
    by (rule broker_reachable.step [OF s2 broker_step.decided [OF ph(2)]]) (simp add: peers decide)
  have "broker_reachable decimal_ext fair_env (fst leaving, set_phase 0 RemovingListed ?b3)"
    by (rule broker_reachable.step [OF s3 broker_step.offline [OF ph(3)]]) (simp add: peers state)
  then show ?thesis by (simp add: leaving_def)
qed

lemma leaving_parts:
  "rm_tables (fst leaving) = sample_tables\<lparr> t_peer_connection_states := [(PeerId 3, Offline)] \<rparr>"
  "snd leaving = set_phase 0 RemovingListed (with_opened decimal_ext (PeerId 3) no_broker)"
  by (simp_all add: leaving_def remove_state_def manager_insert_def collapse_def resources_mut_fair
      resources_insert_def run_unfolds kind_defs one_stream_parts set_phase_set_phase with_opened_def no_broker_def)

lemma reopened_parts:
  "rm_tables (fst reopened) = sample_tables\<lparr> t_peer_connection_states := [(PeerId 3, Online sample_host)] \<rparr>"
  "snd reopened = with_opened decimal_ext (PeerId 3)
     (set_phase 0 RemovingListed (with_opened decimal_ext (PeerId 3) no_broker))"
proof -
  have "\<exists>sent. open_stream decimal_ext fair_env (PeerId 3) sample_host (fst leaving, snd leaving) =
    ((\<lparr> rm_tables = (rm_tables (fst leaving))\<lparr> t_peer_connection_states :=
          AList.update (PeerId 3) (Online sample_host) (connections (fst leaving)) \<rparr>, rm_sent = sent \<rparr>,
      with_opened decimal_ext (PeerId 3) (snd leaving)), Inr (length (b_streams (snd leaving))))"
    by (rule open_stream_fair [where d = "sample_peer 3 [sample_device 10]"])
      (simp_all add: leaving_parts sample_tables_def no_tables_def)
  then obtain sent where "open_stream decimal_ext fair_env (PeerId 3) sample_host leaving =
    ((\<lparr> rm_tables = (rm_tables (fst leaving))\<lparr> t_peer_connection_states :=
          AList.update (PeerId 3) (Online sample_host) (connections (fst leaving)) \<rparr>, rm_sent = sent \<rparr>,
      with_opened decimal_ext (PeerId 3) (snd leaving)), Inr (length (b_streams (snd leaving))))"
    by auto
  then show "rm_tables (fst reopened) = sample_tables\<lparr> t_peer_connection_states := [(PeerId 3, Online sample_host)] \<rparr>"
    "snd reopened = with_opened decimal_ext (PeerId 3)
       (set_phase 0 RemovingListed (with_opened decimal_ext (PeerId 3) no_broker))"
    by (simp_all add: reopened_def leaving_parts)
qed

lemma reopened_leaving: "in_phase (snd reopened) 0 RemovingListed \<and> peer_of (snd reopened) 0 = PeerId 3"
  by (simp add: reopened_parts in_phase_def with_opened_def opened_stream_def no_broker_def set_phase_def)

lemma raced_reachable: "broker_reachable decimal_ext fair_env raced"
proof -
  have "broker_reachable decimal_ext fair_env (fst reopened, snd reopened)"
    unfolding reopened_def using open_stream_reachable [OF leaving_reachable] by simp
  moreover have "in_phase (snd reopened) 0 RemovingListed" and peer: "peer_of (snd reopened) 0 = PeerId 3"
    using reopened_leaving by auto
  ultimately show ?thesis
    using broker_reachable.step broker_step.unlisted unfolding raced_def peer [symmetric] by blast
qed

text \<open>C10: the removal of a stream is not atomic: a peer that opens a new stream after the
  task of the old one has set the state to offline, and before that task takes the peer off the
  map, is taken off the map while its new stream runs. The peer then counts as online, its stream
  is served, and yet everything sent to it fails because the peer is not found.\<close>

theorem reconnect_race_unlists_peer:
  "\<exists>m b k. broker_reachable decimal_ext fair_env (m, b) \<and> in_phase b k Running \<and>
     \<not> s_receiver_gone (b_streams b ! k) \<and> connected m (peer_of b k) \<and>
     (\<forall>message. send_to_peer (peer_of b k) message b = (b, Inl (BrokerPeerNotFound (peer_of b k))))"
proof -
  let ?m = "fst raced" and ?b = "snd raced"
  have "in_phase ?b 1 Running \<and> \<not> s_receiver_gone (b_streams ?b ! 1) \<and> peer_of ?b 1 = PeerId 3 \<and>
      map_of (b_peers ?b) (PeerId 3) = None \<and> map_of (connections ?m) (PeerId 3) = Some (Online sample_host)"
    by (simp add: reopened_parts raced_def in_phase_def with_opened_def opened_stream_def no_broker_def set_phase_def unlist_def)
  moreover have "broker_reachable decimal_ext fair_env (?m, ?b)" using raced_reachable by simp
  ultimately show ?thesis
    by (intro exI [of _ ?m] exI [of _ ?b] exI [of _ 1]) (simp add: connected_def send_to_peer_def)
qed

section \<open>A stream that failed after its peer was set online\<close>

text \<open>What a step does to the phases: it adds a stream, moves one that is not leaked, or neither.\<close>

lemma step_shape:
  assumes "broker_step x E s s'"
  shows "shape (snd s') = shape (snd s) \<or> (\<exists>q. shape (snd s') = shape (snd s) @ [q]) \<or>
    (\<exists>j old ph. in_phase (snd s) j old \<and> old \<noteq> Leaked \<and>
       shape (snd s') = (shape (snd s))[j := (peer_of (snd s) j, ph)])"
  using assms
proof (cases rule: broker_step.cases)
  case (request m b p host)
  then show ?thesis by (simp add: shape_def)
next
  case (configured b k m m' b' u)
  note eff = initial_configuration_effect [OF configured(4)]
  have k: "k < length (b_streams b')"
    using configured(3) length_shape_eq [OF conjunct2 [OF eff]] by (simp add: in_phase_def)
  have "peer_of b' k = peer_of b k"
    using eff k nth_shape [of k b'] nth_shape [of k b] configured(3) by (simp add: in_phase_def)
  with eff configured(2) have "shape (snd s') = (shape b)[k := (peer_of b k, Running)]"
    by (simp add: shape_set_phase [OF k])
  with configured(1,3) show ?thesis by fastforce
next
  case (unconfigured b k m m' b' oe)
  note eff = initial_configuration_effect [OF unconfigured(4)]
  have k: "k < length (b_streams b')"
    using unconfigured(3) length_shape_eq [OF conjunct2 [OF eff]] by (simp add: in_phase_def)
  have "peer_of b' k = peer_of b k"
    using eff k nth_shape [of k b'] nth_shape [of k b] unconfigured(3) by (simp add: in_phase_def)
  with eff unconfigured(2) have "shape (snd s') = (shape b)[k := (peer_of b k, Leaked)]"
    by (simp add: shape_fail_stream [OF k])
  with unconfigured(1,3) show ?thesis by fastforce
next
  case (received b k m upstream)
  obtain b' r where send: "channel_send k Pong b = (b', r)" by (metis surj_pair)
  then have "handle_stream_message upstream k b = b'" by (cases upstream) simp
  with received show ?thesis using shape_channel_send [OF send] by simp
next
  case (receiver_gone k b m)
  then show ?thesis by (simp add: shape_def map_update list_update_same_conv)
next
  case (deleted p)
  then show ?thesis
    by (cases s) (auto simp: remove_peer_def shape_disconnect split: sum.split option.split PeerConnectionState.split)
next
  case (unlisted b k m)
  then have "shape (snd s') = (shape b)[k := (peer_of b k, Ended)]"
    by (simp add: in_phase_def unlist_def shape_set_phase)
  with unlisted(1,3) show ?thesis by fastforce
next
  case (listed b k m)
  then have "shape (snd s') = (shape b)[k := (peer_of b k, OpenListed)]"
    by (simp add: in_phase_def list_stream_def shape_set_phase)
  with listed(1,3) show ?thesis by fastforce
qed (force simp: in_phase_def shape_set_phase shape_fail_stream)+

lemma in_phase_shape: "in_phase b k ph \<longleftrightarrow> k < length (shape b) \<and> snd (shape b ! k) = ph"
  by (auto simp: in_phase_def length_streams_shape nth_shape)

lemma leaked_step:
  assumes "broker_step x E s s'" "in_phase (snd s) k Leaked"
  shows "in_phase (snd s') k Leaked \<and> peer_of (snd s') k = peer_of (snd s) k"
proof -
  have k: "k < length (shape (snd s))" "snd (shape (snd s) ! k) = Leaked"
    using assms(2) by (simp_all add: in_phase_shape)
  have "k < length (shape (snd s')) \<and> shape (snd s') ! k = shape (snd s) ! k"
    using step_shape [OF assms(1)] k
    by (elim disjE exE conjE) (auto simp: nth_append in_phase_shape nth_list_update)
  with k show ?thesis
    by (metis fst_conv in_phase_shape length_streams_shape nth_shape)
qed

lemma leaked_run:
  assumes "(broker_step x E)\<^sup>*\<^sup>* s s'" "in_phase (snd s) k Leaked"
  shows "in_phase (snd s') k Leaked \<and> peer_of (snd s') k = peer_of (snd s) k"
  using assms by (induction rule: rtranclp_induct) (use leaked_step in metis)+

lemma open_connected_fails:
  assumes "connected m p"
  shows "isl (snd (open_stream x E p host (m, b)))"
proof -
  obtain m1 r1 where known: "expect_known_peer_descriptor E p m = (m1, r1)" by (metis surj_pair)
  have "connected m1 p" using assms connected_cong [OF expect_known_connections [OF known]] by simp
  then have "isl (snd (update_peer_connection_state E p host m1))"
    using update_ok [of E p host m1] by (cases "update_peer_connection_state E p host m1"; cases "snd (update_peer_connection_state E p host m1)") auto
  then show ?thesis
    using known by (cases r1; cases "update_peer_connection_state E p host m1")
      (auto simp: open_stream_def Let_def split: option.split sum.split)
qed


definition unreadable_env :: env where
  "unreadable_env = fair_env\<lparr> access_fault :=
     (\<lambda>t op _. if t = TagOldPeerConfiguration then Some (kv_error ''damaged'') else None) \<rparr>"

definition leaked_start :: "resource_manager \<times> broker" where
  "leaked_start = fst (open_stream decimal_ext unreadable_env (PeerId 3) sample_host (sample_manager, no_broker))"

lemma leaked_start_phase: "in_phase (snd leaked_start) 0 Leaked \<and> peer_of (snd leaked_start) 0 = PeerId 3"
  by (simp add: leaked_start_def open_stream_def unreadable_env_def fair_env_def sample_manager_def no_broker_def
      expect_known_peer_descriptor_def update_peer_connection_state_def online_unless_connected_def collapse_def
      resources_mut_eq resources_get_def resources_insert_def kind_defs run_unfolds sample_tables_def no_tables_def
      Let_def send_initial_peer_configuration_def manager_get_def resources_read_def set_phase_def list_stream_def
      new_stream_def fail_stream_def in_phase_def)


end
