(* ===== verification/AssignCluster.thy ===== *)
theory AssignCluster
  imports BrokerRuns
begin

text \<open>
  Assigning a peer to a cluster (opendut-carl/src/manager/peer_manager/assign_cluster.rs): the
  peer's configuration is computed from its descriptor, stored, and pushed to the peer through
  the broker. The state is the resources of the transaction beside the broker.
\<close>

section \<open>The operation\<close>

datatype AssignClusterError =
    AssignPeerNotFound PeerId
  | AssignSendingToPeerFailed PeerId BrokerError
  | AssignPersistence PeerId PersistenceError

text \<open>Each value set with target \<open>Present\<close>, in the order of the loops.\<close>

definition present_device_interfaces :: "NetworkInterfaceDescriptor list \<Rightarrow> PeerConfiguration \<Rightarrow> PeerConfiguration" where
  "present_device_interfaces interfaces c =
     fold (\<lambda>i. set_device_interface \<lparr> di_descriptor = i \<rparr> Present) interfaces c"

definition present_executors :: "ExecutorDescriptor list \<Rightarrow> PeerConfiguration \<Rightarrow> PeerConfiguration" where
  "present_executors executors c = fold (\<lambda>e. set_executor \<lparr> ex_descriptor = e \<rparr> Present) executors c"

definition bridge_of :: "NetworkInterfaceName \<Rightarrow> PeerDescriptor \<Rightarrow> NetworkInterfaceName" where
  "bridge_of bridge_name_default peer =
     (case pn_bridge_name (pd_network peer) of Some name \<Rightarrow> name | None \<Rightarrow> bridge_name_default)"

definition assigned_configuration ::
    "ext \<Rightarrow> NetworkInterfaceName \<Rightarrow> NetworkInterfaceDescriptor list \<Rightarrow> PeerDescriptor \<Rightarrow>
     PeerConfiguration \<Rightarrow> PeerConfiguration" where
  "assigned_configuration x bridge_name_default interfaces peer c =
     present_executors (eds_executors (pd_executors peer))
       (set_ethernet_bridge x \<lparr> eb_name = bridge_of bridge_name_default peer \<rparr> Present
         (present_device_interfaces interfaces c))"

definition assign_cluster ::
    "ext \<Rightarrow> env \<Rightarrow> PeerId \<Rightarrow> NetworkInterfaceDescriptor list \<Rightarrow> ClusterAssignment \<Rightarrow> NetworkInterfaceName \<Rightarrow>
     (resources \<times> broker, AssignClusterError, unit) run" where
  "assign_cluster x E peer_id interfaces assignment bridge_name_default =
     (let old = \<lparr> opc_cluster_assignment = Some assignment \<rparr>; failed = map_run_err (AssignPersistence peer_id) in
      and_then (failed (on_fst (resources_insert E OldPeerConfigurations peer_id old))) (\<lambda>_.
      and_then (map_run_err (AssignPersistence peer_id)
          (on_fst (read_resources (resources_get E PeerDescriptors peer_id)))) (\<lambda>found.
      and_then (lift_result (ok_or (AssignPeerNotFound peer_id) found)) (\<lambda>peer.
      and_then (map_run_err (AssignPersistence peer_id)
          (on_fst (read_resources (resources_get E PeerConfigurations peer_id)))) (\<lambda>stored.
      let configuration = assigned_configuration x bridge_name_default interfaces peer
            (unwrap_or_default peer_configuration_default stored) in
      and_then (failed (on_fst (resources_insert E PeerConfigurations peer_id configuration))) (\<lambda>_.
      map_run_err (AssignSendingToPeerFailed peer_id) (on_snd (send_to_peer peer_id
        (ApplyPeerConfiguration (old_configuration_to_proto x old) (configuration_to_proto x configuration))))))))))"

section \<open>What the new configuration holds\<close>

text \<open>Setting a list of values: the parameters with other identifiers stay in place, then the
  values follow in their order, of equal identifiers the last.\<close>

definition set_all :: "('v \<Rightarrow> ParameterId) \<Rightarrow> 'v list \<Rightarrow> 'v Parameter list \<Rightarrow> 'v Parameter list" where
  "set_all ident vs ps = fold (\<lambda>v. set_parameter ident v Present) vs ps"

lemma set_all_filter:
  "set_all ident vs ps = filter (\<lambda>p. param_id p \<notin> ident ` set vs) ps @ set_all ident vs []"
proof (induction vs arbitrary: ps)
  case (Cons v vs)
  let ?keep = "\<lambda>p. param_id p \<notin> ident ` set vs"
  have "set_all ident (v # vs) ps = filter ?keep (set_parameter ident v Present ps) @ set_all ident vs []"
    using Cons.IH [of "set_parameter ident v Present ps"] by (simp add: set_all_def)
  moreover have "set_all ident (v # vs) [] = filter ?keep (set_parameter ident v Present []) @ set_all ident vs []"
    using Cons.IH [of "set_parameter ident v Present []"] by (simp add: set_all_def)
  moreover have "filter ?keep (set_parameter ident v Present ps) =
      filter (\<lambda>p. param_id p \<notin> ident ` set (v # vs)) ps @ filter ?keep (set_parameter ident v Present [])"
    by (auto simp: set_parameter_def Let_def intro: filter_cong)
  ultimately show ?case by simp
qed (simp add: set_all_def)

lemma set_all_ids: "p \<in> set (set_all ident vs []) \<Longrightarrow> param_id p \<in> ident ` set vs"
proof (induction vs)
  case (Cons v vs)
  have "set_all ident (v # vs) [] = filter (\<lambda>p. param_id p \<notin> ident ` set vs) (set_parameter ident v Present []) @ set_all ident vs []"
    using set_all_filter [of ident vs "set_parameter ident v Present []"] by (simp add: set_all_def)
  with Cons show ?case by (auto simp: set_parameter_def Let_def split: if_splits)
qed (simp add: set_all_def)

lemma set_all_idem: "set_all ident vs (set_all ident vs ps) = set_all ident vs ps"
proof -
  let ?keep = "\<lambda>p. param_id p \<notin> ident ` set vs"
  have none: "filter ?keep (set_all ident vs []) = []"
    using set_all_ids [of _ ident vs] by (simp add: filter_empty_conv)
  have "set_all ident vs (set_all ident vs ps) = filter ?keep (set_all ident vs ps) @ set_all ident vs []"
    by (rule set_all_filter)
  also have "filter ?keep (set_all ident vs ps) = filter ?keep ps"
    unfolding set_all_filter [of ident vs ps] by (simp add: none)
  finally show ?thesis using set_all_filter [of ident vs ps] by simp
qed

lemma lookup_set_all:
  "lookup_parameter (set_all ident vs ps) i =
     (if i \<in> ident ` set vs then lookup_parameter (set_all ident vs []) i else lookup_parameter ps i)"
proof (cases "i \<in> ident ` set vs")
  case True
  then have "find (\<lambda>p. param_id p = i) (filter (\<lambda>p. param_id p \<notin> ident ` set vs) ps) = None"
    by (auto simp: find_eq_None)
  then show ?thesis
    using True by (subst set_all_filter) (simp add: lookup_parameter_def find_append)
next
  case False
  then show ?thesis
    by (induction vs arbitrary: ps) (simp_all add: set_all_def lookup_set_parameter)
qed

lemma lookup_set_all_present:
  assumes "v \<in> set vs" "inj_on ident (set vs)"
  shows "lookup_parameter (set_all ident vs ps) (ident v) =
    Some \<lparr> param_id = ident v, param_dependencies = [], param_target = Present, param_value = v \<rparr>"
  using assms
proof (induction vs arbitrary: ps)
  case (Cons w vs)
  show ?case
  proof (cases "v \<in> set vs")
    case True
    then show ?thesis using Cons by (simp add: set_all_def)
  next
    case False
    then have "v = w" "ident v \<notin> ident ` set vs" using Cons.prems by (auto simp: inj_on_def)
    then show ?thesis
      using lookup_set_all [of ident vs "set_parameter ident w Present ps" "ident v"]
      by (simp add: set_all_def lookup_set_parameter)
  qed
qed simp

lemma cfg_present_device_interfaces:
  "present_device_interfaces is c = c\<lparr> cfg_device_interfaces :=
     set_all device_interface_identifier (map DeviceInterface.make is) (cfg_device_interfaces c) \<rparr>"
  by (induction "is" arbitrary: c)
    (simp_all add: present_device_interfaces_def set_all_def set_device_interface_def DeviceInterface.make_def)

lemma cfg_present_executors:
  "present_executors es c = c\<lparr> cfg_executors :=
     set_all executor_identifier (map Executor.make es) (cfg_executors c) \<rparr>"
  by (induction es arbitrary: c)
    (simp_all add: present_executors_def set_all_def set_executor_def Executor.make_def)

lemma set_all_single: "set_parameter ident v Present ps = set_all ident [v] ps"
  by (simp add: set_all_def)

lemma assigned_configuration_eq:
  "assigned_configuration x b is peer c =
     \<lparr> cfg_device_interfaces = set_all device_interface_identifier (map DeviceInterface.make is) (cfg_device_interfaces c),
       cfg_ethernet_bridges = set_all (ethernet_bridge_identifier x) [\<lparr> eb_name = bridge_of b peer \<rparr>] (cfg_ethernet_bridges c),
       cfg_executors = set_all executor_identifier (map Executor.make (eds_executors (pd_executors peer))) (cfg_executors c) \<rparr>"
  by (simp add: assigned_configuration_def cfg_present_device_interfaces cfg_present_executors
      set_ethernet_bridge_def set_all_single)

lemma wf_assigned_configuration:
  assumes "wf_peer_configuration x c"
  shows "wf_peer_configuration x (assigned_configuration x b is peer c)"
proof -
  have "wf_peer_configuration x (present_device_interfaces is c)" if "wf_peer_configuration x c" for c
    unfolding present_device_interfaces_def using that
    by (induction "is" arbitrary: c) (simp_all add: wf_set_device_interface)
  moreover have "wf_peer_configuration x (present_executors es c)" if "wf_peer_configuration x c" for es c
    unfolding present_executors_def using that by (induction es arbitrary: c) (simp_all add: wf_set_executor)
  ultimately show ?thesis
    using assms by (simp add: assigned_configuration_def wf_set_ethernet_bridge)
qed

text \<open>assigning a peer to the cluster it is already assigned to changes nothing in its
  configuration: the second computation, from the stored result of the first, yields the same lists
  in the same order. (A deployment that exists is rolled out again each time one of its peers
  comes online.)\<close>

lemma reassigning_keeps_configuration:
  "assigned_configuration x b is peer (assigned_configuration x b is peer c) =
   assigned_configuration x b is peer c"
  by (simp add: assigned_configuration_eq set_all_idem)


definition sample_bridge :: NetworkInterfaceName where
  "sample_bridge = NetworkInterfaceName ''br-opendut''"

definition sample_interface :: "nat \<Rightarrow> NetworkInterfaceDescriptor" where
  "sample_interface n =
     \<lparr> ni_id = NetworkInterfaceId (word_of_nat n), ni_name = NetworkInterfaceName ''eth0'', ni_configuration = Ethernet \<rparr>"


end
