(* ===== verification/ClusterDeploy.thy ===== *)
theory ClusterDeploy
  imports AssignCluster
begin

text \<open>
  Rolling a cluster out (\<open>deploy_cluster\<close> of opendut-carl/src/manager/cluster_manager/mod.rs):
  which peer contributes which network interfaces, which port of the CAN server each member
  gets, and the assignment pushed to every member. The manager sits behind a mutex; its state is
  the port counter, kept beside the resource manager, the broker and the VPN server's world.
\<close>

section \<open>Options and state\<close>

record ClusterManagerOptions =
  can_server_port_range_start :: u16
  can_server_port_range_end :: u16
  bridge_name_default :: NetworkInterfaceName

record 'w cluster_world =
  cw_manager :: resource_manager
  cw_broker :: broker
  cw_vpn :: 'w
  can_server_port_counter :: u16

datatype DeployClusterError =
    ClusterConfigurationNotFound ClusterId
  | DeployPeerForDeviceNotFound DeviceId ClusterId ClusterName
  | DeployListClusterPeerStates ClusterId ListClusterPeerStatesError
  | DeployPersistence ClusterId PersistenceError
  | DetermineCanServerPort ClusterId string
  | DeployInternal ClusterId string
  | DeployPanic string

section \<open>Who contributes which interfaces (determine_member_interface_mapping)\<close>

datatype DetermineMemberInterfaceMappingError =
    PeerForDeviceNotFound DeviceId
  | MappingPanic string

text \<open>The closure of \<open>find_map\<close>: a peer answers when it has the device; the panic of
  \<open>interfaces_zipped_with_devices\<close> ends the search.\<close>

fun member_interfaces ::
    "DeviceId \<Rightarrow> PeerDescriptor list \<Rightarrow>
     DetermineMemberInterfaceMappingError + (PeerId \<times> NetworkInterfaceDescriptor list) option" where
  "member_interfaces device [] = Inr None"
| "member_interfaces device (peer # peers) =
     (case filter (\<lambda>d. dev_id d = device) (pd_devices peer) of
        [] \<Rightarrow> member_interfaces device peers
      | devices \<Rightarrow>
          (case interfaces_zipped_with_devices (pd_network peer) devices of
             None \<Rightarrow> Inl (MappingPanic ''Should always have a NetworkInterfaceDescriptor for device's network interface on a PeerDescriptor.'')
           | Some zipped \<Rightarrow> Inr (Some (pd_id peer, map fst zipped))))"

fun map_devices ::
    "PeerDescriptor list \<Rightarrow> DeviceId list \<Rightarrow> (PeerId \<times> NetworkInterfaceDescriptor list) list \<Rightarrow>
     DetermineMemberInterfaceMappingError + (PeerId \<times> NetworkInterfaceDescriptor list) list" where
  "map_devices peers [] result = Inr result"
| "map_devices peers (device # devices) result =
     (case member_interfaces device peers of
        Inl e \<Rightarrow> Inl e
      | Inr None \<Rightarrow> Inl (PeerForDeviceNotFound device)
      | Inr (Some (peer, interfaces)) \<Rightarrow>
          map_devices peers devices
            (AList.update peer (unwrap_or_default [] (map_of result peer) @ interfaces) result))"

definition determine_member_interface_mapping ::
    "DeviceId list \<Rightarrow> PeerDescriptor list \<Rightarrow> PeerId \<Rightarrow>
     DetermineMemberInterfaceMappingError + (PeerId \<times> NetworkInterfaceDescriptor list) list" where
  "determine_member_interface_mapping devices peers leader = map_devices peers devices [(leader, [])]"

section \<open>Ports of the CAN servers (determine_can_server_ports)\<close>

text \<open>A range \<open>a..b\<close> over \<open>u16\<close> is empty when \<open>b\<close> is not above \<open>a\<close>; additions wrap, as in a
  release build (a debug build panics instead).\<close>

definition u16_range :: "u16 \<Rightarrow> u16 \<Rightarrow> u16 list" where
  "u16_range a b = map word_of_nat [unat a ..< unat b]"

definition too_narrow_message :: "ext \<Rightarrow> ClusterId \<Rightarrow> ClusterManagerOptions \<Rightarrow> u16 \<Rightarrow> string" where
  "too_narrow_message x cluster_id opts n =
     ''Failure while creating cluster <'' @ cluster_id_display x cluster_id @ ''>. Port range ['' @
     show_nat (unat (can_server_port_range_start opts)) @ '', '' @ show_nat (unat (can_server_port_range_end opts)) @
     '') specified by 'can_server_port_range_start' and 'can_server_port_range_start' is too narrow '' @
     ''for the configured number of peers ('' @ show_nat (unat n) @ '')''"

definition determine_can_server_ports ::
    "ext \<Rightarrow> ClusterManagerOptions \<Rightarrow> PeerId list \<Rightarrow> ClusterId \<Rightarrow> (u16, DeployClusterError, Port list) run" where
  "determine_can_server_ports x opts members cluster_id counter =
     (if 2 ^ 16 \<le> length members
      then (counter, Inl (DetermineCanServerPort cluster_id ''out of range integral type conversion attempted''))
      else
        (let n = word_of_nat (length members) in
         if can_server_port_range_end opts \<le> can_server_port_range_start opts + n
         then (counter, Inl (DetermineCanServerPort cluster_id (too_narrow_message x cluster_id opts n)))
         else
           (let counter =
              (if can_server_port_range_end opts \<le> counter + n then can_server_port_range_start opts else counter)
            in (counter + n, Inr (map Port (u16_range counter (counter + n)))))))"

section \<open>The members' addresses\<close>

definition member_assignment ::
    "ext \<Rightarrow> env \<Rightarrow> ClusterId \<Rightarrow> resource_manager \<Rightarrow> PeerId \<times> Port \<Rightarrow> DeployClusterError + PeerClusterAssignment" where
  "member_assignment x E cluster_id m member =
     (case member of (peer_id, port) \<Rightarrow>
       (case manager_get E PeerConnectionStates peer_id m of
          Inr (Some (Online host)) \<Rightarrow>
            Inr \<lparr> pca_peer_id = peer_id, pca_vpn_address = host, pca_can_server_port = port \<rparr>
        | Inr (Some Offline) \<Rightarrow>
            Inl (DeployInternal cluster_id (''Peer <'' @ peer_id_display x peer_id @
              ''> which is used in a cluster, should have a PeerConnectionState of 'Online'.''))
        | Inr None \<Rightarrow>
            Inl (DeployInternal cluster_id (''Peer <'' @ peer_id_display x peer_id @
              ''> which is used in a cluster, should have a PeerConnectionState associated.''))
        | Inl e \<Rightarrow>
            Inl (DeployInternal cluster_id
              (''Error while accessing persistence to read PeerConnectionState of peer <'' @ peer_id_display x peer_id @ ''>''))))"

section \<open>Assigning all members\<close>

text \<open>Displays of the errors that end up in the cause of an internal error.\<close>

fun broker_error_message :: "ext \<Rightarrow> BrokerError \<Rightarrow> string" where
  "broker_error_message x (DownstreamSend m) = ''DownstreamSend Error: channel closed''"
| "broker_error_message x (BrokerPeerNotFound p) = ''PeerNotFound Error: '' @ peer_id_display x p"

fun assign_cluster_error_message :: "ext \<Rightarrow> AssignClusterError \<Rightarrow> string" where
  "assign_cluster_error_message x (AssignPeerNotFound p) =
     ''Assigning cluster for peer <'' @ peer_id_display x p @ ''> failed, because a peer with that ID does not exist!''"
| "assign_cluster_error_message x (AssignSendingToPeerFailed p e) =
     ''Sending PeerConfiguration with ClusterAssignment to peer <'' @ peer_id_display x p @ ''> failed: '' @
     broker_error_message x e"
| "assign_cluster_error_message x (AssignPersistence p e) =
     ''Error while persisting ClusterAssignment for peer <'' @ peer_id_display x p @ ''>.''"

definition assign_failure :: "ext \<Rightarrow> ClusterId \<Rightarrow> PeerId \<Rightarrow> AssignClusterError \<Rightarrow> DeployClusterError" where
  "assign_failure x cluster_id p e = DeployInternal cluster_id
     (''Failure while assigning cluster <'' @ cluster_id_display x cluster_id @ ''> to peer <'' @ peer_id_display x p @
      ''>. Cause: '' @ assign_cluster_error_message x e)"

definition assign_members ::
    "ext \<Rightarrow> env \<Rightarrow> ClusterManagerOptions \<Rightarrow> ClusterId \<Rightarrow> ClusterAssignment \<Rightarrow>
     (PeerId \<times> NetworkInterfaceDescriptor list) list \<Rightarrow> (resources \<times> broker, DeployClusterError, unit) run" where
  "assign_members x E opts cluster_id assignment members =
     run_list (\<lambda>(p, interfaces). map_run_err (assign_failure x cluster_id p)
       (assign_cluster x E p interfaces assignment (bridge_name_default opts))) members"

definition closing_context :: "PersistenceError \<Rightarrow> PersistenceError" where
  "closing_context = error_context ''Error when closing transaction while assigning peers to clusters''"

section \<open>deploy_cluster\<close>

definition on_manager ::
    "(resource_manager \<times> broker, 'e, 'a) run \<Rightarrow> ('w cluster_world, 'e, 'a) run" where
  "on_manager f cw =
     (case f (cw_manager cw, cw_broker cw) of ((m, b), r) \<Rightarrow> (cw\<lparr> cw_manager := m, cw_broker := b \<rparr>, r))"

definition on_vpn :: "('w, 'e, 'a) run \<Rightarrow> ('w cluster_world, 'e, 'a) run" where
  "on_vpn f cw = (case f (cw_vpn cw) of (w, r) \<Rightarrow> (cw\<lparr> cw_vpn := w \<rparr>, r))"

definition on_counter :: "(u16, 'e, 'a) run \<Rightarrow> ('w cluster_world, 'e, 'a) run" where
  "on_counter f cw = (case f (can_server_port_counter cw) of (c, r) \<Rightarrow> (cw\<lparr> can_server_port_counter := c \<rparr>, r))"

definition from_manager :: "(resource_manager \<Rightarrow> 'e + 'a) \<Rightarrow> ('w cluster_world, 'e, 'a) run" where
  "from_manager f cw = (cw, f (cw_manager cw))"

definition create_vpn_cluster :: "ext \<Rightarrow> 'w vpn \<Rightarrow> ClusterId \<Rightarrow> PeerId list \<Rightarrow> ('w, DeployClusterError, unit) run" where
  "create_vpn_cluster x vpn cluster_id members =
     (case vpn of
        VpnEnabled client \<Rightarrow>
          map_run_err (\<lambda>_. DeployInternal cluster_id
            (''Failure while creating cluster <'' @ cluster_id_display x cluster_id @ ''> in VPN service.''))
            (vpn_create_cluster client cluster_id members)
      | VpnOff \<Rightarrow> return_ok ())"

fun mapping_error :: "ClusterId \<Rightarrow> ClusterName \<Rightarrow> DetermineMemberInterfaceMappingError \<Rightarrow> DeployClusterError" where
  "mapping_error c name (PeerForDeviceNotFound d) = DeployPeerForDeviceNotFound d c name"
| "mapping_error c name (MappingPanic message) = DeployPanic message"

definition deploy_cluster ::
    "ext \<Rightarrow> env \<Rightarrow> ClusterManagerOptions \<Rightarrow> 'w vpn \<Rightarrow> ClusterId \<Rightarrow> ('w cluster_world, DeployClusterError, unit) run" where
  "deploy_cluster x E opts vpn cluster_id =
     and_then (from_manager (\<lambda>m. map_err (DeployPersistence cluster_id) (manager_get E ClusterConfigurations cluster_id m))) (\<lambda>found.
     and_then (lift_result (ok_or (ClusterConfigurationNotFound cluster_id) found)) (\<lambda>config.
     and_then (from_manager (\<lambda>m. map_err (DeployPersistence cluster_id) (manager_list E PeerDescriptors m))) (\<lambda>peers.
     and_then (lift_result (map_err (mapping_error cluster_id (cc_name config))
         (determine_member_interface_mapping (cc_devices config) (values_of peers) (cc_leader config)))) (\<lambda>mapping.
     and_then (on_vpn (create_vpn_cluster x vpn cluster_id (keys_of mapping))) (\<lambda>_.
     and_then (on_counter (determine_can_server_ports x opts (keys_of mapping) cluster_id)) (\<lambda>ports.
     and_then (from_manager (\<lambda>m. traverse (member_assignment x E cluster_id m) (zip (keys_of mapping) ports))) (\<lambda>assignments.
     on_manager (collapse (\<lambda>e. DeployPersistence cluster_id (closing_context e))
       (resources_mut_io E (assign_members x E opts cluster_id
         \<lparr> ca_id = cluster_id, ca_leader = cc_leader config, ca_assignments = assignments \<rparr> mapping))))))))))"

section \<open>The mapping, specified\<close>

text \<open>The first peer with the device owns it; it contributes the interfaces of its devices of that id.\<close>

definition owner :: "PeerDescriptor list \<Rightarrow> DeviceId \<Rightarrow> PeerDescriptor option" where
  "owner peers device = find (\<lambda>peer. \<exists>d\<in>set (pd_devices peer). dev_id d = device) peers"

definition interfaces_for :: "PeerDescriptor \<Rightarrow> DeviceId \<Rightarrow> NetworkInterfaceDescriptor list" where
  "interfaces_for peer device =
     map (\<lambda>d. the (find (\<lambda>i. ni_id i = dev_interface d) (pn_interfaces (pd_network peer))))
       (filter (\<lambda>d. dev_id d = device) (pd_devices peer))"

lemma interfaces_zipped_eq:
  "\<forall>d\<in>set ds. \<exists>i\<in>set (pn_interfaces n). ni_id i = dev_interface d \<Longrightarrow>
     interfaces_zipped_with_devices n ds =
       Some (map (\<lambda>d. (the (find (\<lambda>i. ni_id i = dev_interface d) (pn_interfaces n)), d)) ds)"
proof (induction ds)
  case (Cons d ds)
  then have "find (\<lambda>i. ni_id i = dev_interface d) (pn_interfaces n) \<noteq> None" by (auto simp: find_eq_None)
  with Cons show ?case by auto
qed simp

lemma member_interfaces_eq:
  assumes "\<forall>peer\<in>set peers. devices_have_interfaces peer"
  shows "member_interfaces device peers =
    Inr (map_option (\<lambda>peer. (pd_id peer, interfaces_for peer device)) (owner peers device))"
  using assms
proof (induction peers)
  case (Cons peer peers)
  let ?ds = "filter (\<lambda>d. dev_id d = device) (pd_devices peer)"
  note step = Cons
  show ?case
  proof (cases "?ds")
    case Nil
    then have "\<not> (\<exists>d\<in>set (pd_devices peer). dev_id d = device)" by (auto simp: filter_empty_conv)
    with Nil step show ?thesis by (simp add: owner_def)
  next
    case (Cons d ds)
    then have "d \<in> set ?ds" by simp
    then have has: "\<exists>d\<in>set (pd_devices peer). dev_id d = device" by auto
    have "\<forall>d\<in>set ?ds. \<exists>i\<in>set (pn_interfaces (pd_network peer)). ni_id i = dev_interface d"
      using step(2) by (auto simp: devices_have_interfaces_def)
    from interfaces_zipped_eq [OF this] show ?thesis
      using \<open>?ds = d # ds\<close> has by (simp add: owner_def interfaces_for_def o_def)
  qed
qed (simp add: owner_def)

definition contribution :: "PeerDescriptor list \<Rightarrow> DeviceId list \<Rightarrow> PeerId \<Rightarrow> NetworkInterfaceDescriptor list" where
  "contribution peers devices p =
     concat (map (\<lambda>d. interfaces_for (the (owner peers d)) d) (filter (\<lambda>d. pd_id (the (owner peers d)) = p) devices))"

lemma map_devices_found:
  assumes "\<forall>peer\<in>set peers. devices_have_interfaces peer" "\<forall>d\<in>set devices. owner peers d \<noteq> None" "hash_map result"
  shows "\<exists>result'. map_devices peers devices result = Inr result' \<and> hash_map result' \<and>
    (\<forall>p. map_of result' p =
       (if map_of result p \<noteq> None \<or> (\<exists>d\<in>set devices. pd_id (the (owner peers d)) = p)
        then Some (unwrap_or_default [] (map_of result p) @ contribution peers devices p) else None))"
  using assms(2,3)
proof (induction devices arbitrary: result)
  case Nil
  then show ?case by (auto simp: contribution_def)
next
  case (Cons d devices)
  obtain peer where peer: "owner peers d = Some peer" using Cons.prems(1) by auto
  let ?result = "AList.update (pd_id peer)
    (unwrap_or_default [] (map_of result (pd_id peer)) @ interfaces_for peer d) result"
  obtain result' where r: "map_devices peers devices ?result = Inr result'" "hash_map result'"
    and lookup: "\<And>p. map_of result' p =
       (if map_of ?result p \<noteq> None \<or> (\<exists>d\<in>set devices. pd_id (the (owner peers d)) = p)
        then Some (unwrap_or_default [] (map_of ?result p) @ contribution peers devices p) else None)"
    using Cons.IH [of ?result] Cons.prems by auto
  have "map_devices peers (d # devices) result = Inr result'"
    using r(1) peer by (simp add: member_interfaces_eq [OF assms(1)])
  moreover have "map_of result' p =
     (if map_of result p \<noteq> None \<or> (\<exists>d\<in>set (d # devices). pd_id (the (owner peers d)) = p)
      then Some (unwrap_or_default [] (map_of result p) @ contribution peers (d # devices) p) else None)" for p
    using peer unfolding lookup by (cases "p = pd_id peer") (auto simp: contribution_def)
  ultimately show ?case using r(2) by blast
qed

lemma map_devices_missing:
  assumes "\<forall>peer\<in>set peers. devices_have_interfaces peer" "\<exists>d\<in>set devices. owner peers d = None"
  shows "\<exists>d\<in>set devices. owner peers d = None \<and> map_devices peers devices result = Inl (PeerForDeviceNotFound d)"
  using assms(2)
proof (induction devices arbitrary: result)
  case (Cons d devices)
  then show ?case
    by (cases "owner peers d") (simp_all add: member_interfaces_eq [OF assms(1)])
qed simp

text \<open>C5: when every device of every peer names an interface of its peer, the mapping has the
  leader and the owner of each device of the cluster as its keys, once each, and gives every
  member the interfaces of its devices in the cluster, so the leader none if it has no
  device there; it fails exactly when some device has no peer, and names such a device.\<close>

theorem member_mapping_spec:
  assumes "\<forall>peer\<in>set peers. devices_have_interfaces peer"
  shows "case determine_member_interface_mapping devices peers leader of
      Inr mapping \<Rightarrow>
        distinct (keys_of mapping) \<and> (\<forall>d\<in>set devices. owner peers d \<noteq> None) \<and>
        set (keys_of mapping) = insert leader ((\<lambda>d. pd_id (the (owner peers d))) ` set devices) \<and>
        (\<forall>(p, interfaces)\<in>set mapping. interfaces = contribution peers devices p)
    | Inl e \<Rightarrow> \<exists>d\<in>set devices. owner peers d = None \<and> e = PeerForDeviceNotFound d"
proof (cases "\<forall>d\<in>set devices. owner peers d \<noteq> None")
  case True
  obtain mapping where m: "determine_member_interface_mapping devices peers leader = Inr mapping" "hash_map mapping"
    and lookup: "\<And>p. map_of mapping p =
       (if map_of [(leader, [])] p \<noteq> None \<or> (\<exists>d\<in>set devices. pd_id (the (owner peers d)) = p)
        then Some (unwrap_or_default [] (map_of [(leader, [])] p) @ contribution peers devices p) else None)"
    using map_devices_found [OF assms True, of "[(leader, [])]"]
    by (auto simp: determine_member_interface_mapping_def hash_map_def)
  have "p \<in> set (keys_of mapping) \<longleftrightarrow> p = leader \<or> (\<exists>d\<in>set devices. pd_id (the (owner peers d)) = p)" for p
  proof -
    have "p \<in> set (keys_of mapping) \<longleftrightarrow> map_of mapping p \<noteq> None" by (simp add: map_of_eq_None_iff)
    then show ?thesis using lookup [of p] by auto
  qed
  then have keys: "set (keys_of mapping) = insert leader ((\<lambda>d. pd_id (the (owner peers d))) ` set devices)"
    by (intro set_eqI) (simp only: insert_iff image_iff, blast)
  have "interfaces = contribution peers devices p" if "(p, interfaces) \<in> set mapping" for p interfaces
    using that m(2) lookup [of p] by (auto simp: set_hash_map split: if_splits)
  with m keys True show ?thesis by (auto simp: hash_map_def)
next
  case False
  then have "\<exists>d\<in>set devices. owner peers d = None" by auto
  from map_devices_missing [OF assms this] obtain d where "d \<in> set devices" "owner peers d = None"
    "determine_member_interface_mapping devices peers leader = Inl (PeerForDeviceNotFound d)"
    unfolding determine_member_interface_mapping_def by blast
  then show ?thesis by auto
qed

theorem member_mapping_spec_witness:
  "case determine_member_interface_mapping [DeviceId 10] [sample_peer 3 [sample_device 10]] (PeerId 4) of
      Inr mapping \<Rightarrow> set (keys_of mapping) = {PeerId 4, PeerId 3}
    | Inl e \<Rightarrow> False"
proof -
  have "\<forall>peer\<in>set [sample_peer 3 [sample_device 10]]. devices_have_interfaces peer"
    by (simp add: devices_have_interfaces_def sample_peer_def sample_device_def)
  from member_mapping_spec [OF this, of "[DeviceId 10]" "PeerId 4"] show ?thesis
    by (auto simp: owner_def sample_peer_def sample_device_def split: sum.splits)
qed

section \<open>The ports, specified\<close>

lemma unat_u16: "unat (w :: u16) < 65536"
  by (rule order_less_le_trans [OF unsigned_less]) simp

lemma u16_range_sum:
  fixes c :: u16
  assumes "unat c + n < 2 ^ 16"
  shows "unat (c + word_of_nat n) = unat c + n"
  using assms by (simp add: unat_word_ariths unat_of_nat)

lemma unat_u16_range: "map unat (u16_range a b) = [unat a ..< unat b]"
proof -
  have "unat (word_of_nat i :: u16) = i" if "i < unat b" for i
    using that unat_u16 [of b] by (simp add: unat_of_nat)
  then show ?thesis unfolding u16_range_def map_map by (intro map_idI) simp
qed

definition port_number :: "Port \<Rightarrow> nat" where
  "port_number p = unat (port_value p)"

lemma port_numbers: "map port_number (map Port (u16_range a b)) = [unat a ..< unat b]"
  using unat_u16_range [of a b] by (simp add: port_number_def o_def)

text \<open>The counter never leaves the range, when the range is usable.\<close>

definition usable_range :: "ClusterManagerOptions \<Rightarrow> u16 \<Rightarrow> bool" where
  "usable_range opts counter \<longleftrightarrow>
     can_server_port_range_start opts \<le> counter \<and> counter < can_server_port_range_end opts"

lemma can_server_ports_ok:
  assumes "usable_range opts counter"
    and "unat (can_server_port_range_start opts) + length members < unat (can_server_port_range_end opts)"
    and "unat (can_server_port_range_end opts) + length members \<le> 2 ^ 16"
  shows "\<exists>first counter'. determine_can_server_ports x opts members cluster_id counter =
      (counter', Inr (map Port (u16_range first counter'))) \<and>
    map port_number (map Port (u16_range first counter')) = [unat first ..< unat first + length members] \<and>
    can_server_port_range_start opts \<le> first \<and> unat counter' = unat first + length members \<and>
    usable_range opts counter'"
proof -
  let ?s = "can_server_port_range_start opts" and ?e = "can_server_port_range_end opts"
  let ?n = "length members"
  have bounds: "unat ?s \<le> unat counter" "unat counter < unat ?e"
    using assms(1) by (simp_all add: usable_range_def word_le_nat_alt word_less_nat_alt)
  have small: "?n < 2 ^ 16" using assms(2) unat_u16 [of ?e] by simp
  have sn: "unat (?s + word_of_nat ?n) = unat ?s + ?n"
    using assms(2) unat_u16 [of ?e] by (intro u16_range_sum) simp
  have cn: "unat (counter + word_of_nat ?n) = unat counter + ?n"
    using bounds assms(3) by (intro u16_range_sum) simp
  let ?first = "if ?e \<le> counter + word_of_nat ?n then ?s else counter"
  have fn: "unat (?first + word_of_nat ?n) = unat ?first + ?n" by (simp add: sn cn)
  have "unat ?first + ?n < unat ?e"
    using assms(2) cn by (auto simp: word_le_nat_alt)
  moreover have "?s \<le> ?first" using assms(1) by (simp add: usable_range_def)
  moreover have "determine_can_server_ports x opts members cluster_id counter =
      (?first + word_of_nat ?n, Inr (map Port (u16_range ?first (?first + word_of_nat ?n))))"
    using small assms(2) by (simp add: determine_can_server_ports_def Let_def word_le_nat_alt sn)
  ultimately show ?thesis
    using fn port_numbers [of ?first "?first + word_of_nat ?n"] assms(1)
    by (intro exI [of _ ?first] exI [of _ "?first + word_of_nat ?n"])
      (auto simp: usable_range_def word_le_nat_alt word_less_nat_alt)
qed

text \<open>C4: for a cluster of \<open>n\<close> peers with \<open>start + n < end\<close>, as long as \<open>end + n\<close> does not exceed the
  16 bits of a port, the members get \<open>n\<close> consecutive ports, all in \<open>[start, end - 1)\<close>, so no port
  twice; the counter afterwards is the end of these ports and still lies in \<open>[start, end)\<close>, so the
  same holds for the next cluster.\<close>

theorem can_server_ports_in_range:
  assumes "usable_range opts counter"
    and "unat (can_server_port_range_start opts) + length members < unat (can_server_port_range_end opts)"
    and "unat (can_server_port_range_end opts) + length members \<le> 2 ^ 16"
  shows "\<exists>first counter'. determine_can_server_ports x opts members cluster_id counter =
      (counter', Inr (map Port (u16_range first counter'))) \<and>
    map port_number (map Port (u16_range first counter')) = [unat first ..< unat first + length members] \<and>
    can_server_port_range_start opts \<le> first \<and> unat counter' = unat first + length members \<and>
    usable_range opts counter'"
  using assms by (rule can_server_ports_ok)

definition sample_options :: ClusterManagerOptions where
  "sample_options = \<lparr> can_server_port_range_start = 10000, can_server_port_range_end = 20000,
     bridge_name_default = sample_bridge \<rparr>"

theorem can_server_ports_in_range_witness:
  "\<exists>first counter'. determine_can_server_ports decimal_ext sample_options [PeerId 3, PeerId 4] (ClusterId 5) 19999 =
      (counter', Inr (map Port (u16_range first counter'))) \<and> usable_range sample_options counter'"
  using can_server_ports_in_range [of sample_options 19999 "[PeerId 3, PeerId 4]" decimal_ext "ClusterId 5"]
  by (auto simp: usable_range_def sample_options_def)



end
