(* ===== verification/DeployEffects.thy ===== *)
theory DeployEffects
  imports ClusterDeploy
begin

text \<open>
  What rolling a cluster out does: it writes no table but the two configuration tables, and when
  it succeeds every member has the assignment stored and sent.
\<close>

section \<open>Only the configurations are written\<close>

definition only_configurations :: "tables \<Rightarrow> tables \<Rightarrow> bool" where
  "only_configurations t t' \<longleftrightarrow>
     t_cluster_configurations t' = t_cluster_configurations t \<and>
     t_cluster_deployments t' = t_cluster_deployments t \<and>
     t_peer_connection_states t' = t_peer_connection_states t \<and>
     t_peer_descriptors t' = t_peer_descriptors t \<and>
     (hash_map (t_old_peer_configurations t) \<longrightarrow> hash_map (t_old_peer_configurations t')) \<and>
     (hash_map (t_peer_configurations t) \<longrightarrow> hash_map (t_peer_configurations t'))"

lemma only_configurations_refl [simp, intro]: "only_configurations t t"
  by (simp add: only_configurations_def)

lemma only_configurations_trans [trans]:
  "only_configurations t u \<Longrightarrow> only_configurations u v \<Longrightarrow> only_configurations t v"
  by (simp add: only_configurations_def)

lemma only_configurations_wf: "only_configurations t t' \<Longrightarrow> wf_tables t \<Longrightarrow> wf_tables t'"
  by (simp add: only_configurations_def wf_tables_def)

lemma only_configurations_exclusive: "only_configurations t t' \<Longrightarrow> exclusive t \<longleftrightarrow> exclusive t'"
  by (simp add: only_configurations_def exclusive_def blocked_in_def deployed_cluster_def)

lemma only_configurations_persistent:
  "only_configurations t t' \<Longrightarrow> only_configurations t (persistent_part t' t)"
  by (simp add: only_configurations_def persistent_part_def)

lemma insert_old_configuration:
  "resources_insert E OldPeerConfigurations p v s = (s', r) \<Longrightarrow> only_configurations (r_tables s) (r_tables s')"
  by (auto simp: resources_insert_def kind_defs only_configurations_def split: option.splits)

lemma insert_peer_configuration:
  "resources_insert E PeerConfigurations p v s = (s', r) \<Longrightarrow> only_configurations (r_tables s) (r_tables s')"
  by (auto simp: resources_insert_def kind_defs only_configurations_def split: option.splits)

text \<open>A run keeps a relation when it relates each state to the state the run ends in, however it ends.\<close>

definition keeps :: "('s \<Rightarrow> 's \<Rightarrow> bool) \<Rightarrow> ('s, 'e, 'a) run \<Rightarrow> bool" where
  "keeps R f \<longleftrightarrow> (\<forall>s. R s (fst (f s)))"

lemma keeps_same:
  assumes "reflp R"
  shows "keeps R (return_ok a)" "keeps R (fail_with e)" "keeps R (lift_result r)"
  using assms by (simp_all add: keeps_def run_defs reflp_def)

lemma keeps_map_run_err: "keeps R f \<Longrightarrow> keeps R (map_run_err g f)"
  by (simp add: keeps_def map_run_err_def case_prod_beta)

lemma keeps_and_then:
  assumes "transp R" "keeps R f" "\<And>a. keeps R (g a)"
  shows "keeps R (and_then f g)"
  unfolding keeps_def
proof
  fix s
  obtain s' r where run: "f s = (s', r)" by (metis surj_pair)
  with assms(2) have "R s s'" by (metis keeps_def fst_conv)
  with run assms(1,3) show "R s (fst (and_then f g s))"
    by (cases r) (auto simp: and_then_def keeps_def dest: transpD)
qed

lemma keeps_run_list:
  assumes "reflp R" "transp R" "\<And>x. keeps R (f x)"
  shows "keeps R (run_list f xs)"
  by (induction xs) (simp_all add: assms keeps_same keeps_and_then)

text \<open>The relation, on the two states it is used for.\<close>

definition configurations_only :: "resources \<times> 'b \<Rightarrow> resources \<times> 'b \<Rightarrow> bool" where
  "configurations_only s s' \<longleftrightarrow> only_configurations (r_tables (fst s)) (r_tables (fst s'))"

definition world_configurations_only :: "'w cluster_world \<Rightarrow> 'w cluster_world \<Rightarrow> bool" where
  "world_configurations_only cw cw' \<longleftrightarrow>
     only_configurations (rm_tables (cw_manager cw)) (rm_tables (cw_manager cw'))"

lemma configurations_only_order: "reflp configurations_only" "transp configurations_only"
  "reflp world_configurations_only" "transp world_configurations_only"
  by (auto simp: configurations_only_def world_configurations_only_def reflp_def transp_def
      intro: only_configurations_trans)

lemmas keeps_rules = keeps_and_then keeps_map_run_err keeps_same keeps_run_list configurations_only_order

lemma keeps_resource_accesses:
  "keeps configurations_only (on_fst (resources_insert E OldPeerConfigurations p v))"
  "keeps configurations_only (on_fst (resources_insert E PeerConfigurations p w))"
  "keeps configurations_only (on_fst (read_resources f))"
  "keeps configurations_only (on_snd g)"
  by (auto simp: keeps_def configurations_only_def on_fst_def on_snd_def read_resources_def
      dest: insert_old_configuration insert_peer_configuration split: prod.splits)

lemma keeps_assign_cluster: "keeps configurations_only (assign_cluster x E p is a bridge)"
  unfolding assign_cluster_def Let_def
  by (intro keeps_rules keeps_resource_accesses)

lemma keeps_assign_members: "keeps configurations_only (assign_members x E opts c a members)"
  unfolding assign_members_def by (auto intro!: keeps_rules keeps_assign_cluster split: prod.split)

lemma keeps_from_manager: "keeps world_configurations_only (from_manager f)"
  "keeps world_configurations_only (on_vpn g)" "keeps world_configurations_only (on_counter h)"
  by (auto simp: keeps_def world_configurations_only_def from_manager_def on_vpn_def on_counter_def split: prod.split)

lemma keeps_transaction:
  assumes "keeps configurations_only code"
  shows "keeps world_configurations_only (on_manager (collapse f (resources_mut_io E code)))"
  unfolding keeps_def
proof
  fix cw :: "'w cluster_world"
  obtain s w r where run: "code (\<lparr> r_tables = rm_tables (cw_manager cw), r_events = no_events \<rparr>, cw_broker cw) = ((s, w), r)"
    by (metis surj_pair)
  with assms have "only_configurations (rm_tables (cw_manager cw)) (r_tables s)"
    unfolding keeps_def configurations_only_def
    by (metis fst_conv resources.select_convs(1))
  with run show "world_configurations_only cw (fst (on_manager (collapse f (resources_mut_io E code)) cw))"
    by (auto simp: on_manager_def collapse_def resources_mut_io_def world_configurations_only_def
        only_configurations_persistent split: option.split sum.split)
qed

text \<open>However a roll-out ends, the tables of clusters, deployments, peers and connections stay.\<close>

lemma deploy_cluster_frame: "keeps world_configurations_only (deploy_cluster x E opts vpn c)"
  unfolding deploy_cluster_def
  by (intro keeps_rules keeps_from_manager keeps_transaction keeps_assign_members)

section \<open>What a successful roll-out did\<close>

lemma on_fst_iff: "on_fst f (s, w) = ((s', w'), r) \<longleftrightarrow> w' = w \<and> f s = (s', r)"
  by (auto simp: on_fst_def split: prod.split)

lemma on_snd_iff: "on_snd f (s, w) = ((s', w'), r) \<longleftrightarrow> s' = s \<and> f w = (w', r)"
  by (auto simp: on_snd_def split: prod.split)

lemma read_resources_iff: "read_resources f s = (s', r) \<longleftrightarrow> s' = s \<and> f (r_tables s) = r"
  by (auto simp: read_resources_def)

lemmas world_iffs = run_iffs split_paired_Ex on_fst_iff on_snd_iff read_resources_iff ok_or_Inr_iff

lemma assign_cluster_ok:
  assumes "fair E" "assign_cluster x E p is a bridge (s, b) = ((s', b'), Inr ())"
  obtains peer where "map_of (t_peer_descriptors (r_tables s)) p = Some peer"
    "t_old_peer_configurations (r_tables s') =
       AList.update p \<lparr> opc_cluster_assignment = Some a \<rparr> (t_old_peer_configurations (r_tables s))"
    "t_peer_configurations (r_tables s') = AList.update p (assigned_configuration x bridge is peer
       (unwrap_or_default peer_configuration_default (map_of (t_peer_configurations (r_tables s)) p)))
       (t_peer_configurations (r_tables s))"
    "send_to_peer p (ApplyPeerConfiguration (old_configuration_to_proto x \<lparr> opc_cluster_assignment = Some a \<rparr>)
       (configuration_to_proto x (assigned_configuration x bridge is peer
         (unwrap_or_default peer_configuration_default (map_of (t_peer_configurations (r_tables s)) p))))) b = (b', Inr ())"
  using assms
  by (auto simp: assign_cluster_def world_iffs Let_def resources_insert_def kind_defs)

text \<open>What was sent to a peer on its current stream; sending only ever adds to it.\<close>

definition received :: "broker \<Rightarrow> PeerId \<Rightarrow> Message list" where
  "received b p =
     (case map_of (b_peers b) p of
        None \<Rightarrow> []
      | Some peer \<Rightarrow>
          (if pm_downstream peer < length (b_streams b) then s_sent (b_streams b ! pm_downstream peer) else []))"

definition grows :: "broker \<Rightarrow> broker \<Rightarrow> bool" where
  "grows b b' \<longleftrightarrow> b_peers b' = b_peers b \<and> length (b_streams b') = length (b_streams b) \<and>
     (\<forall>k<length (b_streams b). set (s_sent (b_streams b ! k)) \<subseteq> set (s_sent (b_streams b' ! k)))"

lemma grows_refl [simp, intro]: "grows b b"
  by (simp add: grows_def)

lemma grows_trans: "grows b c \<Longrightarrow> grows c d \<Longrightarrow> grows b d"
  unfolding grows_def by (metis subset_trans)

lemma received_mono: "grows b b' \<Longrightarrow> set (received b p) \<subseteq> set (received b' p)"
  by (auto simp: grows_def received_def split: option.split)

lemma send_to_peer_ok:
  assumes "send_to_peer p message b = (b', Inr u)"
  shows "grows b b' \<and> message \<in> set (received b' p)"
  using assms
  by (auto simp: send_to_peer_def map_run_err_def channel_send_def grows_def received_def nth_list_update
      split: option.splits if_splits)

definition assigned ::
    "ext \<Rightarrow> ClusterManagerOptions \<Rightarrow> ClusterAssignment \<Rightarrow> tables \<Rightarrow> tables \<Rightarrow> broker \<Rightarrow> PeerId \<Rightarrow>
     NetworkInterfaceDescriptor list \<Rightarrow> bool" where
  "assigned x opts a t t' b p is \<longleftrightarrow>
     (\<exists>peer conf. map_of (t_peer_descriptors t) p = Some peer \<and>
        conf = assigned_configuration x (bridge_name_default opts) is peer
          (unwrap_or_default peer_configuration_default (map_of (t_peer_configurations t) p)) \<and>
        map_of (t_peer_configurations t') p = Some conf \<and>
        map_of (t_old_peer_configurations t') p = Some \<lparr> opc_cluster_assignment = Some a \<rparr> \<and>
        ApplyPeerConfiguration (old_configuration_to_proto x \<lparr> opc_cluster_assignment = Some a \<rparr>)
          (configuration_to_proto x conf) \<in> set (received b p))"

lemma assign_members_ok:
  assumes "fair E" "distinct (keys_of members)"
    and "assign_members x E opts c a members (s, b) = ((s', b'), Inr ())"
  shows "grows b b' \<and> (\<forall>(p, is)\<in>set members. assigned x opts a (r_tables s) (r_tables s') b' p is) \<and>
    (\<forall>p. p \<notin> set (keys_of members) \<longrightarrow>
       map_of (t_peer_configurations (r_tables s')) p = map_of (t_peer_configurations (r_tables s)) p \<and>
       map_of (t_old_peer_configurations (r_tables s')) p = map_of (t_old_peer_configurations (r_tables s)) p)"
  using assms(2,3)
proof (induction members arbitrary: s b)
  case Nil
  then show ?case by (simp add: assign_members_def return_ok_def)
next
  case (Cons m members)
  obtain q js where m: "m = (q, js)" by (cases m)
  obtain s1 b1 where first: "assign_cluster x E q js a (bridge_name_default opts) (s, b) = ((s1, b1), Inr ())"
    and rest: "assign_members x E opts c a members (s1, b1) = ((s', b'), Inr ())"
    using Cons.prems(2) m by (auto simp: assign_members_def world_iffs)
  obtain peer where peer: "map_of (t_peer_descriptors (r_tables s)) q = Some peer"
    and old: "t_old_peer_configurations (r_tables s1) =
       AList.update q \<lparr> opc_cluster_assignment = Some a \<rparr> (t_old_peer_configurations (r_tables s))"
    and new: "t_peer_configurations (r_tables s1) = AList.update q (assigned_configuration x (bridge_name_default opts) js peer
       (unwrap_or_default peer_configuration_default (map_of (t_peer_configurations (r_tables s)) q)))
       (t_peer_configurations (r_tables s))"
    and sent: "send_to_peer q (ApplyPeerConfiguration (old_configuration_to_proto x \<lparr> opc_cluster_assignment = Some a \<rparr>)
       (configuration_to_proto x (assigned_configuration x (bridge_name_default opts) js peer
         (unwrap_or_default peer_configuration_default (map_of (t_peer_configurations (r_tables s)) q))))) b = (b1, Inr ())"
    by (rule assign_cluster_ok [OF assms(1) first])
  have peers1: "t_peer_descriptors (r_tables s1) = t_peer_descriptors (r_tables s)"
    using keeps_assign_cluster first unfolding keeps_def configurations_only_def only_configurations_def
    by (metis fst_conv)
  have q: "q \<notin> set (keys_of members)" and dist: "distinct (keys_of members)" using Cons.prems(1) m by auto
  have IH: "grows b1 b'" "\<And>p is. (p, is) \<in> set members \<Longrightarrow> assigned x opts a (r_tables s1) (r_tables s') b' p is"
    "\<And>p. p \<notin> set (keys_of members) \<Longrightarrow>
       map_of (t_peer_configurations (r_tables s')) p = map_of (t_peer_configurations (r_tables s1)) p \<and>
       map_of (t_old_peer_configurations (r_tables s')) p = map_of (t_old_peer_configurations (r_tables s1)) p"
    using Cons.IH [OF dist rest] by auto
  have "assigned x opts a (r_tables s) (r_tables s') b' q js"
    using peer old new IH(3) [OF q] send_to_peer_ok [OF sent] received_mono [OF IH(1), of q]
    by (auto simp: assigned_def)
  moreover have "assigned x opts a (r_tables s) (r_tables s') b' p is" if "(p, is) \<in> set members" for p "is"
  proof -
    have "p \<noteq> q" using q that by force
    then have "map_of (t_peer_configurations (r_tables s1)) p = map_of (t_peer_configurations (r_tables s)) p"
      using new by simp
    with IH(2) [OF that] show ?thesis by (simp add: assigned_def peers1)
  qed
  moreover have "grows b b'" using send_to_peer_ok [OF sent] IH(1) grows_trans by blast
  ultimately show ?case using IH(3) old new by (simp add: m) fastforce
qed

lemma member_assignments:
  assumes "fair E" "traverse (member_assignment x E c m) members = Inr assignments"
  shows "map pca_peer_id assignments = map fst members \<and> map pca_can_server_port assignments = map snd members \<and>
    (\<forall>a\<in>set assignments. map_of (t_peer_connection_states (rm_tables m)) (pca_peer_id a) = Some (Online (pca_vpn_address a)))"
proof -
  have one: "pca_peer_id a = fst pp \<and> pca_can_server_port a = snd pp \<and>
      map_of (t_peer_connection_states (rm_tables m)) (pca_peer_id a) = Some (Online (pca_vpn_address a))"
    if "member_assignment x E c m pp = Inr a" for pp a
    using that assms(1) by (cases pp)
      (auto simp: member_assignment_def manager_get_def kind_defs split: option.splits PeerConnectionState.splits)
  from assms(2) have all2: "list_all2 (\<lambda>pp a. member_assignment x E c m pp = Inr a) members assignments"
    by (simp add: traverse_eq_Inr_iff)
  then show ?thesis
    by (induction rule: list_all2_induct) (use one in fastforce)+
qed

lemma length_mapping:
  "map_devices peers devices result = Inr mapping \<Longrightarrow> length mapping \<le> length result + length devices"
proof (induction devices arbitrary: result)
  case (Cons d devices)
  have "length (AList.update p v xs) \<le> Suc (length xs)" for p v and xs :: "(PeerId \<times> NetworkInterfaceDescriptor list) list"
    by (induction xs) auto
  with Cons show ?case by (force split: sum.splits option.splits intro: order_trans)
qed simp

lemma hash_map_mapping: "map_devices peers devices result = Inr mapping \<Longrightarrow> hash_map result \<Longrightarrow> hash_map mapping"
  by (induction devices arbitrary: result) (auto split: sum.splits option.splits)

lemma from_manager_iff: "from_manager f cw = (cw', r) \<longleftrightarrow> cw' = cw \<and> f (cw_manager cw) = r"
  by (auto simp: from_manager_def)

lemma on_vpn_iff: "on_vpn f cw = (cw', r) \<longleftrightarrow> (\<exists>w. cw' = cw\<lparr> cw_vpn := w \<rparr> \<and> f (cw_vpn cw) = (w, r))"
  by (auto simp: on_vpn_def split: prod.split)

lemma on_counter_iff:
  "on_counter f cw = (cw', r) \<longleftrightarrow>
     (\<exists>n. cw' = cw\<lparr> can_server_port_counter := n \<rparr> \<and> f (can_server_port_counter cw) = (n, r))"
  by (auto simp: on_counter_def split: prod.split)

lemma on_manager_iff:
  "on_manager f cw = (cw', r) \<longleftrightarrow>
     (\<exists>m b. cw' = cw\<lparr> cw_manager := m, cw_broker := b \<rparr> \<and> f (cw_manager cw, cw_broker cw) = ((m, b), r))"
  by (auto simp: on_manager_def split: prod.split)

lemmas cluster_iffs = run_iffs from_manager_iff on_vpn_iff on_counter_iff on_manager_iff ok_or_Inr_iff map_err_Inr_iff

lemma transaction_Inr:
  assumes "fair E" "collapse f (resources_mut_io E code) (m, b) = ((m', b'), Inr u)"
  obtains s where "code (\<lparr> r_tables = rm_tables m, r_events = no_events \<rparr>, b) = ((s, b'), Inr u)"
    "rm_tables m' = r_tables s"
  using assms by (auto simp: collapse_def resources_mut_io_fair split: prod.splits sum.splits)

lemma deploy_cluster_ok:
  assumes "fair E" "deploy_cluster x E opts vpn c cw = (cw', Inr ())"
    and "map_of (t_cluster_configurations (rm_tables (cw_manager cw))) c = Some config"
  obtains mapping ports assignments s where
    "determine_member_interface_mapping (cc_devices config)
       (values_of (t_peer_descriptors (rm_tables (cw_manager cw)))) (cc_leader config) = Inr mapping"
    "create_vpn_cluster x vpn c (keys_of mapping) (cw_vpn cw) = (cw_vpn cw', Inr ())"
    "determine_can_server_ports x opts (keys_of mapping) c (can_server_port_counter cw) =
       (can_server_port_counter cw', Inr ports)"
    "traverse (member_assignment x E c (cw_manager cw)) (zip (keys_of mapping) ports) = Inr assignments"
    "assign_members x E opts c \<lparr> ca_id = c, ca_leader = cc_leader config, ca_assignments = assignments \<rparr> mapping
       (\<lparr> r_tables = rm_tables (cw_manager cw), r_events = no_events \<rparr>, cw_broker cw) = ((s, cw_broker cw'), Inr ())"
    "rm_tables (cw_manager cw') = r_tables s"
proof -
  have found: "manager_get E ClusterConfigurations c (cw_manager cw) = Inr (Some config)"
    "manager_list E PeerDescriptors (cw_manager cw) = Inr (t_peer_descriptors (rm_tables (cw_manager cw)))"
    using assms(1,3) by (simp_all add: manager_get_def manager_list_def kind_defs)
  obtain mapping w n ports assignments m b where
    steps: "determine_member_interface_mapping (cc_devices config)
       (values_of (t_peer_descriptors (rm_tables (cw_manager cw)))) (cc_leader config) = Inr mapping"
    "create_vpn_cluster x vpn c (keys_of mapping) (cw_vpn cw) = (w, Inr ())"
    "determine_can_server_ports x opts (keys_of mapping) c (can_server_port_counter cw) = (n, Inr ports)"
    "traverse (member_assignment x E c (cw_manager cw)) (zip (keys_of mapping) ports) = Inr assignments"
    and last: "collapse (\<lambda>e. DeployPersistence c (closing_context e))
       (resources_mut_io E (assign_members x E opts c
         \<lparr> ca_id = c, ca_leader = cc_leader config, ca_assignments = assignments \<rparr> mapping))
       (cw_manager cw, cw_broker cw) = ((m, b), Inr ())"
    and cw': "cw' = cw\<lparr> cw_vpn := w, can_server_port_counter := n, cw_manager := m, cw_broker := b \<rparr>"
    using assms(2) by (auto simp: deploy_cluster_def cluster_iffs found)
  obtain s where "assign_members x E opts c \<lparr> ca_id = c, ca_leader = cc_leader config, ca_assignments = assignments \<rparr> mapping
       (\<lparr> r_tables = rm_tables (cw_manager cw), r_events = no_events \<rparr>, cw_broker cw) = ((s, b), Inr ())"
    "rm_tables m = r_tables s"
    by (rule transaction_Inr [OF assms(1) last])
  with steps cw' show thesis by (intro that [of mapping ports assignments s]) simp_all
qed

lemma distinct_ports: "distinct (map Port (u16_range a b))"
proof -
  have "distinct (map port_number (map Port (u16_range a b)))" by (simp only: port_numbers distinct_upt)
  then show ?thesis by (simp only: distinct_map)
qed

lemma ports_granted:
  assumes "usable_range opts counter" "unat (can_server_port_range_end opts) + length members \<le> 2 ^ 16"
    and "determine_can_server_ports x opts members c counter = (counter', Inr ports)"
  shows "unat (can_server_port_range_start opts) + length members < unat (can_server_port_range_end opts)"
proof -
  let ?s = "can_server_port_range_start opts" and ?e = "can_server_port_range_end opts"
  have "unat ?s < unat ?e" using assms(1) by (simp add: usable_range_def word_le_nat_alt word_less_nat_alt)
  then have "unat (?s + word_of_nat (length members)) = unat ?s + length members"
    using assms(2) by (intro u16_range_sum) simp
  with assms(3) show ?thesis
    by (simp add: determine_can_server_ports_def Let_def word_le_nat_alt not_le split: if_splits)
qed

lemma deploy_cluster_result:
  assumes "fair E" "usable_range opts (can_server_port_counter cw)"
    and config: "map_of (t_cluster_configurations (rm_tables (cw_manager cw))) c = Some config"
    and wide: "unat (can_server_port_range_end opts) + Suc (length (cc_devices config)) \<le> 2 ^ 16"
    and run: "deploy_cluster x E opts vpn c cw = (cw', Inr ())"
  shows "\<exists>mapping assignments.
    determine_member_interface_mapping (cc_devices config)
      (values_of (t_peer_descriptors (rm_tables (cw_manager cw)))) (cc_leader config) = Inr mapping \<and>
    create_vpn_cluster x vpn c (keys_of mapping) (cw_vpn cw) = (cw_vpn cw', Inr ()) \<and>
    map pca_peer_id assignments = keys_of mapping \<and> distinct (map pca_can_server_port assignments) \<and>
    (\<forall>a\<in>set assignments. map_of (t_peer_connection_states (rm_tables (cw_manager cw))) (pca_peer_id a) =
       Some (Online (pca_vpn_address a))) \<and>
    (\<forall>(p, is)\<in>set mapping. assigned x opts
       \<lparr> ca_id = c, ca_leader = cc_leader config, ca_assignments = assignments \<rparr>
       (rm_tables (cw_manager cw)) (rm_tables (cw_manager cw')) (cw_broker cw') p is) \<and>
    usable_range opts (can_server_port_counter cw')"
proof -
  obtain mapping ports assignments s where
    mapping: "determine_member_interface_mapping (cc_devices config)
      (values_of (t_peer_descriptors (rm_tables (cw_manager cw)))) (cc_leader config) = Inr mapping"
    and vpn: "create_vpn_cluster x vpn c (keys_of mapping) (cw_vpn cw) = (cw_vpn cw', Inr ())"
    and ports: "determine_can_server_ports x opts (keys_of mapping) c (can_server_port_counter cw) =
      (can_server_port_counter cw', Inr ports)"
    and assignments: "traverse (member_assignment x E c (cw_manager cw)) (zip (keys_of mapping) ports) = Inr assignments"
    and members: "assign_members x E opts c \<lparr> ca_id = c, ca_leader = cc_leader config, ca_assignments = assignments \<rparr> mapping
       (\<lparr> r_tables = rm_tables (cw_manager cw), r_events = no_events \<rparr>, cw_broker cw) = ((s, cw_broker cw'), Inr ())"
    and tables: "rm_tables (cw_manager cw') = r_tables s"
    by (rule deploy_cluster_ok [OF assms(1) run config])
  have distinct: "distinct (keys_of mapping)"
    using hash_map_mapping [OF mapping [unfolded determine_member_interface_mapping_def]] by (simp add: hash_map_def)
  have "length (keys_of mapping) \<le> Suc (length (cc_devices config))"
    using length_mapping [OF mapping [unfolded determine_member_interface_mapping_def]] by simp
  then have fits: "unat (can_server_port_range_end opts) + length (keys_of mapping) \<le> 2 ^ 16" using wide by simp
  have narrow: "unat (can_server_port_range_start opts) + length (keys_of mapping) < unat (can_server_port_range_end opts)"
    by (rule ports_granted [OF assms(2) fits ports])
  obtain first where ps: "ports = map Port (u16_range first (can_server_port_counter cw'))"
    and len: "length ports = length (keys_of mapping)" and usable: "usable_range opts (can_server_port_counter cw')"
    using can_server_ports_ok [OF assms(2) narrow fits, of x c] ports
    by (metis Pair_inject sum.inject(2) length_map length_upt add_diff_cancel_left')
  have as: "map pca_peer_id assignments = keys_of mapping" "map pca_can_server_port assignments = ports"
    "\<forall>a\<in>set assignments. map_of (t_peer_connection_states (rm_tables (cw_manager cw))) (pca_peer_id a) =
       Some (Online (pca_vpn_address a))"
    using member_assignments [OF assms(1) assignments] len by simp_all
  have "\<forall>(p, is)\<in>set mapping. assigned x opts
       \<lparr> ca_id = c, ca_leader = cc_leader config, ca_assignments = assignments \<rparr>
       (rm_tables (cw_manager cw)) (rm_tables (cw_manager cw')) (cw_broker cw') p is"
    using assign_members_ok [OF assms(1) distinct members] by (simp add: tables)
  with mapping vpn as usable distinct_ports [of first "can_server_port_counter cw'"] ps show ?thesis by auto
qed

text \<open>C2: a successful roll-out of a cluster, with a usable port range, made every member (the
  leader and the owners of the cluster's devices) known to the VPN server, computed one
  assignment that lists each member once, with the host it is connected from and a port no other
  member has, and for each member stored this assignment and the member's new
  configuration and sent exactly these on the member's stream.\<close>

theorem deploy_cluster_assigns_members:
  assumes "fair E" "usable_range opts (can_server_port_counter cw)"
    and config: "map_of (t_cluster_configurations (rm_tables (cw_manager cw))) c = Some config"
    and wide: "unat (can_server_port_range_end opts) + Suc (length (cc_devices config)) \<le> 2 ^ 16"
    and run: "deploy_cluster x E opts vpn c cw = (cw', Inr ())"
  shows "\<exists>mapping assignments.
    determine_member_interface_mapping (cc_devices config)
      (values_of (t_peer_descriptors (rm_tables (cw_manager cw)))) (cc_leader config) = Inr mapping \<and>
    create_vpn_cluster x vpn c (keys_of mapping) (cw_vpn cw) = (cw_vpn cw', Inr ()) \<and>
    map pca_peer_id assignments = keys_of mapping \<and> distinct (map pca_can_server_port assignments) \<and>
    (\<forall>a\<in>set assignments. map_of (t_peer_connection_states (rm_tables (cw_manager cw))) (pca_peer_id a) =
       Some (Online (pca_vpn_address a))) \<and>
    (\<forall>(p, is)\<in>set mapping. assigned x opts
       \<lparr> ca_id = c, ca_leader = cc_leader config, ca_assignments = assignments \<rparr>
       (rm_tables (cw_manager cw)) (rm_tables (cw_manager cw')) (cw_broker cw') p is) \<and>
    usable_range opts (can_server_port_counter cw')"
  by (rule deploy_cluster_result [OF assms])

definition sample_world :: "unit cluster_world" where
  "sample_world = \<lparr> cw_manager = fst one_stream, cw_broker = snd one_stream, cw_vpn = (),
     can_server_port_counter = 10000 \<rparr>"

lemma sample_ports:
  "determine_can_server_ports x sample_options [p] c 10000 = (10001, Inr [Port 10000])"
  by (simp add: determine_can_server_ports_def Let_def sample_options_def u16_range_def)

definition sample_mapping :: "(PeerId \<times> NetworkInterfaceDescriptor list) list" where
  "sample_mapping = [(PeerId 3, [\<lparr> ni_id = NetworkInterfaceId 7,
     ni_name = NetworkInterfaceName ''eth0'', ni_configuration = Ethernet \<rparr>])]"

definition sample_assignment :: ClusterAssignment where
  "sample_assignment = \<lparr> ca_id = ClusterId 5, ca_leader = PeerId 3, ca_assignments =
     [\<lparr> pca_peer_id = PeerId 3, pca_vpn_address = sample_host, pca_can_server_port = Port 10000 \<rparr>] \<rparr>"

lemma sample_members: "map_of (t_peer_descriptors sample_tables) = [PeerId 3 \<mapsto> sample_peer 3 [sample_device 10]]"
  by (simp add: sample_tables_def no_tables_def)

lemma sample_assigned:
  "snd (resources_mut_io fair_env
     (assign_members decimal_ext fair_env sample_options (ClusterId 5) sample_assignment sample_mapping) one_stream) = Inr (Inr ())"
proof -
  obtain m where one: "one_stream = (m, with_opened decimal_ext (PeerId 3) no_broker)"
    and m: "rm_tables m = sample_tables\<lparr> t_peer_connection_states := [(PeerId 3, Online sample_host)] \<rparr>"
    by (metis one_stream_parts prod.collapse)
  show ?thesis
    unfolding one
    by (simp add: m resources_mut_io_fair assign_members_def sample_mapping_def assign_cluster_def run_unfolds
        resources_insert_def kind_defs with_opened_def no_broker_def opened_stream_def
        send_to_peer_def channel_send_def sample_tables_def no_tables_def Let_def
        split: prod.split)
qed

lemma sample_deploys: "snd (deploy_cluster decimal_ext fair_env sample_options VpnOff (ClusterId 5) sample_world) = Inr ()"
proof -
  have found: "manager_get fair_env ClusterConfigurations (ClusterId 5) (fst one_stream) = Inr (Some (sample_cluster 5 3 [DeviceId 10]))"
    and peers: "manager_list fair_env PeerDescriptors (fst one_stream) = Inr [(PeerId 3, sample_peer 3 [sample_device 10])]"
    by (simp_all add: manager_get_def manager_list_def kind_defs one_stream_parts sample_tables_def no_tables_def)
  have mapping: "determine_member_interface_mapping [DeviceId 10] [sample_peer 3 [sample_device 10]] (PeerId 3) = Inr sample_mapping"
    by (simp add: determine_member_interface_mapping_def sample_peer_def sample_device_def sample_mapping_def)
  have member: "member_assignment decimal_ext fair_env (ClusterId 5) (fst one_stream) (PeerId 3, Port 10000) =
      Inr \<lparr> pca_peer_id = PeerId 3, pca_vpn_address = sample_host, pca_can_server_port = Port 10000 \<rparr>"
    by (simp add: member_assignment_def manager_get_def kind_defs one_stream_parts)
  obtain m b where "resources_mut_io fair_env
      (assign_members decimal_ext fair_env sample_options (ClusterId 5) sample_assignment sample_mapping)
      (fst one_stream, snd one_stream) = ((m, b), Inr (Inr ()))"
    using sample_assigned by (metis prod.collapse)
  then show ?thesis
    using found peers mapping member
    by (simp add: deploy_cluster_def run_defs from_manager_def on_vpn_def on_counter_def on_manager_def sample_world_def
        sample_cluster_def create_vpn_cluster_def sample_ports collapse_def sample_assignment_def
        sample_mapping_def)
qed

lemma sample_world_config:
  "map_of (t_cluster_configurations (rm_tables (cw_manager sample_world))) (ClusterId 5) =
     Some (sample_cluster 5 3 [DeviceId 10])"
  by (simp add: sample_world_def one_stream_parts sample_tables_def no_tables_def)

theorem deploy_cluster_assigns_members_witness:
  "usable_range sample_options (can_server_port_counter
     (fst (deploy_cluster decimal_ext fair_env sample_options VpnOff (ClusterId 5) sample_world)))"
proof -
  let ?run = "deploy_cluster decimal_ext fair_env sample_options VpnOff (ClusterId 5) sample_world"
  have run: "?run = (fst ?run, Inr ())" using sample_deploys by (simp add: prod_eq_iff)
  have usable: "usable_range sample_options (can_server_port_counter sample_world)"
    by (simp add: usable_range_def sample_options_def sample_world_def)
  have wide: "unat (can_server_port_range_end sample_options) +
      Suc (length (cc_devices (sample_cluster 5 3 [DeviceId 10]))) \<le> 2 ^ 16"
    by (simp add: sample_options_def sample_cluster_def)
  from deploy_cluster_assigns_members [OF fair_env usable sample_world_config wide run]
  show ?thesis by blast
qed

end
