(* ===== verification/EdgarService.thy ===== *)
theory EdgarService
  imports EdgarTasks DeployEffects
begin

text \<open>
  EDGAR's service (opendut-edgar/src/service): applying a peer configuration, the task that applies
  one after another, the executors and the network metrics, and the loop that receives CARL's
  messages. The last sections follow a configuration from CARL's tables to EDGAR's hands.
\<close>

section \<open>Executors (test_execution/executor_manager.rs)\<close>

text \<open>
  The termination channels of the current executors and of those told to terminate, each with the
  container it was made for; an \<open>Executable\<close> gets a channel but nothing is started for it.
\<close>

type_synonym executor_channel = "(Container \<times> ResultsUrl option) option"

record ExecutorManager =
  em_current :: "executor_channel list"
  em_terminated :: "executor_channel list"

fun executor_channel_of :: "ExecutorDescriptor \<Rightarrow> executor_channel" where
  "executor_channel_of e =
     (case ed_kind e of Executable \<Rightarrow> None | ContainerKind c \<Rightarrow> Some (c, ed_results_url e))"

definition terminate_executors :: "ExecutorManager \<Rightarrow> ExecutorManager" where
  "terminate_executors m = m\<lparr> em_current := [], em_terminated := em_terminated m @ em_current m \<rparr>"

definition create_new_executors :: "Executor Parameter list \<Rightarrow> ExecutorManager \<Rightarrow> ExecutorManager" where
  "create_new_executors executors m =
     m\<lparr> em_current := em_current m @ map (\<lambda>e. executor_channel_of (ex_descriptor e)) (present_values executors) \<rparr>"

section \<open>Network metrics (network_metrics/manager.rs)\<close>

text \<open>The remote peers the running metrics threads were started for, and all that were shut down.\<close>

record NetworkMetricsManager =
  nm_previous_spawn :: "(PeerId \<times> IpAddr) list option"
  nm_shut_down :: "(PeerId \<times> IpAddr) list list"
  nm_started :: nat

text \<open>Equality of two hash maps.\<close>

definition same_peers :: "(PeerId \<times> IpAddr) list \<Rightarrow> (PeerId \<times> IpAddr) list \<Rightarrow> bool" where
  "same_peers a b \<longleftrightarrow> length a = length b \<and> list_all (\<lambda>(k, v). map_of b k = Some v) a"

definition set_remote_peers :: "(PeerId \<times> IpAddr) list \<Rightarrow> NetworkMetricsManager \<Rightarrow> NetworkMetricsManager" where
  "set_remote_peers remote_peers m =
     (if (case nm_previous_spawn m of Some previous \<Rightarrow> same_peers previous remote_peers | None \<Rightarrow> False) then m
      else
        let m1 = (case nm_previous_spawn m of
            Some previous \<Rightarrow> m\<lparr> nm_shut_down := nm_shut_down m @ [previous] \<rparr> | None \<Rightarrow> m)
        in if remote_peers \<noteq> []
           then m1\<lparr> nm_previous_spawn := Some remote_peers, nm_started := Suc (nm_started m1) \<rparr>
           else m1\<lparr> nm_previous_spawn := None \<rparr>)"

definition remote_peers_of :: "PeerClusterAssignment list \<Rightarrow> PeerId \<Rightarrow> AssignmentError + (PeerId \<times> IpAddr) list" where
  "remote_peers_of assignments self_id =
     map_ok (\<lambda>local. collect_map (map (\<lambda>a. (pca_peer_id a, pca_vpn_address a))
         (filter (\<lambda>a. pca_vpn_address a \<noteq> pca_vpn_address local) assignments)))
       (ok_or (LocalPeerAssignmentNotFound self_id) (find (\<lambda>a. pca_peer_id a = self_id) assignments))"

section \<open>Applying a configuration (peer_configuration.rs, tasks/create_ethernet_bridge.rs)\<close>

definition absent_bridge_panic :: string where
  "absent_bridge_panic = ''not yet implemented: Setting Ethernet bridges absent is not yet implemented.''"

definition create_ethernet_bridge :: "'w netlink \<Rightarrow> EthernetBridge Parameter \<Rightarrow> ('w, AssignmentError) Task" where
  "create_ethernet_bridge nl parameter =
     \<lparr> task_description = ''Create bridge '' @ quoted_name (eb_name (param_value parameter)),
       task_check_fulfilled = (case param_target parameter of
          Present \<Rightarrow> return_ok FulfilledUnchecked | Absent \<Rightarrow> fail_with (TaskPanic absent_bridge_panic)),
       task_execute = (case param_target parameter of
          Present \<Rightarrow> and_then (map_run_err (\<lambda>e. TaskError (BridgeRecreationFailed e))
            (recreate_bridge nl (eb_name (param_value parameter)))) (\<lambda>_. return_ok None)
        | Absent \<Rightarrow> fail_with (TaskPanic absent_bridge_panic)) \<rparr>"

text \<open>
  The host as EDGAR reaches it: the network parameters, whether it runs without root, and whether
  the management of network interfaces is enabled.
\<close>

record 'w host_access =
  ha_captures :: captures
  ha_netlink :: "'w netlink"
  ha_running_as_user :: bool
  ha_management_enabled :: bool

record 'w edgar =
  ed_host :: "'w \<times> CanManager"
  ed_executors :: ExecutorManager
  ed_metrics :: NetworkMetricsManager

definition run_bridge_tasks :: "'w host_access \<Rightarrow> PeerConfiguration \<Rightarrow> ('w edgar, string, Outcome list) run" where
  "run_bridge_tasks ha configuration e =
     (let tasks = (if ha_management_enabled ha
        then map (create_ethernet_bridge (ha_netlink ha)) (cfg_ethernet_bridges configuration) else [])
      in case on_host (run_tasks Service tasks) (ed_host e) of (h, r) \<Rightarrow> (e\<lparr> ed_host := h \<rparr>, r))"

definition setup_cluster ::
    "'w host_access \<Rightarrow> ClusterAssignment option \<Rightarrow> DeviceInterface Parameter list \<Rightarrow> PeerId \<Rightarrow> NetworkInterfaceName \<Rightarrow>
     ('w \<times> CanManager, assignment_fault, unit) run" where
  "setup_cluster ha assignment device_interfaces self_id bridge_name =
     (case assignment of
        None \<Rightarrow> return_ok ()
      | Some a \<Rightarrow>
          if \<not> ha_management_enabled ha then return_ok ()
          else
            and_then (map_run_err AssignmentFailed
              (on_host (setup_ethernet_gre_interfaces (ha_netlink ha) a self_id bridge_name))) (\<lambda>_.
            and_then (map_run_err AssignmentFailed
              (on_host (join_ethernet_interfaces_to_bridge (ha_netlink ha) device_interfaces bridge_name))) (\<lambda>_.
            setup_can_interfaces (ha_captures ha) (ha_netlink ha) (ha_running_as_user ha) a self_id device_interfaces)))"

text \<open>The first bridge that shall be present; one is expected.\<close>

definition present_bridge :: "PeerConfiguration \<Rightarrow> NetworkInterfaceName option" where
  "present_bridge configuration =
     map_option (\<lambda>b. eb_name (param_value b)) (find (\<lambda>b. param_target b = Present) (cfg_ethernet_bridges configuration))"

text \<open>An error of the cluster's setup is dropped; a panic is not.\<close>

definition setup_cluster_if_bridge ::
    "'w host_access \<Rightarrow> PeerId \<Rightarrow> PeerConfiguration \<Rightarrow> OldPeerConfiguration \<Rightarrow> ('w edgar, string, unit) run" where
  "setup_cluster_if_bridge ha self_id configuration old e =
     (case present_bridge configuration of
        None \<Rightarrow> (e, Inr ())
      | Some bridge_name \<Rightarrow>
          (case setup_cluster ha (opc_cluster_assignment old) (cfg_device_interfaces configuration) self_id bridge_name (ed_host e) of
             (h, Inl (AssignmentPanic m)) \<Rightarrow> (e\<lparr> ed_host := h \<rparr>, Inl m)
           | (h, _) \<Rightarrow> (e\<lparr> ed_host := h \<rparr>, Inr ())))"

datatype apply_fault = ApplyError AssignmentError | ApplyPanic string

definition restart_executors :: "PeerConfiguration \<Rightarrow> 'w edgar \<Rightarrow> 'w edgar" where
  "restart_executors configuration e =
     e\<lparr> ed_executors := create_new_executors (cfg_executors configuration) (terminate_executors (ed_executors e)) \<rparr>"

definition setup_cluster_metrics :: "PeerClusterAssignment list \<Rightarrow> PeerId \<Rightarrow> ('w edgar, AssignmentError, unit) run" where
  "setup_cluster_metrics assignments self_id e =
     (case remote_peers_of assignments self_id of
        Inl error \<Rightarrow> (e, Inl error)
      | Inr remote_peers \<Rightarrow> (e\<lparr> ed_metrics := set_remote_peers remote_peers (ed_metrics e) \<rparr>, Inr ()))"

definition apply_peer_configuration ::
    "'w host_access \<Rightarrow> PeerId \<Rightarrow> PeerConfiguration \<Rightarrow> OldPeerConfiguration \<Rightarrow> ('w edgar, apply_fault, unit) run" where
  "apply_peer_configuration ha self_id configuration old =
     and_then (map_run_err ApplyPanic (run_bridge_tasks ha configuration)) (\<lambda>_.
     and_then (map_run_err ApplyPanic (setup_cluster_if_bridge ha self_id configuration old)) (\<lambda>_.
     and_then (\<lambda>e. (restart_executors configuration e, Inr ())) (\<lambda>_.
     case opc_cluster_assignment old of
       None \<Rightarrow> return_ok ()
     | Some a \<Rightarrow> map_run_err ApplyError (setup_cluster_metrics (ca_assignments a) self_id))))"

text \<open>The task that applies what it receives: it expects every application to succeed and dies otherwise.\<close>

fun handle_configurations ::
    "'w host_access \<Rightarrow> PeerId \<Rightarrow> (PeerConfiguration \<times> OldPeerConfiguration) list \<Rightarrow> ('w edgar, apply_fault, unit) run" where
  "handle_configurations ha self_id [] = return_ok ()"
| "handle_configurations ha self_id ((configuration, old) # rest) =
     and_then (apply_peer_configuration ha self_id configuration old) (\<lambda>_. handle_configurations ha self_id rest)"

section \<open>Receiving (start.rs)\<close>

text \<open>
  A downstream message as it arrives, its fields optional; the messages CARL's broker sends arrive
  with all of them. The receiver is the channel to the task above (gone when that has died) and
  the channel of upstream messages, with the ping put into it.
\<close>

datatype DownstreamMessage =
    DownPong
  | DownApplyPeerConfiguration "ProtoOldPeerConfiguration option" "ProtoPeerConfiguration option"
  | DownDisconnectNotice

fun arrives_as :: "Message \<Rightarrow> DownstreamMessage" where
  "arrives_as Pong = DownPong"
| "arrives_as DisconnectNotice = DownDisconnectNotice"
| "arrives_as (ApplyPeerConfiguration old configuration) = DownApplyPeerConfiguration (Some old) (Some configuration)"

record receiver =
  rc_queue :: "(PeerConfiguration \<times> OldPeerConfiguration) list"
  rc_handler_gone :: bool
  rc_upstream :: "Upstream list"

datatype receive_fault = ReceiveError string | ReceivePanic string

definition disconnect_notice_error :: string where
  "disconnect_notice_error = ''CARL sent a disconnect notice. Shutting down now.''"

definition slice_panic :: "nat \<Rightarrow> receive_fault" where
  "slice_panic n = ReceivePanic (''range end index '' @ show_nat n @ '' out of range for slice'')"

definition apply_peer_configuration_raw ::
    "ext \<Rightarrow> ProtoOldPeerConfiguration option \<Rightarrow> ProtoPeerConfiguration option \<Rightarrow> (receiver, receive_fault, unit) run" where
  "apply_peer_configuration_raw x old_message message r =
     (case (old_message, message) of
        (Some old_proto, Some proto) \<Rightarrow>
          (case old_configuration_from_proto x old_proto of
             Inl (SlicePanic n) \<Rightarrow> (r, Inl (slice_panic n))
           | Inl (ConversionError _ _ _) \<Rightarrow> (r, Inr ())
           | Inr old \<Rightarrow>
               (case configuration_from_proto x proto of
                  Inl (SlicePanic n) \<Rightarrow> (r, Inl (slice_panic n))
                | Inl (ConversionError _ _ _) \<Rightarrow> (r, Inr ())
                | Inr configuration \<Rightarrow>
                    if rc_handler_gone r then (r, Inl (ReceiveError ''channel closed''))
                    else (r\<lparr> rc_queue := rc_queue r @ [(configuration, old)] \<rparr>, Inr ())))
      | _ \<Rightarrow> (r, Inr ()))"

definition handle_downstream_message :: "ext \<Rightarrow> DownstreamMessage option \<Rightarrow> (receiver, receive_fault, unit) run" where
  "handle_downstream_message x message =
     (case message of
        None \<Rightarrow> return_ok ()
      | Some DownPong \<Rightarrow> (\<lambda>r. (r\<lparr> rc_upstream := rc_upstream r @ [Ping] \<rparr>, Inr ()))
      | Some (DownApplyPeerConfiguration old configuration) \<Rightarrow> apply_peer_configuration_raw x old configuration
      | Some DownDisconnectNotice \<Rightarrow> fail_with (ReceiveError disconnect_notice_error))"

datatype Code =
    CodeOk | Cancelled | CodeUnknown | InvalidArgument | DeadlineExceeded | CodeNotFound | AlreadyExists
  | PermissionDenied | ResourceExhausted | FailedPrecondition | Aborted | OutOfRange | Unimplemented
  | CodeInternal | CodeUnavailable | DataLoss | Unauthenticated

text \<open>What the stream gives when it is read, within the timeout or not.\<close>

datatype read_event = ReadMessage "DownstreamMessage option" | ReadStatus Code string | StreamClosed | ReadTimeout

definition ignored_code :: "Code \<Rightarrow> bool" where
  "ignored_code c \<longleftrightarrow> List.member [CodeOk, AlreadyExists, DeadlineExceeded, CodeUnavailable] c"

text \<open>The loop, over what reading gives; when that runs out it still waits (\<open>None\<close>).\<close>

fun receive_loop :: "ext \<Rightarrow> read_event list \<Rightarrow> receiver \<Rightarrow> receiver \<times> (receive_fault + unit) option" where
  "receive_loop x [] r = (r, None)"
| "receive_loop x (ReadMessage message # events) r =
     (case handle_downstream_message x message r of
        (r', Inl fault) \<Rightarrow> (r', Some (Inl fault))
      | (r', Inr _) \<Rightarrow> receive_loop x events r')"
| "receive_loop x (ReadStatus code status # events) r =
     (if ignored_code code then receive_loop x events r
      else (r, Some (Inl (ReceivePanic (''Received potentially bad gRPC error: '' @ status)))))"
| "receive_loop x (StreamClosed # events) r = (r, Some (Inr ()))"
| "receive_loop x (ReadTimeout # events) r = (r, Some (Inr ()))"

end
