(* ===== verification/EdgarEndToEnd.thy ===== *)
theory EdgarEndToEnd
  imports EdgarService
begin

text \<open>
  From CARL to EDGAR: the configuration CARL computes and sends when it rolls a cluster out is the
  one EDGAR's receiver hands over to be applied, and what applying it does to the executors.
\<close>

section \<open>Everything CARL sends is well-formed\<close>

text \<open>Values in CARL's tables as their parsers make them.\<close>

definition well_formed_values :: "tables \<Rightarrow> bool" where
  "well_formed_values t \<longleftrightarrow>
     (\<forall>peer\<in>set (values_of (t_peer_descriptors t)). wf_peer peer) \<and>
     (\<forall>c\<in>set (values_of (t_peer_configurations t)). wf_configuration_values c) \<and>
     (\<forall>s\<in>set (values_of (t_peer_connection_states t)). \<forall>host. s = Online host \<longrightarrow> wf_ip host)"

lemma map_of_values: "map_of m k = Some v \<Longrightarrow> v \<in> set (values_of m)"
  by (force dest: map_of_SomeD)

lemma set_all_values: "p \<in> set (set_all ident vs ps) \<Longrightarrow> param_value p \<in> set vs \<or> p \<in> set ps"
proof (induction vs arbitrary: ps)
  case (Cons v vs)
  from Cons.IH [of "set_parameter ident v Present ps"] Cons.prems show ?case
    by (auto simp: set_all_def set_parameter_def Let_def)
qed (simp add: set_all_def)

lemma wf_assigned_values:
  assumes "wf_configuration_values c" "wf_peer peer" "\<forall>i\<in>set is. wf_interface i" "valid_network_interface_name b"
  shows "wf_configuration_values (assigned_configuration x b is peer c)"
proof -
  have bridge: "valid_network_interface_name (bridge_of b peer)"
    using assms(2,4) by (auto simp: bridge_of_def wf_peer_def wf_network_def split: option.split)
  show ?thesis
    using assms bridge
    by (auto simp: wf_configuration_values_def assigned_configuration_eq DeviceInterface.make_def Executor.make_def
        wf_peer_def dest!: set_all_values)
qed

lemma member_interfaces_from_peer:
  "member_interfaces d peers = Inr (Some (p, is)) \<Longrightarrow> \<exists>peer\<in>set peers. set is \<subseteq> set (pn_interfaces (pd_network peer))"
proof (induction d peers rule: member_interfaces.induct)
  case (2 d peer peers)
  show ?case
  proof (cases "filter (\<lambda>e. dev_id e = d) (pd_devices peer)")
    case Nil
    with 2 show ?thesis by simp
  next
    case (Cons e es)
    with 2(2) obtain zs where zs: "interfaces_zipped_with_devices (pd_network peer) (e # es) = Some zs" "is = map fst zs"
      by (auto split: option.splits)
    from interfaces_zipped_Some [OF zs(1)] zs(2) show ?thesis by (intro bexI [of _ peer]) auto
  qed
qed simp

lemma mapping_interfaces:
  assumes "map_devices peers devices result = Inr mapping"
    and "\<forall>peer\<in>set peers. \<forall>i\<in>set (pn_interfaces (pd_network peer)). P i"
    and "\<forall>(p, is)\<in>set result. \<forall>i\<in>set is. P i" "hash_map result"
  shows "\<forall>(p, is)\<in>set mapping. \<forall>i\<in>set is. P i"
  using assms(1,3,4)
proof (induction devices arbitrary: result)
  case (Cons d devices)
  then obtain p "is" where found: "member_interfaces d peers = Inr (Some (p, is))"
    and rest: "map_devices peers devices (AList.update p (unwrap_or_default [] (map_of result p) @ is) result) = Inr mapping"
    by (auto split: sum.splits option.splits)
  let ?result = "AList.update p (unwrap_or_default [] (map_of result p) @ is) result"
  have new: "\<forall>i\<in>set is. P i" using member_interfaces_from_peer [OF found] assms(2) by blast
  have old: "\<forall>i\<in>set (unwrap_or_default [] (map_of result p)). P i"
    using Cons.prems(2) by (cases "map_of result p") (auto dest!: map_of_SomeD)
  have "\<forall>i\<in>set js. P i" if "(q, js) \<in> set ?result" for q js
  proof -
    have "hash_map ?result" using Cons.prems(3) by simp
    then have "map_of ?result q = Some js" using that by (simp only: set_hash_map [of ?result])
    then show ?thesis using new old Cons.prems(2) by (auto split: if_splits dest!: map_of_SomeD)
  qed
  with Cons.IH [OF rest] Cons.prems(3) show ?case by blast
qed simp

section \<open>The roll-out, from end to end\<close>

lemma assignedE:
  assumes "assigned x opts a t t' b p is"
  obtains peer conf where "map_of (t_peer_descriptors t) p = Some peer"
    "conf = assigned_configuration x (bridge_name_default opts) is peer
        (unwrap_or_default peer_configuration_default (map_of (t_peer_configurations t) p))"
    "map_of (t_peer_configurations t') p = Some conf"
    "ApplyPeerConfiguration (old_configuration_to_proto x \<lparr> opc_cluster_assignment = Some a \<rparr>)
        (configuration_to_proto x conf) \<in> set (received b p)"
  using assms unfolding assigned_def by (elim exE conjE) simp

lemma handle_assignment:
  assumes "ext_ok x" "wf_assignment a" "wf_configuration_values conf" "\<not> rc_handler_gone r"
  shows "handle_downstream_message x (Some (arrives_as (ApplyPeerConfiguration
      (old_configuration_to_proto x \<lparr> opc_cluster_assignment = Some a \<rparr>) (configuration_to_proto x conf)))) r =
    (r\<lparr> rc_queue := rc_queue r @ [(conf, \<lparr> opc_cluster_assignment = Some a \<rparr>)] \<rparr>, Inr ())"
proof -
  have "old_configuration_from_proto x (old_configuration_to_proto x \<lparr> opc_cluster_assignment = Some a \<rparr>) =
      Inr \<lparr> opc_cluster_assignment = Some a \<rparr>"
    using assms(1,2) by (intro old_configuration_conversion.trip) simp
  moreover have "configuration_from_proto x (configuration_to_proto x conf) = Inr conf"
    using assms(1,3) by (intro configuration_conversion.trip) simp
  ultimately show ?thesis
    using assms(4) by (simp add: handle_downstream_message_def apply_peer_configuration_raw_def)
qed

text \<open>A stored configuration of a member that one of its messages carries to its EDGAR.\<close>

definition reaches_edgar :: "ext \<Rightarrow> ClusterAssignment \<Rightarrow> tables \<Rightarrow> broker \<Rightarrow> PeerId \<Rightarrow> bool" where
  "reaches_edgar x a t' b p \<longleftrightarrow> (\<exists>conf. \<exists>message\<in>set (received b p).
     map_of (t_peer_configurations t') p = Some conf \<and>
     (\<forall>r. \<not> rc_handler_gone r \<longrightarrow> handle_downstream_message x (Some (arrives_as message)) r =
        (r\<lparr> rc_queue := rc_queue r @ [(conf, \<lparr> opc_cluster_assignment = Some a \<rparr>)] \<rparr>, Inr ())))"

lemma stored_configuration_values:
  assumes "well_formed_values t"
  shows "wf_configuration_values (unwrap_or_default peer_configuration_default (map_of (t_peer_configurations t) p))"
proof (cases "map_of (t_peer_configurations t) p")
  case None
  then show ?thesis by (simp add: wf_configuration_values_def peer_configuration_default_def)
next
  case (Some d)
  from map_of_values [OF Some] assms have "wf_configuration_values d" unfolding well_formed_values_def by blast
  with Some show ?thesis by simp
qed

lemma assigned_reaches_edgar:
  assumes "ext_ok x" and "wf_assignment a" and proper: "well_formed_values t" "valid_network_interface_name (bridge_name_default opts)"
    and assigned: "assigned x opts a t t' b p is" and interfaces: "\<forall>i\<in>set is. wf_interface i"
  shows "reaches_edgar x a t' b p"
proof -
  obtain peer conf where peer: "map_of (t_peer_descriptors t) p = Some peer"
    and conf: "conf = assigned_configuration x (bridge_name_default opts) is peer
        (unwrap_or_default peer_configuration_default (map_of (t_peer_configurations t) p))"
    and stored: "map_of (t_peer_configurations t') p = Some conf"
    and sent: "ApplyPeerConfiguration (old_configuration_to_proto x \<lparr> opc_cluster_assignment = Some a \<rparr>)
        (configuration_to_proto x conf) \<in> set (received b p)"
    by (rule assignedE [OF assigned])
  have "wf_peer peer" using map_of_values [OF peer] proper(1) unfolding well_formed_values_def by blast
  then have "wf_configuration_values conf"
    unfolding conf using interfaces proper stored_configuration_values by (intro wf_assigned_values) auto
  from handle_assignment [OF assms(1,2) this] stored sent show ?thesis unfolding reaches_edgar_def by blast
qed

text \<open>C22: what CARL rolls out is what its EDGARs apply. When the roll-out of a cluster succeeds on
  tables with well-formed values, every member (the leader and the owners of the devices) has on
  its stream a message that its EDGAR's receiver, unless the task behind it has died, turns into
  exactly one entry of the queue of configurations to apply: the configuration CARL stored for
  the member, and the cluster's assignment, which lists all members with distinct ports.\<close>

theorem rolled_out_configuration_reaches_edgar:
  assumes "fair E" "ext_ok x" "usable_range opts (can_server_port_counter cw)"
    and config: "map_of (t_cluster_configurations (rm_tables (cw_manager cw))) c = Some config"
    and wide: "unat (can_server_port_range_end opts) + Suc (length (cc_devices config)) \<le> 2 ^ 16"
    and proper: "well_formed_values (rm_tables (cw_manager cw))" "valid_network_interface_name (bridge_name_default opts)"
    and run: "deploy_cluster x E opts vpn c cw = (cw', Inr ())"
  shows "\<exists>mapping a. determine_member_interface_mapping (cc_devices config)
      (values_of (t_peer_descriptors (rm_tables (cw_manager cw)))) (cc_leader config) = Inr mapping \<and>
    ca_id a = c \<and> ca_leader a = cc_leader config \<and> map pca_peer_id (ca_assignments a) = keys_of mapping \<and>
    distinct (map pca_can_server_port (ca_assignments a)) \<and>
    (\<forall>p\<in>set (keys_of mapping). \<exists>conf. \<exists>message\<in>set (received (cw_broker cw') p).
       map_of (t_peer_configurations (rm_tables (cw_manager cw'))) p = Some conf \<and>
       (\<forall>r. \<not> rc_handler_gone r \<longrightarrow> handle_downstream_message x (Some (arrives_as message)) r =
          (r\<lparr> rc_queue := rc_queue r @ [(conf, \<lparr> opc_cluster_assignment = Some a \<rparr>)] \<rparr>, Inr ())))"
proof -
  let ?t = "rm_tables (cw_manager cw)"
  obtain mapping assignments where
    mapping: "determine_member_interface_mapping (cc_devices config) (values_of (t_peer_descriptors ?t)) (cc_leader config) = Inr mapping"
    and ids: "map pca_peer_id assignments = keys_of mapping" "distinct (map pca_can_server_port assignments)"
    and hosts: "\<forall>a\<in>set assignments. map_of (t_peer_connection_states ?t) (pca_peer_id a) = Some (Online (pca_vpn_address a))"
    and each: "\<forall>(p, is)\<in>set mapping. assigned x opts
       \<lparr> ca_id = c, ca_leader = cc_leader config, ca_assignments = assignments \<rparr> ?t (rm_tables (cw_manager cw')) (cw_broker cw') p is"
    using deploy_cluster_result [OF assms(1,3) config wide run] by blast
  let ?a = "\<lparr> ca_id = c, ca_leader = cc_leader config, ca_assignments = assignments \<rparr>"
  have "wf_ip (pca_vpn_address m)" if "m \<in> set assignments" for m
    using map_of_values [OF bspec [OF hosts that]] proper(1) unfolding well_formed_values_def by blast
  then have a: "wf_assignment ?a" by (simp add: wf_assignment_def)
  have "\<forall>peer\<in>set (values_of (t_peer_descriptors ?t)). \<forall>i\<in>set (pn_interfaces (pd_network peer)). wf_interface i"
    using proper(1) by (auto simp: well_formed_values_def wf_peer_def wf_network_def)
  from mapping_interfaces [OF mapping [unfolded determine_member_interface_mapping_def] this]
  have interfaces: "\<forall>(p, is)\<in>set mapping. \<forall>i\<in>set is. wf_interface i" by (simp add: hash_map_def)
  have "reaches_edgar x ?a (rm_tables (cw_manager cw')) (cw_broker cw') p" if member: "(p, is) \<in> set mapping" for p "is"
    using assigned_reaches_edgar [OF assms(2) a proper bspec [OF each member, unfolded prod.case]] interfaces member by blast
  then have "\<forall>p\<in>set (keys_of mapping). reaches_edgar x ?a (rm_tables (cw_manager cw')) (cw_broker cw') p" by auto
  with mapping ids show ?thesis unfolding reaches_edgar_def by (intro exI [of _ mapping] exI [of _ ?a]) simp
qed

lemma sample_world_values: "well_formed_values (rm_tables (cw_manager sample_world))"
  by (simp add: well_formed_values_def sample_world_def one_stream_parts sample_tables_def no_tables_def sample_host_def wf_sample_peer)

theorem rolled_out_configuration_reaches_edgar_witness:
  "\<exists>conf a. \<exists>message\<in>set (received (cw_broker (fst (deploy_cluster decimal_ext fair_env sample_options VpnOff (ClusterId 5) sample_world))) (PeerId 3)).
     handle_downstream_message decimal_ext (Some (arrives_as message)) \<lparr> rc_queue = [], rc_handler_gone = False, rc_upstream = [] \<rparr> =
     (\<lparr> rc_queue = [(conf, \<lparr> opc_cluster_assignment = Some a \<rparr>)], rc_handler_gone = False, rc_upstream = [] \<rparr>, Inr ())"
proof -
  let ?run = "deploy_cluster decimal_ext fair_env sample_options VpnOff (ClusterId 5) sample_world"
  have run: "?run = (fst ?run, Inr ())" using sample_deploys by (simp add: prod_eq_iff)
  have usable: "usable_range sample_options (can_server_port_counter sample_world)"
    by (simp add: usable_range_def sample_options_def sample_world_def)
  have wide: "unat (can_server_port_range_end sample_options) +
      Suc (length (cc_devices (sample_cluster 5 3 [DeviceId 10]))) \<le> 2 ^ 16"
    by (simp add: sample_options_def sample_cluster_def)
  have bridge: "valid_network_interface_name (bridge_name_default sample_options)"
    by (simp add: sample_options_def sample_bridge_def valid_network_interface_name_def)
  obtain mapping a where mapping: "determine_member_interface_mapping (cc_devices (sample_cluster 5 3 [DeviceId 10]))
      (values_of (t_peer_descriptors (rm_tables (cw_manager sample_world)))) (cc_leader (sample_cluster 5 3 [DeviceId 10])) = Inr mapping"
    and each: "\<forall>p\<in>set (keys_of mapping). \<exists>conf. \<exists>message\<in>set (received (cw_broker (fst ?run)) p).
       map_of (t_peer_configurations (rm_tables (cw_manager (fst ?run)))) p = Some conf \<and>
       (\<forall>r. \<not> rc_handler_gone r \<longrightarrow> handle_downstream_message decimal_ext (Some (arrives_as message)) r =
          (r\<lparr> rc_queue := rc_queue r @ [(conf, \<lparr> opc_cluster_assignment = Some a \<rparr>)] \<rparr>, Inr ()))"
    using rolled_out_configuration_reaches_edgar [OF fair_env ext_ok_decimal usable sample_world_config wide
        sample_world_values bridge run] by blast
  have "determine_member_interface_mapping [DeviceId 10] [sample_peer 3 [sample_device 10]] (PeerId 3) = Inr sample_mapping"
    by (simp add: determine_member_interface_mapping_def sample_peer_def sample_device_def sample_mapping_def)
  with mapping have "mapping = sample_mapping"
    by (simp add: sample_world_def one_stream_parts sample_tables_def no_tables_def sample_cluster_def)
  then have "PeerId 3 \<in> set (keys_of mapping)" by (simp add: sample_mapping_def)
  from bspec [OF each this] obtain conf message where "message \<in> set (received (cw_broker (fst ?run)) (PeerId 3))"
    and handled: "\<forall>r. \<not> rc_handler_gone r \<longrightarrow> handle_downstream_message decimal_ext (Some (arrives_as message)) r =
          (r\<lparr> rc_queue := rc_queue r @ [(conf, \<lparr> opc_cluster_assignment = Some a \<rparr>)] \<rparr>, Inr ())"
    by blast
  then show ?thesis
    using spec [OF handled, of "\<lparr> rc_queue = [], rc_handler_gone = False, rc_upstream = [] \<rparr>"]
    by (intro exI [of _ conf] exI [of _ a] bexI [of _ message]) simp_all
qed

section \<open>What an application does\<close>

lemma setup_keeps_executors:
  "ed_executors (fst (run_bridge_tasks ha configuration e)) = ed_executors e"
  "ed_executors (fst (setup_cluster_if_bridge ha self_id configuration old e)) = ed_executors e"
  "ed_executors (fst (setup_cluster_metrics as self_id e)) = ed_executors e"
  by (auto simp: run_bridge_tasks_def setup_cluster_if_bridge_def setup_cluster_metrics_def Let_def
      split: option.split prod.split sum.split assignment_fault.split)

lemma apply_executors:
  assumes "apply_peer_configuration ha self_id configuration old e = (e', r)" "\<forall>m. r \<noteq> Inl (ApplyPanic m)"
  shows "ed_executors e' = create_new_executors (cfg_executors configuration) (terminate_executors (ed_executors e))"
proof -
  obtain e1 r1 where 1: "run_bridge_tasks ha configuration e = (e1, r1)" by fastforce
  with assms obtain os where r1: "r1 = Inr os"
    by (cases r1) (auto simp: apply_peer_configuration_def run_defs)
  obtain e2 r2 where 2: "setup_cluster_if_bridge ha self_id configuration old e1 = (e2, r2)" by fastforce
  with assms 1 r1 have r2: "r2 = Inr ()"
    by (cases r2) (auto simp: apply_peer_configuration_def run_defs)
  have "ed_executors e2 = ed_executors e"
    using setup_keeps_executors(1) [of ha configuration e] setup_keeps_executors(2) [of ha self_id configuration old e1] 1 2
    by simp
  moreover have "ed_executors e' = ed_executors (restart_executors configuration e2)"
    using assms(1) 1 2 r1 r2 setup_keeps_executors(3) [of _ self_id "restart_executors configuration e2"]
    by (cases "opc_cluster_assignment old")
      (auto simp: apply_peer_configuration_def run_defs dest: arg_cong [where f = fst] split: prod.splits, metis fst_conv)
  ultimately show ?thesis by (simp add: restart_executors_def)
qed

text \<open>unless it panics, applying a configuration stops every executor that ran and starts one for
  each executor of the configuration whose target is present, and only these, whether or not the
  cluster could be set up.\<close>

lemma applying_restarts_executors:
  assumes "apply_peer_configuration ha self_id configuration old e = (e', r)" "\<forall>m. r \<noteq> Inl (ApplyPanic m)"
  shows "em_current (ed_executors e') =
      map (\<lambda>p. executor_channel_of (ex_descriptor (param_value p))) (filter (\<lambda>p. param_target p = Present) (cfg_executors configuration)) \<and>
    em_terminated (ed_executors e') = em_terminated (ed_executors e) @ em_current (ed_executors e)"
  using apply_executors [OF assms] by (simp add: create_new_executors_def terminate_executors_def present_values_def)

definition idle_access :: "unit host_access" where
  "idle_access = \<lparr> ha_captures = (\<lambda>_. []), ha_netlink = \<lparr> nl_big_endian = False, nl_get = fail_with [], nl_add = (\<lambda>_ _. fail_with []),
       nl_set_up = (\<lambda>_. fail_with []), nl_set_down = (\<lambda>_. fail_with []), nl_set_controller = (\<lambda>_ _. fail_with []),
       nl_del = (\<lambda>_. fail_with []), nl_command = (\<lambda>_ _. fail_with []), nl_command_debug = (\<lambda>_ _. []), nl_quoted = (\<lambda>s. s) \<rparr>,
     ha_running_as_user = True, ha_management_enabled = False \<rparr>"

definition idle_edgar :: "unit edgar" where
  "idle_edgar = \<lparr> ed_host = ((), can_manager_create), ed_executors = \<lparr> em_current = [None], em_terminated = [] \<rparr>,
     ed_metrics = \<lparr> nm_previous_spawn = None, nm_shut_down = [], nm_started = 0 \<rparr> \<rparr>"

section \<open>A changed bridge name\<close>

text \<open>EDGAR keeps using the bridge of an earlier assignment: when the bridge name of a peer has changed
  between two assignments, the configuration CARL sends names the old and the new bridge, both
  present, and EDGAR sets the cluster up on the old one.\<close>

lemma old_bridge_is_used:
  assumes "ethernet_bridge_identifier x \<lparr> eb_name = bridge_of b peer \<rparr> \<noteq> ethernet_bridge_identifier x \<lparr> eb_name = bridge_of b peer' \<rparr>"
  shows "present_bridge (assigned_configuration x b is' peer' (assigned_configuration x b is peer peer_configuration_default)) =
      Some (bridge_of b peer) \<and> bridge_of b peer \<noteq> bridge_of b peer'"
  using assms
  by (auto simp: assigned_configuration_eq present_bridge_def set_all_def set_parameter_def Let_def peer_configuration_default_def)

end
