(* ===== verification/Netbird.thy ===== *)
theory Netbird
  imports PeerManager
begin

text \<open>
  The VPN management client for NetBird (opendut-vpn/opendut-vpn-netbird/src): the names of groups
  and policies that tie the server's objects to peers and clusters, the HTTP client (client/mod.rs,
  routes.rs) and the management client on top of it (lib.rs). The HTTP stack and the JSON decoder
  are a parameter, the record \<open>netbird_http\<close>; decoding ends in the model, because the names are
  parsed while a response is decoded.
\<close>

section \<open>Names (netbird/group/group_name.rs, netbird/policies/mod.rs)\<close>

datatype GroupName = PeerGroup PeerId | ClusterGroup ClusterId | OtherGroup string

datatype PolicyName = ClusterPolicy ClusterId | OtherPolicy string

definition PEER_GROUP_PREFIX :: string where "PEER_GROUP_PREFIX = ''opendut-peer-group-''"

definition CLUSTER_GROUP_PREFIX :: string where "CLUSTER_GROUP_PREFIX = ''opendut-cluster-group-''"

definition CLUSTER_POLICY_PREFIX :: string where "CLUSTER_POLICY_PREFIX = ''opendut-cluster-policy-''"

definition strip_prefix :: "string \<Rightarrow> string \<Rightarrow> string option" where
  "strip_prefix p s = (if prefix p s then Some (drop (length p) s) else None)"

text \<open>The cause of a name that cannot be parsed: the error of its UUID, as text.\<close>

datatype InvalidNameError = InvalidNameError (invalid_name_value: string) (invalid_name_cause: string)

definition group_name_try_from :: "ext \<Rightarrow> string \<Rightarrow> InvalidNameError + GroupName" where
  "group_name_try_from x value =
     (case strip_prefix PEER_GROUP_PREFIX value of
        Some uuid \<Rightarrow> map_ok PeerGroup (map_err (\<lambda>_. InvalidNameError value uuid) (peer_id_try_from x uuid))
      | None \<Rightarrow>
          (case strip_prefix CLUSTER_GROUP_PREFIX value of
             Some uuid \<Rightarrow> map_ok ClusterGroup (map_err (\<lambda>_. InvalidNameError value uuid) (cluster_id_try_from x uuid))
           | None \<Rightarrow> Inr (OtherGroup value)))"

fun group_name_text :: "ext \<Rightarrow> GroupName \<Rightarrow> string" where
  "group_name_text x (PeerGroup p) = PEER_GROUP_PREFIX @ uuid_to_string x (peer_uuid p)"
| "group_name_text x (ClusterGroup c) = CLUSTER_GROUP_PREFIX @ uuid_to_string x (cluster_uuid c)"
| "group_name_text x (OtherGroup name) = name"

definition policy_name_try_from :: "ext \<Rightarrow> string \<Rightarrow> InvalidNameError + PolicyName" where
  "policy_name_try_from x value =
     (case strip_prefix CLUSTER_POLICY_PREFIX value of
        Some uuid \<Rightarrow> map_ok ClusterPolicy (map_err (\<lambda>_. InvalidNameError value uuid) (cluster_id_try_from x uuid))
      | None \<Rightarrow> Inr (OtherPolicy value))"

fun policy_name_text :: "ext \<Rightarrow> PolicyName \<Rightarrow> string" where
  "policy_name_text x (ClusterPolicy c) = CLUSTER_POLICY_PREFIX @ cluster_id_display x c"
| "policy_name_text x (OtherPolicy name) = name"

fun policy_description :: "ext \<Rightarrow> PolicyName \<Rightarrow> string" where
  "policy_description x (ClusterPolicy c) = ''Policy for the openDuT cluster <'' @ cluster_id_display x c @ ''>.''"
| "policy_description x (OtherPolicy name) = name"

definition setup_key_name_format :: "ext \<Rightarrow> PeerId \<Rightarrow> string" where
  "setup_key_name_format x p = ''opendut-peer-'' @ peer_id_display x p"

text \<open>An \<open>Other\<close> name that does not look like one of the others.\<close>

fun plain_group_name :: "GroupName \<Rightarrow> bool" where
  "plain_group_name (OtherGroup s) = (\<not> prefix PEER_GROUP_PREFIX s \<and> \<not> prefix CLUSTER_GROUP_PREFIX s)"
| "plain_group_name _ = True"

fun plain_policy_name :: "PolicyName \<Rightarrow> bool" where
  "plain_policy_name (OtherPolicy s) = (\<not> prefix CLUSTER_POLICY_PREFIX s)"
| "plain_policy_name _ = True"

lemma strip_prefix_append [simp]: "strip_prefix p (p @ s) = Some s"
  by (simp add: strip_prefix_def)

lemma group_prefixes_differ: "strip_prefix PEER_GROUP_PREFIX (CLUSTER_GROUP_PREFIX @ s) = None"
  by (simp add: strip_prefix_def PEER_GROUP_PREFIX_def CLUSTER_GROUP_PREFIX_def)

lemma group_name_parse_print: "ext_ok x \<Longrightarrow> plain_group_name n \<Longrightarrow> group_name_try_from x (group_name_text x n) = Inr n"
proof (cases n)
  case (OtherGroup s)
  moreover assume "plain_group_name n"
  ultimately show ?thesis by (simp add: group_name_try_from_def strip_prefix_def)
qed (simp_all add: group_name_try_from_def group_prefixes_differ peer_id_try_from_def cluster_id_try_from_def)

lemma policy_name_parse_print: "ext_ok x \<Longrightarrow> plain_policy_name n \<Longrightarrow> policy_name_try_from x (policy_name_text x n) = Inr n"
  by (cases n) (simp_all add: policy_name_try_from_def cluster_id_try_from_def cluster_id_display_def strip_prefix_def)

lemma parsed_group_name_plain: "group_name_try_from x s = Inr n \<Longrightarrow> plain_group_name n"
  by (cases n) (auto simp: group_name_try_from_def strip_prefix_def map_ok_Inr_iff split: option.splits if_splits)

text \<open>the names of NetBird groups identify peers and clusters: exactly the names that parsing can
  produce survive printing and parsing, and the printed names of two of them are equal only
  when the names are, so the groups of different peers and clusters are never confused.\<close>

lemma group_names_identify:
  assumes "ext_ok x"
  shows "(\<forall>s n. group_name_try_from x s = Inr n \<longrightarrow> group_name_try_from x (group_name_text x n) = Inr n) \<and>
    (\<forall>m n. plain_group_name m \<and> plain_group_name n \<and> group_name_text x m = group_name_text x n \<longrightarrow> m = n)"
  using group_name_parse_print [OF assms] parsed_group_name_plain by (metis sum.inject(2))

section \<open>The HTTP client (client/mod.rs, routes.rs, netbird/error.rs)\<close>

datatype http_method = GET | POST | PUT | DELETE

record CreateSetupKey =
  csk_name :: string
  csk_type :: string
  csk_expires_in :: nat
  csk_revoked :: bool
  csk_auto_groups :: "string list"
  csk_usage_limit :: nat

record CreateAccessControlRule =
  acr_name :: string
  acr_description :: string
  acr_enabled :: bool
  acr_action :: string
  acr_bidirectional :: bool
  acr_protocol :: string
  acr_sources :: "string list"
  acr_destinations :: "string list"

text \<open>The bodies of requests, before their serialisation (which does not fail for them).\<close>

datatype netbird_body =
    NoBody
  | CreateGroupBody string "string list"
  | SetupKeyBody CreateSetupKey
  | CreatePolicyBody string string bool "CreateAccessControlRule list"

text \<open>The body of a response is whatever the HTTP stack has received; it is read as text or decoded.\<close>

record 'b http_response =
  hr_status :: nat
  hr_body :: 'b

text \<open>What the decoder makes of a body, the names still as text.\<close>

record raw_group =
  rg_id :: string
  rg_name :: string
  rg_peers :: "(string \<times> string) list"

record raw_policy =
  rp_id :: string
  rp_name :: string

record NetbirdSetupKey =
  sk_id :: string
  sk_key :: uuid
  sk_name :: string

record NetbirdPeer =
  np_id :: string
  np_ip :: IpAddr

record ('w, 'b) netbird_http =
  nb_handle :: "http_method \<Rightarrow> string list \<Rightarrow> netbird_body \<Rightarrow> ('w, string, 'b http_response) run"
  nb_text :: "'b \<Rightarrow> string option"
  nb_json_group :: "'b \<Rightarrow> string + raw_group"
  nb_json_groups :: "'b \<Rightarrow> string + raw_group list"
  nb_json_policies :: "'b \<Rightarrow> string + raw_policy list"
  nb_json_peer :: "'b \<Rightarrow> string + NetbirdPeer"
  nb_json_setup_key :: "'b \<Rightarrow> string + NetbirdSetupKey"
  nb_json_setup_keys :: "'b \<Rightarrow> string + NetbirdSetupKey list"
  nb_setup_key_expiration :: nat

datatype RequestError =
    RequestMiddleware string
  | IllegalStatus nat
  | IllegalRequest nat string
  | JsonDeserialization string
  | JsonSerialization string

datatype GetGroupError = GroupNotFound GroupName | MultipleGroupsFound GroupName | GroupRequestFailure GroupName RequestError

datatype GetPoliciesError =
    PolicyNotFound PolicyName
  | MultiplePoliciesFound PolicyName
  | PolicyRequestFailure PolicyName RequestError

datatype CreateSetupKeyError = PeerGroupNotFound PeerId GetGroupError | SetupKeyRequestFailure PeerId RequestError

record Group =
  g_id :: string
  g_name :: GroupName
  g_peers :: "(string \<times> string) list"

record Policy =
  po_id :: string
  po_name :: PolicyName

definition invalid_name_message :: "InvalidNameError \<Rightarrow> string" where
  "invalid_name_message e = invalid_name_value e @ '': '' @ invalid_name_cause e"

definition group_of :: "ext \<Rightarrow> raw_group \<Rightarrow> string + Group" where
  "group_of x r = map_ok (\<lambda>n. \<lparr> g_id = rg_id r, g_name = n, g_peers = rg_peers r \<rparr>)
     (map_err invalid_name_message (group_name_try_from x (rg_name r)))"

definition policy_of :: "ext \<Rightarrow> raw_policy \<Rightarrow> string + Policy" where
  "policy_of x r = map_ok (\<lambda>n. \<lparr> po_id = rp_id r, po_name = n \<rparr>)
     (map_err invalid_name_message (policy_name_try_from x (rp_name r)))"

definition send_request :: "('w, 'b) netbird_http \<Rightarrow> http_method \<Rightarrow> string list \<Rightarrow> netbird_body \<Rightarrow> ('w, RequestError, 'b http_response) run" where
  "send_request nb m path body = map_run_err RequestMiddleware (nb_handle nb m path body)"

definition is_error_status :: "nat \<Rightarrow> bool" where
  "is_error_status s \<longleftrightarrow> 400 \<le> s \<and> s < 600"

definition error_for_status :: "'b http_response \<Rightarrow> RequestError + 'b http_response" where
  "error_for_status r = (if is_error_status (hr_status r) then Inl (IllegalStatus (hr_status r)) else Inr r)"

definition parse_response_status :: "('w, 'b) netbird_http \<Rightarrow> 'b http_response \<Rightarrow> RequestError + unit" where
  "parse_response_status nb r =
     (if is_error_status (hr_status r)
      then Inl (IllegalRequest (hr_status r) (case nb_text nb (hr_body r) of Some body \<Rightarrow> body | None \<Rightarrow> ''<no body>''))
      else Inr ())"

definition create_netbird_group :: "ext \<Rightarrow> ('w, 'b) netbird_http \<Rightarrow> GroupName \<Rightarrow> string list \<Rightarrow> ('w, RequestError, Group) run" where
  "create_netbird_group x nb name peers =
     and_then (send_request nb POST [''groups''] (CreateGroupBody (group_name_text x name) peers)) (\<lambda>response.
     and_then (lift_result (error_for_status response)) (\<lambda>response.
     lift_result (map_err JsonDeserialization (bind_sum (nb_json_group nb (hr_body response)) (group_of x)))))"

text \<open>The response's status is not looked at: an error shows as a body that cannot be decoded.\<close>

definition get_netbird_group :: "ext \<Rightarrow> ('w, 'b) netbird_http \<Rightarrow> GroupName \<Rightarrow> ('w, GetGroupError, Group) run" where
  "get_netbird_group x nb group_name =
     and_then (map_run_err (GroupRequestFailure group_name) (send_request nb GET [''groups''] NoBody)) (\<lambda>response.
     and_then (lift_result (map_err (\<lambda>cause. GroupRequestFailure group_name (JsonDeserialization cause))
         (bind_sum (nb_json_groups nb (hr_body response)) (traverse (group_of x))))) (\<lambda>result.
     let groups = filter (\<lambda>g. g_name g = group_name) result in
     if 1 < length groups then fail_with (MultipleGroupsFound group_name)
     else lift_result (ok_or (GroupNotFound group_name) (case groups of [] \<Rightarrow> None | g # _ \<Rightarrow> Some g))))"

definition delete_netbird_group :: "('w, 'b) netbird_http \<Rightarrow> string \<Rightarrow> ('w, RequestError, unit) run" where
  "delete_netbird_group nb group_id =
     and_then (send_request nb DELETE [''groups'', group_id] NoBody) (\<lambda>response. lift_result (parse_response_status nb response))"

definition list_setup_keys :: "('w, 'b) netbird_http \<Rightarrow> ('w, RequestError, NetbirdSetupKey list) run" where
  "list_setup_keys nb =
     and_then (send_request nb GET [''setup-keys''] NoBody) (\<lambda>response.
     lift_result (map_err JsonDeserialization (nb_json_setup_keys nb (hr_body response))))"

definition get_setup_key :: "ext \<Rightarrow> ('w, 'b) netbird_http \<Rightarrow> PeerId \<Rightarrow> ('w, RequestError, NetbirdSetupKey list) run" where
  "get_setup_key x nb p =
     and_then (list_setup_keys nb) (\<lambda>keys. return_ok (filter (\<lambda>k. sk_name k = setup_key_name_format x p) keys))"

definition deleted_setup_key :: "string \<Rightarrow> CreateSetupKey" where
  "deleted_setup_key name = \<lparr> csk_name = name, csk_type = ''reusable'', csk_expires_in = 0, csk_revoked = True,
     csk_auto_groups = [], csk_usage_limit = 0 \<rparr>"

definition revoke_setup_key :: "('w, 'b) netbird_http \<Rightarrow> NetbirdSetupKey \<Rightarrow> ('w, RequestError, unit) run" where
  "revoke_setup_key nb k =
     and_then (send_request nb PUT [''setup-keys'', sk_id k] (SetupKeyBody (deleted_setup_key (sk_name k)))) (\<lambda>response.
     and_then (lift_result (error_for_status response)) (\<lambda>_. return_ok ()))"

definition delete_setup_key :: "ext \<Rightarrow> ('w, 'b) netbird_http \<Rightarrow> PeerId \<Rightarrow> ('w, RequestError, NetbirdSetupKey list) run" where
  "delete_setup_key x nb p =
     and_then (get_setup_key x nb p) (\<lambda>found.
     and_then (run_list (revoke_setup_key nb) found) (\<lambda>_.
     return_ok found))"

definition get_netbird_peer :: "('w, 'b) netbird_http \<Rightarrow> string \<Rightarrow> ('w, RequestError, NetbirdPeer) run" where
  "get_netbird_peer nb peer_id =
     and_then (send_request nb GET [''peers'', peer_id] NoBody) (\<lambda>response.
     and_then (lift_result (error_for_status response)) (\<lambda>response.
     lift_result (map_err JsonDeserialization (nb_json_peer nb (hr_body response)))))"

definition delete_netbird_peer :: "('w, 'b) netbird_http \<Rightarrow> string \<Rightarrow> ('w, RequestError, unit) run" where
  "delete_netbird_peer nb peer_id =
     and_then (send_request nb DELETE [''peers'', peer_id] NoBody) (\<lambda>response.
     and_then (lift_result (error_for_status response)) (\<lambda>_. return_ok ()))"

definition self_policy_body :: "ext \<Rightarrow> string \<Rightarrow> PolicyName \<Rightarrow> netbird_body" where
  "self_policy_body x group_id name =
     CreatePolicyBody (policy_name_text x name) (policy_description x name) True
       [\<lparr> acr_name = policy_name_text x name, acr_description = policy_description x name, acr_enabled = True,
          acr_action = ''accept'', acr_bidirectional = True, acr_protocol = ''all'',
          acr_sources = [group_id], acr_destinations = [group_id] \<rparr>]"

definition create_netbird_self_policy :: "ext \<Rightarrow> ('w, 'b) netbird_http \<Rightarrow> Group \<Rightarrow> PolicyName \<Rightarrow> ('w, RequestError, unit) run" where
  "create_netbird_self_policy x nb grp name =
     and_then (send_request nb POST [''policies''] (self_policy_body x (g_id grp) name)) (\<lambda>response.
     and_then (lift_result (error_for_status response)) (\<lambda>_. return_ok ()))"

definition get_netbird_policy :: "ext \<Rightarrow> ('w, 'b) netbird_http \<Rightarrow> PolicyName \<Rightarrow> ('w, GetPoliciesError, Policy) run" where
  "get_netbird_policy x nb policy_name =
     and_then (map_run_err (PolicyRequestFailure policy_name) (send_request nb GET [''policies''] NoBody)) (\<lambda>response.
     and_then (lift_result (map_err (\<lambda>cause. PolicyRequestFailure policy_name (JsonDeserialization cause))
         (bind_sum (nb_json_policies nb (hr_body response)) (traverse (policy_of x))))) (\<lambda>result.
     let policies = filter (\<lambda>p. po_name p = policy_name) result in
     if 1 < length policies then fail_with (MultiplePoliciesFound policy_name)
     else lift_result (ok_or (PolicyNotFound policy_name) (case policies of [] \<Rightarrow> None | p # _ \<Rightarrow> Some p))))"

definition delete_netbird_policy :: "('w, 'b) netbird_http \<Rightarrow> string \<Rightarrow> ('w, RequestError, unit) run" where
  "delete_netbird_policy nb policy_id =
     and_then (send_request nb DELETE [''policies'', policy_id] NoBody) (\<lambda>response. lift_result (parse_response_status nb response))"

definition generate_netbird_setup_key :: "ext \<Rightarrow> ('w, 'b) netbird_http \<Rightarrow> PeerId \<Rightarrow> ('w, CreateSetupKeyError, NetbirdSetupKey) run" where
  "generate_netbird_setup_key x nb p =
     and_then (map_run_err (PeerGroupNotFound p) (get_netbird_group x nb (PeerGroup p))) (\<lambda>group.
     map_run_err (SetupKeyRequestFailure p)
       (and_then (send_request nb POST [''setup-keys''] (SetupKeyBody \<lparr> csk_name = setup_key_name_format x p,
            csk_type = ''reusable'', csk_expires_in = nb_setup_key_expiration nb, csk_revoked = False,
            csk_auto_groups = [g_id group], csk_usage_limit = 0 \<rparr>)) (\<lambda>response.
        and_then (lift_result (error_for_status response)) (\<lambda>response.
        lift_result (map_err JsonDeserialization (nb_json_setup_key nb (hr_body response)))))))"

end
