(* ===== verification/NetbirdManagement.thy ===== *)
theory NetbirdManagement
  imports Netbird
begin

text \<open>
  The management client for NetBird (opendut-vpn-netbird/src/lib.rs): the trait \<open>Client\<close> as a record
  of operations with the HTTP client of theory Netbird as its instance, the five operations of
  \<open>VpnManagementClient\<close> over such a record, and the errors of opendut-vpn/src/lib.rs.
\<close>

section \<open>The trait \<open>Client\<close> (client/mod.rs)\<close>

record 'w netbird_client =
  nc_create_group :: "GroupName \<Rightarrow> string list \<Rightarrow> ('w, RequestError, Group) run"
  nc_get_group :: "GroupName \<Rightarrow> ('w, GetGroupError, Group) run"
  nc_delete_group :: "string \<Rightarrow> ('w, RequestError, unit) run"
  nc_list_setup_keys :: "('w, RequestError, NetbirdSetupKey list) run"
  nc_get_setup_key :: "PeerId \<Rightarrow> ('w, RequestError, NetbirdSetupKey list) run"
  nc_delete_setup_key :: "PeerId \<Rightarrow> ('w, RequestError, NetbirdSetupKey list) run"
  nc_get_peer :: "string \<Rightarrow> ('w, RequestError, NetbirdPeer) run"
  nc_delete_peer :: "string \<Rightarrow> ('w, RequestError, unit) run"
  nc_create_self_policy :: "Group \<Rightarrow> PolicyName \<Rightarrow> ('w, RequestError, unit) run"
  nc_get_policy :: "PolicyName \<Rightarrow> ('w, GetPoliciesError, Policy) run"
  nc_delete_policy :: "string \<Rightarrow> ('w, RequestError, unit) run"
  nc_generate_setup_key :: "PeerId \<Rightarrow> ('w, CreateSetupKeyError, NetbirdSetupKey) run"

definition default_client :: "ext \<Rightarrow> ('w, 'b) netbird_http \<Rightarrow> 'w netbird_client" where
  "default_client x nb =
     \<lparr> nc_create_group = create_netbird_group x nb, nc_get_group = get_netbird_group x nb,
       nc_delete_group = delete_netbird_group nb, nc_list_setup_keys = list_setup_keys nb,
       nc_get_setup_key = get_setup_key x nb, nc_delete_setup_key = delete_setup_key x nb,
       nc_get_peer = get_netbird_peer nb, nc_delete_peer = delete_netbird_peer nb,
       nc_create_self_policy = create_netbird_self_policy x nb, nc_get_policy = get_netbird_policy x nb,
       nc_delete_policy = delete_netbird_policy nb, nc_generate_setup_key = generate_netbird_setup_key x nb \<rparr>"

section \<open>Errors (opendut-vpn/src/lib.rs)\<close>

text \<open>A boxed error, or a message that \<open>anyhow!\<close> formats with the error it quotes.\<close>

datatype vpn_cause =
    BoxedRequest RequestError
  | BoxedGetGroup GetGroupError
  | BoxedSetupKey CreateSetupKeyError
  | NoPeerInSelfGroup
  | PreviousClusterFailure ClusterId vpn_cause
  | PolicyLookupFailure PolicyName GetPoliciesError
  | GroupLookupFailure GroupName GetGroupError
  | PolicyDeletionStatus nat ClusterId string string

datatype CreateClusterError =
    PeerResolutionFailure PeerId ClusterId vpn_cause
  | ClusterCreationFailure ClusterId vpn_cause
  | AccessPolicyCreationFailure ClusterId vpn_cause

text \<open>The message of \<open>NotFound\<close> by the kind and the identifier of the object it names.\<close>

datatype DeleteClusterError =
    ClusterNotFound ClusterId string string
  | ClusterDeletionFailure ClusterId vpn_cause

datatype CreatePeerError = PeerCreationFailure PeerId vpn_cause

datatype DeletePeerError = PeerToDeleteUnresolved PeerId vpn_cause | PeerDeletionFailure PeerId vpn_cause

datatype CreateVpnPeerConfigurationError = ConfigurationCreationFailure PeerId vpn_cause

section \<open>The operations (lib.rs)\<close>

text \<open>A match on a \<open>Result\<close> whose arms go on with the state.\<close>

definition on_result :: "('s, 'e, 'a) run \<Rightarrow> ('e + 'a \<Rightarrow> ('s, 'f, 'b) run) \<Rightarrow> ('s, 'f, 'b) run" where
  "on_result m f s = (case m s of (s', r) \<Rightarrow> f r s')"

definition NOT_FOUND :: nat where "NOT_FOUND = 404"

fun policy_deletion_error :: "ClusterId \<Rightarrow> Policy \<Rightarrow> RequestError \<Rightarrow> DeleteClusterError" where
  "policy_deletion_error c policy (IllegalStatus status) =
     (if status = NOT_FOUND then ClusterNotFound c ''policy'' (po_id policy)
      else ClusterDeletionFailure c (BoxedRequest (IllegalStatus status)))"
| "policy_deletion_error c policy (IllegalRequest error code) =
     ClusterDeletionFailure c (PolicyDeletionStatus error c (po_id policy) code)"
| "policy_deletion_error c policy other = ClusterDeletionFailure c (BoxedRequest other)"

fun group_deletion_error :: "ClusterId \<Rightarrow> Group \<Rightarrow> RequestError \<Rightarrow> DeleteClusterError" where
  "group_deletion_error c grp (IllegalStatus status) =
     (if status = NOT_FOUND then ClusterNotFound c ''group'' (g_id grp)
      else ClusterDeletionFailure c (BoxedRequest (IllegalStatus status)))"
| "group_deletion_error c grp other = ClusterDeletionFailure c (BoxedRequest other)"

definition delete_cluster_policy :: "'w netbird_client \<Rightarrow> ClusterId \<Rightarrow> ('w, DeleteClusterError, unit) run" where
  "delete_cluster_policy inner c =
     on_result (nc_get_policy inner (ClusterPolicy c)) (\<lambda>r. case r of
       Inr policy \<Rightarrow> map_run_err (policy_deletion_error c policy) (nc_delete_policy inner (po_id policy))
     | Inl (PolicyNotFound _) \<Rightarrow> return_ok ()
     | Inl cause \<Rightarrow> fail_with (ClusterDeletionFailure c (PolicyLookupFailure (ClusterPolicy c) cause)))"

definition delete_cluster_group :: "'w netbird_client \<Rightarrow> ClusterId \<Rightarrow> ('w, DeleteClusterError, unit) run" where
  "delete_cluster_group inner c =
     on_result (nc_get_group inner (ClusterGroup c)) (\<lambda>r. case r of
       Inr grp \<Rightarrow> map_run_err (group_deletion_error c grp) (nc_delete_group inner (g_id grp))
     | Inl (GroupNotFound _) \<Rightarrow> return_ok ()
     | Inl cause \<Rightarrow> fail_with (ClusterDeletionFailure c (GroupLookupFailure (ClusterGroup c) cause)))"

definition delete_cluster :: "'w netbird_client \<Rightarrow> ClusterId \<Rightarrow> ('w, DeleteClusterError, unit) run" where
  "delete_cluster inner c = and_then (delete_cluster_policy inner c) (\<lambda>_. delete_cluster_group inner c)"

definition delete_previous_cluster :: "'w netbird_client \<Rightarrow> ClusterId \<Rightarrow> ('w, CreateClusterError, unit) run" where
  "delete_previous_cluster inner c =
     on_result (delete_cluster inner c) (\<lambda>r. case r of
       Inr _ \<Rightarrow> return_ok ()
     | Inl (ClusterNotFound _ _ _) \<Rightarrow> return_ok ()
     | Inl (ClusterDeletionFailure d error) \<Rightarrow> fail_with (ClusterCreationFailure d (PreviousClusterFailure d error)))"

definition resolve_netbird_peer :: "'w netbird_client \<Rightarrow> ClusterId \<Rightarrow> PeerId \<Rightarrow> ('w, CreateClusterError, string) run" where
  "resolve_netbird_peer inner c p =
     and_then (map_run_err (\<lambda>error. PeerResolutionFailure p c (BoxedGetGroup error)) (nc_get_group inner (PeerGroup p))) (\<lambda>grp.
     lift_result (ok_or (PeerResolutionFailure p c NoPeerInSelfGroup)
       (case g_peers grp of [] \<Rightarrow> None | peer # _ \<Rightarrow> Some (fst peer))))"

fun resolve_netbird_peers :: "'w netbird_client \<Rightarrow> ClusterId \<Rightarrow> PeerId list \<Rightarrow> ('w, CreateClusterError, string list) run" where
  "resolve_netbird_peers inner c [] = return_ok []"
| "resolve_netbird_peers inner c (p # ps) =
     and_then (resolve_netbird_peer inner c p) (\<lambda>peer.
     and_then (resolve_netbird_peers inner c ps) (\<lambda>peers. return_ok (peer # peers)))"

definition create_cluster :: "'w netbird_client \<Rightarrow> ClusterId \<Rightarrow> PeerId list \<Rightarrow> ('w, CreateClusterError, unit) run" where
  "create_cluster inner c peers =
     and_then (delete_previous_cluster inner c) (\<lambda>_.
     and_then (resolve_netbird_peers inner c peers) (\<lambda>netbird_peers.
     and_then (map_run_err (\<lambda>error. ClusterCreationFailure c (BoxedRequest error))
         (nc_create_group inner (ClusterGroup c) netbird_peers)) (\<lambda>grp.
     map_run_err (\<lambda>error. AccessPolicyCreationFailure c (BoxedRequest error))
       (nc_create_self_policy inner grp (ClusterPolicy c)))))"

definition create_peer :: "'w netbird_client \<Rightarrow> PeerId \<Rightarrow> ('w, CreatePeerError, unit) run" where
  "create_peer inner p =
     and_then (map_run_err (\<lambda>error. PeerCreationFailure p (BoxedRequest error)) (nc_create_group inner (PeerGroup p) [])) (\<lambda>_.
     return_ok ())"

definition delete_peer :: "'w netbird_client \<Rightarrow> PeerId \<Rightarrow> ('w, DeletePeerError, unit) run" where
  "delete_peer inner p =
     and_then (map_run_err (\<lambda>error. PeerToDeleteUnresolved p (BoxedGetGroup error)) (nc_get_group inner (PeerGroup p))) (\<lambda>self_group.
     map_run_err (\<lambda>error. PeerDeletionFailure p (BoxedRequest error))
       (and_then (case g_peers self_group of [] \<Rightarrow> return_ok () | info # _ \<Rightarrow> nc_delete_peer inner (fst info)) (\<lambda>_.
        and_then (nc_delete_setup_key inner p) (\<lambda>_.
        nc_delete_group inner (g_id self_group)))))"

definition prepare_self_group :: "'w netbird_client \<Rightarrow> PeerId \<Rightarrow> ('w, CreateVpnPeerConfigurationError, unit) run" where
  "prepare_self_group inner p =
     on_result (nc_get_group inner (PeerGroup p)) (\<lambda>r. case r of
       Inr grp \<Rightarrow> map_run_err (\<lambda>cause. ConfigurationCreationFailure p (BoxedRequest cause))
         (run_list (\<lambda>info. nc_delete_peer inner (fst info)) (g_peers grp))
     | Inl (GroupNotFound _) \<Rightarrow>
         map_run_err (\<lambda>error. ConfigurationCreationFailure p (BoxedRequest error))
           (and_then (nc_create_group inner (PeerGroup p) []) (\<lambda>_. return_ok ()))
     | Inl error \<Rightarrow> fail_with (ConfigurationCreationFailure p (BoxedGetGroup error)))"

fun setup_key_cause :: "CreateSetupKeyError \<Rightarrow> vpn_cause" where
  "setup_key_cause (PeerGroupNotFound _ error) = BoxedGetGroup error"
| "setup_key_cause (SetupKeyRequestFailure p error) = BoxedSetupKey (SetupKeyRequestFailure p error)"

definition generate_vpn_peer_configuration ::
    "url \<Rightarrow> 'w netbird_client \<Rightarrow> PeerId \<Rightarrow> ('w, CreateVpnPeerConfigurationError, VpnPeerConfiguration) run" where
  "generate_vpn_peer_configuration url inner p =
     and_then (prepare_self_group inner p) (\<lambda>_.
     and_then (map_run_err (\<lambda>error. ConfigurationCreationFailure p (setup_key_cause error)) (nc_generate_setup_key inner p)) (\<lambda>key.
     return_ok (VpnNetbird url (SetupKey (sk_key key)))))"

definition delete_default_policy_if_exists :: "'w netbird_client \<Rightarrow> ('w, RequestError, unit) run" where
  "delete_default_policy_if_exists inner =
     on_result (nc_get_policy inner (OtherPolicy ''Default'')) (\<lambda>r. case r of
       Inr policy \<Rightarrow> nc_delete_policy inner (po_id policy)
     | Inl _ \<Rightarrow> return_ok ())"

section \<open>As the managers see it\<close>

text \<open>The errors as the managers report them: only their own message, the source is dropped.\<close>

fun create_cluster_message :: "ext \<Rightarrow> CreateClusterError \<Rightarrow> string" where
  "create_cluster_message x (PeerResolutionFailure p c _) =
     ''Peer <'' @ peer_id_display x p @ ''> of cluster <'' @ cluster_id_display x c @ ''> could not be resolved''"
| "create_cluster_message x (ClusterCreationFailure c _) =
     ''An error occurred while creating cluster <'' @ cluster_id_display x c @ ''>''"
| "create_cluster_message x (AccessPolicyCreationFailure c _) =
     ''An error occurred while creating access control rule for cluster <'' @ cluster_id_display x c @ ''>''"

fun delete_cluster_message :: "ext \<Rightarrow> DeleteClusterError \<Rightarrow> string" where
  "delete_cluster_message x (ClusterNotFound c kind object) =
     ''No cluster <'' @ cluster_id_display x c @ ''> could be found: Received '' @ [CHR 0x27] @ ''404 Not Found'' @ [CHR 0x27] @
     '' when deleting '' @ kind @ '' for cluster <'' @ cluster_id_display x c @ ''> with NetBird '' @ kind @ '' ID <'' @ object @ ''>.''"
| "delete_cluster_message x (ClusterDeletionFailure c _) =
     ''An error occurred while deleting cluster <'' @ cluster_id_display x c @ ''>''"

fun create_peer_message :: "ext \<Rightarrow> CreatePeerError \<Rightarrow> string" where
  "create_peer_message x (PeerCreationFailure p _) = ''An error occurred while creating peer <'' @ peer_id_display x p @ ''>''"

fun delete_peer_message :: "ext \<Rightarrow> DeletePeerError \<Rightarrow> string" where
  "delete_peer_message x (PeerToDeleteUnresolved p _) = ''Peer <'' @ peer_id_display x p @ ''> could not be resolved''"
| "delete_peer_message x (PeerDeletionFailure p _) = ''An error occurred while deleting peer <'' @ peer_id_display x p @ ''>''"

fun peer_configuration_message :: "ext \<Rightarrow> CreateVpnPeerConfigurationError \<Rightarrow> string" where
  "peer_configuration_message x (ConfigurationCreationFailure p _) =
     ''An error occurred while creating a vpn configuration for peer <'' @ peer_id_display x p @ ''>''"

definition netbird_management_client :: "ext \<Rightarrow> url \<Rightarrow> 'w netbird_client \<Rightarrow> 'w vpn_client" where
  "netbird_management_client x url inner =
     \<lparr> vpn_create_cluster = (\<lambda>c peers. map_run_err (create_cluster_message x) (create_cluster inner c peers)),
       vpn_delete_cluster = (\<lambda>c. map_run_err (delete_cluster_message x) (delete_cluster inner c)),
       vpn_create_peer = (\<lambda>p. map_run_err (create_peer_message x) (create_peer inner p)),
       vpn_delete_peer = (\<lambda>p. map_run_err (delete_peer_message x) (delete_peer inner p)),
       vpn_generate_peer_configuration =
         (\<lambda>p. map_run_err (peer_configuration_message x) (generate_vpn_peer_configuration url inner p)) \<rparr>"

end
