(* ===== verification/NetbirdBooks.thy ===== *)
theory NetbirdBooks
  imports NetbirdManagement
begin

text \<open>
  What a client of NetBird promises, as a locale over the books the server keeps (its groups, its
  policies with the groups they connect, its peers), and what the management client makes of such
  a client: deleting and creating a cluster, creating and deleting a peer, with every failure that
  can come in between. A server and its interpretation follow in theory NetbirdServer.
\<close>

record books =
  bk_groups :: "Group list"
  bk_policies :: "(Policy \<times> string list) list"
  bk_peers :: "string set"

definition groups_named :: "GroupName \<Rightarrow> books \<Rightarrow> Group list" where
  "groups_named n b = filter (\<lambda>g. g_name g = n) (bk_groups b)"

definition policies_named :: "PolicyName \<Rightarrow> books \<Rightarrow> (Policy \<times> string list) list" where
  "policies_named n b = filter (\<lambda>p. po_name (fst p) = n) (bk_policies b)"

definition found_group :: "GroupName \<Rightarrow> books \<Rightarrow> GetGroupError + Group" where
  "found_group n b = (case groups_named n b of [] \<Rightarrow> Inl (GroupNotFound n) | [g] \<Rightarrow> Inr g | _ \<Rightarrow> Inl (MultipleGroupsFound n))"

definition found_policy :: "PolicyName \<Rightarrow> books \<Rightarrow> GetPoliciesError + Policy" where
  "found_policy n b =
     (case policies_named n b of [] \<Rightarrow> Inl (PolicyNotFound n) | [p] \<Rightarrow> Inr (fst p) | _ \<Rightarrow> Inl (MultiplePoliciesFound n))"

definition linked :: "string \<Rightarrow> books \<Rightarrow> bool" where
  "linked i b \<longleftrightarrow> (\<exists>p\<in>set (bk_policies b). i \<in> set (snd p))"

definition books_ok :: "books \<Rightarrow> bool" where
  "books_ok b \<longleftrightarrow> distinct (map g_id (bk_groups b)) \<and> distinct (map (\<lambda>p. po_id (fst p)) (bk_policies b)) \<and>
     (\<forall>g\<in>set (bk_groups b). fst ` set (g_peers g) \<subseteq> bk_peers b) \<and> (\<forall>i. linked i b \<longrightarrow> i \<in> g_id ` set (bk_groups b))"

text \<open>The books without a cluster, and without the group of a peer.\<close>

definition without_policy :: "ClusterId \<Rightarrow> books \<Rightarrow> books" where
  "without_policy c b = b\<lparr> bk_policies := filter (\<lambda>p. po_name (fst p) \<noteq> ClusterPolicy c) (bk_policies b) \<rparr>"

definition without_group :: "GroupName \<Rightarrow> books \<Rightarrow> books" where
  "without_group n b = b\<lparr> bk_groups := filter (\<lambda>g. g_name g \<noteq> n) (bk_groups b) \<rparr>"

definition without_cluster :: "ClusterId \<Rightarrow> books \<Rightarrow> books" where
  "without_cluster c b = without_group (ClusterGroup c) (without_policy c b)"

lemma without_simps [simp]:
  "bk_groups (without_policy c b) = bk_groups b" "bk_peers (without_policy c b) = bk_peers b"
  "bk_policies (without_group n b) = bk_policies b" "bk_peers (without_group n b) = bk_peers b"
  "without_group n (without_group n b) = without_group n b"
  "without_policy c (without_policy c b) = without_policy c b"
  "without_policy c (without_group n b) = without_group n (without_policy c b)"
  "groups_named m (without_policy c b) = groups_named m b"
  "policies_named q (without_group n b) = policies_named q b"
  by (simp_all add: without_policy_def without_group_def groups_named_def policies_named_def)

lemma named_without [simp]:
  "groups_named n (without_group n b) = []" "policies_named (ClusterPolicy c) (without_policy c b) = []"
  "m \<noteq> n \<Longrightarrow> groups_named m (without_group n b) = groups_named m b"
  by (auto simp: groups_named_def policies_named_def without_group_def without_policy_def filter_empty_conv intro!: filter_cong)

lemma filter_id_eq_filter_name:
  assumes "distinct (map key xs)" and "filter (\<lambda>x. name x = n) xs = [a]"
  shows "filter (\<lambda>x. key x \<noteq> key a) xs = filter (\<lambda>x. name x \<noteq> n) xs"
proof (rule filter_cong)
  fix x
  assume x: "x \<in> set xs"
  have a: "a \<in> set xs" "name a = n" using assms(2) by (auto simp: filter_eq_Cons_iff)
  have "x = a \<longleftrightarrow> name x = n"
  proof
    assume "name x = n"
    then have "x \<in> set (filter (\<lambda>x. name x = n) xs)" using x by simp
    then show "x = a" unfolding assms(2) by simp
  qed (use a in simp)
  moreover have "key x = key a \<longleftrightarrow> x = a" using assms(1) x a(1) by (meson distinct_map inj_onD)
  ultimately show "key x \<noteq> key a \<longleftrightarrow> name x \<noteq> n" by simp
qed simp

text \<open>At most one group and policy of a cluster, and no foreign policy on its group.\<close>

definition cluster_clean :: "ClusterId \<Rightarrow> books \<Rightarrow> bool" where
  "cluster_clean c b \<longleftrightarrow> length (policies_named (ClusterPolicy c) b) \<le> 1 \<and> length (groups_named (ClusterGroup c) b) \<le> 1 \<and>
     (\<forall>g\<in>set (groups_named (ClusterGroup c) b). \<not> linked (g_id g) (without_policy c b))"

text \<open>The NetBird peer that stands for a peer: the first of its only self group.\<close>

definition netbird_peer_of :: "books \<Rightarrow> PeerId \<Rightarrow> string option" where
  "netbird_peer_of b p =
     (case groups_named (PeerGroup p) b of [g] \<Rightarrow> (case g_peers g of [] \<Rightarrow> None | peer # _ \<Rightarrow> Some (fst peer)) | _ \<Rightarrow> None)"

text \<open>The books with a cluster's new group, and with its policy if that was created too.\<close>

definition with_cluster :: "ClusterId \<Rightarrow> Group \<Rightarrow> Policy option \<Rightarrow> books \<Rightarrow> books \<Rightarrow> bool" where
  "with_cluster c g p b b' \<longleftrightarrow> g_name g = ClusterGroup c \<and>
     g_id g \<notin> g_id ` set (bk_groups (without_cluster c b)) \<and>
     (case p of None \<Rightarrow> b' = (without_cluster c b)\<lparr> bk_groups := bk_groups (without_cluster c b) @ [g] \<rparr>
      | Some policy \<Rightarrow> po_name policy = ClusterPolicy c \<and>
          b' = (without_cluster c b)\<lparr> bk_groups := bk_groups (without_cluster c b) @ [g],
                bk_policies := bk_policies (without_cluster c b) @ [(policy, [g_id g, g_id g])] \<rparr>)"

lemma netbird_peer_of_without [simp]: "netbird_peer_of (without_cluster c b) = netbird_peer_of b"
  by (simp add: netbird_peer_of_def without_cluster_def fun_eq_iff)

lemma bk_peers_without_cluster [simp]: "bk_peers (without_cluster c b) = bk_peers b"
  by (simp add: without_cluster_def)

lemma netbird_peer_known: "books_ok b \<Longrightarrow> netbird_peer_of b p = Some i \<Longrightarrow> i \<in> bk_peers b"
proof -
  assume "netbird_peer_of b p = Some i" and ok: "books_ok b"
  then obtain g peer rest where g: "groups_named (PeerGroup p) b = [g]" "g_peers g = peer # rest" "i = fst peer"
    by (auto simp: netbird_peer_of_def split: list.splits)
  have "g \<in> set (groups_named (PeerGroup p) b)" by (simp add: g(1))
  then have "g \<in> set (bk_groups b)" by (simp add: groups_named_def)
  with ok g(2,3) show ?thesis unfolding books_ok_def by fastforce
qed

lemma peers_known: "books_ok b \<Longrightarrow> map (netbird_peer_of b) ps = map Some is \<Longrightarrow> set is \<subseteq> bk_peers b"
  by (induction ps arbitrary: "is") (auto simp: Cons_eq_map_conv netbird_peer_known)

lemma map_filter_by_key:
  "map key xs = map key ys \<Longrightarrow> map f xs = map f ys \<Longrightarrow> map f (filter (\<lambda>x. key x \<noteq> k) xs) = map f (filter (\<lambda>y. key y \<noteq> k) ys)"
proof (induction xs arbitrary: ys)
  case (Cons x xs)
  then show ?case by (cases ys) auto
qed simp

text \<open>The peers that have a self group.\<close>

definition registered :: "books \<Rightarrow> PeerId set" where
  "registered b = {p. PeerGroup p \<in> g_name ` set (bk_groups b)}"

lemma registered_by_names: "map g_name (bk_groups b') = map g_name (bk_groups b) \<Longrightarrow> registered b' = registered b"
  by (simp add: registered_def flip: set_map)

lemma registered_without_self_group:
  assumes "distinct (map g_id (bk_groups b))" and ids: "map g_id (bk_groups b') = map g_id (bk_groups b)"
    and names: "map g_name (bk_groups b') = map g_name (bk_groups b)" and named: "groups_named (PeerGroup p) b = [g]"
  shows "registered (b'\<lparr> bk_groups := filter (\<lambda>h. g_id h \<noteq> g_id g) (bk_groups b') \<rparr>) = registered b - {p}"
proof -
  have "map g_name (filter (\<lambda>h. g_id h \<noteq> g_id g) (bk_groups b')) = map g_name (filter (\<lambda>h. g_id h \<noteq> g_id g) (bk_groups b))"
    using ids names by (rule map_filter_by_key)
  also have "filter (\<lambda>h. g_id h \<noteq> g_id g) (bk_groups b) = filter (\<lambda>h. g_name h \<noteq> PeerGroup p) (bk_groups b)"
    using filter_id_eq_filter_name [where key = g_id, OF assms(1) named [unfolded groups_named_def]] .
  finally have "set (map g_name (filter (\<lambda>h. g_id h \<noteq> g_id g) (bk_groups b'))) =
      set (map g_name (filter (\<lambda>h. g_name h \<noteq> PeerGroup p) (bk_groups b)))" by simp
  then show ?thesis by (auto simp: registered_def image_iff set_eq_iff)
qed

lemma without_absent_group: "groups_named n b = [] \<Longrightarrow> without_group n b = b"
  by (simp add: groups_named_def without_group_def filter_empty_conv)

lemma without_absent_policy: "policies_named (ClusterPolicy c) b = [] \<Longrightarrow> without_policy c b = b"
  by (simp add: policies_named_def without_policy_def filter_empty_conv)

lemma policy_deletion_not_found: "\<forall>s. e \<noteq> IllegalStatus s \<Longrightarrow> policy_deletion_error c p e \<noteq> ClusterNotFound d kind i"
  by (cases "(c, p, e)" rule: policy_deletion_error.cases) auto

lemma group_deletion_not_found: "\<forall>s. e \<noteq> IllegalStatus s \<Longrightarrow> group_deletion_error c g e \<noteq> ClusterNotFound d kind i"
  by (cases "(c, g, e)" rule: group_deletion_error.cases) auto

section \<open>The laws of a client\<close>

text \<open>
  A state that is \<open>ok\<close> holds consistent books, and every operation keeps it so. A request may fail
  at any time while the server is not \<open>up\<close>, without an effect; what is answered is answered from
  the books. A group that a policy connects cannot be deleted, and a refused deletion shows as
  \<open>IllegalRequest\<close>, never as \<open>IllegalStatus\<close>.
\<close>

locale netbird_books =
  fixes client :: "'w netbird_client"
    and ok :: "'w \<Rightarrow> bool"
    and up :: "'w \<Rightarrow> bool"
    and books :: "'w \<Rightarrow> books"
  assumes consistent: "ok w \<Longrightarrow> books_ok (books w)"
    and get_group: "ok w \<Longrightarrow> nc_get_group client n w = (w', r) \<Longrightarrow>
      ok w' \<and> (up w \<longrightarrow> up w') \<and> books w' = books w \<and>
      (r = found_group n (books w) \<or> \<not> up w \<and> (\<exists>e. r = Inl (GroupRequestFailure n e)))"
    and get_policy: "ok w \<Longrightarrow> nc_get_policy client q w = (w', rq) \<Longrightarrow>
      ok w' \<and> (up w \<longrightarrow> up w') \<and> books w' = books w \<and>
      (rq = found_policy q (books w) \<or> \<not> up w \<and> (\<exists>e. rq = Inl (PolicyRequestFailure q e)))"
    and create_group: "ok w \<Longrightarrow> plain_group_name n \<Longrightarrow> nc_create_group client n ps w = (w', rg) \<Longrightarrow>
      ok w' \<and> (up w \<longrightarrow> up w') \<and> (up w \<and> set ps \<subseteq> bk_peers (books w) \<longrightarrow> (\<exists>g. rg = Inr g)) \<and>
      (case rg of Inl _ \<Rightarrow> books w' = books w
       | Inr g \<Rightarrow> g_name g = n \<and> map fst (g_peers g) = ps \<and> g_id g \<notin> g_id ` set (bk_groups (books w)) \<and>
           books w' = (books w)\<lparr> bk_groups := bk_groups (books w) @ [g] \<rparr>)"
    and delete_group: "ok w \<Longrightarrow> nc_delete_group client i w = (w', ru) \<Longrightarrow>
      ok w' \<and> (up w \<longrightarrow> up w') \<and> (up w \<and> i \<in> g_id ` set (bk_groups (books w)) \<and> \<not> linked i (books w) \<longrightarrow> ru = Inr ()) \<and>
      (\<forall>s. ru \<noteq> Inl (IllegalStatus s)) \<and>
      (case ru of Inl _ \<Rightarrow> books w' = books w
       | Inr _ \<Rightarrow> books w' = (books w)\<lparr> bk_groups := filter (\<lambda>g. g_id g \<noteq> i) (bk_groups (books w)) \<rparr>)"
    and create_self_policy: "ok w \<Longrightarrow> plain_policy_name q \<Longrightarrow> nc_create_self_policy client g q w = (w', ru) \<Longrightarrow>
      ok w' \<and> (up w \<longrightarrow> up w') \<and> (up w \<and> g_id g \<in> g_id ` set (bk_groups (books w)) \<longrightarrow> ru = Inr ()) \<and>
      (case ru of Inl _ \<Rightarrow> books w' = books w
       | Inr _ \<Rightarrow> \<exists>p. po_name p = q \<and> books w' = (books w)\<lparr> bk_policies := bk_policies (books w) @ [(p, [g_id g, g_id g])] \<rparr>)"
    and delete_policy: "ok w \<Longrightarrow> nc_delete_policy client i w = (w', ru) \<Longrightarrow>
      ok w' \<and> (up w \<longrightarrow> up w') \<and> (up w \<and> (\<exists>p\<in>set (bk_policies (books w)). po_id (fst p) = i) \<longrightarrow> ru = Inr ()) \<and>
      (\<forall>s. ru \<noteq> Inl (IllegalStatus s)) \<and>
      (case ru of Inl _ \<Rightarrow> books w' = books w
       | Inr _ \<Rightarrow> books w' = (books w)\<lparr> bk_policies := filter (\<lambda>p. po_id (fst p) \<noteq> i) (bk_policies (books w)) \<rparr>)"
    and delete_netbird_peer: "ok w \<Longrightarrow> nc_delete_peer client i w = (w', ru) \<Longrightarrow>
      ok w' \<and> (up w \<longrightarrow> up w') \<and> (up w \<and> i \<in> bk_peers (books w) \<longrightarrow> ru = Inr ()) \<and>
      (case ru of Inl _ \<Rightarrow> books w' = books w
       | Inr _ \<Rightarrow> bk_policies (books w') = bk_policies (books w) \<and>
           bk_groups (books w') = map (\<lambda>g. g\<lparr> g_peers := filter (\<lambda>p. fst p \<noteq> i) (g_peers g) \<rparr>) (bk_groups (books w)))"
    and delete_setup_key: "ok w \<Longrightarrow> nc_delete_setup_key client p w = (w', rk) \<Longrightarrow>
      ok w' \<and> (up w \<longrightarrow> up w') \<and> (up w \<longrightarrow> (\<exists>ks. rk = Inr ks)) \<and> books w' = books w"
begin

lemma delete_cluster_policy:
  assumes "ok w" and run: "delete_cluster_policy client c w = (w', r)"
  shows "ok w' \<and> (up w \<longrightarrow> up w') \<and>
    (case r of Inl _ \<Rightarrow> books w' = books w | Inr _ \<Rightarrow> books w' = without_policy c (books w)) \<and>
    (up w \<and> length (policies_named (ClusterPolicy c) (books w)) \<le> 1 \<longrightarrow> r = Inr ()) \<and>
    (\<forall>d kind i. r \<noteq> Inl (ClusterNotFound d kind i))"
proof -
  obtain w1 rp where get: "nc_get_policy client (ClusterPolicy c) w = (w1, rp)" by fastforce
  note law = get_policy [OF \<open>ok w\<close> get]
  show ?thesis
  proof (cases rp)
    case (Inl e)
    with run law show ?thesis
      by (cases e) (auto simp: delete_cluster_policy_def on_result_def get run_defs found_policy_def without_absent_policy
          split: list.splits)
  next
    case (Inr policy)
    with law obtain gs where named: "policies_named (ClusterPolicy c) (books w) = [(policy, gs)]"
      by (auto simp: found_policy_def split: list.splits)
    obtain ru where del: "nc_delete_policy client (po_id policy) w1 = (w', ru)" and r: "r = map_err (policy_deletion_error c policy) ru"
      using run by (auto simp: delete_cluster_policy_def on_result_def get Inr run_defs split: prod.splits)
    have "(policy, gs) \<in> set (policies_named (ClusterPolicy c) (books w))" by (simp add: named)
    then have "(policy, gs) \<in> set (bk_policies (books w))" by (simp add: policies_named_def)
    moreover have "filter (\<lambda>p. po_id (fst p) \<noteq> po_id policy) (bk_policies (books w)) =
        filter (\<lambda>p. po_name (fst p) \<noteq> ClusterPolicy c) (bk_policies (books w))"
      using filter_id_eq_filter_name [where key = "\<lambda>p. po_id (fst p)", OF _ named [unfolded policies_named_def]] consistent [OF \<open>ok w\<close>]
      by (simp add: books_ok_def)
    ultimately show ?thesis
      using delete_policy [OF _ del] law r policy_deletion_not_found by (cases ru) (auto simp: without_policy_def)
  qed
qed

lemma delete_cluster_group:
  assumes "ok w" and run: "delete_cluster_group client c w = (w', r)"
  shows "ok w' \<and> (up w \<longrightarrow> up w') \<and>
    (case r of Inl _ \<Rightarrow> books w' = books w | Inr _ \<Rightarrow> books w' = without_group (ClusterGroup c) (books w)) \<and>
    (up w \<and> length (groups_named (ClusterGroup c) (books w)) \<le> 1 \<and>
      (\<forall>g\<in>set (groups_named (ClusterGroup c) (books w)). \<not> linked (g_id g) (books w)) \<longrightarrow> r = Inr ()) \<and>
    (\<forall>d kind i. r \<noteq> Inl (ClusterNotFound d kind i))"
proof -
  obtain w1 rg where get: "nc_get_group client (ClusterGroup c) w = (w1, rg)" by fastforce
  note law = get_group [OF \<open>ok w\<close> get]
  show ?thesis
  proof (cases rg)
    case (Inl e)
    with run law show ?thesis
      by (cases e) (auto simp: delete_cluster_group_def on_result_def get run_defs found_group_def without_absent_group
          split: list.splits)
  next
    case (Inr g)
    with law have named: "groups_named (ClusterGroup c) (books w) = [g]" by (auto simp: found_group_def split: list.splits)
    obtain ru where del: "nc_delete_group client (g_id g) w1 = (w', ru)" and r: "r = map_err (group_deletion_error c g) ru"
      using run by (auto simp: delete_cluster_group_def on_result_def get Inr run_defs split: prod.splits)
    have "g \<in> set (groups_named (ClusterGroup c) (books w))" by (simp add: named)
    then have "g \<in> set (bk_groups (books w))" by (simp add: groups_named_def)
    moreover have "filter (\<lambda>h. g_id h \<noteq> g_id g) (bk_groups (books w)) =
        filter (\<lambda>h. g_name h \<noteq> ClusterGroup c) (bk_groups (books w))"
      using filter_id_eq_filter_name [where key = g_id, OF _ named [unfolded groups_named_def]] consistent [OF \<open>ok w\<close>] by (simp add: books_ok_def)
    ultimately show ?thesis
      using delete_group [OF _ del] law r named group_deletion_not_found by (cases ru) (auto simp: without_group_def)
  qed
qed

lemma delete_cluster_books:
  assumes "ok w" and run: "delete_cluster client c w = (w', r)"
  shows "ok w' \<and> (up w \<longrightarrow> up w') \<and>
    (case r of Inr _ \<Rightarrow> books w' = without_cluster c (books w)
     | Inl _ \<Rightarrow> books w' = books w \<or> books w' = without_policy c (books w)) \<and>
    (up w \<and> cluster_clean c (books w) \<longrightarrow> r = Inr ()) \<and>
    (\<forall>d kind i. r \<noteq> Inl (ClusterNotFound d kind i))"
proof -
  obtain w1 r1 where policy: "delete_cluster_policy client c w = (w1, r1)" by fastforce
  note first = delete_cluster_policy [OF \<open>ok w\<close> policy]
  show ?thesis
  proof (cases r1)
    case (Inl e)
    with first run show ?thesis by (auto simp: delete_cluster_def and_then_def policy cluster_clean_def)
  next
    case (Inr u)
    with run have grp: "delete_cluster_group client c w1 = (w', r)" by (simp add: delete_cluster_def and_then_def policy)
    from first Inr have "ok w1" "books w1 = without_policy c (books w)" "up w \<longrightarrow> up w1" by simp_all
    with delete_cluster_group [OF _ grp] show ?thesis
      by (auto simp: without_cluster_def cluster_clean_def split: sum.splits)
  qed
qed

lemma delete_previous_cluster_books:
  assumes "ok w" and run: "delete_previous_cluster client c w = (w', r)"
  shows "ok w' \<and> (up w \<longrightarrow> up w') \<and>
    (case r of Inr _ \<Rightarrow> books w' = without_cluster c (books w)
     | Inl _ \<Rightarrow> books w' = books w \<or> books w' = without_policy c (books w)) \<and>
    (up w \<and> cluster_clean c (books w) \<longrightarrow> r = Inr ())"
proof -
  obtain w1 r1 where del: "delete_cluster client c w = (w1, r1)" by fastforce
  note law = delete_cluster_books [OF \<open>ok w\<close> del]
  show ?thesis
  proof (cases r1)
    case (Inl e)
    with law obtain d cause where "e = ClusterDeletionFailure d cause" by (cases e) auto
    with run law Inl show ?thesis by (auto simp: delete_previous_cluster_def on_result_def del run_defs)
  next
    case (Inr u)
    with run law show ?thesis by (auto simp: delete_previous_cluster_def on_result_def del run_defs)
  qed
qed

lemma resolve_netbird_peer_books:
  assumes "ok w" and run: "resolve_netbird_peer client c p w = (w', r)"
  shows "ok w' \<and> (up w \<longrightarrow> up w') \<and> books w' = books w \<and>
    (\<forall>i. r = Inr i \<longrightarrow> netbird_peer_of (books w) p = Some i) \<and>
    (up w \<longrightarrow> (\<forall>i. netbird_peer_of (books w) p = Some i \<longrightarrow> r = Inr i))"
proof -
  obtain w1 rg where get: "nc_get_group client (PeerGroup p) w = (w1, rg)" by fastforce
  show ?thesis
    using run get_group [OF \<open>ok w\<close> get]
    by (cases rg) (auto simp: resolve_netbird_peer_def run_defs get found_group_def netbird_peer_of_def split: list.splits)
qed

lemma resolve_netbird_peers_books:
  assumes "ok w" and run: "resolve_netbird_peers client c ps w = (w', r)"
  shows "ok w' \<and> (up w \<longrightarrow> up w') \<and> books w' = books w \<and>
    (\<forall>is. r = Inr is \<longrightarrow> map (netbird_peer_of (books w)) ps = map Some is) \<and>
    (up w \<and> (\<forall>p\<in>set ps. netbird_peer_of (books w) p \<noteq> None) \<longrightarrow> (\<exists>is. r = Inr is))"
  using assms
proof (induction ps arbitrary: w r)
  case (Cons p ps)
  obtain w1 r1 where one: "resolve_netbird_peer client c p w = (w1, r1)" by fastforce
  note first = resolve_netbird_peer_books [OF \<open>ok w\<close> one]
  show ?case
  proof (cases r1)
    case (Inl e)
    with first Cons.prems(2) show ?thesis by (auto simp: and_then_def one)
  next
    case (Inr i)
    obtain r2 where rest: "resolve_netbird_peers client c ps w1 = (w', r2)"
      and r: "r = map_ok (\<lambda>is. i # is) r2"
      using Cons.prems(2) Inr by (auto simp: run_defs one split: prod.splits sum.splits)
    have "ok w1" "books w1 = books w" "up w \<longrightarrow> up w1" "netbird_peer_of (books w) p = Some i" using first Inr by auto
    then show ?thesis using Cons.IH [OF _ rest] r by (cases r2) auto
  qed
qed (auto simp: return_ok_def)

lemma create_cluster_books:
  assumes "ok w" and run: "create_cluster client c ps w = (w', r)"
  shows "ok w' \<and> (up w \<longrightarrow> up w') \<and>
    (case r of Inr _ \<Rightarrow> \<exists>g p is. with_cluster c g (Some p) (books w) (books w') \<and>
         map (netbird_peer_of (books w)) ps = map Some is \<and> map fst (g_peers g) = is
     | Inl _ \<Rightarrow> books w' \<in> {books w, without_policy c (books w), without_cluster c (books w)} \<or>
         (\<exists>g. with_cluster c g None (books w) (books w'))) \<and>
    (up w \<and> cluster_clean c (books w) \<and> (\<forall>p\<in>set ps. netbird_peer_of (books w) p \<noteq> None) \<longrightarrow> r = Inr ())"
proof -
  obtain w1 r1 where prev: "delete_previous_cluster client c w = (w1, r1)" by fastforce
  note first = delete_previous_cluster_books [OF \<open>ok w\<close> prev]
  show ?thesis
  proof (cases r1)
    case (Inl e)
    with first run show ?thesis by (auto simp: create_cluster_def and_then_def prev)
  next
    case Inr1: (Inr u)
    with first have w1: "ok w1" "up w \<longrightarrow> up w1" "books w1 = without_cluster c (books w)" by auto
    obtain w2 r2 where peers: "resolve_netbird_peers client c ps w1 = (w2, r2)" by fastforce
    note second = resolve_netbird_peers_books [OF \<open>ok w1\<close> peers]
    show ?thesis
    proof (cases r2)
      case (Inl e)
      with first second w1 run show ?thesis
        by (auto simp: create_cluster_def and_then_def prev Inr1 peers)
    next
      case Inr2: (Inr "is")
      with second w1 have w2: "ok w2" "up w \<longrightarrow> up w2" "books w2 = without_cluster c (books w)"
        and found: "map (netbird_peer_of (books w)) ps = map Some is" by auto
      obtain w3 r3 where grp: "nc_create_group client (ClusterGroup c) is w2 = (w3, r3)" by fastforce
      have known: "set is \<subseteq> bk_peers (books w2)"
        using peers_known [OF consistent [OF \<open>ok w\<close>] found] w2(3) by simp
      note third = create_group [OF \<open>ok w2\<close> _ grp]
      show ?thesis
      proof (cases r3)
        case (Inl e)
        with third known w2 run show ?thesis
          by (auto simp: create_cluster_def run_defs prev Inr1 peers Inr2 grp)
      next
        case Inr3: (Inr g)
        with third w2 have w3: "ok w3" "up w \<longrightarrow> up w3" "map fst (g_peers g) = is" "with_cluster c g None (books w) (books w3)"
          by (auto simp: with_cluster_def)
        obtain r4 where policy: "nc_create_self_policy client g (ClusterPolicy c) w3 = (w', r4)"
          and r: "r = map_err (\<lambda>error. AccessPolicyCreationFailure c (BoxedRequest error)) r4"
          using run by (auto simp: create_cluster_def run_defs prev Inr1 peers Inr2 grp Inr3 split: prod.splits)
        show ?thesis
          using create_self_policy [OF \<open>ok w3\<close> _ policy] w3 r found
          by (cases r4) (auto simp: with_cluster_def)
      qed
    qed
  qed
qed

lemma create_peer_books:
  assumes "ok w" and run: "create_peer client p w = (w', r)"
  shows "ok w' \<and> (up w \<longrightarrow> up w') \<and> (up w \<longrightarrow> r = Inr ()) \<and>
    (case r of Inl _ \<Rightarrow> books w' = books w
     | Inr _ \<Rightarrow> \<exists>g. g_name g = PeerGroup p \<and> g_peers g = [] \<and> g_id g \<notin> g_id ` set (bk_groups (books w)) \<and>
         books w' = (books w)\<lparr> bk_groups := bk_groups (books w) @ [g] \<rparr>)"
proof -
  obtain w1 rg where grp: "nc_create_group client (PeerGroup p) [] w = (w1, rg)" by fastforce
  have r: "w1 = w'" "r = map_err (\<lambda>error. PeerCreationFailure p (BoxedRequest error)) (map_ok (\<lambda>_. ()) rg)"
    using run by (cases rg; auto simp: create_peer_def run_defs grp)+
  with create_group [OF \<open>ok w\<close> _ grp] show ?thesis by (cases rg) auto
qed

lemma logged_out:
  assumes "ok w" and run: "(case infos of [] \<Rightarrow> return_ok () | info # _ \<Rightarrow> nc_delete_peer client (fst info)) w = (w', r)"
  shows "ok w' \<and> map g_id (bk_groups (books w')) = map g_id (bk_groups (books w)) \<and>
    map g_name (bk_groups (books w')) = map g_name (bk_groups (books w))"
proof (cases infos)
  case (Cons info rest)
  with run have "nc_delete_peer client (fst info) w = (w', r)" by simp
  from delete_netbird_peer [OF \<open>ok w\<close> this] show ?thesis by (cases r) (auto simp: comp_def)
qed (use assms in \<open>auto simp: return_ok_def\<close>)

lemma delete_peer_registered:
  assumes "ok w" and run: "delete_peer client p w = (w', r)"
  shows "ok w' \<and> registered (books w') = (case r of Inr _ \<Rightarrow> registered (books w) - {p} | Inl _ \<Rightarrow> registered (books w))"
proof -
  obtain w1 rg where get: "nc_get_group client (PeerGroup p) w = (w1, rg)" by fastforce
  note law = get_group [OF \<open>ok w\<close> get]
  show ?thesis
  proof (cases rg)
    case (Inl e)
    with run law show ?thesis by (auto simp: delete_peer_def run_defs get)
  next
    case (Inr g)
    with law have w1: "ok w1" "books w1 = books w" and named: "groups_named (PeerGroup p) (books w) = [g]"
      by (auto simp: found_group_def split: list.splits)
    let ?logout = "case g_peers g of [] \<Rightarrow> return_ok () | info # _ \<Rightarrow> nc_delete_peer client (fst info)"
    obtain w2 r2 where logout: "?logout w1 = (w2, r2)" by fastforce
    have w2: "ok w2" "map g_id (bk_groups (books w2)) = map g_id (bk_groups (books w))"
        "map g_name (bk_groups (books w2)) = map g_name (bk_groups (books w))"
      using logged_out [OF w1(1) logout] w1(2) by simp_all
    note same = registered_by_names [OF w2(3)]
    obtain w3 r3 where key: "nc_delete_setup_key client p w2 = (w3, r3)" by fastforce
    note third = delete_setup_key [OF w2(1) key]
    obtain w4 r4 where del: "nc_delete_group client (g_id g) w3 = (w4, r4)" by fastforce
    have fourth: "ok w4 \<and> registered (books w4) = (case r4 of Inr _ \<Rightarrow> registered (books w) - {p} | Inl _ \<Rightarrow> registered (books w))"
    proof (cases r4)
      case (Inl e)
      with delete_group [OF _ del] third same show ?thesis by simp
    next
      case (Inr u)
      have "distinct (map g_id (bk_groups (books w)))" using consistent [OF \<open>ok w\<close>] by (simp add: books_ok_def)
      from registered_without_self_group [OF this w2(2,3) named] delete_group [OF _ del] third Inr
      show ?thesis by simp
    qed
    show ?thesis
    proof -
      let ?e = "\<lambda>error. PeerDeletionFailure p (BoxedRequest error)"
      have "delete_peer client p w =
          (case r2 of Inl e \<Rightarrow> (w2, Inl (?e e))
           | Inr _ \<Rightarrow> (case r3 of Inl e \<Rightarrow> (w3, Inl (?e e)) | Inr _ \<Rightarrow> (w4, map_err ?e r4)))"
        by (simp add: delete_peer_def run_defs get Inr logout key del split: sum.split)
      with run third fourth same w2(1) show ?thesis by (cases r4) (auto split: sum.splits)
    qed
  qed
qed

lemma keeps_books: "vpn_keeps_books (netbird_management_client x url client) ok (\<lambda>w. registered (books w))"
  unfolding vpn_keeps_books_def
proof (intro conjI allI impI)
  fix p w
  assume "ok w"
  obtain w1 r1 where create: "create_peer client p w = (w1, r1)" by fastforce
  show "ok (fst (vpn_create_peer (netbird_management_client x url client) p w))"
    using create_peer_books [OF \<open>ok w\<close> create] by (simp add: netbird_management_client_def map_run_err_def create)
  show "registered (books (fst (vpn_create_peer (netbird_management_client x url client) p w))) =
      (case snd (vpn_create_peer (netbird_management_client x url client) p w) of
         Inr _ \<Rightarrow> insert p (registered (books w)) | Inl _ \<Rightarrow> registered (books w))"
    using create_peer_books [OF \<open>ok w\<close> create]
    by (cases r1) (auto simp: netbird_management_client_def map_run_err_def create registered_def)
  obtain w2 r2 where delete: "delete_peer client p w = (w2, r2)" by fastforce
  show "ok (fst (vpn_delete_peer (netbird_management_client x url client) p w))"
    using delete_peer_registered [OF \<open>ok w\<close> delete] by (simp add: netbird_management_client_def map_run_err_def delete)
  show "registered (books (fst (vpn_delete_peer (netbird_management_client x url client) p w))) =
      (case snd (vpn_delete_peer (netbird_management_client x url client) p w) of
         Inr _ \<Rightarrow> registered (books w) - {p} | Inl _ \<Rightarrow> registered (books w))"
    using delete_peer_registered [OF \<open>ok w\<close> delete]
    by (cases r2) (auto simp: netbird_management_client_def map_run_err_def delete)
qed

lemma new_peer_deletable:
  assumes "ok w" and "up w" and "p \<notin> registered (books w)"
  shows "snd (delete_peer client p (fst (create_peer client p w))) = Inr ()"
proof -
  obtain w1 r1 where create: "create_peer client p w = (w1, r1)" by fastforce
  note first = create_peer_books [OF \<open>ok w\<close> create]
  with \<open>up w\<close> obtain g where w1: "ok w1" "up w1" "g_name g = PeerGroup p" "g_peers g = []"
      "g_id g \<notin> g_id ` set (bk_groups (books w))" "books w1 = (books w)\<lparr> bk_groups := bk_groups (books w) @ [g] \<rparr>"
    by auto
  have named: "groups_named (PeerGroup p) (books w1) = [g]"
    using assms(3) w1(3,6) by (simp add: groups_named_def registered_def filter_empty_conv) (metis image_iff)
  obtain w2 rg where get: "nc_get_group client (PeerGroup p) w1 = (w2, rg)" by fastforce
  have w2: "ok w2" "up w2" "books w2 = books w1" "rg = Inr g"
    using get_group [OF w1(1) get] w1(2) named by (auto simp: found_group_def)
  obtain w3 r3 where key: "nc_delete_setup_key client p w2 = (w3, r3)" by fastforce
  have w3: "ok w3" "up w3" "books w3 = books w1" "\<exists>ks. r3 = Inr ks"
    using delete_setup_key [OF w2(1) key] w2(2,3) by auto
  obtain w4 r4 where del: "nc_delete_group client (g_id g) w3 = (w4, r4)" by fastforce
  have "\<not> linked (g_id g) (books w)"
    using w1(5) consistent [OF \<open>ok w\<close>] unfolding books_ok_def by blast
  then have "\<not> linked (g_id g) (books w3)" using w3(3) w1(6) by (simp add: linked_def)
  moreover have "g_id g \<in> g_id ` set (bk_groups (books w3))" using w3(3) w1(6) by simp
  ultimately have "r4 = Inr ()" using delete_group [OF w3(1) del] w3(2) by blast
  then show ?thesis using w3(4) by (auto simp: create delete_peer_def run_defs get w2(4) w1(4) key del)
qed

end

end
