(* ===== verification/NetbirdServer.thy ===== *)
theory NetbirdServer
  imports NetbirdBooks
begin

text \<open>
  A NetBird server, as the environment of the client: groups, policies, setup keys and peers with
  the requests of its documented API, and a list that says which of the next requests get lost.
  The HTTP client over it is an interpretation of the locale of theory NetbirdBooks; the claims on
  the management client rest on that.
\<close>

datatype answer =
    AnsGroup raw_group
  | AnsGroups "raw_group list"
  | AnsPolicies "raw_policy list"
  | AnsPeer NetbirdPeer
  | AnsKey NetbirdSetupKey
  | AnsKeys "NetbirdSetupKey list"
  | AnsText string

record netbird_server =
  ns_groups :: "raw_group list"
  ns_policies :: "(raw_policy \<times> string list) list"
  ns_keys :: "NetbirdSetupKey list"
  ns_peers :: "(string \<times> string) list"
  ns_next :: nat
  ns_faults :: "bool list"

definition ans :: "nat \<Rightarrow> answer \<Rightarrow> 'e + answer http_response" where
  "ans status body = Inr \<lparr> hr_status = status, hr_body = body \<rparr>"

definition rule_groups :: "CreateAccessControlRule list \<Rightarrow> string list" where
  "rule_groups rules = concat (map (\<lambda>r. acr_sources r @ acr_destinations r) rules)"

definition raw_linked :: "string \<Rightarrow> netbird_server \<Rightarrow> bool" where
  "raw_linked i s \<longleftrightarrow> (\<exists>p\<in>set (ns_policies s). i \<in> set (snd p))"

definition new_raw_group :: "netbird_server \<Rightarrow> string \<Rightarrow> string list \<Rightarrow> raw_group" where
  "new_raw_group s name ps =
     \<lparr> rg_id = show_nat (ns_next s), rg_name = name,
       rg_peers = map (\<lambda>p. (p, case map_of (ns_peers s) p of Some n \<Rightarrow> n | None \<Rightarrow> [])) ps \<rparr>"

definition remove_peer_from :: "string \<Rightarrow> raw_group \<Rightarrow> raw_group" where
  "remove_peer_from i g = g\<lparr> rg_peers := filter (\<lambda>p. fst p \<noteq> i) (rg_peers g) \<rparr>"

fun serve_get :: "string list \<Rightarrow> netbird_server \<Rightarrow> nat \<times> answer" where
  "serve_get [kind] s =
     (if kind = ''groups'' then (200, AnsGroups (ns_groups s))
      else if kind = ''policies'' then (200, AnsPolicies (map fst (ns_policies s)))
      else if kind = ''setup-keys'' then (200, AnsKeys (ns_keys s)) else (404, AnsText ''not found''))"
| "serve_get [kind, i] s =
     (if kind = ''peers'' \<and> i \<in> fst ` set (ns_peers s) then (200, AnsPeer \<lparr> np_id = i, np_ip = V4 [100, 64, 0, 1] \<rparr>)
      else (404, AnsText ''not found''))"
| "serve_get _ s = (404, AnsText ''not found'')"

fun serve_post :: "netbird_body \<Rightarrow> netbird_server \<Rightarrow> netbird_server \<times> nat \<times> answer" where
  "serve_post (CreateGroupBody name ps) s =
     (if set ps \<subseteq> fst ` set (ns_peers s)
      then (let g = new_raw_group s name ps in (s\<lparr> ns_groups := ns_groups s @ [g], ns_next := Suc (ns_next s) \<rparr>, 200, AnsGroup g))
      else (s, 422, AnsText ''unknown peer''))"
| "serve_post (CreatePolicyBody name description enabled rules) s =
     (if set (rule_groups rules) \<subseteq> rg_id ` set (ns_groups s)
      then (s\<lparr> ns_policies := ns_policies s @ [(\<lparr> rp_id = show_nat (ns_next s), rp_name = name \<rparr>, rule_groups rules)],
              ns_next := Suc (ns_next s) \<rparr>, 200, AnsText ''created'')
      else (s, 422, AnsText ''unknown group''))"
| "serve_post (SetupKeyBody k) s =
     (let key = \<lparr> sk_id = show_nat (ns_next s), sk_key = word_of_nat (ns_next s), sk_name = csk_name k \<rparr> in
      (s\<lparr> ns_keys := ns_keys s @ [key], ns_next := Suc (ns_next s) \<rparr>, 200, AnsKey key))"
| "serve_post NoBody s = (s, 400, AnsText ''no body'')"

fun serve_delete :: "string list \<Rightarrow> netbird_server \<Rightarrow> netbird_server \<times> nat \<times> answer" where
  "serve_delete [kind, i] s =
     (if kind = ''groups'' then
        (if i \<notin> rg_id ` set (ns_groups s) then (s, 404, AnsText ''no such group'')
         else if raw_linked i s then (s, 400, AnsText ''group is linked to a policy'')
         else (s\<lparr> ns_groups := filter (\<lambda>g. rg_id g \<noteq> i) (ns_groups s) \<rparr>, 200, AnsText ''{}''))
      else if kind = ''policies'' then
        (if i \<notin> (\<lambda>p. rp_id (fst p)) ` set (ns_policies s) then (s, 404, AnsText ''no such policy'')
         else (s\<lparr> ns_policies := filter (\<lambda>p. rp_id (fst p) \<noteq> i) (ns_policies s) \<rparr>, 200, AnsText ''{}''))
      else if kind = ''peers'' then
        (if i \<notin> fst ` set (ns_peers s) then (s, 404, AnsText ''no such peer'')
         else (s\<lparr> ns_peers := filter (\<lambda>p. fst p \<noteq> i) (ns_peers s), ns_groups := map (remove_peer_from i) (ns_groups s) \<rparr>,
               200, AnsText ''{}''))
      else (s, 404, AnsText ''not found''))"
| "serve_delete _ s = (s, 404, AnsText ''not found'')"

fun serve_put :: "string list \<Rightarrow> netbird_server \<Rightarrow> netbird_server \<times> nat \<times> answer" where
  "serve_put [kind, i] s =
     (if kind = ''setup-keys'' \<and> i \<in> sk_id ` set (ns_keys s) then (s, 200, AnsText ''{}'') else (s, 404, AnsText ''not found''))"
| "serve_put _ s = (s, 404, AnsText ''not found'')"

fun serve :: "http_method \<Rightarrow> string list \<Rightarrow> netbird_body \<Rightarrow> netbird_server \<Rightarrow> netbird_server \<times> nat \<times> answer" where
  "serve GET path body s = (s, serve_get path s)"
| "serve POST path body s = serve_post body s"
| "serve PUT path body s = serve_put path s"
| "serve DELETE path body s = serve_delete path s"

definition server_handle :: "http_method \<Rightarrow> string list \<Rightarrow> netbird_body \<Rightarrow> (netbird_server, string, answer http_response) run" where
  "server_handle m path body s =
     (let t = s\<lparr> ns_faults := tl (ns_faults s) \<rparr> in
      case ns_faults s of
        True # _ \<Rightarrow> (t, Inl ''connection reset'')
      | _ \<Rightarrow> (case serve m path body t of (u, status, body) \<Rightarrow> (u, ans status body)))"

definition server_http :: "(netbird_server, answer) netbird_http" where
  "server_http =
     \<lparr> nb_handle = server_handle,
       nb_text = (\<lambda>b. case b of AnsText t \<Rightarrow> Some t | _ \<Rightarrow> None),
       nb_json_group = (\<lambda>b. case b of AnsGroup g \<Rightarrow> Inr g | _ \<Rightarrow> Inl ''expected a group''),
       nb_json_groups = (\<lambda>b. case b of AnsGroups gs \<Rightarrow> Inr gs | _ \<Rightarrow> Inl ''expected groups''),
       nb_json_policies = (\<lambda>b. case b of AnsPolicies ps \<Rightarrow> Inr ps | _ \<Rightarrow> Inl ''expected policies''),
       nb_json_peer = (\<lambda>b. case b of AnsPeer p \<Rightarrow> Inr p | _ \<Rightarrow> Inl ''expected a peer''),
       nb_json_setup_key = (\<lambda>b. case b of AnsKey k \<Rightarrow> Inr k | _ \<Rightarrow> Inl ''expected a setup key''),
       nb_json_setup_keys = (\<lambda>b. case b of AnsKeys ks \<Rightarrow> Inr ks | _ \<Rightarrow> Inl ''expected setup keys''),
       nb_setup_key_expiration = 86400 \<rparr>"

section \<open>Its books\<close>

text \<open>What the client makes of a raw group or policy whose name can be parsed.\<close>

definition decoded_group :: "ext \<Rightarrow> raw_group \<Rightarrow> Group" where
  "decoded_group x r = \<lparr> g_id = rg_id r, g_name = projr (group_name_try_from x (rg_name r)), g_peers = rg_peers r \<rparr>"

definition decoded_policy :: "ext \<Rightarrow> raw_policy \<Rightarrow> Policy" where
  "decoded_policy x r = \<lparr> po_id = rp_id r, po_name = projr (policy_name_try_from x (rp_name r)) \<rparr>"

definition server_books :: "ext \<Rightarrow> netbird_server \<Rightarrow> books" where
  "server_books x s = \<lparr> bk_groups = map (decoded_group x) (ns_groups s),
     bk_policies = map (\<lambda>p. (decoded_policy x (fst p), snd p)) (ns_policies s), bk_peers = fst ` set (ns_peers s) \<rparr>"

definition group_name_ok :: "ext \<Rightarrow> string \<Rightarrow> bool" where
  "group_name_ok x s = (case group_name_try_from x s of Inr _ \<Rightarrow> True | Inl _ \<Rightarrow> False)"

definition policy_name_ok :: "ext \<Rightarrow> string \<Rightarrow> bool" where
  "policy_name_ok x s = (case policy_name_try_from x s of Inr _ \<Rightarrow> True | Inl _ \<Rightarrow> False)"

definition numbered :: "nat \<Rightarrow> string \<Rightarrow> bool" where
  "numbered n i \<longleftrightarrow> (\<exists>k<n. i = show_nat k)"

lemma numbered_simps [simp]: "numbered (Suc n) (show_nat n)" "\<not> numbered n (show_nat n)" "numbered n i \<Longrightarrow> numbered (Suc n) i"
  by (auto simp: numbered_def less_Suc_eq)

definition server_ok :: "ext \<Rightarrow> netbird_server \<Rightarrow> bool" where
  "server_ok x s \<longleftrightarrow> ext_ok x \<and> (\<forall>g\<in>set (ns_groups s). group_name_ok x (rg_name g)) \<and>
     (\<forall>p\<in>set (ns_policies s). policy_name_ok x (rp_name (fst p))) \<and>
     distinct (map rg_id (ns_groups s)) \<and> distinct (map (\<lambda>p. rp_id (fst p)) (ns_policies s)) \<and>
     (\<forall>g\<in>set (ns_groups s). numbered (ns_next s) (rg_id g)) \<and>
     (\<forall>p\<in>set (ns_policies s). numbered (ns_next s) (rp_id (fst p))) \<and>
     (\<forall>g\<in>set (ns_groups s). fst ` set (rg_peers g) \<subseteq> fst ` set (ns_peers s)) \<and>
     (\<forall>p\<in>set (ns_policies s). set (snd p) \<subseteq> rg_id ` set (ns_groups s))"

definition server_up :: "netbird_server \<Rightarrow> bool" where
  "server_up s \<longleftrightarrow> True \<notin> set (ns_faults s)"

section \<open>Every request keeps the books consistent\<close>

definition lost :: "netbird_server \<Rightarrow> bool" where
  "lost s = (case ns_faults s of True # _ \<Rightarrow> True | _ \<Rightarrow> False)"

definition tick :: "netbird_server \<Rightarrow> netbird_server" where
  "tick s = s\<lparr> ns_faults := tl (ns_faults s) \<rparr>"

lemma server_books_faults [simp]: "server_books x (s\<lparr> ns_faults := f \<rparr>) = server_books x s"
  by (simp add: server_books_def)

lemma server_ok_faults [simp]: "server_ok x (s\<lparr> ns_faults := f \<rparr>) = server_ok x s"
  by (simp add: server_ok_def)

lemma server_tick [simp]:
  "server_books x (tick s) = server_books x s" "server_ok x (tick s) = server_ok x s"
  "server_up s \<Longrightarrow> server_up (tick s)" "server_up s \<Longrightarrow> \<not> lost s" "lost s \<Longrightarrow> \<not> server_up s"
  by (cases "ns_faults s"; auto simp: tick_def server_up_def lost_def split: bool.splits)+

lemma send_request_server:
  "send_request server_http m path body s =
     (if lost s then (tick s, Inl (RequestMiddleware ''connection reset''))
      else (case serve m path body (tick s) of (t, status, b) \<Rightarrow> (t, Inr \<lparr> hr_status = status, hr_body = b \<rparr>)))"
  by (simp add: send_request_def map_run_err_def server_http_def server_handle_def lost_def tick_def ans_def Let_def
      split: list.split bool.split prod.split)

lemma server_http_simps [simp]:
  "nb_text server_http (AnsText t) = Some t"
  "nb_json_group server_http (AnsGroup g) = Inr g" "nb_json_group server_http (AnsText t) = Inl ''expected a group''"
  "nb_json_groups server_http (AnsGroups gs) = Inr gs" "nb_json_policies server_http (AnsPolicies ps) = Inr ps"
  "nb_json_setup_key server_http (AnsKey k) = Inr k" "nb_json_setup_keys server_http (AnsKeys ks) = Inr ks"
  by (simp_all add: server_http_def)

fun body_ok :: "ext \<Rightarrow> netbird_body \<Rightarrow> bool" where
  "body_ok x (CreateGroupBody name ps) = group_name_ok x name"
| "body_ok x (CreatePolicyBody name description enabled rules) = policy_name_ok x name"
| "body_ok x _ = True"

lemma server_okD:
  assumes "server_ok x s"
  shows "ext_ok x" and "\<forall>g\<in>set (ns_groups s). group_name_ok x (rg_name g)"
    and "\<forall>p\<in>set (ns_policies s). policy_name_ok x (rp_name (fst p))"
    and "distinct (map rg_id (ns_groups s))" and "distinct (map (\<lambda>p. rp_id (fst p)) (ns_policies s))"
    and "\<forall>g\<in>set (ns_groups s). numbered (ns_next s) (rg_id g)"
    and "\<forall>p\<in>set (ns_policies s). numbered (ns_next s) (rp_id (fst p))"
    and "\<forall>g\<in>set (ns_groups s). fst ` set (rg_peers g) \<subseteq> fst ` set (ns_peers s)"
    and "\<forall>p\<in>set (ns_policies s). set (snd p) \<subseteq> rg_id ` set (ns_groups s)"
  using assms by (simp_all add: server_ok_def)

lemma fresh_number:
  assumes "server_ok x s"
  shows "show_nat (ns_next s) \<notin> rg_id ` set (ns_groups s)"
    and "show_nat (ns_next s) \<notin> (\<lambda>p. rp_id (fst p)) ` set (ns_policies s)"
  using server_okD(6,7) [OF assms] numbered_simps(2) by (metis imageE)+

lemma serve_post_ok:
  assumes ok: "server_ok x s" and "body_ok x body"
  shows "server_ok x (fst (serve_post body s)) \<and> ns_faults (fst (serve_post body s)) = ns_faults s"
proof (cases body)
  case (CreateGroupBody name ps)
  then show ?thesis
    using server_okD [OF ok] fresh_number [OF ok] assms(2)
    by (auto simp: server_ok_def new_raw_group_def Let_def)
next
  case (CreatePolicyBody name description enabled rules)
  then show ?thesis
    using server_okD [OF ok] fresh_number [OF ok] assms(2) by (simp add: server_ok_def)
next
  case (SetupKeyBody k)
  then show ?thesis using server_okD [OF ok] by (simp add: server_ok_def Let_def)
qed (use ok in simp)

lemma serve_delete_group_ok:
  assumes ok: "server_ok x s" and "\<not> raw_linked i s"
  shows "server_ok x (s\<lparr> ns_groups := filter (\<lambda>g. rg_id g \<noteq> i) (ns_groups s) \<rparr>)"
proof -
  have "set (snd p) \<subseteq> rg_id ` {g \<in> set (ns_groups s). rg_id g \<noteq> i}" if "p \<in> set (ns_policies s)" for p
    using that assms(2) server_okD(9) [OF ok] unfolding raw_linked_def by fastforce
  with server_okD [OF ok] show ?thesis by (simp add: server_ok_def distinct_map_filter)
qed

lemma serve_delete_peer_ok:
  assumes ok: "server_ok x s"
  shows "server_ok x (s\<lparr> ns_peers := filter (\<lambda>p. fst p \<noteq> i) (ns_peers s), ns_groups := map (remove_peer_from i) (ns_groups s) \<rparr>)"
proof -
  have ids: "rg_id (remove_peer_from i g) = rg_id g" "rg_name (remove_peer_from i g) = rg_name g" for g
    by (simp_all add: remove_peer_from_def)
  let ?t = "s\<lparr> ns_peers := filter (\<lambda>p. fst p \<noteq> i) (ns_peers s), ns_groups := map (remove_peer_from i) (ns_groups s) \<rparr>"
  have peers: "fst ` set (rg_peers (remove_peer_from i g)) \<subseteq> fst ` set (ns_peers ?t)" if "g \<in> set (ns_groups s)" for g
  proof
    fix j
    assume "j \<in> fst ` set (rg_peers (remove_peer_from i g))"
    then have "j \<in> fst ` set (rg_peers g)" "j \<noteq> i" by (auto simp: remove_peer_from_def)
    with server_okD(8) [OF ok] that have "j \<in> fst ` set (ns_peers s)" by blast
    with \<open>j \<noteq> i\<close> show "j \<in> fst ` set (ns_peers ?t)" by auto
  qed
  have "map rg_id (ns_groups ?t) = map rg_id (ns_groups s)" by (simp add: ids)
  moreover from this have "rg_id ` set (ns_groups ?t) = rg_id ` set (ns_groups s)" by (metis set_map)
  ultimately have same: "map rg_id (ns_groups ?t) = map rg_id (ns_groups s)" "rg_id ` set (ns_groups ?t) = rg_id ` set (ns_groups s)"
    by blast+
  show ?thesis
    unfolding server_ok_def same
  proof (intro conjI)
    show "\<forall>g\<in>set (ns_groups ?t). group_name_ok x (rg_name g)" "\<forall>g\<in>set (ns_groups ?t). numbered (ns_next ?t) (rg_id g)"
      using server_okD(2,6) [OF ok] by (simp_all add: ids)
    show "\<forall>g\<in>set (ns_groups ?t). fst ` set (rg_peers g) \<subseteq> fst ` set (ns_peers ?t)" using peers by simp
  qed (use server_okD(1,3,4,5,7,9) [OF ok] in simp_all)
qed

lemma serve_delete_ok:
  assumes ok: "server_ok x s"
  shows "server_ok x (fst (serve_delete path s)) \<and> ns_faults (fst (serve_delete path s)) = ns_faults s"
  using assms
proof (induction path s rule: serve_delete.induct)
  case (1 kind i s)
  have "server_ok x (s\<lparr> ns_policies := filter (\<lambda>p. rp_id (fst p) \<noteq> i) (ns_policies s) \<rparr>)"
    using server_okD [OF 1] by (simp add: server_ok_def distinct_map_filter)
  with 1 serve_delete_group_ok [OF 1] serve_delete_peer_ok [OF 1] show ?case by simp
qed simp_all

lemma serve_put_same: "fst (serve_put path s) = s"
  by (induction path s rule: serve_put.induct) simp_all

lemma serve_ok:
  "server_ok x s \<Longrightarrow> body_ok x body \<Longrightarrow> serve m path body s = (t, status, b) \<Longrightarrow> server_ok x t \<and> ns_faults t = ns_faults s"
  using serve_post_ok [of x s body] serve_delete_ok [of x s path] serve_put_same [of path s]
  by (cases m) auto

lemma server_up_same_faults: "ns_faults t = ns_faults s \<Longrightarrow> server_up t = server_up s"
  by (simp add: server_up_def)

section \<open>The laws\<close>

lemma group_of_decoded: "group_name_ok x (rg_name r) \<Longrightarrow> group_of x r = Inr (decoded_group x r)"
  by (auto simp: group_of_def decoded_group_def group_name_ok_def split: sum.splits)

lemma policy_of_decoded: "policy_name_ok x (rp_name r) \<Longrightarrow> policy_of x r = Inr (decoded_policy x r)"
  by (auto simp: policy_of_def decoded_policy_def policy_name_ok_def split: sum.splits)

lemma server_tick_fields:
  "ns_groups (tick s) = ns_groups s" "ns_policies (tick s) = ns_policies s" "ns_peers (tick s) = ns_peers s"
  "ns_keys (tick s) = ns_keys s" "ns_next (tick s) = ns_next s"
  by (simp_all add: tick_def)

lemma server_books_ok: "server_ok x s \<Longrightarrow> books_ok (server_books x s)"
proof -
  assume ok: "server_ok x s"
  have "map g_id (bk_groups (server_books x s)) = map rg_id (ns_groups s)"
      "map (\<lambda>p. po_id (fst p)) (bk_policies (server_books x s)) = map (\<lambda>p. rp_id (fst p)) (ns_policies s)"
    by (simp_all add: server_books_def decoded_group_def decoded_policy_def)
  moreover have "\<forall>g\<in>set (bk_groups (server_books x s)). fst ` set (g_peers g) \<subseteq> bk_peers (server_books x s)"
    using server_okD(8) [OF ok] by (simp add: server_books_def decoded_group_def)
  moreover have "\<forall>i. linked i (server_books x s) \<longrightarrow> i \<in> g_id ` set (bk_groups (server_books x s))"
    using server_okD(9) [OF ok] by (fastforce simp: linked_def server_books_def decoded_group_def image_image)
  ultimately show ?thesis using server_okD(4,5) [OF ok] unfolding books_ok_def by metis
qed

text \<open>The code's search for the only group of a name.\<close>

lemma only_named:
  "(if 1 < length gs then fail_with multiple else lift_result (ok_or missing (case gs of [] \<Rightarrow> None | g # _ \<Rightarrow> Some g))) =
   lift_result (case gs of [] \<Rightarrow> Inl missing | [g] \<Rightarrow> Inr g | _ \<Rightarrow> Inl multiple)"
  by (auto simp: fun_eq_iff run_defs split: list.split)

lemma server_get_group:
  assumes ok: "server_ok x s" and run: "get_netbird_group x server_http n s = (t, r)"
  shows "server_ok x t \<and> (server_up s \<longrightarrow> server_up t) \<and> server_books x t = server_books x s \<and>
    (r = found_group n (server_books x s) \<or> \<not> server_up s \<and> (\<exists>e. r = Inl (GroupRequestFailure n e)))"
proof (cases "lost s")
  case True
  with ok run show ?thesis by (auto simp: get_netbird_group_def run_defs send_request_server)
next
  case False
  have "traverse (group_of x) (ns_groups (tick s)) = Inr (map (decoded_group x) (ns_groups s))"
    using server_okD(2) [OF ok] by (simp add: traverse_Inr [where g = "decoded_group x"] group_of_decoded tick_def)
  then have "get_netbird_group x server_http n s = (tick s, found_group n (server_books x s))"
    unfolding get_netbird_group_def Let_def only_named using False
    by (simp add: run_defs send_request_server found_group_def groups_named_def server_books_def)
  with run have "t = tick s" "r = found_group n (server_books x s)" by simp_all
  with ok show ?thesis by simp
qed

lemma server_get_policy:
  assumes ok: "server_ok x s" and run: "get_netbird_policy x server_http n s = (t, r)"
  shows "server_ok x t \<and> (server_up s \<longrightarrow> server_up t) \<and> server_books x t = server_books x s \<and>
    (r = found_policy n (server_books x s) \<or> \<not> server_up s \<and> (\<exists>e. r = Inl (PolicyRequestFailure n e)))"
proof (cases "lost s")
  case True
  with ok run show ?thesis by (auto simp: get_netbird_policy_def run_defs send_request_server)
next
  case False
  have "traverse (policy_of x) (map fst (ns_policies (tick s))) = Inr (map (decoded_policy x) (map fst (ns_policies s)))"
    using server_okD(3) [OF ok]
    unfolding traverse_map map_map comp_def
    by (simp add: traverse_Inr [where g = "\<lambda>p. decoded_policy x (fst p)"] policy_of_decoded tick_def)
  moreover have "filter (\<lambda>p. po_name p = n) (map (decoded_policy x) (map fst ps)) =
      map fst (filter (\<lambda>p. po_name (fst p) = n) (map (\<lambda>p. (decoded_policy x (fst p), snd p)) ps))"
    for ps :: "(raw_policy \<times> string list) list"
    by (simp add: filter_map comp_def)
  moreover have "(case map fst ps of [] \<Rightarrow> Inl e | [p] \<Rightarrow> Inr p | _ \<Rightarrow> Inl e') =
      (case ps of [] \<Rightarrow> Inl e | [p] \<Rightarrow> Inr (fst p) | _ \<Rightarrow> Inl e')" for ps :: "(Policy \<times> string list) list" and e e' :: GetPoliciesError
    by (simp split: list.split)
  ultimately have "get_netbird_policy x server_http n s = (tick s, found_policy n (server_books x s))"
    unfolding get_netbird_policy_def Let_def only_named using False
    by (simp add: run_defs send_request_server found_policy_def policies_named_def server_books_def tick_def del: map_map)
  with run have "t = tick s" "r = found_policy n (server_books x s)" by simp_all
  with ok show ?thesis by simp
qed

lemma server_get_setup_key:
  assumes "server_ok x s"
  shows "\<exists>r. get_setup_key x server_http p s = (tick s, r) \<and> (server_up s \<longrightarrow> (\<exists>ks. r = Inr ks \<and> set ks \<subseteq> set (ns_keys s)))"
proof (cases "lost s")
  case False
  then show ?thesis
    by (auto simp: get_setup_key_def list_setup_keys_def run_defs send_request_server tick_def)
qed (auto simp: get_setup_key_def list_setup_keys_def run_defs send_request_server)

lemma server_create_group:
  assumes ok: "server_ok x s" and plain: "plain_group_name n" and run: "create_netbird_group x server_http n ps s = (t, r)"
  shows "server_ok x t \<and> (server_up s \<longrightarrow> server_up t) \<and>
    (server_up s \<and> set ps \<subseteq> bk_peers (server_books x s) \<longrightarrow> (\<exists>g. r = Inr g)) \<and>
    (case r of Inl _ \<Rightarrow> server_books x t = server_books x s
     | Inr g \<Rightarrow> g_name g = n \<and> map fst (g_peers g) = ps \<and> g_id g \<notin> g_id ` set (bk_groups (server_books x s)) \<and>
         server_books x t = (server_books x s)\<lparr> bk_groups := bk_groups (server_books x s) @ [g] \<rparr>)"
proof (cases "lost s \<or> \<not> set ps \<subseteq> fst ` set (ns_peers s)")
  case True
  then show ?thesis
    using ok run by (auto simp: create_netbird_group_def run_defs send_request_server server_books_def [where s = s]
        error_for_status_def is_error_status_def tick_def [symmetric] split: if_splits) (auto simp: tick_def server_books_def)
next
  case False
  let ?g = "new_raw_group (tick s) (group_name_text x n) ps"
  let ?t = "(tick s)\<lparr> ns_groups := ns_groups (tick s) @ [?g], ns_next := Suc (ns_next (tick s)) \<rparr>"
  have name: "group_name_try_from x (group_name_text x n) = Inr n"
    using group_name_parse_print server_okD(1) [OF ok] plain by blast
  then have parsed: "group_name_ok x (rg_name ?g)" "g_name (decoded_group x ?g) = n"
    by (simp_all add: group_name_ok_def new_raw_group_def decoded_group_def)
  have served: "serve_post (CreateGroupBody (group_name_text x n) ps) (tick s) = (?t, 200, AnsGroup ?g)"
    using False by (simp add: Let_def tick_def)
  have "t = ?t" "r = Inr (decoded_group x ?g)"
    using run False served group_of_decoded [OF parsed(1)]
    by (simp_all add: create_netbird_group_def run_defs send_request_server error_for_status_def is_error_status_def del: serve_post.simps)
  moreover have "server_ok x ?t"
    using serve_post_ok [of x "tick s" "CreateGroupBody (group_name_text x n) ps"] served ok parsed(1)
    by (simp add: new_raw_group_def del: serve_post.simps)
  moreover have "rg_id ?g \<notin> rg_id ` set (ns_groups s)"
    using fresh_number(1) [OF ok] by (simp add: new_raw_group_def tick_def)
  moreover have "server_up ?t = server_up (tick s)" by (simp add: server_up_def)
  moreover have "map fst (g_peers (decoded_group x ?g)) = ps" by (simp add: decoded_group_def new_raw_group_def comp_def)
  moreover have "server_books x ?t = (server_books x s)\<lparr> bk_groups := bk_groups (server_books x s) @ [decoded_group x ?g] \<rparr>"
    by (simp add: server_books_def tick_def)
  moreover have "g_id (decoded_group x ?g) = rg_id ?g" "g_id ` set (bk_groups (server_books x s)) = rg_id ` set (ns_groups s)"
    by (simp_all add: server_books_def decoded_group_def image_image)
  ultimately show ?thesis using parsed(2) server_tick(3) [of s] by simp
qed

lemma raw_linked_tick [simp]: "raw_linked i (tick s) = raw_linked i s"
  by (simp add: raw_linked_def tick_def)

lemma linked_server_books: "linked i (server_books x s) = raw_linked i s"
  by (simp add: linked_def raw_linked_def server_books_def)

text \<open>A DELETE whose response is judged by \<open>parse_response_status\<close>.\<close>

lemma parse_response_status_simps [simp]:
  "parse_response_status nb \<lparr> hr_status = 200, hr_body = b \<rparr> = Inr ()"
  "parse_response_status server_http \<lparr> hr_status = 404, hr_body = AnsText m \<rparr> = Inl (IllegalRequest 404 m)"
  "parse_response_status server_http \<lparr> hr_status = 400, hr_body = AnsText m \<rparr> = Inl (IllegalRequest 400 m)"
  by (simp_all add: parse_response_status_def is_error_status_def)

lemma server_deletions:
  "delete_netbird_group server_http i s =
     (if lost s then (tick s, Inl (RequestMiddleware ''connection reset''))
      else (case serve_delete [''groups'', i] (tick s) of (t, status, b) \<Rightarrow>
        (t, parse_response_status server_http \<lparr> hr_status = status, hr_body = b \<rparr>)))"
  "delete_netbird_policy server_http i s =
     (if lost s then (tick s, Inl (RequestMiddleware ''connection reset''))
      else (case serve_delete [''policies'', i] (tick s) of (t, status, b) \<Rightarrow>
        (t, parse_response_status server_http \<lparr> hr_status = status, hr_body = b \<rparr>)))"
  by (simp_all add: delete_netbird_group_def delete_netbird_policy_def run_defs send_request_server split: prod.split)

lemma server_delete_group:
  assumes ok: "server_ok x s" and run: "delete_netbird_group server_http i s = (t, r)"
  shows "server_ok x t \<and> (server_up s \<longrightarrow> server_up t) \<and>
    (server_up s \<and> i \<in> g_id ` set (bk_groups (server_books x s)) \<and> \<not> linked i (server_books x s) \<longrightarrow> r = Inr ()) \<and>
    (\<forall>status. r \<noteq> Inl (IllegalStatus status)) \<and>
    (case r of Inl _ \<Rightarrow> server_books x t = server_books x s
     | Inr _ \<Rightarrow> server_books x t =
         (server_books x s)\<lparr> bk_groups := filter (\<lambda>g. g_id g \<noteq> i) (bk_groups (server_books x s)) \<rparr>)"
proof -
  have ids: "g_id ` set (bk_groups (server_books x s)) = rg_id ` set (ns_groups s)"
    by (simp add: server_books_def decoded_group_def image_image)
  have filter: "filter (\<lambda>g. g_id g \<noteq> i) (map (decoded_group x) gs) = map (decoded_group x) (filter (\<lambda>g. rg_id g \<noteq> i) gs)" for gs
    by (simp add: filter_map comp_def decoded_group_def)
  consider (lost) "lost s" | (unknown) "\<not> lost s" "i \<notin> rg_id ` set (ns_groups s)"
    | (linked) "\<not> lost s" "i \<in> rg_id ` set (ns_groups s)" "raw_linked i s"
    | (removed) "\<not> lost s" "i \<in> rg_id ` set (ns_groups s)" "\<not> raw_linked i s" by blast
  then show ?thesis
  proof cases
    case lost
    with ok run show ?thesis by (auto simp: server_deletions)
  next
    case unknown
    then have "t = tick s" "r = Inl (IllegalRequest 404 ''no such group'')"
      using run by (simp_all add: server_deletions server_tick_fields)
    with ok unknown show ?thesis unfolding ids by simp
  next
    case linked
    then have "t = tick s" "r = Inl (IllegalRequest 400 ''group is linked to a policy'')"
      using run by (simp_all add: server_deletions server_tick_fields)
    with ok linked show ?thesis by (simp add: linked_server_books)
  next
    case removed
    let ?t = "(tick s)\<lparr> ns_groups := filter (\<lambda>g. rg_id g \<noteq> i) (ns_groups (tick s)) \<rparr>"
    have served: "serve_delete [''groups'', i] (tick s) = (?t, 200, AnsText ''{}'')"
      using removed by (simp add: server_tick_fields)
    then have "t = ?t" "r = Inr ()" using run removed by (simp_all add: server_deletions del: serve_delete.simps)
    moreover have "server_ok x ?t" using serve_delete_ok [of x "tick s" "[''groups'', i]"] ok served by simp
    moreover have "server_up ?t = server_up (tick s)" by (simp add: server_up_def)
    ultimately show ?thesis using server_tick(3) [of s] filter by (simp add: server_books_def tick_def)
  qed
qed

lemma server_delete_policy:
  assumes ok: "server_ok x s" and run: "delete_netbird_policy server_http i s = (t, r)"
  shows "server_ok x t \<and> (server_up s \<longrightarrow> server_up t) \<and>
    (server_up s \<and> (\<exists>p\<in>set (bk_policies (server_books x s)). po_id (fst p) = i) \<longrightarrow> r = Inr ()) \<and>
    (\<forall>status. r \<noteq> Inl (IllegalStatus status)) \<and>
    (case r of Inl _ \<Rightarrow> server_books x t = server_books x s
     | Inr _ \<Rightarrow> server_books x t =
         (server_books x s)\<lparr> bk_policies := filter (\<lambda>p. po_id (fst p) \<noteq> i) (bk_policies (server_books x s)) \<rparr>)"
proof -
  have ids: "(\<exists>p\<in>set (bk_policies (server_books x s)). po_id (fst p) = i) \<longleftrightarrow> i \<in> (\<lambda>p. rp_id (fst p)) ` set (ns_policies s)"
    by (auto simp: server_books_def decoded_policy_def image_iff)
  have filter: "filter (\<lambda>p. po_id (fst p) \<noteq> i) (map (\<lambda>p. (decoded_policy x (fst p), snd p)) ps) =
      map (\<lambda>p. (decoded_policy x (fst p), snd p)) (filter (\<lambda>p. rp_id (fst p) \<noteq> i) ps)"
    for ps :: "(raw_policy \<times> string list) list"
    by (simp add: filter_map comp_def decoded_policy_def)
  consider (lost) "lost s" | (unknown) "\<not> lost s" "i \<notin> (\<lambda>p. rp_id (fst p)) ` set (ns_policies s)"
    | (removed) "\<not> lost s" "i \<in> (\<lambda>p. rp_id (fst p)) ` set (ns_policies s)" by blast
  then show ?thesis
  proof cases
    case lost
    with ok run show ?thesis by (auto simp: server_deletions)
  next
    case unknown
    then have "t = tick s" "r = Inl (IllegalRequest 404 ''no such policy'')"
      using run by (simp_all add: server_deletions server_tick_fields)
    with ok unknown show ?thesis unfolding ids by simp
  next
    case removed
    let ?t = "(tick s)\<lparr> ns_policies := filter (\<lambda>p. rp_id (fst p) \<noteq> i) (ns_policies (tick s)) \<rparr>"
    have served: "serve_delete [''policies'', i] (tick s) = (?t, 200, AnsText ''{}'')"
      using removed by (simp add: server_tick_fields)
    then have "t = ?t" "r = Inr ()" using run removed by (simp_all add: server_deletions del: serve_delete.simps)
    moreover have "server_ok x ?t" using serve_delete_ok [of x "tick s" "[''policies'', i]"] ok served by simp
    moreover have "server_up ?t = server_up (tick s)" by (simp add: server_up_def)
    ultimately show ?thesis using server_tick(3) [of s] filter by (simp add: server_books_def tick_def)
  qed
qed

lemma server_create_self_policy:
  assumes ok: "server_ok x s" and plain: "plain_policy_name q" and run: "create_netbird_self_policy x server_http g q s = (t, r)"
  shows "server_ok x t \<and> (server_up s \<longrightarrow> server_up t) \<and>
    (server_up s \<and> g_id g \<in> g_id ` set (bk_groups (server_books x s)) \<longrightarrow> r = Inr ()) \<and>
    (case r of Inl _ \<Rightarrow> server_books x t = server_books x s
     | Inr _ \<Rightarrow> \<exists>p. po_name p = q \<and>
         server_books x t = (server_books x s)\<lparr> bk_policies := bk_policies (server_books x s) @ [(p, [g_id g, g_id g])] \<rparr>)"
proof -
  have ids: "g_id ` set (bk_groups (server_books x s)) = rg_id ` set (ns_groups s)"
    by (simp add: server_books_def decoded_group_def image_image)
  consider (lost) "lost s" | (unknown) "\<not> lost s" "g_id g \<notin> rg_id ` set (ns_groups s)"
    | (created) "\<not> lost s" "g_id g \<in> rg_id ` set (ns_groups s)" by blast
  then show ?thesis
  proof cases
    case lost
    with ok run show ?thesis by (auto simp: create_netbird_self_policy_def run_defs send_request_server)
  next
    case unknown
    then have "t = tick s" "r = Inl (IllegalStatus 422)"
      using run by (simp_all add: create_netbird_self_policy_def run_defs send_request_server self_policy_body_def rule_groups_def
          server_tick_fields error_for_status_def is_error_status_def)
    with ok unknown show ?thesis unfolding ids by simp
  next
    case created
    let ?p = "\<lparr> rp_id = show_nat (ns_next s), rp_name = policy_name_text x q \<rparr>"
    let ?t = "(tick s)\<lparr> ns_policies := ns_policies (tick s) @ [(?p, [g_id g, g_id g])], ns_next := Suc (ns_next (tick s)) \<rparr>"
    have "policy_name_try_from x (policy_name_text x q) = Inr q"
      using policy_name_parse_print server_okD(1) [OF ok] plain by blast
    then have parsed: "policy_name_ok x (policy_name_text x q)" "po_name (decoded_policy x ?p) = q"
      by (simp_all add: policy_name_ok_def decoded_policy_def)
    have served: "serve_post (self_policy_body x (g_id g) q) (tick s) = (?t, 200, AnsText ''created'')"
      using created by (simp add: self_policy_body_def rule_groups_def server_tick_fields)
    then have "t = ?t" "r = Inr ()"
      using run created by (simp_all add: create_netbird_self_policy_def run_defs send_request_server error_for_status_def
          is_error_status_def)
    moreover have "server_ok x ?t"
      using serve_post_ok [of x "tick s" "self_policy_body x (g_id g) q"] served ok parsed(1) by (simp add: self_policy_body_def)
    moreover have "server_up ?t = server_up (tick s)" by (simp add: server_up_def)
    moreover have "server_books x ?t = (server_books x s)\<lparr> bk_policies := bk_policies (server_books x s) @
        [(decoded_policy x ?p, [g_id g, g_id g])] \<rparr>"
      by (simp add: server_books_def server_tick_fields)
    ultimately show ?thesis using server_tick(3) [of s] parsed(2) by auto
  qed
qed

lemma server_delete_netbird_peer:
  assumes ok: "server_ok x s" and run: "delete_netbird_peer server_http i s = (t, r)"
  shows "server_ok x t \<and> (server_up s \<longrightarrow> server_up t) \<and>
    (server_up s \<and> i \<in> bk_peers (server_books x s) \<longrightarrow> r = Inr ()) \<and>
    (case r of Inl _ \<Rightarrow> server_books x t = server_books x s
     | Inr _ \<Rightarrow> bk_policies (server_books x t) = bk_policies (server_books x s) \<and>
         bk_groups (server_books x t) =
           map (\<lambda>g. g\<lparr> g_peers := filter (\<lambda>p. fst p \<noteq> i) (g_peers g) \<rparr>) (bk_groups (server_books x s)))"
proof -
  have eq: "delete_netbird_peer server_http i s =
     (if lost s then (tick s, Inl (RequestMiddleware ''connection reset''))
      else (case serve_delete [''peers'', i] (tick s) of (t, status, b) \<Rightarrow>
        (t, if is_error_status status then Inl (IllegalStatus status) else Inr ())))"
    by (simp add: delete_netbird_peer_def run_defs send_request_server error_for_status_def split: prod.split)
  have known: "i \<in> bk_peers (server_books x s) \<longleftrightarrow> i \<in> fst ` set (ns_peers s)" by (simp add: server_books_def)
  consider (lost) "lost s" | (unknown) "\<not> lost s" "i \<notin> fst ` set (ns_peers s)" | (removed) "\<not> lost s" "i \<in> fst ` set (ns_peers s)"
    by blast
  then show ?thesis
  proof cases
    case lost
    with ok run show ?thesis by (auto simp: eq)
  next
    case unknown
    then have "t = tick s" "r = Inl (IllegalStatus 404)"
      using run by (simp_all add: eq server_tick_fields is_error_status_def)
    with ok unknown show ?thesis unfolding known by simp
  next
    case removed
    let ?t = "(tick s)\<lparr> ns_peers := filter (\<lambda>p. fst p \<noteq> i) (ns_peers (tick s)),
        ns_groups := map (remove_peer_from i) (ns_groups (tick s)) \<rparr>"
    have served: "serve_delete [''peers'', i] (tick s) = (?t, 200, AnsText ''{}'')"
      using removed by (simp add: server_tick_fields)
    then have "t = ?t" "r = Inr ()" using run removed by (simp_all add: eq is_error_status_def del: serve_delete.simps)
    moreover have "server_ok x ?t" using serve_delete_ok [of x "tick s" "[''peers'', i]"] ok served by simp
    moreover have "server_up ?t = server_up (tick s)" by (simp add: server_up_def)
    ultimately show ?thesis
      using server_tick(3) [of s] by (simp add: server_books_def server_tick_fields decoded_group_def remove_peer_from_def)
  qed
qed

text \<open>Revoking the keys of a peer: one update per key, none of which touches the books.\<close>

lemma server_revoke_key:
  "\<exists>r. revoke_setup_key server_http k s = (tick s, r) \<and> (server_up s \<and> sk_id k \<in> sk_id ` set (ns_keys s) \<longrightarrow> r = Inr ())"
  by (simp add: revoke_setup_key_def run_defs send_request_server error_for_status_def is_error_status_def server_tick_fields)

lemma server_revoke_keys:
  assumes "server_ok x s"
  shows "\<exists>t r. run_list (revoke_setup_key server_http) ks s = (t, r) \<and>
    server_ok x t \<and> server_books x t = server_books x s \<and> (server_up s \<longrightarrow> server_up t) \<and>
    (server_up s \<and> sk_id ` set ks \<subseteq> sk_id ` set (ns_keys s) \<longrightarrow> r = Inr ())"
  using assms
proof (induction ks arbitrary: s)
  case (Cons k ks)
  obtain r1 where one: "revoke_setup_key server_http k s = (tick s, r1)"
      "server_up s \<and> sk_id k \<in> sk_id ` set (ns_keys s) \<longrightarrow> r1 = Inr ()"
    using server_revoke_key by blast
  obtain t r where rest: "run_list (revoke_setup_key server_http) ks (tick s) = (t, r)" "server_ok x t"
      "server_books x t = server_books x s" "server_up s \<longrightarrow> server_up t"
      "server_up s \<and> sk_id ` set ks \<subseteq> sk_id ` set (ns_keys s) \<longrightarrow> r = Inr ()"
    using Cons.IH [of "tick s"] Cons.prems server_tick(1,2,3) unfolding server_tick_fields by metis
  show ?case
    using Cons.prems one rest by (cases r1) (auto simp: and_then_def)
qed (simp add: return_ok_def)

lemma server_delete_setup_key:
  assumes ok: "server_ok x s" and run: "delete_setup_key x server_http p s = (t, r)"
  shows "server_ok x t \<and> (server_up s \<longrightarrow> server_up t) \<and> (server_up s \<longrightarrow> (\<exists>ks. r = Inr ks)) \<and>
    server_books x t = server_books x s"
proof -
  obtain r1 where get: "get_setup_key x server_http p s = (tick s, r1)"
      "server_up s \<longrightarrow> (\<exists>ks. r1 = Inr ks \<and> set ks \<subseteq> set (ns_keys s))"
    using server_get_setup_key [OF ok] by blast
  show ?thesis
  proof (cases r1)
    case (Inl e)
    with get ok run show ?thesis by (auto simp: delete_setup_key_def run_defs)
  next
    case (Inr ks)
    obtain u r2 where revoke: "run_list (revoke_setup_key server_http) ks (tick s) = (u, r2)"
      and law: "server_ok x u" "server_books x u = server_books x s" "server_up s \<longrightarrow> server_up u"
        "server_up s \<and> sk_id ` set ks \<subseteq> sk_id ` set (ns_keys s) \<longrightarrow> r2 = Inr ()"
      using server_revoke_keys [of x "tick s" ks] ok server_tick(1,2,3) unfolding server_tick_fields by metis
    have "t = u" "r = map_ok (\<lambda>_. ks) r2"
      using run by (cases r2; simp add: delete_setup_key_def and_then_def get(1) Inr revoke return_ok_def)+
    moreover have "server_up s \<longrightarrow> sk_id ` set ks \<subseteq> sk_id ` set (ns_keys s)" using get(2) Inr by auto
    ultimately show ?thesis using law by (cases r2) auto
  qed
qed

interpretation nb: netbird_books "default_client x server_http" "server_ok x" server_up "server_books x" for x
proof (unfold_locales, goal_cases)
  case 1 then show ?case by (rule server_books_ok)
next
  case 2 then show ?case using server_get_group by (simp add: default_client_def)
next
  case 3 then show ?case using server_get_policy by (simp add: default_client_def)
next
  case 4 then show ?case using server_create_group by (simp add: default_client_def)
next
  case 5 then show ?case using server_delete_group by (simp add: default_client_def)
next
  case 6 then show ?case using server_create_self_policy by (simp add: default_client_def)
next
  case 7 then show ?case using server_delete_policy by (simp add: default_client_def)
next
  case 8 then show ?case using server_delete_netbird_peer by (simp add: default_client_def)
next
  case 9 then show ?case using server_delete_setup_key by (simp add: default_client_def)
qed

end
