(* ===== verification/NetbirdClaims.thy ===== *)
theory NetbirdClaims
  imports NetbirdServer
begin

text \<open>
  The claims on the management client for NetBird, from the locale's lemmas at the HTTP client
  over the server: it implements what the managers expect of a VPN client; a cluster's creation
  that fails half-way harms no other cluster and can be repeated; an unreadable group name on the
  server blocks it altogether.
\<close>


section \<open>Creating a cluster again\<close>

lemma without_cluster_with_cluster: "with_cluster c g p b b' \<Longrightarrow> without_cluster c b' = without_cluster c b"
  by (auto simp: with_cluster_def without_cluster_def without_group_def without_policy_def split: option.splits)

lemma without_cluster_idem [simp]: "without_cluster c (without_cluster c b) = without_cluster c b"
  by (simp add: without_cluster_def)

lemma without_cluster_without_policy [simp]: "without_cluster c (without_policy c b) = without_cluster c b"
  by (simp add: without_cluster_def)

lemma cluster_clean_without_policy: "cluster_clean c b \<Longrightarrow> cluster_clean c (without_policy c b)"
  by (simp add: cluster_clean_def)

lemma cluster_clean_without_cluster: "cluster_clean c (without_cluster c b)"
  by (simp add: cluster_clean_def without_cluster_def)

lemma with_cluster_named:
  assumes "with_cluster c g (Some p) b b'"
  shows "groups_named (ClusterGroup c) b' = [g]" and "policies_named (ClusterPolicy c) b' = [(p, [g_id g, g_id g])]"
  using assms by (auto simp: with_cluster_def groups_named_def policies_named_def without_cluster_def without_group_def
      without_policy_def filter_empty_conv)

lemma cluster_clean_with_cluster:
  assumes "with_cluster c g None b b'" and "books_ok b" and "cluster_clean c b"
  shows "cluster_clean c b'"
proof -
  have b': "b' = (without_cluster c b)\<lparr> bk_groups := bk_groups (without_cluster c b) @ [g] \<rparr>" "g_name g = ClusterGroup c"
    and fresh: "g_id g \<notin> g_id ` set (bk_groups (without_cluster c b))"
    using assms(1) by (simp_all add: with_cluster_def)
  have "groups_named (ClusterGroup c) b' = [g]" "policies_named (ClusterPolicy c) b' = []"
    using b' by (auto simp: groups_named_def policies_named_def without_cluster_def without_group_def without_policy_def
        filter_empty_conv)
  moreover have "i \<in> g_id ` set (bk_groups (without_cluster c b))" if linked: "linked i (without_policy c b)" for i
  proof -
    from linked obtain p where "p \<in> set (bk_policies b)" "i \<in> set (snd p)" by (auto simp: linked_def without_policy_def)
    then have "linked i b" unfolding linked_def by blast
    then obtain h where h: "h \<in> set (bk_groups b)" "g_id h = i" using assms(2) unfolding books_ok_def by blast
    with linked assms(3) have "g_name h \<noteq> ClusterGroup c" by (auto simp: cluster_clean_def groups_named_def)
    with h show ?thesis by (auto simp: without_cluster_def without_group_def)
  qed
  moreover have "linked i (without_policy c b') = linked i (without_policy c b)" for i
    using b' by (simp add: linked_def without_policy_def without_cluster_def without_group_def)
  ultimately show ?thesis using fresh by (auto simp: cluster_clean_def)
qed

lemma with_cluster_peers: "with_cluster c g p b b' \<Longrightarrow> netbird_peer_of b' = netbird_peer_of b"
proof -
  assume "with_cluster c g p b b'"
  then have "g_name g = ClusterGroup c" "bk_groups b' = bk_groups (without_cluster c b) @ [g]"
    by (auto simp: with_cluster_def split: option.splits)
  then have "groups_named (PeerGroup q) b' = groups_named (PeerGroup q) b" for q
    by (auto simp: groups_named_def without_cluster_def without_group_def intro!: filter_cong)
  then show ?thesis by (simp add: netbird_peer_of_def fun_eq_iff)
qed

lemma create_cluster_effects:
  assumes ok: "server_ok x s" and clean: "cluster_clean c (server_books x s)"
    and run: "create_cluster (default_client x server_http) c ps s = (t, r)"
  shows "server_ok x t \<and> without_cluster c (server_books x t) = without_cluster c (server_books x s) \<and>
    netbird_peer_of (server_books x t) = netbird_peer_of (server_books x s) \<and>
    ((\<exists>e. r = Inl e) \<longrightarrow> cluster_clean c (server_books x t))"
proof (cases r)
  case (Inr u)
  then obtain g p where "with_cluster c g (Some p) (server_books x s) (server_books x t)" "server_ok x t"
    using nb.create_cluster_books [OF ok run] by auto
  with Inr show ?thesis using without_cluster_with_cluster with_cluster_peers by blast
next
  case (Inl e)
  note law = nb.create_cluster_books [OF ok run]
  have policy: "netbird_peer_of (without_policy c b) = netbird_peer_of b" for b
    by (simp add: netbird_peer_of_def fun_eq_iff)
  from law Inl consider "server_books x t \<in> {server_books x s, without_policy c (server_books x s), without_cluster c (server_books x s)}"
    | g where "with_cluster c g None (server_books x s) (server_books x t)" by auto
  then show ?thesis
  proof cases
    case 1
    with law clean show ?thesis
      by (auto simp: policy cluster_clean_without_policy cluster_clean_without_cluster)
  next
    case 2
    with law clean show ?thesis
      using cluster_clean_with_cluster [OF 2 server_books_ok [OF ok] clean] without_cluster_with_cluster with_cluster_peers by blast
  qed
qed


text \<open>Two peers at the server, each with its self group and logged in.\<close>

definition sample_server :: "bool list \<Rightarrow> netbird_server" where
  "sample_server faults =
     \<lparr> ns_groups = [\<lparr> rg_id = ''0'', rg_name = ''opendut-peer-group-3'', rg_peers = [(''a'', ''A'')] \<rparr>,
         \<lparr> rg_id = ''1'', rg_name = ''opendut-peer-group-4'', rg_peers = [(''b'', ''B'')] \<rparr>],
       ns_policies = [], ns_keys = [], ns_peers = [(''a'', ''A''), (''b'', ''B'')], ns_next = 2, ns_faults = faults \<rparr>"

lemma sample_server_names:
  "group_name_try_from decimal_ext ''opendut-peer-group-3'' = Inr (PeerGroup (PeerId 3))"
  "group_name_try_from decimal_ext ''opendut-peer-group-4'' = Inr (PeerGroup (PeerId 4))"
proof -
  have printed: "uuid_to_string decimal_ext u = show_nat (unat u)" for u
    by (simp add: decimal_ext_def show_decimal_def)
  show "group_name_try_from decimal_ext ''opendut-peer-group-3'' = Inr (PeerGroup (PeerId 3))"
    "group_name_try_from decimal_ext ''opendut-peer-group-4'' = Inr (PeerGroup (PeerId 4))"
    using group_name_parse_print [OF ext_ok_decimal, of "PeerGroup (PeerId 3)"]
      group_name_parse_print [OF ext_ok_decimal, of "PeerGroup (PeerId 4)"]
    by (simp_all add: printed show_nat_digits PEER_GROUP_PREFIX_def)
qed

lemma sample_server_ok: "server_ok decimal_ext (sample_server faults)"
proof -
  have "numbered 2 ''0''" "numbered 2 ''1''"
    unfolding show_nat_digits [symmetric] by (auto simp: numbered_def)
  then show ?thesis by (simp add: server_ok_def sample_server_def group_name_ok_def sample_server_names)
qed

lemma sample_server_books:
  "server_books decimal_ext (sample_server faults) =
     \<lparr> bk_groups = [\<lparr> g_id = ''0'', g_name = PeerGroup (PeerId 3), g_peers = [(''a'', ''A'')] \<rparr>,
         \<lparr> g_id = ''1'', g_name = PeerGroup (PeerId 4), g_peers = [(''b'', ''B'')] \<rparr>],
       bk_policies = [], bk_peers = {''a'', ''b''} \<rparr>"
  by (simp add: server_books_def sample_server_def decoded_group_def sample_server_names)


section \<open>An unreadable name\<close>

lemma traverse_unreadable: "z \<in> set zs \<Longrightarrow> f z = Inl e \<Longrightarrow> \<exists>e'. traverse f zs = Inl e'"
proof (induction zs)
  case (Cons y ys)
  then show ?case by (cases "f y"; cases "traverse f ys") auto
qed simp

lemma unreadable_group_lookup:
  assumes "g \<in> set (ns_groups s)" and "group_name_try_from x (rg_name g) = Inl bad"
  shows "\<exists>e. get_netbird_group x server_http n s = (tick s, Inl (GroupRequestFailure n e))"
proof -
  have "group_of x g = Inl (invalid_name_message bad)" using assms(2) by (simp add: group_of_def)
  from traverse_unreadable [OF assms(1), of "group_of x", OF this]
  obtain e where "traverse (group_of x) (ns_groups s) = Inl e" ..
  then show ?thesis
    unfolding get_netbird_group_def Let_def only_named
    by (cases "lost s") (simp_all add: run_defs send_request_server server_tick_fields)
qed

text \<open>one group on the server whose name starts like the name of a peer's group but is not continued by a
  UUID blocks the client for all peers: looking up any group fails, so no peer can be deleted and
  no peer gets a VPN configuration.\<close>

lemma unreadable_group_name_blocks_client:
  assumes "g \<in> set (ns_groups s)" and "rg_name g = PEER_GROUP_PREFIX @ tail" and "uuid_parse_str x tail = None"
  shows "(\<exists>e. snd (delete_peer (default_client x server_http) p s) = Inl (PeerToDeleteUnresolved p (BoxedGetGroup (GroupRequestFailure (PeerGroup p) e)))) \<and>
    (\<exists>e. snd (generate_vpn_peer_configuration url (default_client x server_http) p s) =
       Inl (ConfigurationCreationFailure p (BoxedGetGroup (GroupRequestFailure (PeerGroup p) e))))"
proof -
  have "group_name_try_from x (rg_name g) = Inl (InvalidNameError (rg_name g) tail)"
    using assms(2,3) by (simp add: group_name_try_from_def peer_id_try_from_def)
  from unreadable_group_lookup [OF assms(1) this]
  obtain e where "get_netbird_group x server_http (PeerGroup p) s = (tick s, Inl (GroupRequestFailure (PeerGroup p) e))" by blast
  then show ?thesis
    by (simp add: delete_peer_def generate_vpn_peer_configuration_def prepare_self_group_def on_result_def run_defs default_client_def)
qed

definition strict_ext :: ext where
  "strict_ext = decimal_ext\<lparr> uuid_parse_str := (\<lambda>s. if s = ''lab'' then None else parse_decimal s) \<rparr>"

definition lab_group :: raw_group where
  "lab_group = \<lparr> rg_id = ''2'', rg_name = ''opendut-peer-group-lab'', rg_peers = [] \<rparr>"

end
