(* ===== verification/EdgarContainer.thy ===== *)
theory EdgarContainer
  imports EdgarNetwork
begin

text \<open>
  The manager of one test container (opendut-edgar/src/service/test_execution/container_manager.rs,
  webdav_client.rs): choosing a name, starting the container, polling it until it has exited, and
  uploading its results. The container engine's command line, the file system, the archive of a
  directory and the WebDAV requests are a parameter, the record \<open>container_host\<close>.
\<close>

datatype ContainerState = ContainerCreated | ContainerRunning | ContainerRestarting | ContainerExited | ContainerPaused | ContainerDead

record ContainerConfiguration =
  cf_name :: ContainerName
  cf_engine :: Engine
  cf_image :: ContainerImage
  cf_command :: ContainerCommand
  cf_args :: "ContainerCommandArgument list"
  cf_envs :: "ContainerEnvironmentVariable list"
  cf_ports :: "ContainerPortSpec list"
  cf_devices :: "ContainerDevice list"
  cf_volumes :: "ContainerVolume list"
  cf_results_url :: "ResultsUrl option"

text \<open>The configuration that the executor manager makes of a container (executor_manager.rs).\<close>

definition container_configuration_of :: "Container \<Rightarrow> ResultsUrl option \<Rightarrow> ContainerConfiguration" where
  "container_configuration_of c results_url =
     \<lparr> cf_name = c_name c, cf_engine = c_engine c, cf_image = c_image c, cf_command = c_command c, cf_args = c_args c,
       cf_envs = c_envs c, cf_ports = c_ports c, cf_devices = c_devices c, cf_volumes = c_volumes c,
       cf_results_url = results_url \<rparr>"

datatype webdav_error = WebdavRequest string string | WebdavOther string

datatype container_error =
    CommandLineProgramExecution string string
  | ResultZipping string string
  | ResultUploadingInternal url webdav_error
  | ResultUploadingServer ContainerName url nat
  | ContainerErrorOther string

datatype remove_file_error = FileNotFound | RemoveFileError string

record ('w, 'd) container_host =
  ch_command :: "string \<Rightarrow> string list \<Rightarrow> ('w, string, command_output) run"
  ch_spawn :: "string \<Rightarrow> string list \<Rightarrow> ('w, string, unit) run"
  ch_create_dir :: "string \<Rightarrow> ('w, string, unit) run"
  ch_remove_dir :: "string \<Rightarrow> ('w, string, unit) run"
  ch_remove_file :: "string \<Rightarrow> ('w, remove_file_error, unit) run"
  ch_is_file :: "string \<Rightarrow> 'w \<Rightarrow> bool"
  ch_zip_directory :: "string \<Rightarrow> ('w, string, 'd) run"
  ch_signalled :: "'w \<Rightarrow> bool"
  ch_sleep :: "'w \<Rightarrow> 'w"
  ch_path_segments :: "url \<Rightarrow> string list option"
  ch_join_url :: "url \<Rightarrow> string \<Rightarrow> string + url"
  ch_put :: "'d \<Rightarrow> url \<Rightarrow> ('w, string, nat) run"
  ch_mkcol :: "url \<Rightarrow> ('w, string, nat) run"
  ch_now :: "'w \<Rightarrow> string"

section \<open>The WebDAV client (webdav_client.rs)\<close>

definition webdav_put :: "('w, 'd) container_host \<Rightarrow> 'd \<Rightarrow> url \<Rightarrow> ('w, webdav_error, nat) run" where
  "webdav_put h body path = map_run_err (WebdavRequest ''PUT'') (ch_put h body path)"

definition mkcol :: "('w, 'd) container_host \<Rightarrow> url \<Rightarrow> ('w, webdav_error, nat) run" where
  "mkcol h path = map_run_err (WebdavRequest ''MKCOL'') (ch_mkcol h path)"

text \<open>The statuses of the responses are only looked at for a log message.\<close>

fun create_collections :: "('w, 'd) container_host \<Rightarrow> url \<Rightarrow> string \<Rightarrow> string list \<Rightarrow> ('w, webdav_error, unit) run" where
  "create_collections h path accumulated [] = return_ok ()"
| "create_collections h path accumulated (segment # segments) =
     (let accumulated_path = accumulated @ segment @ ''/'' in
      and_then (lift_result (map_err (\<lambda>cause. WebdavOther (''Failed to join partial path '' @ quote_char @ accumulated_path @ quote_char @
          '' to base URL: '' @ cause)) (ch_join_url h path accumulated_path))) (\<lambda>partial_url.
      and_then (mkcol h partial_url) (\<lambda>_.
      create_collections h path accumulated_path segments)))"

definition create_collection_path :: "ext \<Rightarrow> ('w, 'd) container_host \<Rightarrow> url \<Rightarrow> ('w, webdav_error, unit) run" where
  "create_collection_path x h path =
     and_then (lift_result (ok_or (WebdavOther (''URL cannot be split into path segments: '' @ url_to_string x path))
         (ch_path_segments h path))) (\<lambda>segments.
     create_collections h path ''/'' (filter (\<lambda>p. p \<noteq> []) segments))"

section \<open>Commands of the engine (container_manager.rs)\<close>

definition execute :: "('w, 'd) container_host \<Rightarrow> Engine \<Rightarrow> string \<Rightarrow> string list \<Rightarrow> ('w, container_error, command_output) run" where
  "execute h engine what args =
     map_run_err (CommandLineProgramExecution (command_name engine @ '' '' @ what)) (ch_command h (command_name engine) args)"

definition is_space :: "char \<Rightarrow> bool" where
  "is_space c \<longleftrightarrow> c \<in> {CHR '' '', CHR 0x09, CHR 0x0A, CHR 0x0B, CHR 0x0C, CHR 0x0D}"

definition status_text :: "string \<Rightarrow> string" where
  "status_text out =
     (let bare = filter (\<lambda>c. c \<noteq> CHR 0x27) out in rev (dropWhile is_space (rev (dropWhile is_space bare))))"

definition container_state_of :: "Engine \<Rightarrow> string \<Rightarrow> container_error + ContainerState" where
  "container_state_of engine text =
     (if text = ''created'' then Inr ContainerCreated
      else if text = ''running'' then Inr ContainerRunning
      else if text = ''restarting'' then Inr ContainerRestarting
      else if text = ''exited'' then Inr ContainerExited
      else if text = ''paused'' then Inr ContainerPaused
      else if text = ''dead'' then Inr ContainerDead
      else Inl (ContainerErrorOther (''Unknown container state returned by '' @ command_name engine @ '' inspect: '' @
        quote_char @ text @ quote_char)))"

definition get_container_state :: "('w, 'd) container_host \<Rightarrow> ContainerConfiguration \<Rightarrow> string \<Rightarrow> ('w, container_error, ContainerState) run" where
  "get_container_state h c name =
     and_then (execute h (cf_engine c) ''inspect'' [''inspect'', ''-f'', quote_char @ ''{{.State.Status}}'' @ quote_char, name]) (\<lambda>output.
     lift_result (container_state_of (cf_engine c) (status_text (out_stdout output))))"

definition check_container_name_exists :: "('w, 'd) container_host \<Rightarrow> ContainerConfiguration \<Rightarrow> string \<Rightarrow> ('w, container_error, bool) run" where
  "check_container_name_exists h c name =
     and_then (execute h (cf_engine c) ''inspect'' [''container'', ''inspect'', name]) (\<lambda>output. return_ok (out_success output))"

definition stop_container :: "('w, 'd) container_host \<Rightarrow> ContainerConfiguration \<Rightarrow> string \<Rightarrow> ('w, container_error, unit) run" where
  "stop_container h c name =
     and_then (execute h (cf_engine c) ''stop'' [''stop'', name]) (\<lambda>output.
     if out_success output then return_ok ()
     else fail_with (ContainerErrorOther (''Stopping container failed: '' @ out_stderr output)))"

section \<open>Starting a container\<close>

definition I32_MAX :: nat where "I32_MAX = 2147483647"

definition numbered_name :: "ContainerConfiguration \<Rightarrow> nat \<Rightarrow> string" where
  "numbered_name c ctr = container_name_text (cf_name c) @ ''-'' @ show_nat ctr"

text \<open>The names from \<open>ctr\<close> on are tried; the last one is used even when it is taken.\<close>

function free_container_name ::
    "('w, 'd) container_host \<Rightarrow> ContainerConfiguration \<Rightarrow> nat \<Rightarrow> string \<Rightarrow> ('w, container_error, string) run" where
  "free_container_name h c ctr name w =
     (if I32_MAX \<le> ctr then (w, Inr name)
      else
        (case check_container_name_exists h c (numbered_name c ctr) w of
           (w', Inl e) \<Rightarrow> (w', Inl e)
         | (w', Inr exists) \<Rightarrow>
             if exists then free_container_name h c (Suc ctr) (numbered_name c ctr) w' else (w', Inr (numbered_name c ctr))))"
  by pat_completeness auto
termination by (relation "measure (\<lambda>(h, c, ctr, name, w). I32_MAX - ctr)") (auto simp: I32_MAX_def)

declare free_container_name.simps [simp del]

definition RESULTS_READY_FILE :: string where "RESULTS_READY_FILE = ''.results_ready''"

definition CONTAINER_RESULTS_DIRECTORY :: string where "CONTAINER_RESULTS_DIRECTORY = ''/results''"

fun container_command_args :: "ContainerCommand \<Rightarrow> string list" where
  "container_command_args (ContainerCommandValue command) = [command]"
| "container_command_args ContainerCommandDefault = []"

definition run_args :: "ContainerConfiguration \<Rightarrow> string \<Rightarrow> string \<Rightarrow> string list" where
  "run_args c results_dir name =
     [''run'', ''--detach'', ''--net=host'', ''--name'', name,
      ''--mount'', ''type=bind,source='' @ results_dir @ '',target='' @ CONTAINER_RESULTS_DIRECTORY] @
     concat (map (\<lambda>e. [''--env'', env_name e @ ''='' @ env_value e]) (cf_envs c)) @
     concat (map (\<lambda>p. [''--publish'', container_port_spec_value p]) (cf_ports c)) @
     concat (map (\<lambda>v. [''--volume'', container_volume_value v]) (cf_volumes c)) @
     concat (map (\<lambda>d. [''--devices'', container_device_value d]) (cf_devices c)) @
     [container_image_value (cf_image c)] @ container_command_args (cf_command c) @
     map container_command_argument_value (cf_args c)"

definition start_container :: "('w, 'd) container_host \<Rightarrow> ContainerConfiguration \<Rightarrow> string \<Rightarrow> ('w, container_error, string) run" where
  "start_container h c results_dir =
     and_then (free_container_name h c 1 []) (\<lambda>name.
     and_then (execute h (cf_engine c) ''run'' (run_args c results_dir name)) (\<lambda>output.
     if out_success output then return_ok name
     else fail_with (ContainerErrorOther (''Starting container '' @ quote_char @ container_name_text (cf_name c) @ quote_char @
       '' failed: '' @ out_stderr output))))"

section \<open>Results\<close>

definition indicator_file :: "string \<Rightarrow> string" where
  "indicator_file results_dir = results_dir @ ''/'' @ RESULTS_READY_FILE"

definition remove_result_ready_indicator :: "('w, 'd) container_host \<Rightarrow> string \<Rightarrow> ('w, container_error, unit) run" where
  "remove_result_ready_indicator h results_dir w =
     (case ch_remove_file h (indicator_file results_dir) w of
        (w', Inr _) \<Rightarrow> (w', Inr ())
      | (w', Inl FileNotFound) \<Rightarrow> (w', Inr ())
      | (w', Inl (RemoveFileError err)) \<Rightarrow>
          (w', Inl (ContainerErrorOther (''Failed to remove result indicator file '' @ quote_char @ indicator_file results_dir @
             quote_char @ '': '' @ err))))"

definition is_success_status :: "nat \<Rightarrow> bool" where
  "is_success_status s \<longleftrightarrow> 200 \<le> s \<and> s < 300"

definition upload_results :: "ext \<Rightarrow> ('w, 'd) container_host \<Rightarrow> ContainerConfiguration \<Rightarrow> string \<Rightarrow> ('w, container_error, unit) run" where
  "upload_results x h c results_dir =
     (case cf_results_url c of
        None \<Rightarrow> return_ok ()
      | Some (ResultsUrl results_url) \<Rightarrow>
          and_then (map_run_err (ResultZipping results_dir) (ch_zip_directory h results_dir)) (\<lambda>data.
          and_then (map_run_err (ResultUploadingInternal results_url) (create_collection_path x h results_url)) (\<lambda>_.
          \<lambda>w. and_then (lift_result (map_err (\<lambda>cause. ContainerErrorOther (''Failed to construct URL for results directory: '' @ cause))
              (ch_join_url h results_url (ch_now h w @ ''_'' @ container_name_text (cf_name c) @ ''.zip'')))) (\<lambda>file_url.
          and_then (map_run_err (ResultUploadingInternal file_url) (webdav_put h data file_url)) (\<lambda>status.
          if is_success_status status then return_ok ()
          else fail_with (ResultUploadingServer (cf_name c) file_url status))) w)))"

definition create_results_dir :: "('w, 'd) container_host \<Rightarrow> string \<Rightarrow> ('w, container_error, unit) run" where
  "create_results_dir h results_dir =
     map_run_err (\<lambda>cause. ContainerErrorOther (''Failed to create results directory '' @ quote_char @ results_dir @ quote_char @ '': '' @ cause))
       (ch_create_dir h results_dir)"

definition cleanup_results_dir :: "('w, 'd) container_host \<Rightarrow> string \<Rightarrow> ('w, container_error, unit) run" where
  "cleanup_results_dir h results_dir =
     map_run_err (\<lambda>cause. ContainerErrorOther (''Failed to remove results directory '' @ quote_char @ results_dir @ quote_char @ '': '' @ cause))
       (ch_remove_dir h results_dir)"

section \<open>The loop\<close>

datatype pass_result = ContainerDone | PassAgain bool

text \<open>One pass through the loop, up to the pause; the flag says whether results have been uploaded.\<close>

definition upload_pending :: "ext \<Rightarrow> ('w, 'd) container_host \<Rightarrow> ContainerConfiguration \<Rightarrow> string \<Rightarrow> ('w, container_error, unit) run" where
  "upload_pending x h c results_dir =
     and_then (remove_result_ready_indicator h results_dir) (\<lambda>_. upload_results x h c results_dir)"

definition container_pass ::
    "ext \<Rightarrow> ('w, 'd) container_host \<Rightarrow> ContainerConfiguration \<Rightarrow> string \<Rightarrow> string \<Rightarrow> bool \<Rightarrow> ('w, container_error, pass_result) run" where
  "container_pass x h c results_dir name uploaded =
     and_then (\<lambda>w. (if ch_signalled h w then stop_container h c name else return_ok ()) w) (\<lambda>_.
     and_then (\<lambda>w. (if ch_is_file h (indicator_file results_dir) w
         then and_then (upload_pending x h c results_dir) (\<lambda>_. return_ok True) else return_ok uploaded) w) (\<lambda>uploaded.
     and_then (get_container_state h c name) (\<lambda>state.
     if state = ContainerExited then
       and_then (if uploaded then return_ok () else upload_pending x h c results_dir) (\<lambda>_. return_ok ContainerDone)
     else return_ok (PassAgain uploaded))))"

partial_function (option) container_loop ::
    "ext \<Rightarrow> ('w, 'd) container_host \<Rightarrow> ContainerConfiguration \<Rightarrow> string \<Rightarrow> string \<Rightarrow> bool \<Rightarrow> 'w \<Rightarrow> ('w \<times> (container_error + unit)) option" where
  "container_loop x h c results_dir name uploaded w =
     (case container_pass x h c results_dir name uploaded w of
        (w', Inl e) \<Rightarrow> Some (w', Inl e)
      | (w', Inr ContainerDone) \<Rightarrow> Some (w', Inr ())
      | (w', Inr (PassAgain uploaded')) \<Rightarrow> container_loop x h c results_dir name uploaded' (ch_sleep h w'))"

text \<open>The whole run; the reader of the container's log only logs.\<close>

definition run_container ::
    "ext \<Rightarrow> ('w, 'd) container_host \<Rightarrow> ContainerConfiguration \<Rightarrow> string \<Rightarrow> 'w \<Rightarrow> ('w \<times> (container_error + unit)) option" where
  "run_container x h c results_dir w =
     (case and_then (create_results_dir h results_dir) (\<lambda>_.
           and_then (start_container h c results_dir) (\<lambda>name.
           and_then (map_run_err (CommandLineProgramExecution (command_name (cf_engine c) @ '' logs''))
               (ch_spawn h (command_name (cf_engine c)) [''logs'', ''--timestamps'', ''--follow'', name])) (\<lambda>_.
           return_ok name))) w of
        (w', Inl e) \<Rightarrow> Some (w', Inl e)
      | (w', Inr name) \<Rightarrow>
          (case container_loop x h c results_dir name False w' of
             None \<Rightarrow> None
           | Some (w'', Inl e) \<Rightarrow> Some (w'', Inl e)
           | Some (w'', Inr _) \<Rightarrow> Some (cleanup_results_dir h results_dir w'')))"

section \<open>When the loop ends\<close>

text \<open>The flag and the host before pass \<open>n\<close>, if the passes before it all asked for another one.\<close>

fun before_pass ::
    "ext \<Rightarrow> ('w, 'd) container_host \<Rightarrow> ContainerConfiguration \<Rightarrow> string \<Rightarrow> string \<Rightarrow> nat \<Rightarrow> bool \<times> 'w \<Rightarrow> (bool \<times> 'w) option" where
  "before_pass x h c d name 0 uw = Some uw"
| "before_pass x h c d name (Suc n) (u, w) =
     (case container_pass x h c d name u w of
        (w', Inr (PassAgain u')) \<Rightarrow> before_pass x h c d name n (u', ch_sleep h w')
      | _ \<Rightarrow> None)"

lemma before_pass_step:
  assumes IH: "\<And>u' w'. loop u' w' = Some y \<Longrightarrow> \<exists>n. before_pass x h c d name n (u', w') = None"
    and step: "(case container_pass x h c d name u w of
        (w', Inl e) \<Rightarrow> Some (w', Inl e)
      | (w', Inr ContainerDone) \<Rightarrow> Some (w', Inr ())
      | (w', Inr (PassAgain u')) \<Rightarrow> loop u' (ch_sleep h w')) = Some y"
  shows "\<exists>n. before_pass x h c d name n (u, w) = None"
proof -
  obtain w' r where pass: "container_pass x h c d name u w = (w', r)" by fastforce
  show ?thesis
  proof (cases "\<exists>u'. r = Inr (PassAgain u')")
    case True
    then obtain u' where r: "r = Inr (PassAgain u')" by blast
    with step pass have "loop u' (ch_sleep h w') = Some y" by simp
    from IH [OF this] obtain n where "before_pass x h c d name n (u', ch_sleep h w') = None" by blast
    then have "before_pass x h c d name (Suc n) (u, w) = None" by (simp add: pass r)
    then show ?thesis by blast
  next
    case False
    then have "before_pass x h c d name (Suc 0) (u, w) = None" by (auto simp: pass split: sum.split pass_result.split)
    then show ?thesis by blast
  qed
qed

lemma container_loop_returns:
  "container_loop x h c d name u w = Some y \<Longrightarrow> \<exists>n. before_pass x h c d name n (u, w) = None"
  by (rule container_loop.raw_induct [of "\<lambda>x h c d name u w y. \<exists>n. before_pass x h c d name n (u, w) = None"
        "((((((x, h), c), d), name), u), w)" y, unfolded prod.case])
    (rule before_pass_step)

lemma container_loop_again:
  "container_pass x h c d name u w = (w', Inr (PassAgain u')) \<Longrightarrow>
     container_loop x h c d name u w = container_loop x h c d name u' (ch_sleep h w')"
  using container_loop.simps [of x h c d name u w] by simp

lemma container_loop_over:
  assumes "container_pass x h c d name u w = (w', r)" and "\<forall>u'. r \<noteq> Inr (PassAgain u')"
  shows "\<exists>r'. container_loop x h c d name u w = Some (w', r')"
proof (cases r)
  case (Inl e)
  then show ?thesis using container_loop.simps [of x h c d name u w] assms(1) by simp
next
  case (Inr outcome)
  with assms(2) have "outcome = ContainerDone" by (cases outcome) blast+
  then show ?thesis using container_loop.simps [of x h c d name u w] assms(1) Inr by simp
qed

lemma container_loop_ends: "before_pass x h c d name n (u, w) = None \<Longrightarrow> \<exists>y. container_loop x h c d name u w = Some y"
proof (induction n arbitrary: u w)
  case (Suc n)
  obtain w' r where pass: "container_pass x h c d name u w = (w', r)" by fastforce
  show ?case
  proof (cases "\<exists>u'. r = Inr (PassAgain u')")
    case True
    then obtain u' where "r = Inr (PassAgain u')" by blast
    with Suc.prems pass have "before_pass x h c d name n (u', ch_sleep h w') = None" by simp
    from Suc.IH [OF this] show ?thesis using container_loop_again [of x h c d name u w] pass \<open>r = _\<close> by simp
  next
    case False
    then show ?thesis using container_loop_over [OF pass] by blast
  qed
qed simp

lemma container_loop_None_iff:
  "container_loop x h c d name u w = None \<longleftrightarrow> (\<forall>n. before_pass x h c d name n (u, w) \<noteq> None)"
proof (cases "container_loop x h c d name u w")
  case None
  have "before_pass x h c d name n (u, w) \<noteq> None" for n
    using container_loop_ends [of x h c d name n u w] unfolding None by blast
  with None show ?thesis by blast
next
  case (Some y)
  with container_loop_returns [OF Some] show ?thesis by (metis option.distinct(1))
qed

text \<open>
  What the container engine documents of \<open>stop\<close> and \<open>inspect\<close>: after a successful stop the container
  has exited, and stays so whatever is done to files and at the WebDAV server.
\<close>

definition inspect_args :: "string \<Rightarrow> string list" where
  "inspect_args name = [''inspect'', ''-f'', quote_char @ ''{{.State.Status}}'' @ quote_char, name]"

definition engine_stops :: "('w, 'd) container_host \<Rightarrow> Engine \<Rightarrow> string \<Rightarrow> ('w \<Rightarrow> bool) \<Rightarrow> bool" where
  "engine_stops h engine name exited \<longleftrightarrow>
     (\<forall>w w' out. ch_command h (command_name engine) [''stop'', name] w = (w', Inr out) \<and> out_success out \<longrightarrow> exited w') \<and>
     (\<forall>w w' out. exited w \<and> ch_command h (command_name engine) (inspect_args name) w = (w', Inr out) \<longrightarrow>
        status_text (out_stdout out) = ''exited'') \<and>
     (\<forall>w f. exited w \<longrightarrow> exited (fst (ch_remove_file h f w))) \<and>
     (\<forall>w d. exited w \<longrightarrow> exited (fst (ch_zip_directory h d w))) \<and>
     (\<forall>w u. exited w \<longrightarrow> exited (fst (ch_mkcol h u w))) \<and>
     (\<forall>w b u. exited w \<longrightarrow> exited (fst (ch_put h b u w)))"

definition preserves :: "('w \<Rightarrow> bool) \<Rightarrow> ('w, 'e, 'a) run \<Rightarrow> bool" where
  "preserves P m \<longleftrightarrow> (\<forall>w. P w \<longrightarrow> P (fst (m w)))"

lemma preserves_simps [simp]:
  "preserves P (return_ok a)" "preserves P (fail_with e)" "preserves P (lift_result r)"
  "preserves P (map_run_err g m) = preserves P m"
  by (simp_all add: preserves_def return_ok_def fail_with_def lift_result_def map_run_err_def case_prod_beta)

lemma preserves_and_then [intro]: "preserves P m \<Longrightarrow> (\<And>a. preserves P (f a)) \<Longrightarrow> preserves P (and_then m f)"
  unfolding preserves_def
proof (intro allI impI)
  fix w
  assume m: "\<forall>w. P w \<longrightarrow> P (fst (m w))" and f: "\<And>a. \<forall>w. P w \<longrightarrow> P (fst (f a w))" and w: "P w"
  obtain w' r where run: "m w = (w', r)" by fastforce
  have "P w'" using m w run by (metis fst_conv)
  then show "P (fst (and_then m f w))" using f by (cases r) (simp_all add: and_then_def run)
qed

lemma preserves_create_collections:
  "(\<And>v. preserves P (ch_mkcol h v)) \<Longrightarrow> preserves P (create_collections h path acc segments)"
proof (induction segments arbitrary: acc)
  case (Cons segment segments)
  then show ?case
    unfolding create_collections.simps Let_def mkcol_def by (intro preserves_and_then) simp_all
qed simp

lemma preserves_upload_results:
  assumes "engine_stops h engine name exited"
  shows "preserves exited (upload_results x h c d)"
proof -
  have parts: "preserves exited (ch_zip_directory h d)" "\<And>u. preserves exited (ch_mkcol h u)" "\<And>b u. preserves exited (ch_put h b u)"
    using assms by (simp_all add: engine_stops_def preserves_def)
  have last: "preserves exited (\<lambda>w. and_then (lift_result (r w)) f w)" if "\<And>a. preserves exited (f a)" for r f
    using that by (auto simp: preserves_def and_then_def lift_result_def split: sum.split)
  show ?thesis
    unfolding upload_results_def create_collection_path_def webdav_put_def using parts
    by (auto intro!: last preserves_and_then preserves_create_collections split: option.split ResultsUrl.split)
qed

lemma preserves_upload_pending:
  assumes "engine_stops h engine name exited"
  shows "preserves exited (upload_pending x h c d)"
proof -
  have "preserves exited (remove_result_ready_indicator h d)"
    unfolding preserves_def
  proof (intro allI impI)
    fix w
    assume "exited w"
    moreover have "fst (remove_result_ready_indicator h d w) = fst (ch_remove_file h (indicator_file d) w)"
      by (simp add: remove_result_ready_indicator_def split: prod.split sum.split remove_file_error.split)
    ultimately show "exited (fst (remove_result_ready_indicator h d w))" using assms unfolding engine_stops_def by simp
  qed
  then show ?thesis unfolding upload_pending_def using preserves_upload_results [OF assms] by blast
qed

lemma stopped_pass_is_last:
  assumes engine: "engine_stops h (cf_engine c) name exited" and "ch_signalled h w"
    and pass: "container_pass x h c d name u w = (w', r)"
  shows "\<forall>u'. r \<noteq> Inr (PassAgain u')"
proof -
  obtain w1 r1 where stop: "stop_container h c name w = (w1, r1)" by fastforce
  show ?thesis
  proof (cases r1)
    case (Inl e)
    with pass stop assms(2) show ?thesis by (auto simp: container_pass_def and_then_def)
  next
    case r1: (Inr _)
    then have "exited w1"
      using stop engine unfolding engine_stops_def
      by (auto simp: stop_container_def execute_def run_defs map_err_Inr_iff split: prod.splits sum.splits if_splits)
    define ready where "ready = (\<lambda>w. (if ch_is_file h (indicator_file d) w
         then and_then (upload_pending x h c d) (\<lambda>_. return_ok True) else return_ok u) w)"
    obtain w2 r2 where upload: "ready w1 = (w2, r2)" by fastforce
    have "preserves exited ready"
      using preserves_upload_pending [OF engine] preserves_and_then [of exited "upload_pending x h c d" "\<lambda>_. return_ok True"]
      by (simp add: preserves_def ready_def return_ok_def)
    with \<open>exited w1\<close> upload have "exited w2" unfolding preserves_def by (metis fst_conv)
    obtain w3 r3 where state: "get_container_state h c name w2 = (w3, r3)" by fastforce
    have "r3 = Inr s \<Longrightarrow> s = ContainerExited" for s
      using state \<open>exited w2\<close> engine unfolding engine_stops_def
      by (auto simp: get_container_state_def execute_def run_defs container_state_of_def inspect_args_def map_err_Inr_iff
          split: prod.splits sum.splits)
    with pass stop r1 upload state assms(2) show ?thesis
      unfolding container_pass_def ready_def [symmetric]
      by (cases r2; cases r3) (auto simp: and_then_def return_ok_def split: prod.splits sum.splits)
  qed
qed


section \<open>The name of a container\<close>

text \<open>A host whose engine never fails to answer, with the names it knows.\<close>

definition engine_knows :: "('w, 'd) container_host \<Rightarrow> Engine \<Rightarrow> string set \<Rightarrow> bool" where
  "engine_knows h engine names \<longleftrightarrow>
     (\<forall>w name. \<exists>out. ch_command h (command_name engine) [''container'', ''inspect'', name] w = (w, Inr out) \<and>
        (out_success out \<longleftrightarrow> name \<in> names))"

lemma check_name_known:
  "engine_knows h (cf_engine c) names \<Longrightarrow> check_container_name_exists h c name w = (w, Inr (name \<in> names))"
proof -
  assume "engine_knows h (cf_engine c) names"
  then obtain out where "ch_command h (command_name (cf_engine c)) [''container'', ''inspect'', name] w = (w, Inr out)"
      "out_success out \<longleftrightarrow> name \<in> names"
    unfolding engine_knows_def by blast
  then show ?thesis by (simp add: check_container_name_exists_def execute_def run_defs)
qed

lemma free_container_name_first:
  assumes "engine_knows h (cf_engine c) names" and "ctr \<le> k" and "k < I32_MAX"
    and "\<forall>j. ctr \<le> j \<and> j < k \<longrightarrow> numbered_name c j \<in> names" and "numbered_name c k \<notin> names"
  shows "free_container_name h c ctr name w = (w, Inr (numbered_name c k))"
  using assms(2-)
proof (induction "k - ctr" arbitrary: ctr name)
  case 0
  then show ?case by (subst free_container_name.simps) (simp add: check_name_known [OF assms(1)])
next
  case (Suc n)
  then have "numbered_name c ctr \<in> names" "ctr < I32_MAX" "Suc ctr \<le> k" "n = k - Suc ctr" by auto
  then show ?case
    using Suc.hyps(1) [of "Suc ctr" "numbered_name c ctr"] Suc.prems
    by (subst free_container_name.simps) (simp add: check_name_known [OF assms(1)])
qed

text \<open>C34: a container is started under the first of the names \<open>name-1\<close>, \<open>name-2\<close>, ... that the engine does not
  know yet: the names are asked for in this order, and the only command that creates anything is
  one \<open>run\<close> with that name and the settings of the configuration.\<close>

theorem container_gets_first_free_name:
  assumes "engine_knows h (cf_engine c) names" and "1 \<le> k" and "k < I32_MAX"
    and "\<forall>j. 1 \<le> j \<and> j < k \<longrightarrow> numbered_name c j \<in> names" and "numbered_name c k \<notin> names"
  shows "start_container h c results_dir w =
    (case execute h (cf_engine c) ''run'' (run_args c results_dir (numbered_name c k)) w of
       (w', Inl e) \<Rightarrow> (w', Inl e)
     | (w', Inr output) \<Rightarrow>
         (w', if out_success output then Inr (numbered_name c k)
              else Inl (ContainerErrorOther (''Starting container '' @ quote_char @ container_name_text (cf_name c) @ quote_char @
                '' failed: '' @ out_stderr output))))"
proof -
  have "free_container_name h c 1 [] w = (w, Inr (numbered_name c k))"
    by (rule free_container_name_first [OF assms])
  then show ?thesis by (simp add: start_container_def run_defs split: prod.split sum.split)
qed

text \<open>An engine with one container, whose state is the state of the host.\<close>

definition sample_engine :: "(bool, unit) container_host" where
  "sample_engine =
     \<lparr> ch_command = (\<lambda>program args exited.
         if hd args = ''stop'' then (True, Inr \<lparr> out_success = True, out_stdout = [], out_stderr = [] \<rparr>)
         else if hd args = ''container'' then
           (exited, Inr \<lparr> out_success = (last args = ''test-1''), out_stdout = [], out_stderr = [] \<rparr>)
         else (exited, Inr \<lparr> out_success = True, out_stdout = (if exited then ''exited'' else ''running''), out_stderr = [] \<rparr>)),
       ch_spawn = (\<lambda>_ _. return_ok ()), ch_create_dir = (\<lambda>_. return_ok ()), ch_remove_dir = (\<lambda>_. return_ok ()),
       ch_remove_file = (\<lambda>_. return_ok ()), ch_is_file = (\<lambda>_ _. False), ch_zip_directory = (\<lambda>_. return_ok ()),
       ch_signalled = (\<lambda>_. True), ch_sleep = id, ch_path_segments = (\<lambda>_. Some []), ch_join_url = (\<lambda>u _. Inr u),
       ch_put = (\<lambda>_ _. return_ok 201), ch_mkcol = (\<lambda>_. return_ok 201), ch_now = (\<lambda>_. ''now'') \<rparr>"

definition sample_container :: ContainerConfiguration where
  "sample_container = \<lparr> cf_name = ContainerNameValue ''test'', cf_engine = Docker, cf_image = ContainerImage ''image'',
     cf_command = ContainerCommandDefault, cf_args = [], cf_envs = [], cf_ports = [],
     cf_devices = [], cf_volumes = [], cf_results_url = Some (ResultsUrl (Url ''https://results'')) \<rparr>"

lemma sample_numbered_names: "numbered_name sample_container 1 = ''test-1''" "numbered_name sample_container 2 = ''test-2''"
  by code_simp+

lemma status_text_exited: "status_text ''exited'' = ''exited''"
  by code_simp


theorem container_gets_first_free_name_witness:
  "start_container sample_engine sample_container ''/tmp'' False = (False, Inr ''test-2'')"
proof -
  have before: "\<forall>j. 1 \<le> j \<and> j < (2::nat) \<longrightarrow> numbered_name sample_container j \<in> {''test-1''}"
  proof (intro allI impI)
    fix j :: nat
    assume "1 \<le> j \<and> j < 2"
    then have "j = 1" by linarith
    then show "numbered_name sample_container j \<in> {''test-1''}" using sample_numbered_names(1) by simp
  qed
  have knows: "engine_knows sample_engine (cf_engine sample_container) {''test-1''}"
    by (simp add: engine_knows_def sample_engine_def)
  have free: "numbered_name sample_container 2 \<notin> {''test-1''}" by (simp add: sample_numbered_names)
  have ran: "execute sample_engine (cf_engine sample_container) ''run'' (run_args sample_container ''/tmp'' ''test-2'') False =
      (False, Inr \<lparr> out_success = True, out_stdout = ''running'', out_stderr = [] \<rparr>)"
    by (simp add: execute_def map_run_err_def sample_engine_def run_args_def)
  show ?thesis
    using container_gets_first_free_name [OF knows _ _ before free, of "''/tmp''" False]
    by (simp add: I32_MAX_def sample_numbered_names(2) ran)
qed

end
