(* ===== verification/ClusterManager.thy ===== *)
theory ClusterManager
  imports DeployEffects
begin

text \<open>
  The operations on clusters (opendut-carl/src/manager/cluster_manager): creating and deleting
  configurations, storing and deleting deployments, and rolling out what can be rolled out when
  a deployment is stored or a peer comes online. The invariants are the well-formed tables
  and \<open>exclusive\<close>: no peer is used by two deployed clusters.
\<close>

section \<open>Configurations (create_cluster_configuration.rs, delete_cluster_configuration.rs)\<close>

datatype CreateClusterConfigurationError =
  CreateConfigurationPersistence ClusterId ClusterName PersistenceError

definition create_cluster_configuration ::
    "env \<Rightarrow> ClusterConfiguration \<Rightarrow> (resources, CreateClusterConfigurationError, ClusterId) run" where
  "create_cluster_configuration E config =
     and_then (map_run_err (CreateConfigurationPersistence (cc_id config) (cc_name config))
       (resources_insert E ClusterConfigurations (cc_id config) config)) (\<lambda>_.
     return_ok (cc_id config))"

datatype DeleteClusterConfigurationError =
    DeleteConfigurationDeploymentFound ClusterId
  | DeleteConfigurationNotFound ClusterId
  | DeleteConfigurationIllegalState ClusterId ClusterName ClusterState "ClusterState list"
  | DeleteConfigurationPersistence ClusterId "ClusterName option" PersistenceError

definition delete_cluster_configuration ::
    "env \<Rightarrow> ClusterId \<Rightarrow> (resources, DeleteClusterConfigurationError, ClusterConfiguration) run" where
  "delete_cluster_configuration E c =
     and_then (map_run_err (DeleteConfigurationPersistence c None)
         (read_resources (resources_get E ClusterDeployments c))) (\<lambda>deployment.
     case deployment of
       None \<Rightarrow>
         and_then (map_run_err (DeleteConfigurationPersistence c None)
             (resources_remove E ClusterConfigurations c)) (\<lambda>removed.
         lift_result (ok_or (DeleteConfigurationNotFound c) removed))
     | Some d \<Rightarrow> fail_with (DeleteConfigurationDeploymentFound (cd_id d)))"

section \<open>Deleting a deployment (delete_cluster_deployment.rs)\<close>

datatype DeleteClusterDeploymentError =
    DeleteDeploymentNotFound ClusterId
  | DeleteDeploymentIllegalState ClusterId ClusterName ClusterState "ClusterState list"
  | DeleteDeploymentPersistence ClusterId "ClusterName option" PersistenceError
  | DeleteDeploymentVpnClient ClusterId ClusterName string

definition delete_vpn_cluster ::
    "'w vpn \<Rightarrow> ClusterId \<Rightarrow> ClusterConfiguration option \<Rightarrow> ('w, DeleteClusterDeploymentError, unit) run" where
  "delete_vpn_cluster vpn c cluster =
     (case (cluster, vpn) of
        (Some config, VpnEnabled client) \<Rightarrow>
          map_run_err (DeleteDeploymentVpnClient c (cc_name config)) (vpn_delete_cluster client c)
      | _ \<Rightarrow> return_ok ())"

definition delete_cluster_deployment ::
    "env \<Rightarrow> 'w vpn \<Rightarrow> ClusterId \<Rightarrow> (resources \<times> 'w, DeleteClusterDeploymentError, ClusterDeployment) run" where
  "delete_cluster_deployment E vpn c =
     and_then (map_run_err (DeleteDeploymentPersistence c None)
         (on_fst (resources_remove E ClusterDeployments c))) (\<lambda>removed.
     and_then (lift_result (ok_or (DeleteDeploymentNotFound c) removed)) (\<lambda>deployment.
     and_then (map_run_err (DeleteDeploymentPersistence c None)
         (on_fst (read_resources (resources_get E ClusterConfigurations c)))) (\<lambda>cluster.
     and_then (on_snd (delete_vpn_cluster vpn c cluster)) (\<lambda>_.
     return_ok deployment))))"

section \<open>Rolling out what can be rolled out (deploy_cluster_if_all_peers_available)\<close>

definition cluster_peer_states ::
    "env \<Rightarrow> ClusterId \<Rightarrow> resource_manager \<Rightarrow> ListClusterPeerStatesError + ClusterPeerStates" where
  "cluster_peer_states E c m =
     map_err_to_inner (StatesPersistence c) (resources_read E (list_cluster_peer_states E c) m)"

definition deploy_cluster_if_all_peers_available ::
    "ext \<Rightarrow> env \<Rightarrow> ClusterManagerOptions \<Rightarrow> 'w vpn \<Rightarrow> ClusterId \<Rightarrow> ('w cluster_world, DeployClusterError, unit) run" where
  "deploy_cluster_if_all_peers_available x E opts vpn c =
     and_then (from_manager (\<lambda>m. map_err (DeployListClusterPeerStates c) (cluster_peer_states E c m))) (\<lambda>states.
     case check_cluster_deployable states of
       AllPeersAvailable \<Rightarrow> deploy_cluster x E opts vpn c
     | AlreadyDeployed \<Rightarrow> deploy_cluster x E opts vpn c
     | NotAllPeersAvailable _ \<Rightarrow> return_ok ())"

section \<open>Storing a deployment (store_cluster_deployment)\<close>

datatype StoreClusterDeploymentError =
    StoreDeploymentIllegalPeerState ClusterId "ClusterName option" "PeerId list"
  | StoreDeploymentListClusterPeerStates ClusterId ListClusterPeerStatesError
  | StoreDeploymentPersistence ClusterId "ClusterName option" PersistenceError

definition unknown_cluster :: ClusterName where
  "unknown_cluster = ClusterName ''unknown_cluster''"

definition insert_deployment ::
    "env \<Rightarrow> ClusterDeployment \<Rightarrow> (resources, StoreClusterDeploymentError, unit) run" where
  "insert_deployment E deployment =
     (let c = cd_id deployment in
      and_then (map_run_err (StoreDeploymentPersistence c None)
          (read_resources (resources_get E ClusterConfigurations c))) (\<lambda>config.
      let cluster_name = (case config of Some cluster \<Rightarrow> cc_name cluster | None \<Rightarrow> unknown_cluster) in
      map_run_err (StoreDeploymentPersistence c (Some cluster_name))
        (resources_insert E ClusterDeployments c deployment)))"

definition on_resources :: "(resource_manager, 'e, 'a) run \<Rightarrow> ('w cluster_world, 'e, 'a) run" where
  "on_resources f cw = (case f (cw_manager cw) of (m, r) \<Rightarrow> (cw\<lparr> cw_manager := m \<rparr>, r))"

text \<open>An error of the roll-out is logged, not returned.\<close>

definition store_cluster_deployment ::
    "ext \<Rightarrow> env \<Rightarrow> ClusterManagerOptions \<Rightarrow> 'w vpn \<Rightarrow> ClusterDeployment \<Rightarrow>
     ('w cluster_world, StoreClusterDeploymentError, ClusterId) run" where
  "store_cluster_deployment x E opts vpn deployment =
     (let c = cd_id deployment in
      and_then (from_manager (\<lambda>m. map_err (StoreDeploymentListClusterPeerStates c) (cluster_peer_states E c m))) (\<lambda>states.
      and_then (case check_all_peers_are_available_not_necessarily_online states of
          AllPeersAvailable \<Rightarrow>
            on_resources (collapse (StoreDeploymentPersistence c None)
              (resources_mut E (insert_deployment E deployment)))
        | NotAllPeersAvailable unavailable \<Rightarrow>
            fail_with (StoreDeploymentIllegalPeerState (cps_cluster_id states) None unavailable)
        | AlreadyDeployed \<Rightarrow> return_ok ()) (\<lambda>_.
      and_then (ignoring_error (deploy_cluster_if_all_peers_available x E opts vpn c)) (\<lambda>_.
      return_ok c))))"

section \<open>A peer comes online (effects.rs, deploy_all_clusters_containing_newly_available_peer)\<close>

datatype RedeployError =
    RedeployNoPeerDescriptor PeerId
  | RedeployPersistence PersistenceError
  | RedeployDeploy DeployClusterError

definition shares_device :: "DeviceId list \<Rightarrow> ClusterConfiguration \<Rightarrow> bool" where
  "shares_device devices config \<longleftrightarrow> list_ex (List.member devices) (cc_devices config)"

definition deployments_containing ::
    "env \<Rightarrow> PeerId \<Rightarrow> tables \<Rightarrow> RedeployError + ClusterDeployment list" where
  "deployments_containing E p t =
     bind_sum (map_err RedeployPersistence (resources_get E PeerDescriptors p t)) (\<lambda>found.
     bind_sum (ok_or (RedeployNoPeerDescriptor p) found) (\<lambda>peer.
     bind_sum (map_err RedeployPersistence (resources_list E ClusterConfigurations t)) (\<lambda>configs.
     map_ok (List.map_filter (\<lambda>d. d))
       (traverse (\<lambda>(c, _). map_err RedeployPersistence (resources_get E ClusterDeployments c t))
         (filter (\<lambda>(_, config). shares_device (map dev_id (pd_devices peer)) config) configs)))))"

definition deploy_all_clusters_containing_newly_available_peer ::
    "ext \<Rightarrow> env \<Rightarrow> ClusterManagerOptions \<Rightarrow> 'w vpn \<Rightarrow> PeerId \<Rightarrow> ('w cluster_world, RedeployError, unit) run" where
  "deploy_all_clusters_containing_newly_available_peer x E opts vpn p =
     and_then (on_resources (collapse RedeployPersistence
         (resources_mut E (read_resources (deployments_containing E p))))) (\<lambda>clusters.
     run_list (\<lambda>cluster. map_run_err RedeployDeploy
       (deploy_cluster_if_all_peers_available x E opts vpn (cd_id cluster))) clusters)"

text \<open>The task that watches the connection states; its errors are logged.\<close>

fun on_connection_event ::
    "ext \<Rightarrow> env \<Rightarrow> ClusterManagerOptions \<Rightarrow> 'w vpn \<Rightarrow>
     (PeerId, PeerConnectionState) SubscriptionEvent \<Rightarrow> 'w cluster_world \<Rightarrow> 'w cluster_world" where
  "on_connection_event x E opts vpn (Inserted p (Online host)) cw =
     fst (deploy_all_clusters_containing_newly_available_peer x E opts vpn p cw)"
| "on_connection_event x E opts vpn (Inserted p Offline) cw = cw"
| "on_connection_event x E opts vpn (Removed p s) cw = cw"

section \<open>Reading (get and list)\<close>

definition get_cluster_configuration ::
    "env \<Rightarrow> ClusterId \<Rightarrow> resource_manager \<Rightarrow> (ClusterId \<times> PersistenceError) + ClusterConfiguration option" where
  "get_cluster_configuration E c m = map_err (\<lambda>e. (c, e)) (manager_get E ClusterConfigurations c m)"

definition list_cluster_configuration ::
    "env \<Rightarrow> resource_manager \<Rightarrow> PersistenceError + ClusterConfiguration list" where
  "list_cluster_configuration E m = map_ok values_of (manager_list E ClusterConfigurations m)"

definition get_cluster_deployment ::
    "env \<Rightarrow> ClusterId \<Rightarrow> resource_manager \<Rightarrow> (ClusterId \<times> PersistenceError) + ClusterDeployment option" where
  "get_cluster_deployment E c m = map_err (\<lambda>e. (c, e)) (manager_get E ClusterDeployments c m)"

definition list_cluster_deployment ::
    "env \<Rightarrow> resource_manager \<Rightarrow> PersistenceError + ClusterDeployment list" where
  "list_cluster_deployment E m = map_ok values_of (manager_list E ClusterDeployments m)"

section \<open>What the checks of a roll-out see\<close>

lemma cluster_peer_states_fair: "fair E \<Longrightarrow> cluster_peer_states E c m = list_cluster_peer_states E c (rm_tables m)"
  by (simp add: cluster_peer_states_def)

lemma states_need_configuration:
  assumes "fair E" "list_cluster_peer_states E c t = Inr s"
  shows "\<exists>cfg. map_of (t_cluster_configurations t) c = Some cfg"
  using assms by (auto simp: list_cluster_peer_states_def list_cluster_peers_def kind_defs bind_sum_Inr_iff
      map_err_Inr_iff ok_or_Inr_iff)

definition clusters_ok :: "tables \<Rightarrow> bool" where
  "clusters_ok t \<longleftrightarrow> wf_tables t \<and> exclusive t"

lemma clusters_ok_only_configurations: "only_configurations t t' \<Longrightarrow> clusters_ok t \<Longrightarrow> clusters_ok t'"
  using only_configurations_wf only_configurations_exclusive by (auto simp: clusters_ok_def)

definition world_ok :: "'w cluster_world \<Rightarrow> bool" where
  "world_ok cw \<longleftrightarrow> clusters_ok (rm_tables (cw_manager cw))"

lemma world_ok_frame: "world_configurations_only cw cw' \<Longrightarrow> world_ok cw \<Longrightarrow> world_ok cw'"
  unfolding world_configurations_only_def world_ok_def by (rule clusters_ok_only_configurations)

lemma deploy_if_available_frame:
  "keeps world_configurations_only (deploy_cluster_if_all_peers_available x E opts vpn c)"
  unfolding deploy_cluster_if_all_peers_available_def
  by (intro keeps_and_then keeps_from_manager configurations_only_order)
    (auto intro!: deploy_cluster_frame keeps_same configurations_only_order split: ClusterDeployable.split)

text \<open>Peers the cluster uses that another deployed cluster blocks, and those that are offline.\<close>

definition taken_peers :: "tables \<Rightarrow> ClusterId \<Rightarrow> ClusterConfiguration \<Rightarrow> PeerId set" where
  "taken_peers t c cfg = {p. \<exists>peer i. used_peer t cfg p peer \<and> blocked_in t peer i \<and> i \<noteq> c}"

definition absent_peers :: "tables \<Rightarrow> ClusterConfiguration \<Rightarrow> PeerId set" where
  "absent_peers t cfg = {p. \<exists>peer. used_peer t cfg p peer \<and> \<not> peer_online t p}"

lemma deployable_meaning:
  assumes "fair E" "clusters_ok t" "map_of (t_cluster_configurations t) c = Some cfg"
  obtains s where "list_cluster_peer_states E c t = Inr s" "cps_cluster_id s = c"
    "(\<exists>ps. check_cluster_deployable s = NotAllPeersAvailable ps) \<longleftrightarrow> taken_peers t c cfg \<noteq> {} \<or> absent_peers t cfg \<noteq> {}"
    "check_all_peers_are_available_not_necessarily_online s = AllPeersAvailable \<longrightarrow>
       (\<forall>p peer i. used_peer t cfg p peer \<longrightarrow> \<not> blocked_in t peer i)"
    "taken_peers t c cfg \<noteq> {} \<longrightarrow> (\<exists>ps. check_all_peers_are_available_not_necessarily_online s = NotAllPeersAvailable ps \<and>
       set ps = taken_peers t c cfg)"
    "taken_peers t c cfg = {} \<longrightarrow> (\<forall>ps. check_all_peers_are_available_not_necessarily_online s \<noteq> NotAllPeersAvailable ps)"
proof -
  let ?B = "\<lambda>p i. \<exists>peer. used_peer t cfg p peer \<and> blocked_in t peer i"
  let ?Off = "\<lambda>p. \<exists>peer. used_peer t cfg p peer \<and> \<not> peer_online t p"
  obtain s where s: "list_cluster_peer_states E c t = Inr s" "cps_cluster_id s = c"
    and B: "\<And>p i. (p, i) \<in> set (cps_blocked_peers s) \<longleftrightarrow> ?B p i"
    and Off: "\<And>p. p \<in> set (cps_offline_peers s) \<longleftrightarrow> ?Off p"
    and self: "cps_only_blocked_by_self s \<longleftrightarrow> (\<forall>(p, i)\<in>set (cps_blocked_peers s). i = c)"
    and another: "cps_blocked_by_another s = filter (\<lambda>(p, i). i \<noteq> c) (cps_blocked_peers s)"
    by (rule cluster_states_meaning [OF assms(1) _ _ assms(3)]) (use assms(2) in \<open>auto simp: clusters_ok_def\<close>)
  note all = check_all_available_iff [of s ?B c, OF B self another]
  note dep = check_deployable_iff [of s ?B ?Off c, OF B Off self]
  have taken: "taken_peers t c cfg = {p. \<exists>i. ?B p i \<and> i \<noteq> c}" by (auto simp: taken_peers_def)
  have absent: "absent_peers t cfg = {p. ?Off p}" by (auto simp: absent_peers_def)
  have "(\<exists>ps. check_cluster_deployable s = NotAllPeersAvailable ps) \<longleftrightarrow>
      check_cluster_deployable s \<noteq> AllPeersAvailable \<and> check_cluster_deployable s \<noteq> AlreadyDeployed"
    by (cases "check_cluster_deployable s") auto
  then have 1: "(\<exists>ps. check_cluster_deployable s = NotAllPeersAvailable ps) \<longleftrightarrow>
      taken_peers t c cfg \<noteq> {} \<or> absent_peers t cfg \<noteq> {}"
    unfolding dep taken absent by auto
  have 2: "\<forall>p peer i. used_peer t cfg p peer \<longrightarrow> \<not> blocked_in t peer i"
    if "check_all_peers_are_available_not_necessarily_online s = AllPeersAvailable"
    using that unfolding all(1) by blast
  have 3: "\<exists>ps. check_all_peers_are_available_not_necessarily_online s = NotAllPeersAvailable ps \<and>
       set ps = taken_peers t c cfg" if "taken_peers t c cfg \<noteq> {}"
    using that all unfolding taken
    by (cases "check_all_peers_are_available_not_necessarily_online s") auto
  have 4: "\<forall>ps. check_all_peers_are_available_not_necessarily_online s \<noteq> NotAllPeersAvailable ps"
    if "taken_peers t c cfg = {}"
  proof (intro allI notI)
    fix ps
    assume "check_all_peers_are_available_not_necessarily_online s = NotAllPeersAvailable ps"
    from all(3) [OF this] have "set ps = {}" "ps \<noteq> []" using that unfolding taken by auto
    then show False by simp
  qed
  show thesis by (rule that [OF s 1]) (use 2 3 4 in blast)+
qed

section \<open>Storing a deployment keeps clusters apart\<close>

lemma keepsD: "keeps R f \<Longrightarrow> R s (fst (f s))"
  by (simp add: keeps_def)

lemma insert_deployment_fair:
  assumes "fair E" "map_of (t_cluster_configurations (rm_tables m)) c = Some cfg"
  obtains sent where "collapse (StoreDeploymentPersistence c None) (resources_mut E (insert_deployment E \<lparr> cd_id = c \<rparr>)) m =
    (\<lparr> rm_tables = (rm_tables m)\<lparr> t_cluster_deployments :=
         AList.update c \<lparr> cd_id = c \<rparr> (t_cluster_deployments (rm_tables m)) \<rparr>, rm_sent = sent \<rparr>, Inr ())"
  using assms
  by (auto simp: collapse_def resources_mut_fair insert_deployment_def Let_def run_unfolds kind_defs resources_insert_def)

lemma clusters_ok_insert_deployment:
  assumes "clusters_ok t" "map_of (t_cluster_configurations t) c = Some cfg"
    and "\<forall>p peer i. used_peer t cfg p peer \<longrightarrow> \<not> blocked_in t peer i"
  shows "clusters_ok (t\<lparr> t_cluster_deployments := AList.update c \<lparr> cd_id = c \<rparr> (t_cluster_deployments t) \<rparr>)"
  using assms exclusive_store_deployment [of t c cfg]
  by (auto simp: clusters_ok_def wf_tables_def keyed_update)

text \<open>Storing is: look at the states, insert unless refused, then try to roll out.\<close>

lemma store_cluster_deployment_fair:
  assumes "fair E"
  shows "store_cluster_deployment x E opts vpn \<lparr> cd_id = c \<rparr> cw =
    (case list_cluster_peer_states E c (rm_tables (cw_manager cw)) of
       Inl e \<Rightarrow> (cw, Inl (StoreDeploymentListClusterPeerStates c e))
     | Inr states \<Rightarrow>
         (case check_all_peers_are_available_not_necessarily_online states of
            AllPeersAvailable \<Rightarrow>
              (case on_resources (collapse (StoreDeploymentPersistence c None)
                  (resources_mut E (insert_deployment E \<lparr> cd_id = c \<rparr>))) cw of
                 (cw1, Inl e) \<Rightarrow> (cw1, Inl e)
               | (cw1, Inr _) \<Rightarrow> (fst (deploy_cluster_if_all_peers_available x E opts vpn c cw1), Inr c))
          | NotAllPeersAvailable unavailable \<Rightarrow>
              (cw, Inl (StoreDeploymentIllegalPeerState (cps_cluster_id states) None unavailable))
          | AlreadyDeployed \<Rightarrow> (fst (deploy_cluster_if_all_peers_available x E opts vpn c cw), Inr c)))"
  using assms
  by (simp add: store_cluster_deployment_def Let_def run_defs from_manager_def cluster_peer_states_fair
      ignoring_error_def split: sum.split ClusterDeployable.split prod.split)

text \<open>C16: storing a cluster deployment keeps the tables well-formed and the deployed clusters apart:
  however the attempt to roll the cluster out ends, afterwards still no peer is used by two
  deployed clusters. So the assertion that a peer's devices belong to one cluster cannot fail.\<close>

theorem store_cluster_deployment_keeps_clusters_apart:
  assumes "fair E" "world_ok cw" "store_cluster_deployment x E opts vpn \<lparr> cd_id = c \<rparr> cw = (cw', r)"
  shows "world_ok cw'"
proof -
  let ?t = "rm_tables (cw_manager cw)"
  have frame: "world_ok (fst (deploy_cluster_if_all_peers_available x E opts vpn c cw1))" if "world_ok cw1" for cw1
    using world_ok_frame [OF keepsD [OF deploy_if_available_frame] that] .
  show ?thesis
  proof (cases "list_cluster_peer_states E c ?t")
    case (Inl e)
    with assms show ?thesis by (simp add: store_cluster_deployment_fair)
  next
    case (Inr states)
    then obtain cfg where cfg: "map_of (t_cluster_configurations ?t) c = Some cfg"
      using states_need_configuration [OF assms(1)] by blast
    have ok: "clusters_ok ?t" using assms(2) by (simp add: world_ok_def)
    obtain s where "list_cluster_peer_states E c ?t = Inr s"
      and free: "check_all_peers_are_available_not_necessarily_online s = AllPeersAvailable \<longrightarrow>
         (\<forall>p peer i. used_peer ?t cfg p peer \<longrightarrow> \<not> blocked_in ?t peer i)"
      by (rule deployable_meaning [OF assms(1) ok cfg])
    with Inr have s: "states = s" by simp
    obtain sent where ins: "collapse (StoreDeploymentPersistence c None)
        (resources_mut E (insert_deployment E \<lparr> cd_id = c \<rparr>)) (cw_manager cw) =
      (\<lparr> rm_tables = ?t\<lparr> t_cluster_deployments := AList.update c \<lparr> cd_id = c \<rparr> (t_cluster_deployments ?t) \<rparr>,
         rm_sent = sent \<rparr>, Inr ())"
      by (rule insert_deployment_fair [OF assms(1) cfg])
    show ?thesis
    proof (cases "check_all_peers_are_available_not_necessarily_online s")
      case AllPeersAvailable
      from clusters_ok_insert_deployment [OF ok cfg free [THEN mp, OF this]] AllPeersAvailable Inr s ins assms(3) show ?thesis
        by (auto simp: store_cluster_deployment_fair [OF assms(1)] on_resources_def world_ok_def
            intro!: frame [unfolded world_ok_def])
    next
      case AlreadyDeployed
      with Inr s assms show ?thesis by (auto simp: store_cluster_deployment_fair intro!: frame)
    next
      case (NotAllPeersAvailable ps)
      with Inr s assms show ?thesis by (auto simp: store_cluster_deployment_fair)
    qed
  qed
qed


text \<open>C18: as long as a peer of a cluster is offline, or another deployed cluster uses one of its peers,
  an attempt to roll the cluster out does nothing: no peer, no server and no table is touched.\<close>

theorem no_partial_rollout:
  assumes "fair E" "world_ok cw" "map_of (t_cluster_configurations (rm_tables (cw_manager cw))) c = Some cfg"
    and "taken_peers (rm_tables (cw_manager cw)) c cfg \<noteq> {} \<or> absent_peers (rm_tables (cw_manager cw)) cfg \<noteq> {}"
  shows "deploy_cluster_if_all_peers_available x E opts vpn c cw = (cw, Inr ())"
proof -
  let ?t = "rm_tables (cw_manager cw)"
  have ok: "clusters_ok ?t" using assms(2) by (simp add: world_ok_def)
  obtain s where s: "list_cluster_peer_states E c ?t = Inr s"
    and no: "(\<exists>ps. check_cluster_deployable s = NotAllPeersAvailable ps) \<longleftrightarrow> taken_peers ?t c cfg \<noteq> {} \<or> absent_peers ?t cfg \<noteq> {}"
    by (rule deployable_meaning [OF assms(1) ok assms(3)])
  with assms(1,4) show ?thesis
    by (auto simp: deploy_cluster_if_all_peers_available_def run_defs from_manager_def cluster_peer_states_fair)
qed

section \<open>Deleting keeps clusters apart\<close>

lemma delete_deployment_ok:
  assumes "fair E" "delete_cluster_deployment E vpn c (s, w) = ((s', w'), Inr d)"
  shows "map_of (t_cluster_deployments (r_tables s)) c = Some d \<and>
    r_tables s' = (r_tables s)\<lparr> t_cluster_deployments := AList.delete c (t_cluster_deployments (r_tables s)) \<rparr>"
  using assms
  by (auto simp: delete_cluster_deployment_def world_iffs resources_remove_def kind_defs Let_def split: option.splits)

lemma deployed_delete_deployment:
  "deployed_cluster (t\<lparr> t_cluster_deployments := AList.delete c (t_cluster_deployments t) \<rparr>) x \<longleftrightarrow>
     deployed_cluster t x \<and> cc_id x \<noteq> c"
  by (auto simp: deployed_cluster_def delete_conv')


text \<open>a cluster configuration is deleted only when the cluster has no deployment: while it has one
  the deletion fails and changes nothing; otherwise, when it succeeds, exactly this configuration is
  gone, the deployed clusters are the same as before, and the invariants hold.\<close>

lemma delete_cluster_configuration_guarded:
  assumes "fair E" "clusters_ok (r_tables s)" "delete_cluster_configuration E c s = (s', r)"
  shows "case map_of (t_cluster_deployments (r_tables s)) c of
      Some d \<Rightarrow> s' = s \<and> r = Inl (DeleteConfigurationDeploymentFound c)
    | None \<Rightarrow> clusters_ok (r_tables s') \<and> (\<forall>x. deployed_cluster (r_tables s') x \<longleftrightarrow> deployed_cluster (r_tables s) x) \<and>
        t_cluster_configurations (r_tables s') = AList.delete c (t_cluster_configurations (r_tables s)) \<and>
        r = (case map_of (t_cluster_configurations (r_tables s)) c of
               None \<Rightarrow> Inl (DeleteConfigurationNotFound c) | Some config \<Rightarrow> Inr config)"
proof (cases "map_of (t_cluster_deployments (r_tables s)) c")
  case None
  let ?t = "r_tables s" and ?t' = "r_tables s'"
  have t': "?t' = ?t\<lparr> t_cluster_configurations := AList.delete c (t_cluster_configurations ?t) \<rparr>"
    and r: "r = (case map_of (t_cluster_configurations ?t) c of
        None \<Rightarrow> Inl (DeleteConfigurationNotFound c) | Some config \<Rightarrow> Inr config)"
    using assms(1,3) None
    by (auto simp: delete_cluster_configuration_def run_unfolds resources_remove_def kind_defs Let_def split: option.splits)
  have same: "deployed_cluster ?t' x \<longleftrightarrow> deployed_cluster ?t x" for x
    using None by (auto simp: t' deployed_cluster_def delete_conv')
  have "wf_tables ?t'" using assms(2) by (simp add: t' clusters_ok_def wf_tables_def keyed_delete)
  moreover have "exclusive ?t'"
    using assms(2) same
    by - (rule exclusive_antimono [of ?t], auto simp: t' clusters_ok_def)
  ultimately have "clusters_ok ?t'" by (simp add: clusters_ok_def)
  moreover have "t_cluster_configurations ?t' = AList.delete c (t_cluster_configurations ?t)"
    unfolding t' by simp
  ultimately show ?thesis unfolding None option.case using same r by blast
next
  case (Some d)
  have "cd_id d = c"
    by (rule keyed_lookup [OF _ Some]) (use assms(2) in \<open>simp add: clusters_ok_def wf_tables_def\<close>)
  with Some assms(1,3) show ?thesis
    by (simp add: delete_cluster_configuration_def run_unfolds kind_defs)
qed

section \<open>Which clusters a peer that comes online concerns\<close>

lemma shares_device_iff: "shares_device (map dev_id (pd_devices peer)) config \<longleftrightarrow> cluster_uses_peer config peer"
  by (auto simp: shares_device_def cluster_uses_peer_iff list_ex_iff List.member_iff)

lemma deployments_of_sharing_configurations:
  assumes "wf_tables t"
  shows "i \<in> cd_id ` {d. \<exists>(c, config)\<in>set (t_cluster_configurations t). cluster_uses_peer config peer \<and>
      map_of (t_cluster_deployments t) c = Some d} \<longleftrightarrow> blocked_in t peer i"
proof
  have cc: "keyed cc_id (t_cluster_configurations t)" and cd: "keyed cd_id (t_cluster_deployments t)"
    using assms by (simp_all add: wf_tables_def)
  {
    assume "i \<in> cd_id ` {d. \<exists>(c, config)\<in>set (t_cluster_configurations t). cluster_uses_peer config peer \<and>
      map_of (t_cluster_deployments t) c = Some d}"
    then obtain c config d where c: "(c, config) \<in> set (t_cluster_configurations t)" "cluster_uses_peer config peer"
      and d: "map_of (t_cluster_deployments t) c = Some d" "i = cd_id d"
      by auto
    have "cc_id config = c" "map_of (t_cluster_configurations t) c = Some config"
      using c(1) cc by (auto simp: keyed_def set_hash_map [symmetric])
    moreover have "cd_id d = c" using keyed_lookup [OF cd d(1)] .
    ultimately show "blocked_in t peer i" using c(2) d by (auto simp: blocked_in_def deployed_cluster_def)
  next
    assume "blocked_in t peer i"
    then obtain config d where config: "map_of (t_cluster_configurations t) i = Some config" "cluster_uses_peer config peer"
      and d: "map_of (t_cluster_deployments t) i = Some d"
      by (auto simp: blocked_in_def deployed_cluster_def)
    have "cd_id d = i" using keyed_lookup [OF cd d] .
    then show "i \<in> cd_id ` {d. \<exists>(c, config)\<in>set (t_cluster_configurations t). cluster_uses_peer config peer \<and>
        map_of (t_cluster_deployments t) c = Some d}"
      using map_of_SomeD [OF config(1)] config(2) d by force
  }
qed

text \<open>C20: when a peer comes online, the clusters considered for a roll-out are exactly the deployed
  ones that use a device of this peer.\<close>

theorem newly_available_peer_finds_its_clusters:
  assumes "fair E" "wf_tables t"
  shows "case deployments_containing E p t of
      Inl e \<Rightarrow> e = RedeployNoPeerDescriptor p \<and> map_of (t_peer_descriptors t) p = None
    | Inr ds \<Rightarrow> \<exists>peer. map_of (t_peer_descriptors t) p = Some peer \<and>
        set (map cd_id ds) = {i. blocked_in t peer i}"
proof (cases "map_of (t_peer_descriptors t) p")
  case None
  with assms(1) show ?thesis by (simp add: deployments_containing_def kind_defs)
next
  case (Some peer)
  let ?configs = "filter (\<lambda>(_, config). shares_device (map dev_id (pd_devices peer)) config) (t_cluster_configurations t)"
  have "traverse (\<lambda>(c, _). map_err RedeployPersistence (resources_get E ClusterDeployments c t)) ?configs =
      Inr (map (\<lambda>(c, _). map_of (t_cluster_deployments t) c) ?configs)"
    using assms(1) by (intro traverse_Inr) (auto simp: kind_defs)
  then have ds: "deployments_containing E p t =
      Inr (List.map_filter (\<lambda>d. d) (map (\<lambda>(c, _). map_of (t_cluster_deployments t) c) ?configs))"
    using assms(1) Some by (simp add: deployments_containing_def kind_defs)
  have "set (List.map_filter (\<lambda>d. d) (map (\<lambda>(c, _). map_of (t_cluster_deployments t) c) ?configs)) =
      {d. \<exists>(c, config)\<in>set (t_cluster_configurations t). cluster_uses_peer config peer \<and> map_of (t_cluster_deployments t) c = Some d}"
    by (force simp: set_map_filter shares_device_iff)
  then show ?thesis
    using Some deployments_of_sharing_configurations [OF assms(2), of _ peer]
    unfolding ds by (simp only: sum.case set_map) blast
qed

section \<open>Creating a configuration keeps the clusters apart only for clusters that are not deployed\<close>

lemma create_cluster_configuration_fair:
  "fair E \<Longrightarrow> create_cluster_configuration E config s =
     (fst (resources_insert E ClusterConfigurations (cc_id config) config s), Inr (cc_id config))"
  by (simp add: create_cluster_configuration_def resources_insert_def run_unfolds)

lemma create_cluster_configuration_tables:
  "fair E \<Longrightarrow> r_tables (fst (create_cluster_configuration E config s)) = (r_tables s)\<lparr> t_cluster_configurations :=
     AList.update (cc_id config) config (t_cluster_configurations (r_tables s)) \<rparr>"
  by (simp add: create_cluster_configuration_fair resources_insert_def kind_defs)

text \<open>creating a configuration of a cluster that has no deployment is harmless: it stores this
  configuration, returns its id, deploys nothing and keeps the tables well-formed and the clusters apart.\<close>

lemma create_cluster_configuration_of_undeployed:
  assumes "fair E" "clusters_ok (r_tables s)" "map_of (t_cluster_deployments (r_tables s)) (cc_id config) = None"
  shows "case create_cluster_configuration E config s of (s', r) \<Rightarrow>
    r = Inr (cc_id config) \<and> clusters_ok (r_tables s') \<and>
    map_of (t_cluster_configurations (r_tables s')) (cc_id config) = Some config \<and>
    (\<forall>x. deployed_cluster (r_tables s') x \<longleftrightarrow> deployed_cluster (r_tables s) x)"
proof -
  let ?t = "r_tables s"
  let ?t' = "?t\<lparr> t_cluster_configurations := AList.update (cc_id config) config (t_cluster_configurations ?t) \<rparr>"
  have same: "deployed_cluster ?t' x \<longleftrightarrow> deployed_cluster ?t x" for x
    using assms(3) by (auto simp: deployed_cluster_def update_conv')
  have "wf_tables ?t'" using assms(2) by (simp add: clusters_ok_def wf_tables_def keyed_update)
  moreover have "exclusive ?t'"
    using assms(2) same by - (rule exclusive_antimono [of ?t], auto simp: clusters_ok_def)
  ultimately have "clusters_ok ?t'" by (simp add: clusters_ok_def)
  with same create_cluster_configuration_tables [OF assms(1), of config s] create_cluster_configuration_fair [OF assms(1), of config s]
  show ?thesis by (simp add: update_conv' split: prod.split)
qed

text \<open>Peers 3 and 4 with one device each, used by the deployed clusters 5 and 6.\<close>

definition two_clusters :: tables where
  "two_clusters = no_tables\<lparr>
     t_cluster_configurations :=
       [(ClusterId 5, sample_cluster 5 3 [DeviceId 10]), (ClusterId 6, sample_cluster 6 4 [DeviceId 11])],
     t_cluster_deployments := [(ClusterId 5, \<lparr> cd_id = ClusterId 5 \<rparr>), (ClusterId 6, \<lparr> cd_id = ClusterId 6 \<rparr>)],
     t_peer_descriptors :=
       [(PeerId 3, sample_peer 3 [sample_device 10, sample_device 12]), (PeerId 4, sample_peer 4 [sample_device 11])] \<rparr>"

text \<open>Cluster 6, already deployed, is given a device of the peer that cluster 5 uses.\<close>

definition stolen_device :: ClusterConfiguration where
  "stolen_device = sample_cluster 6 4 [DeviceId 11, DeviceId 12]"

lemma two_clusters_ok: "clusters_ok two_clusters"
proof -
  have deployed: "deployed_cluster two_clusters c \<longleftrightarrow>
      c = sample_cluster 5 3 [DeviceId 10] \<or> c = sample_cluster 6 4 [DeviceId 11]" for c
    by (auto simp: deployed_cluster_def two_clusters_def no_tables_def sample_cluster_def split: if_splits)
  have peers: "peer = sample_peer 3 [sample_device 10, sample_device 12] \<or> peer = sample_peer 4 [sample_device 11]"
    if "(p, peer) \<in> set (t_peer_descriptors two_clusters)" for p peer
    using that by (auto simp: two_clusters_def)
  have blocked: "blocked_in two_clusters peer i \<Longrightarrow>
      i = ClusterId 5 \<and> cluster_uses_peer (sample_cluster 5 3 [DeviceId 10]) peer \<or>
      i = ClusterId 6 \<and> cluster_uses_peer (sample_cluster 6 4 [DeviceId 11]) peer" for peer i
    unfolding blocked_in_def deployed by (elim exE conjE disjE) (simp_all add: sample_cluster_def)
  have "i = j" if "(p, peer) \<in> set (t_peer_descriptors two_clusters)"
    "blocked_in two_clusters peer i" "blocked_in two_clusters peer j" for p peer i j
    using peers [OF that(1)] blocked [OF that(2)] blocked [OF that(3)]
    by (elim disjE) (simp_all add: cluster_uses_peer_iff sample_cluster_def sample_peer_def sample_device_def)
  then have "exclusive two_clusters" by (auto simp: exclusive_def)
  moreover have "wf_tables two_clusters"
    by (simp add: wf_tables_def two_clusters_def no_tables_def keyed_def hash_map_def sample_cluster_def sample_peer_def)
  ultimately show ?thesis by (simp add: clusters_ok_def)
qed

text \<open>C21: nothing keeps a client from creating the configuration of a deployed cluster again, with
  a device of a peer that another deployed cluster uses: the invariants held before, the
  operation succeeds, and from then on every query of the peers' member states panics.\<close>

theorem reconfiguring_deployed_cluster_panics:
  "clusters_ok two_clusters \<and>
   (\<exists>s'. create_cluster_configuration fair_env stolen_device \<lparr> r_tables = two_clusters, r_events = no_events \<rparr> =
      (s', Inr (ClusterId 6)) \<and>
    list_peer_member_states fair_env (r_tables s') =
      Inl (StoragePanic ''Expected all devices of the peer belonging to the same cluster!''))"
proof -
  let ?s = "\<lparr> r_tables = two_clusters, r_events = no_events \<rparr>"
  let ?s' = "fst (create_cluster_configuration fair_env stolen_device ?s)"
  have tables: "r_tables ?s' = two_clusters\<lparr> t_cluster_configurations :=
      [(ClusterId 5, sample_cluster 5 3 [DeviceId 10]), (ClusterId 6, stolen_device)] \<rparr>"
    by (simp add: create_cluster_configuration_tables two_clusters_def stolen_device_def sample_cluster_def)
  have "list_peer_member_states fair_env (r_tables ?s') =
      Inl (StoragePanic ''Expected all devices of the peer belonging to the same cluster!'')"
    unfolding tables
    by (simp add: list_peer_member_states_def list_deployed_clusters_def peer_member_state_def kind_defs
        blocking_clusters_def deployed_devices_def two_clusters_def no_tables_def stolen_device_def
        sample_cluster_def sample_peer_def sample_device_def collect_map_def List.member_iff)
  moreover have "create_cluster_configuration fair_env stolen_device ?s = (?s', Inr (ClusterId 6))"
    by (simp add: create_cluster_configuration_fair stolen_device_def sample_cluster_def)
  ultimately show ?thesis using two_clusters_ok by blast
qed

section \<open>The properties at work\<close>

text \<open>Peer 3 is used by the deployed cluster 5; the cluster 6, not deployed, has the same device.\<close>

definition rival_tables :: tables where
  "rival_tables = sample_tables\<lparr> t_cluster_configurations :=
     [(ClusterId 5, sample_cluster 5 3 [DeviceId 10]), (ClusterId 6, sample_cluster 6 3 [DeviceId 10])] \<rparr>"

definition world_of :: "tables \<Rightarrow> unit cluster_world" where
  "world_of t = \<lparr> cw_manager = \<lparr> rm_tables = t, rm_sent = no_events \<rparr>, cw_broker = no_broker, cw_vpn = (),
     can_server_port_counter = 10000 \<rparr>"

definition resources_of :: "tables \<Rightarrow> resources" where
  "resources_of t = \<lparr> r_tables = t, r_events = no_events \<rparr>"

lemma world_of_tables [simp]: "rm_tables (cw_manager (world_of t)) = t"
  by (simp add: world_of_def)

lemma resources_of_tables [simp]: "r_tables (resources_of t) = t"
  by (simp add: resources_of_def)

lemma deployed_rival: "deployed_cluster rival_tables c \<longleftrightarrow> c = sample_cluster 5 3 [DeviceId 10]"
  by (auto simp: deployed_cluster_def rival_tables_def sample_tables_def no_tables_def sample_cluster_def split: if_splits)

lemma rival_ok: "clusters_ok rival_tables"
proof -
  have "exclusive rival_tables" by (auto simp: exclusive_def blocked_in_def deployed_rival)
  moreover have "wf_tables rival_tables"
    using wf_sample_tables by (simp add: wf_tables_def rival_tables_def keyed_def hash_map_def sample_cluster_def)
  ultimately show ?thesis by (simp add: clusters_ok_def)
qed

lemma sample_ok: "clusters_ok sample_tables"
  using wf_sample_tables exclusive_sample by (simp add: clusters_ok_def)

lemma rival_config: "map_of (t_cluster_configurations rival_tables) (ClusterId 6) = Some (sample_cluster 6 3 [DeviceId 10])"
  by (simp add: rival_tables_def)

lemma blocked_in_rival: "blocked_in rival_tables peer i \<longleftrightarrow>
    i = ClusterId 5 \<and> cluster_uses_peer (sample_cluster 5 3 [DeviceId 10]) peer"
  by (auto simp: blocked_in_def deployed_rival sample_cluster_def)

lemma used_in_rival: "used_peer rival_tables (sample_cluster n 3 [DeviceId 10]) p peer \<longleftrightarrow>
    p = PeerId 3 \<and> peer = sample_peer 3 [sample_device 10]"
proof -
  have "t_peer_descriptors rival_tables = [(PeerId 3, sample_peer 3 [sample_device 10])]"
    by (simp add: rival_tables_def sample_tables_def)
  moreover have "cluster_uses_peer (sample_cluster n 3 [DeviceId 10]) (sample_peer 3 [sample_device 10])"
    by (simp add: cluster_uses_peer_iff sample_cluster_def sample_peer_def sample_device_def)
  ultimately show ?thesis by (auto simp: used_peer_def)
qed

lemma rival_taken: "taken_peers rival_tables (ClusterId 6) (sample_cluster 6 3 [DeviceId 10]) = {PeerId 3}"
proof -
  have "cluster_uses_peer (sample_cluster 5 3 [DeviceId 10]) (sample_peer 3 [sample_device 10])"
    by (simp add: cluster_uses_peer_iff sample_cluster_def sample_peer_def sample_device_def)
  then show ?thesis unfolding taken_peers_def used_in_rival blocked_in_rival by auto
qed

theorem store_cluster_deployment_keeps_clusters_apart_witness:
  "world_ok (fst (store_cluster_deployment decimal_ext fair_env sample_options VpnOff \<lparr> cd_id = ClusterId 6 \<rparr> (world_of rival_tables)))"
  by (rule store_cluster_deployment_keeps_clusters_apart [OF fair_env, where cw = "world_of rival_tables"])
    (auto simp: world_ok_def rival_ok prod_eq_iff)


theorem no_partial_rollout_witness:
  "deploy_cluster_if_all_peers_available decimal_ext fair_env sample_options VpnOff (ClusterId 6) (world_of rival_tables) =
     (world_of rival_tables, Inr ())"
  by (rule no_partial_rollout [OF fair_env _ _ disjI1, where cfg = "sample_cluster 6 3 [DeviceId 10]"])
    (simp_all add: world_ok_def rival_ok rival_config rival_taken)

lemma sample_deletes: "snd (delete_cluster_deployment fair_env VpnOff (ClusterId 5) (resources_of sample_tables, ())) =
    Inr \<lparr> cd_id = ClusterId 5 \<rparr>"
  by (simp add: delete_cluster_deployment_def run_unfolds resources_remove_def kind_defs Let_def sample_tables_def
      no_tables_def delete_vpn_cluster_def split: prod.split option.split)


theorem newly_available_peer_finds_its_clusters_witness:
  "case deployments_containing fair_env (PeerId 3) sample_tables of
     Inl _ \<Rightarrow> False | Inr ds \<Rightarrow> set (map cd_id ds) = {ClusterId 5}"
proof -
  have "{i. blocked_in sample_tables (sample_peer 3 [sample_device 10]) i} = {ClusterId 5}"
    using sample_peer_blocked by (auto simp: blocked_in_sample)
  with newly_available_peer_finds_its_clusters [OF fair_env wf_sample_tables, of "PeerId 3"] show ?thesis
    by (simp add: sample_peer_lookup split: sum.splits)
qed

end
