(* ===== verification/ApiErrors.thy ===== *)
theory ApiErrors
  imports ClusterManager
begin

text \<open>
  The errors of CARL's API (opendut-carl/opendut-carl-api/src/carl/peer.rs and cluster.rs), what
  the managers' errors become in it (opendut-carl/src/manager/grpc/error.rs) and the failure
  messages that carry them (opendut-carl-api/src/proto/services/peer_manager.rs and
  cluster_manager.rs). Every pair of conversions keeps the contract \<open>exact_conversion\<close>.
\<close>

definition newline :: string where
  "newline = [char_of (10::nat)]"

definition required :: "string \<Rightarrow> string \<Rightarrow> string \<Rightarrow> 'p option \<Rightarrow> ('p \<Rightarrow> 'm conversion_result) \<Rightarrow> 'm conversion_result" where
  "required frm to field opt convert = bind_sum (extract_field frm to field opt) convert"

lemma required_Some [simp]: "required frm to field (Some p) convert = convert p"
  by (simp add: required_def)

lemma required_None [simp]: "required frm to field None convert = Inl (field_not_set frm to field)"
  by (simp add: required_def)

definition wf_peer_state :: "PeerState \<Rightarrow> bool" where
  "wf_peer_state s \<longleftrightarrow> wf_connection (ps_connection s)"

section \<open>Storing a peer\<close>

datatype ApiIllegalDevicesError = ApiDeviceAlreadyExists DeviceId

datatype ApiStorePeerError =
    ApiStorePeerIllegalState PeerId PeerName PeerState "PeerState list"
  | ApiStorePeerIllegalDevices PeerId PeerName ApiIllegalDevicesError
  | ApiStorePeerInternal PeerId PeerName string

fun api_illegal_devices_message :: "ext \<Rightarrow> ApiIllegalDevicesError \<Rightarrow> string" where
  "api_illegal_devices_message x (ApiDeviceAlreadyExists d) =
     ''Device <'' @ uuid_to_string x (device_uuid d) @ ''> already registered!''"

fun api_store_peer_message :: "ext \<Rightarrow> ApiStorePeerError \<Rightarrow> string" where
  "api_store_peer_message x (ApiStorePeerIllegalState p name actual required_states) =
     ''Peer '' @ peer_display x (Some name) p @ '' cannot be updated in state '' @ quote_char @
     peer_state_short_name actual @ quote_char @ ''! A peer can be updated when: '' @
     short_names_joined peer_state_short_name required_states"
| "api_store_peer_message x (ApiStorePeerIllegalDevices p name error) =
     ''Peer '' @ peer_display x (Some name) p @ '' could not be stored, due to illegal devices:'' @
     newline @ ''  '' @ api_illegal_devices_message x error"
| "api_store_peer_message x (ApiStorePeerInternal p name cause) =
     ''Peer '' @ peer_display x (Some name) p @ '' could not be created, due to internal errors:'' @
     newline @ ''  '' @ cause"

fun api_store_peer_from :: "StorePeerDescriptorError \<Rightarrow> ApiStorePeerError" where
  "api_store_peer_from (StorePeerIllegalState p name actual required_states) =
     ApiStorePeerIllegalState p name actual required_states"
| "api_store_peer_from (StorePeerPersistence p name source) =
     ApiStorePeerInternal p name ''Error when accessing persistence while storing peer descriptor''"
| "api_store_peer_from (StorePeerVpnClient p name source) =
     ApiStorePeerInternal p name ''Error when creating peer in VPN management while storing peer descriptor''"

datatype ProtoIllegalDevicesError = ProtoIllegalDevicesError "ProtoDeviceId option option"

definition illegal_devices_to_proto :: "ext \<Rightarrow> ApiIllegalDevicesError \<Rightarrow> ProtoIllegalDevicesError" where
  "illegal_devices_to_proto x e =
     (case e of ApiDeviceAlreadyExists d \<Rightarrow> ProtoIllegalDevicesError (Some (Some (device_id_to_proto x d))))"

definition illegal_devices_from_proto :: "ext \<Rightarrow> ProtoIllegalDevicesError \<Rightarrow> ApiIllegalDevicesError conversion_result" where
  "illegal_devices_from_proto x p =
     (case p of ProtoIllegalDevicesError error \<Rightarrow>
        required ''proto::services::peer_manager::IllegalDevicesError'' ''carl::peer::IllegalDevicesError'' ''error'' error (\<lambda>inner.
        map_ok ApiDeviceAlreadyExists (required ''proto::services::peer_manager::IllegalDevicesErrorDeviceAlreadyExists''
          ''carl::peer::IllegalDevicesError'' ''device_id'' inner (device_id_from_proto x))))"

interpretation illegal_devices_conversion:
  exact_conversion "illegal_devices_to_proto x" "illegal_devices_from_proto x" "\<lambda>_. ext_ok x" for x
  by (rule exact_conversionI)
    (simp add: illegal_devices_to_proto_def illegal_devices_from_proto_def split: ApiIllegalDevicesError.split)

datatype ProtoStorePeerFailureError =
    ProtoStorePeerIllegalState "ProtoPeerId option" "ProtoPeerName option" "ProtoPeerState option" "ProtoPeerState list"
  | ProtoStorePeerIllegalDevices "ProtoPeerId option" "ProtoPeerName option" "ProtoIllegalDevicesError option"
  | ProtoStorePeerInternal "ProtoPeerId option" "ProtoPeerName option" string

datatype ProtoStorePeerFailure = ProtoStorePeerFailure "ProtoStorePeerFailureError option"

fun store_peer_failure_to_proto :: "ext \<Rightarrow> ApiStorePeerError \<Rightarrow> ProtoStorePeerFailure" where
  "store_peer_failure_to_proto x (ApiStorePeerIllegalState p name actual required_states) =
     ProtoStorePeerFailure (Some (ProtoStorePeerIllegalState (Some (peer_id_to_proto x p)) (Some (peer_name_to_proto name))
       (Some (peer_state_to_proto x actual)) (map (peer_state_to_proto x) required_states)))"
| "store_peer_failure_to_proto x (ApiStorePeerIllegalDevices p name error) =
     ProtoStorePeerFailure (Some (ProtoStorePeerIllegalDevices (Some (peer_id_to_proto x p)) (Some (peer_name_to_proto name))
       (Some (illegal_devices_to_proto x error))))"
| "store_peer_failure_to_proto x (ApiStorePeerInternal p name cause) =
     ProtoStorePeerFailure (Some (ProtoStorePeerInternal (Some (peer_id_to_proto x p)) (Some (peer_name_to_proto name)) cause))"

fun store_peer_failure_error_from_proto :: "ext \<Rightarrow> ProtoStorePeerFailureError \<Rightarrow> ApiStorePeerError conversion_result" where
  "store_peer_failure_error_from_proto x (ProtoStorePeerIllegalState pid pname actual required_states) =
     (let frm = ''proto::services::peer_manager::StorePeerDescriptorFailureIllegalPeerState''; to = ''carl::peer::StorePeerDescriptorError'' in
      bind_sum (required frm to ''peer_id'' pid (peer_id_from_proto x)) (\<lambda>p.
      bind_sum (required frm to ''peer_name'' pname peer_name_from_proto) (\<lambda>name.
      bind_sum (required frm to ''actual_state'' actual (peer_state_from_proto x)) (\<lambda>state.
      map_ok (ApiStorePeerIllegalState p name state) (traverse (peer_state_from_proto x) required_states)))))"
| "store_peer_failure_error_from_proto x (ProtoStorePeerIllegalDevices pid pname perror) =
     (let frm = ''proto::services::peer_manager::StorePeerDescriptorFailureIllegalDevices''; to = ''carl::peer::StorePeerDescriptorError'' in
      bind_sum (required frm to ''peer_id'' pid (peer_id_from_proto x)) (\<lambda>p.
      bind_sum (required frm to ''peer_name'' pname peer_name_from_proto) (\<lambda>name.
      map_ok (ApiStorePeerIllegalDevices p name) (required frm to ''error'' perror (illegal_devices_from_proto x)))))"
| "store_peer_failure_error_from_proto x (ProtoStorePeerInternal pid pname cause) =
     (let frm = ''proto::services::peer_manager::StorePeerDescriptorFailureInternal''; to = ''carl::peer::StorePeerDescriptorError'' in
      bind_sum (required frm to ''peer_id'' pid (peer_id_from_proto x)) (\<lambda>p.
      map_ok (\<lambda>name. ApiStorePeerInternal p name cause) (required frm to ''peer_name'' pname peer_name_from_proto)))"

definition store_peer_failure_from_proto :: "ext \<Rightarrow> ProtoStorePeerFailure \<Rightarrow> ApiStorePeerError conversion_result" where
  "store_peer_failure_from_proto x p =
     (case p of ProtoStorePeerFailure error \<Rightarrow>
        required ''proto::services::peer_manager::StorePeerDescriptorFailure'' ''carl::peer::StorePeerDescriptorError'' ''error'' error
          (store_peer_failure_error_from_proto x))"

fun wf_api_store_peer :: "ApiStorePeerError \<Rightarrow> bool" where
  "wf_api_store_peer (ApiStorePeerIllegalState p name actual required_states) \<longleftrightarrow>
     valid_peer_name name \<and> wf_peer_state actual \<and> (\<forall>s\<in>set required_states. wf_peer_state s)"
| "wf_api_store_peer (ApiStorePeerIllegalDevices p name error) \<longleftrightarrow> valid_peer_name name"
| "wf_api_store_peer (ApiStorePeerInternal p name cause) \<longleftrightarrow> valid_peer_name name"

interpretation store_peer_failure_conversion:
  exact_conversion "store_peer_failure_to_proto x" "store_peer_failure_from_proto x" "\<lambda>e. ext_ok x \<and> wf_api_store_peer e" for x
proof (rule exact_conversionI)
  fix e
  assume "ext_ok x \<and> wf_api_store_peer e"
  then show "store_peer_failure_from_proto x (store_peer_failure_to_proto x e) = Inr e"
    by (cases e) (simp_all add: store_peer_failure_from_proto_def Let_def wf_peer_state_def)
qed

section \<open>Deleting a peer\<close>

datatype ApiDeletePeerError =
    ApiDeletePeerNotFound PeerId
  | ApiDeletePeerDeploymentExists PeerId ClusterId
  | ApiDeletePeerIllegalState PeerId PeerName PeerState "PeerState list"
  | ApiDeletePeerInternal PeerId "PeerName option" string

fun api_delete_peer_message :: "ext \<Rightarrow> ApiDeletePeerError \<Rightarrow> string" where
  "api_delete_peer_message x (ApiDeletePeerNotFound p) =
     ''Peer '' @ peer_display x None p @ '' could not be deleted, because a peer with that id does not exist!''"
| "api_delete_peer_message x (ApiDeletePeerDeploymentExists p c) =
     ''Peer '' @ peer_display x None p @ '' could not be deleted, because a cluster deployment '' @
     cluster_display x None c @ '' using this peer still exists!''"
| "api_delete_peer_message x (ApiDeletePeerIllegalState p name actual required_states) =
     ''Peer '' @ peer_display x (Some name) p @ '' cannot be deleted in state '' @ quote_char @
     peer_state_short_name actual @ quote_char @ ''! A peer can be deleted when: '' @
     short_names_joined peer_state_short_name required_states"
| "api_delete_peer_message x (ApiDeletePeerInternal p name cause) =
     ''Peer '' @ peer_display x name p @ '' deleted with internal errors:'' @ newline @ ''  '' @ cause"

text \<open>A manager that panics gives no error at all; its text is the panic's.\<close>

fun api_delete_peer_from :: "DeletePeerDescriptorError \<Rightarrow> string + ApiDeletePeerError" where
  "api_delete_peer_from (DeletePeerNotFound p) = Inr (ApiDeletePeerNotFound p)"
| "api_delete_peer_from (DeletePeerDeploymentExists p c) = Inr (ApiDeletePeerDeploymentExists p c)"
| "api_delete_peer_from (DeletePeerIllegalState p name actual required_states) =
     Inr (ApiDeletePeerIllegalState p name actual required_states)"
| "api_delete_peer_from (DeletePeerPersistence p name source) =
     Inr (ApiDeletePeerInternal p name ''Error when accessing persistence while deleting peer descriptor'')"
| "api_delete_peer_from (DeletePeerAuthRegistration p name source) =
     Inr (ApiDeletePeerInternal p (Some name) ''Error when removing registration while deleting peer descriptor'')"
| "api_delete_peer_from (DeletePeerVpnClient p name source) =
     Inr (ApiDeletePeerInternal p (Some name) ''Error when removing peer in VPN management while deleting peer descriptor'')"
| "api_delete_peer_from (DeletePeerPanic m) = Inl m"

datatype ProtoDeletePeerFailureError =
    ProtoDeletePeerNotFound "ProtoPeerId option"
  | ProtoDeletePeerIllegalState "ProtoPeerId option" "ProtoPeerName option" "ProtoPeerState option" "ProtoPeerState list"
  | ProtoDeletePeerInternal "ProtoPeerId option" "ProtoPeerName option" string
  | ProtoDeletePeerDeploymentExists "ProtoPeerId option" "ProtoClusterId option"

datatype ProtoDeletePeerFailure = ProtoDeletePeerFailure "ProtoDeletePeerFailureError option"

fun delete_peer_failure_to_proto :: "ext \<Rightarrow> ApiDeletePeerError \<Rightarrow> ProtoDeletePeerFailure" where
  "delete_peer_failure_to_proto x (ApiDeletePeerNotFound p) =
     ProtoDeletePeerFailure (Some (ProtoDeletePeerNotFound (Some (peer_id_to_proto x p))))"
| "delete_peer_failure_to_proto x (ApiDeletePeerIllegalState p name actual required_states) =
     ProtoDeletePeerFailure (Some (ProtoDeletePeerIllegalState (Some (peer_id_to_proto x p)) (Some (peer_name_to_proto name))
       (Some (peer_state_to_proto x actual)) (map (peer_state_to_proto x) required_states)))"
| "delete_peer_failure_to_proto x (ApiDeletePeerInternal p name cause) =
     ProtoDeletePeerFailure (Some (ProtoDeletePeerInternal (Some (peer_id_to_proto x p)) (map_option peer_name_to_proto name) cause))"
| "delete_peer_failure_to_proto x (ApiDeletePeerDeploymentExists p c) =
     ProtoDeletePeerFailure (Some (ProtoDeletePeerDeploymentExists (Some (peer_id_to_proto x p)) (Some (cluster_id_to_proto x c))))"

definition delete_peer_failure_from_proto :: "ext \<Rightarrow> ProtoDeletePeerFailure \<Rightarrow> ApiDeletePeerError conversion_result" where
  "delete_peer_failure_from_proto x p =
     (let frm = ''proto::services::peer_manager::DeletePeerDescriptorFailure''; to = ''carl::peer::DeletePeerDescriptorError'' in
      case p of ProtoDeletePeerFailure error \<Rightarrow>
        required frm to ''error'' error (\<lambda>error.
        case error of
          ProtoDeletePeerNotFound pid \<Rightarrow> map_ok ApiDeletePeerNotFound (required frm to ''peer_id'' pid (peer_id_from_proto x))
        | ProtoDeletePeerIllegalState pid pname actual required_states \<Rightarrow>
            bind_sum (required frm to ''peer_id'' pid (peer_id_from_proto x)) (\<lambda>p.
            bind_sum (required frm to ''peer_name'' pname peer_name_from_proto) (\<lambda>name.
            bind_sum (required frm to ''actual_state'' actual (peer_state_from_proto x)) (\<lambda>state.
            map_ok (ApiDeletePeerIllegalState p name state) (traverse (peer_state_from_proto x) required_states))))
        | ProtoDeletePeerInternal pid pname cause \<Rightarrow>
            bind_sum (required frm to ''peer_id'' pid (peer_id_from_proto x)) (\<lambda>p.
            map_ok (\<lambda>name. ApiDeletePeerInternal p name cause) (transpose_map peer_name_from_proto pname))
        | ProtoDeletePeerDeploymentExists pid cid \<Rightarrow>
            bind_sum (required frm to ''peer_id'' pid (peer_id_from_proto x)) (\<lambda>p.
            map_ok (ApiDeletePeerDeploymentExists p) (required frm to ''cluster_id'' cid (cluster_id_from_proto x)))))"

fun wf_api_delete_peer :: "ApiDeletePeerError \<Rightarrow> bool" where
  "wf_api_delete_peer (ApiDeletePeerIllegalState p name actual required_states) \<longleftrightarrow>
     valid_peer_name name \<and> wf_peer_state actual \<and> (\<forall>s\<in>set required_states. wf_peer_state s)"
| "wf_api_delete_peer (ApiDeletePeerInternal p name cause) \<longleftrightarrow> (\<forall>n. name = Some n \<longrightarrow> valid_peer_name n)"
| "wf_api_delete_peer _ \<longleftrightarrow> True"

interpretation delete_peer_failure_conversion:
  exact_conversion "delete_peer_failure_to_proto x" "delete_peer_failure_from_proto x" "\<lambda>e. ext_ok x \<and> wf_api_delete_peer e" for x
proof (rule exact_conversionI)
  fix e
  assume "ext_ok x \<and> wf_api_delete_peer e"
  then show "delete_peer_failure_from_proto x (delete_peer_failure_to_proto x e) = Inr e"
    by (cases e) (simp_all add: delete_peer_failure_from_proto_def Let_def wf_peer_state_def option.map_ident)
qed

section \<open>Reading peers\<close>

datatype ApiGetPeerError = ApiGetPeerNotFound PeerId | ApiGetPeerInternal PeerId string

datatype ApiListPeersError = ApiListPeersInternal string

datatype ApiGetPeerStateError = ApiGetPeerStateNotFound PeerId | ApiGetPeerStateInternal PeerId string

datatype ApiListPeerStatesError = ApiListPeerStatesInternal string

fun api_get_peer_message :: "ext \<Rightarrow> ApiGetPeerError \<Rightarrow> string" where
  "api_get_peer_message x (ApiGetPeerNotFound p) = ''A peer with id '' @ peer_display x None p @ '' could not be found!''"
| "api_get_peer_message x (ApiGetPeerInternal p cause) =
     ''An internal error occurred searching for a peer with id '' @ peer_display x None p @ '':'' @ newline @ ''  '' @ cause"

fun api_list_peers_message :: "ApiListPeersError \<Rightarrow> string" where
  "api_list_peers_message (ApiListPeersInternal cause) =
     ''An internal error occurred computing the list of peers:'' @ newline @ ''  '' @ cause"

fun api_get_peer_state_message :: "ext \<Rightarrow> ApiGetPeerStateError \<Rightarrow> string" where
  "api_get_peer_state_message x (ApiGetPeerStateNotFound p) = ''A peer with id '' @ peer_display x None p @ '' could not be found!''"
| "api_get_peer_state_message x (ApiGetPeerStateInternal p cause) =
     ''An internal error occurred searching for the state of a peer with id '' @ peer_display x None p @ '':'' @ newline @ ''  '' @ cause"

fun api_list_peer_states_message :: "ApiListPeerStatesError \<Rightarrow> string" where
  "api_list_peer_states_message (ApiListPeerStatesInternal cause) =
     ''An internal error occurred while listing peer states:'' @ newline @ ''  '' @ cause"

fun api_get_peer_state_from :: "GetPeerStateError \<Rightarrow> string + ApiGetPeerStateError" where
  "api_get_peer_state_from (GetPeerStateNotFound p) = Inr (ApiGetPeerStateNotFound p)"
| "api_get_peer_state_from (GetPeerStatePersistence p source) =
     Inr (ApiGetPeerStateInternal p ''Error when accessing persistence while getting peer state'')"
| "api_get_peer_state_from (GetPeerStatePanic m) = Inl m"

fun api_list_peer_states_from :: "storage_fault \<Rightarrow> string + ApiListPeerStatesError" where
  "api_list_peer_states_from (Persistence source) =
     Inr (ApiListPeerStatesInternal ''Error when accessing persistence while listing peer state'')"
| "api_list_peer_states_from (StoragePanic m) = Inl m"

datatype ProtoGetPeerFailureError = ProtoGetPeerNotFound "ProtoPeerId option" | ProtoGetPeerInternal "ProtoPeerId option" string

datatype ProtoGetPeerFailure = ProtoGetPeerFailure "ProtoGetPeerFailureError option"

fun get_peer_failure_to_proto :: "ext \<Rightarrow> ApiGetPeerError \<Rightarrow> ProtoGetPeerFailure" where
  "get_peer_failure_to_proto x (ApiGetPeerNotFound p) =
     ProtoGetPeerFailure (Some (ProtoGetPeerNotFound (Some (peer_id_to_proto x p))))"
| "get_peer_failure_to_proto x (ApiGetPeerInternal p cause) =
     ProtoGetPeerFailure (Some (ProtoGetPeerInternal (Some (peer_id_to_proto x p)) cause))"

definition get_peer_failure_from_proto :: "ext \<Rightarrow> ProtoGetPeerFailure \<Rightarrow> ApiGetPeerError conversion_result" where
  "get_peer_failure_from_proto x p =
     (let to = ''carl::peer::GetPeerDescriptorError'' in
      case p of ProtoGetPeerFailure error \<Rightarrow>
        required ''proto::services::peer_manager::GetPeerDescriptorFailure'' to ''error'' error (\<lambda>error.
        case error of
          ProtoGetPeerNotFound pid \<Rightarrow> map_ok ApiGetPeerNotFound
            (required ''proto::services::peer_manager::GetPeerDescriptorFailurePeerNotFound'' to ''peer_id'' pid (peer_id_from_proto x))
        | ProtoGetPeerInternal pid cause \<Rightarrow> map_ok (\<lambda>p. ApiGetPeerInternal p cause)
            (required ''proto::services::peer_manager::GetPeerDescriptorFailureInternal'' to ''peer_id'' pid (peer_id_from_proto x))))"

interpretation get_peer_failure_conversion:
  exact_conversion "get_peer_failure_to_proto x" "get_peer_failure_from_proto x" "\<lambda>_. ext_ok x" for x
proof (rule exact_conversionI)
  fix e
  assume "ext_ok x"
  then show "get_peer_failure_from_proto x (get_peer_failure_to_proto x e) = Inr e"
    by (cases e) (simp_all add: get_peer_failure_from_proto_def Let_def)
qed

text \<open>The failures of the two listings have one variant each, with a cause.\<close>

datatype ProtoListPeersFailure = ProtoListPeersFailure "string option"

definition list_peers_failure_to_proto :: "ApiListPeersError \<Rightarrow> ProtoListPeersFailure" where
  "list_peers_failure_to_proto e = (case e of ApiListPeersInternal cause \<Rightarrow> ProtoListPeersFailure (Some cause))"

definition list_peers_failure_from_proto :: "ProtoListPeersFailure \<Rightarrow> ApiListPeersError conversion_result" where
  "list_peers_failure_from_proto p =
     (case p of ProtoListPeersFailure error \<Rightarrow> map_ok ApiListPeersInternal
        (extract_field ''proto::services::peer_manager::ListPeerDescriptorsFailure'' ''carl::peer::ListPeerDescriptorsError'' ''error'' error))"

interpretation list_peers_failure_conversion:
  exact_conversion list_peers_failure_to_proto list_peers_failure_from_proto "\<lambda>_. True"
  by (rule exact_conversionI)
    (simp add: list_peers_failure_to_proto_def list_peers_failure_from_proto_def split: ApiListPeersError.split)

datatype ProtoListPeerStatesFailure = ProtoListPeerStatesFailure "string option"

definition list_peer_states_failure_to_proto :: "ApiListPeerStatesError \<Rightarrow> ProtoListPeerStatesFailure" where
  "list_peer_states_failure_to_proto e = (case e of ApiListPeerStatesInternal cause \<Rightarrow> ProtoListPeerStatesFailure (Some cause))"

definition list_peer_states_failure_from_proto :: "ProtoListPeerStatesFailure \<Rightarrow> ApiListPeerStatesError conversion_result" where
  "list_peer_states_failure_from_proto p =
     (case p of ProtoListPeerStatesFailure error \<Rightarrow> map_ok ApiListPeerStatesInternal
        (extract_field ''proto::services::peer_manager::ListPeerStatesFailure'' ''carl::peer::ListPeerStatesError'' ''error'' error))"

interpretation list_peer_states_failure_conversion:
  exact_conversion list_peer_states_failure_to_proto list_peer_states_failure_from_proto "\<lambda>_. True"
  by (rule exact_conversionI) (simp add: list_peer_states_failure_to_proto_def list_peer_states_failure_from_proto_def
      split: ApiListPeerStatesError.split)

text \<open>The error for a missing id in the second variant names the wrong type, as in the code.\<close>

datatype ProtoGetPeerStateFailureError =
    ProtoGetPeerStateNotFound "ProtoPeerId option"
  | ProtoGetPeerStateInternal "ProtoPeerId option" string

datatype ProtoGetPeerStateFailure = ProtoGetPeerStateFailure "ProtoGetPeerStateFailureError option"

fun get_peer_state_failure_to_proto :: "ext \<Rightarrow> ApiGetPeerStateError \<Rightarrow> ProtoGetPeerStateFailure" where
  "get_peer_state_failure_to_proto x (ApiGetPeerStateNotFound p) =
     ProtoGetPeerStateFailure (Some (ProtoGetPeerStateNotFound (Some (peer_id_to_proto x p))))"
| "get_peer_state_failure_to_proto x (ApiGetPeerStateInternal p cause) =
     ProtoGetPeerStateFailure (Some (ProtoGetPeerStateInternal (Some (peer_id_to_proto x p)) cause))"

definition get_peer_state_failure_from_proto :: "ext \<Rightarrow> ProtoGetPeerStateFailure \<Rightarrow> ApiGetPeerStateError conversion_result" where
  "get_peer_state_failure_from_proto x p =
     (case p of ProtoGetPeerStateFailure error \<Rightarrow>
        required ''proto::services::peer_manager::GetPeerStateFailure'' ''carl::peer::GetPeerStateError'' ''error'' error (\<lambda>error.
        case error of
          ProtoGetPeerStateNotFound pid \<Rightarrow> map_ok ApiGetPeerStateNotFound
            (required ''proto::services::peer_manager::GetPeerStateFailurePeerNotFound'' ''carl::peer::GetPeerDescriptorError'' ''peer_id''
              pid (peer_id_from_proto x))
        | ProtoGetPeerStateInternal pid cause \<Rightarrow> map_ok (\<lambda>p. ApiGetPeerStateInternal p cause)
            (required ''proto::services::peer_manager::GetPeerStateFailureInternal'' ''carl::peer::GetPeerStateError'' ''peer_id''
              pid (peer_id_from_proto x))))"

interpretation get_peer_state_failure_conversion:
  exact_conversion "get_peer_state_failure_to_proto x" "get_peer_state_failure_from_proto x" "\<lambda>_. ext_ok x" for x
proof (rule exact_conversionI)
  fix e
  assume "ext_ok x"
  then show "get_peer_state_failure_from_proto x (get_peer_state_failure_to_proto x e) = Inr e"
    by (cases e) (simp_all add: get_peer_state_failure_from_proto_def)
qed

end
