(* ===== verification/ApiClusterErrors.thy ===== *)
theory ApiClusterErrors
  imports ApiErrors
begin

text \<open>
  The errors of CARL's API on clusters (opendut-carl-api/src/carl/cluster.rs), what the cluster
  manager's errors become in it (manager/grpc/error.rs), and their failure messages
  (opendut-carl-api/src/proto/services/cluster_manager.rs).
\<close>

section \<open>Creating a configuration\<close>

datatype ApiCreateConfigurationError = ApiCreateConfigurationInternal ClusterId ClusterName string

fun api_create_configuration_message :: "ext \<Rightarrow> ApiCreateConfigurationError \<Rightarrow> string" where
  "api_create_configuration_message x (ApiCreateConfigurationInternal c name cause) =
     ''ClusterConfigration '' @ cluster_display x (Some name) c @ '' could not be created, due to internal errors:'' @
     newline @ ''  '' @ cause"

fun api_create_configuration_from :: "CreateClusterConfigurationError \<Rightarrow> ApiCreateConfigurationError" where
  "api_create_configuration_from (CreateConfigurationPersistence c name source) =
     ApiCreateConfigurationInternal c name ''Error when accessing persistence''"

datatype ProtoCreateConfigurationFailureError =
  ProtoCreateConfigurationInternal "ProtoClusterId option" "ProtoClusterName option" string

datatype ProtoCreateConfigurationFailure = ProtoCreateConfigurationFailure "ProtoCreateConfigurationFailureError option"

fun create_configuration_failure_to_proto :: "ext \<Rightarrow> ApiCreateConfigurationError \<Rightarrow> ProtoCreateConfigurationFailure" where
  "create_configuration_failure_to_proto x (ApiCreateConfigurationInternal c name cause) =
     ProtoCreateConfigurationFailure (Some (ProtoCreateConfigurationInternal (Some (cluster_id_to_proto x c))
       (Some (cluster_name_to_proto name)) cause))"

definition create_configuration_failure_from_proto ::
    "ext \<Rightarrow> ProtoCreateConfigurationFailure \<Rightarrow> ApiCreateConfigurationError conversion_result" where
  "create_configuration_failure_from_proto x p =
     (let to = ''carl::cluster::CreateClusterConfigurationError'';
          frm = ''proto::services::cluster_manager::CreateClusterConfigurationFailureInternal'' in
      case p of ProtoCreateConfigurationFailure error \<Rightarrow>
        required ''proto::services::cluster_manager::CreateClusterConfigurationFailure'' to ''error'' error (\<lambda>error.
        case error of ProtoCreateConfigurationInternal cid cname cause \<Rightarrow>
          bind_sum (required frm to ''cluster_id'' cid (cluster_id_from_proto x)) (\<lambda>c.
          map_ok (\<lambda>name. ApiCreateConfigurationInternal c name cause)
            (required frm to ''cluster_name'' cname cluster_name_from_proto))))"

fun wf_api_create_configuration :: "ApiCreateConfigurationError \<Rightarrow> bool" where
  "wf_api_create_configuration (ApiCreateConfigurationInternal c name cause) \<longleftrightarrow> valid_cluster_name name"

interpretation create_configuration_failure_conversion:
  exact_conversion "create_configuration_failure_to_proto x" "create_configuration_failure_from_proto x"
    "\<lambda>e. ext_ok x \<and> wf_api_create_configuration e" for x
proof (rule exact_conversionI)
  fix e
  assume "ext_ok x \<and> wf_api_create_configuration e"
  then show "create_configuration_failure_from_proto x (create_configuration_failure_to_proto x e) = Inr e"
    by (cases e) (simp add: create_configuration_failure_from_proto_def Let_def)
qed

section \<open>Deleting a configuration\<close>

datatype ApiDeleteConfigurationError =
    ApiDeleteConfigurationDeploymentFound ClusterId
  | ApiDeleteConfigurationNotFound ClusterId
  | ApiDeleteConfigurationIllegalState ClusterId ClusterName ClusterState "ClusterState list"
  | ApiDeleteConfigurationInternal ClusterId "ClusterName option" string

fun api_delete_configuration_message :: "ext \<Rightarrow> ApiDeleteConfigurationError \<Rightarrow> string" where
  "api_delete_configuration_message x (ApiDeleteConfigurationDeploymentFound c) =
     ''ClusterConfiguration '' @ cluster_display x None c @
     '' could not be deleted, because a ClusterDeployment with that ID still exists!''"
| "api_delete_configuration_message x (ApiDeleteConfigurationNotFound c) =
     ''ClusterConfiguration '' @ cluster_display x None c @
     '' could not be deleted, because a ClusterConfiguration with that ID does not exist!''"
| "api_delete_configuration_message x (ApiDeleteConfigurationIllegalState c name actual required_states) =
     ''ClusterConfiguration '' @ cluster_display x (Some name) c @ '' cannot be deleted when cluster is in state '' @ quote_char @
     cluster_state_short_name actual @ quote_char @ ''! A ClusterConfiguration can be deleted when cluster is in state: '' @
     short_names_joined cluster_state_short_name required_states"
| "api_delete_configuration_message x (ApiDeleteConfigurationInternal c name cause) =
     ''ClusterConfiguration '' @ cluster_display x name c @ '' deleted with internal errors:'' @ newline @ ''  '' @ cause"

fun api_delete_configuration_from :: "DeleteClusterConfigurationError \<Rightarrow> ApiDeleteConfigurationError" where
  "api_delete_configuration_from (DeleteConfigurationDeploymentFound c) = ApiDeleteConfigurationDeploymentFound c"
| "api_delete_configuration_from (DeleteConfigurationNotFound c) = ApiDeleteConfigurationNotFound c"
| "api_delete_configuration_from (DeleteConfigurationIllegalState c name actual required_states) =
     ApiDeleteConfigurationIllegalState c name actual required_states"
| "api_delete_configuration_from (DeleteConfigurationPersistence c name source) =
     ApiDeleteConfigurationInternal c name ''Error when accessing persistence''"

datatype ProtoDeleteConfigurationFailureError =
    ProtoDeleteConfigurationNotFound "ProtoClusterId option"
  | ProtoDeleteConfigurationIllegalState "ProtoClusterId option" "ProtoClusterName option" "ProtoClusterState option" "ProtoClusterState list"
  | ProtoDeleteConfigurationInternal "ProtoClusterId option" "ProtoClusterName option" string
  | ProtoDeleteConfigurationDeploymentExists "ProtoClusterId option"

datatype ProtoDeleteConfigurationFailure = ProtoDeleteConfigurationFailure "ProtoDeleteConfigurationFailureError option"

fun delete_configuration_failure_to_proto :: "ext \<Rightarrow> ApiDeleteConfigurationError \<Rightarrow> ProtoDeleteConfigurationFailure" where
  "delete_configuration_failure_to_proto x (ApiDeleteConfigurationNotFound c) =
     ProtoDeleteConfigurationFailure (Some (ProtoDeleteConfigurationNotFound (Some (cluster_id_to_proto x c))))"
| "delete_configuration_failure_to_proto x (ApiDeleteConfigurationIllegalState c name actual required_states) =
     ProtoDeleteConfigurationFailure (Some (ProtoDeleteConfigurationIllegalState (Some (cluster_id_to_proto x c))
       (Some (cluster_name_to_proto name)) (Some (cluster_state_to_proto actual)) (map cluster_state_to_proto required_states)))"
| "delete_configuration_failure_to_proto x (ApiDeleteConfigurationInternal c name cause) =
     ProtoDeleteConfigurationFailure (Some (ProtoDeleteConfigurationInternal (Some (cluster_id_to_proto x c))
       (map_option cluster_name_to_proto name) cause))"
| "delete_configuration_failure_to_proto x (ApiDeleteConfigurationDeploymentFound c) =
     ProtoDeleteConfigurationFailure (Some (ProtoDeleteConfigurationDeploymentExists (Some (cluster_id_to_proto x c))))"

fun delete_configuration_failure_error_from_proto ::
    "ext \<Rightarrow> ProtoDeleteConfigurationFailureError \<Rightarrow> ApiDeleteConfigurationError conversion_result" where
  "delete_configuration_failure_error_from_proto x (ProtoDeleteConfigurationNotFound cid) =
     map_ok ApiDeleteConfigurationNotFound
       (required ''proto::services::cluster_manager::DeleteClusterConfigurationFailureClusterConfigurationNotFound''
         ''carl::cluster::DeleteClusterConfigurationError'' ''cluster_id'' cid (cluster_id_from_proto x))"
| "delete_configuration_failure_error_from_proto x (ProtoDeleteConfigurationDeploymentExists cid) =
     map_ok ApiDeleteConfigurationDeploymentFound
       (required ''proto::services::cluster_manager::DeleteClusterConfigurationFailureClusterDeploymentExists''
         ''carl::cluster::DeleteClusterConfigurationError'' ''cluster_id'' cid (cluster_id_from_proto x))"
| "delete_configuration_failure_error_from_proto x (ProtoDeleteConfigurationIllegalState cid cname actual required_states) =
     (let frm = ''proto::services::cluster_manager::DeleteClusterConfigurationFailureIllegalClusterState'';
          to = ''carl::cluster::DeleteClusterConfigurationError'' in
      bind_sum (required frm to ''cluster_id'' cid (cluster_id_from_proto x)) (\<lambda>c.
      bind_sum (required frm to ''cluster_name'' cname cluster_name_from_proto) (\<lambda>name.
      bind_sum (required frm to ''actual_state'' actual cluster_state_from_proto) (\<lambda>state.
      map_ok (ApiDeleteConfigurationIllegalState c name state) (traverse cluster_state_from_proto required_states)))))"
| "delete_configuration_failure_error_from_proto x (ProtoDeleteConfigurationInternal cid cname cause) =
     bind_sum (required ''proto::services::cluster_manager::DeleteClusterConfigurationFailureInternal''
       ''carl::cluster::DeleteClusterConfigurationError'' ''cluster_id'' cid (cluster_id_from_proto x)) (\<lambda>c.
     map_ok (\<lambda>name. ApiDeleteConfigurationInternal c name cause) (transpose_map cluster_name_from_proto cname))"

definition delete_configuration_failure_from_proto ::
    "ext \<Rightarrow> ProtoDeleteConfigurationFailure \<Rightarrow> ApiDeleteConfigurationError conversion_result" where
  "delete_configuration_failure_from_proto x p =
     (case p of ProtoDeleteConfigurationFailure error \<Rightarrow>
        required ''proto::services::cluster_manager::DeleteClusterConfigurationFailure''
          ''carl::cluster::DeleteClusterConfigurationError'' ''error'' error (delete_configuration_failure_error_from_proto x))"

fun wf_api_delete_configuration :: "ApiDeleteConfigurationError \<Rightarrow> bool" where
  "wf_api_delete_configuration (ApiDeleteConfigurationIllegalState c name actual required_states) \<longleftrightarrow> valid_cluster_name name"
| "wf_api_delete_configuration (ApiDeleteConfigurationInternal c name cause) \<longleftrightarrow> (\<forall>n. name = Some n \<longrightarrow> valid_cluster_name n)"
| "wf_api_delete_configuration _ \<longleftrightarrow> True"

interpretation delete_configuration_failure_conversion:
  exact_conversion "delete_configuration_failure_to_proto x" "delete_configuration_failure_from_proto x"
    "\<lambda>e. ext_ok x \<and> wf_api_delete_configuration e" for x
proof (rule exact_conversionI)
  fix e
  assume "ext_ok x \<and> wf_api_delete_configuration e"
  then show "delete_configuration_failure_from_proto x (delete_configuration_failure_to_proto x e) = Inr e"
    by (cases e) (simp_all add: delete_configuration_failure_from_proto_def Let_def option.map_ident)
qed

section \<open>Storing a deployment\<close>

datatype ApiStoreDeploymentError =
    ApiStoreDeploymentIllegalPeerState ClusterId "ClusterName option" "PeerId list"
  | ApiStoreDeploymentInternal ClusterId "ClusterName option" string

text \<open>The invalid peers are printed with \<open>Debug\<close>, \<open>PeerId { uuid: ... }\<close> each.\<close>

definition peer_id_debug :: "ext \<Rightarrow> PeerId \<Rightarrow> string" where
  "peer_id_debug x p = ''PeerId { uuid: '' @ uuid_to_string x (peer_uuid p) @ '' }''"

fun api_store_deployment_message :: "ext \<Rightarrow> ApiStoreDeploymentError \<Rightarrow> string" where
  "api_store_deployment_message x (ApiStoreDeploymentIllegalPeerState c name invalid_peers) =
     ''ClusterDeployment for cluster '' @ cluster_display x name c @
     '' failed, due to down or already in use peers: ['' @ join_strings '', '' (map (peer_id_debug x) invalid_peers) @ '']''"
| "api_store_deployment_message x (ApiStoreDeploymentInternal c name cause) =
     ''ClusterDeployment for cluster '' @ cluster_display x name c @
     '' could not be changed, due to internal errors:'' @ newline @ ''  '' @ cause"

text \<open>The states of the peers are computed under an assertion; when it fails nothing is answered.\<close>

fun api_store_deployment_from :: "StoreClusterDeploymentError \<Rightarrow> string + ApiStoreDeploymentError" where
  "api_store_deployment_from (StoreDeploymentIllegalPeerState c name invalid_peers) =
     Inr (ApiStoreDeploymentIllegalPeerState c name invalid_peers)"
| "api_store_deployment_from (StoreDeploymentListClusterPeerStates c (StatesPanic m)) = Inl m"
| "api_store_deployment_from (StoreDeploymentListClusterPeerStates c source) =
     Inr (ApiStoreDeploymentInternal c None ''Error when listing cluster peer states'')"
| "api_store_deployment_from (StoreDeploymentPersistence c name source) =
     Inr (ApiStoreDeploymentInternal c name ''Error when accessing persistence'')"

datatype ProtoStoreDeploymentFailureError =
    ProtoStoreDeploymentInternal "ProtoClusterId option" "ProtoClusterName option" string
  | ProtoStoreDeploymentIllegalPeerState "ProtoClusterId option" "ProtoClusterName option" "ProtoPeerId list"

datatype ProtoStoreDeploymentFailure = ProtoStoreDeploymentFailure "ProtoStoreDeploymentFailureError option"

fun store_deployment_failure_to_proto :: "ext \<Rightarrow> ApiStoreDeploymentError \<Rightarrow> ProtoStoreDeploymentFailure" where
  "store_deployment_failure_to_proto x (ApiStoreDeploymentInternal c name cause) =
     ProtoStoreDeploymentFailure (Some (ProtoStoreDeploymentInternal (Some (cluster_id_to_proto x c))
       (map_option cluster_name_to_proto name) cause))"
| "store_deployment_failure_to_proto x (ApiStoreDeploymentIllegalPeerState c name invalid_peers) =
     ProtoStoreDeploymentFailure (Some (ProtoStoreDeploymentIllegalPeerState (Some (cluster_id_to_proto x c))
       (map_option cluster_name_to_proto name) (map (peer_id_to_proto x) invalid_peers)))"

text \<open>The second variant reports a missing id under the name of the first, as in the code.\<close>

definition store_deployment_failure_from_proto ::
    "ext \<Rightarrow> ProtoStoreDeploymentFailure \<Rightarrow> ApiStoreDeploymentError conversion_result" where
  "store_deployment_failure_from_proto x p =
     (let to = ''carl::cluster::StoreClusterDeploymentError'';
          frm = ''proto::services::cluster_manager::StoreClusterDeploymentFailureInternal'' in
      case p of ProtoStoreDeploymentFailure error \<Rightarrow>
        required ''proto::services::cluster_manager::StoreClusterDeploymentFailure'' to ''error'' error (\<lambda>error.
        case error of
          ProtoStoreDeploymentInternal cid cname cause \<Rightarrow>
            bind_sum (required frm to ''cluster_id'' cid (cluster_id_from_proto x)) (\<lambda>c.
            map_ok (\<lambda>name. ApiStoreDeploymentInternal c name cause) (transpose_map cluster_name_from_proto cname))
        | ProtoStoreDeploymentIllegalPeerState cid cname invalid_peers \<Rightarrow>
            bind_sum (required frm to ''cluster_id'' cid (cluster_id_from_proto x)) (\<lambda>c.
            bind_sum (transpose_map cluster_name_from_proto cname) (\<lambda>name.
            map_ok (ApiStoreDeploymentIllegalPeerState c name) (traverse (peer_id_from_proto x) invalid_peers)))))"

fun wf_api_store_deployment :: "ApiStoreDeploymentError \<Rightarrow> bool" where
  "wf_api_store_deployment (ApiStoreDeploymentInternal c name cause) \<longleftrightarrow> (\<forall>n. name = Some n \<longrightarrow> valid_cluster_name n)"
| "wf_api_store_deployment (ApiStoreDeploymentIllegalPeerState c name invalid_peers) \<longleftrightarrow> (\<forall>n. name = Some n \<longrightarrow> valid_cluster_name n)"

interpretation store_deployment_failure_conversion:
  exact_conversion "store_deployment_failure_to_proto x" "store_deployment_failure_from_proto x"
    "\<lambda>e. ext_ok x \<and> wf_api_store_deployment e" for x
proof (rule exact_conversionI)
  fix e
  assume "ext_ok x \<and> wf_api_store_deployment e"
  then show "store_deployment_failure_from_proto x (store_deployment_failure_to_proto x e) = Inr e"
    by (cases e) (simp_all add: store_deployment_failure_from_proto_def Let_def option.map_ident)
qed

section \<open>Deleting a deployment\<close>

datatype ApiDeleteDeploymentError =
    ApiDeleteDeploymentNotFound ClusterId
  | ApiDeleteDeploymentIllegalState ClusterId ClusterName ClusterState "ClusterState list"
  | ApiDeleteDeploymentInternal ClusterId "ClusterName option" string

fun api_delete_deployment_message :: "ext \<Rightarrow> ApiDeleteDeploymentError \<Rightarrow> string" where
  "api_delete_deployment_message x (ApiDeleteDeploymentNotFound c) =
     ''ClusterDeployment for cluster '' @ cluster_display x None c @
     '' could not be deleted, because a ClusterDeployment with that id does not exist!''"
| "api_delete_deployment_message x (ApiDeleteDeploymentIllegalState c name actual required_states) =
     ''ClusterDeployment for cluster '' @ cluster_display x (Some name) c @ '' cannot be deleted when cluster is in state '' @ quote_char @
     cluster_state_short_name actual @ quote_char @ ''! A peer can be deleted when: '' @
     short_names_joined cluster_state_short_name required_states"
| "api_delete_deployment_message x (ApiDeleteDeploymentInternal c name cause) =
     ''ClusterDeployment for cluster '' @ cluster_display x name c @ '' deleted with internal errors:'' @ newline @ ''  '' @ cause"

fun api_delete_deployment_from :: "DeleteClusterDeploymentError \<Rightarrow> ApiDeleteDeploymentError" where
  "api_delete_deployment_from (DeleteDeploymentNotFound c) = ApiDeleteDeploymentNotFound c"
| "api_delete_deployment_from (DeleteDeploymentIllegalState c name actual required_states) =
     ApiDeleteDeploymentIllegalState c name actual required_states"
| "api_delete_deployment_from (DeleteDeploymentPersistence c name source) =
     ApiDeleteDeploymentInternal c name ''Error when accessing persistence while deleting cluster deployment''"
| "api_delete_deployment_from (DeleteDeploymentVpnClient c name source) =
     ApiDeleteDeploymentInternal c (Some name) ''Error when tearing down VPN while deleting cluster deployment''"

datatype ProtoDeleteDeploymentFailureError =
    ProtoDeleteDeploymentNotFound "ProtoClusterId option"
  | ProtoDeleteDeploymentIllegalState "ProtoClusterId option" "ProtoClusterName option" "ProtoClusterState option" "ProtoClusterState list"
  | ProtoDeleteDeploymentInternal "ProtoClusterId option" "ProtoClusterName option" string

datatype ProtoDeleteDeploymentFailure = ProtoDeleteDeploymentFailure "ProtoDeleteDeploymentFailureError option"

fun delete_deployment_failure_to_proto :: "ext \<Rightarrow> ApiDeleteDeploymentError \<Rightarrow> ProtoDeleteDeploymentFailure" where
  "delete_deployment_failure_to_proto x (ApiDeleteDeploymentNotFound c) =
     ProtoDeleteDeploymentFailure (Some (ProtoDeleteDeploymentNotFound (Some (cluster_id_to_proto x c))))"
| "delete_deployment_failure_to_proto x (ApiDeleteDeploymentIllegalState c name actual required_states) =
     ProtoDeleteDeploymentFailure (Some (ProtoDeleteDeploymentIllegalState (Some (cluster_id_to_proto x c))
       (Some (cluster_name_to_proto name)) (Some (cluster_state_to_proto actual)) (map cluster_state_to_proto required_states)))"
| "delete_deployment_failure_to_proto x (ApiDeleteDeploymentInternal c name cause) =
     ProtoDeleteDeploymentFailure (Some (ProtoDeleteDeploymentInternal (Some (cluster_id_to_proto x c))
       (map_option cluster_name_to_proto name) cause))"

fun delete_deployment_failure_error_from_proto ::
    "ext \<Rightarrow> ProtoDeleteDeploymentFailureError \<Rightarrow> ApiDeleteDeploymentError conversion_result" where
  "delete_deployment_failure_error_from_proto x (ProtoDeleteDeploymentNotFound cid) =
     map_ok ApiDeleteDeploymentNotFound
       (required ''proto::services::cluster_manager::DeleteClusterDeploymentFailureClusterDeploymentNotFound''
         ''carl::cluster::DeleteClusterDeploymentError'' ''cluster_id'' cid (cluster_id_from_proto x))"
| "delete_deployment_failure_error_from_proto x (ProtoDeleteDeploymentIllegalState cid cname actual required_states) =
     (let frm = ''proto::services::cluster_manager::DeleteClusterDeploymentFailureIllegalClusterState'';
          to = ''carl::cluster::DeleteClusterDeploymentError'' in
      bind_sum (required frm to ''cluster_id'' cid (cluster_id_from_proto x)) (\<lambda>c.
      bind_sum (required frm to ''cluster_name'' cname cluster_name_from_proto) (\<lambda>name.
      bind_sum (required frm to ''actual_state'' actual cluster_state_from_proto) (\<lambda>state.
      map_ok (ApiDeleteDeploymentIllegalState c name state) (traverse cluster_state_from_proto required_states)))))"
| "delete_deployment_failure_error_from_proto x (ProtoDeleteDeploymentInternal cid cname cause) =
     bind_sum (required ''proto::services::cluster_manager::DeleteClusterDeploymentFailureInternal''
       ''carl::cluster::DeleteClusterDeploymentError'' ''cluster_id'' cid (cluster_id_from_proto x)) (\<lambda>c.
     map_ok (\<lambda>name. ApiDeleteDeploymentInternal c name cause) (transpose_map cluster_name_from_proto cname))"

definition delete_deployment_failure_from_proto ::
    "ext \<Rightarrow> ProtoDeleteDeploymentFailure \<Rightarrow> ApiDeleteDeploymentError conversion_result" where
  "delete_deployment_failure_from_proto x p =
     (case p of ProtoDeleteDeploymentFailure error \<Rightarrow>
        required ''proto::services::cluster_manager::DeleteClusterDeploymentFailure''
          ''carl::cluster::DeleteClusterDeploymentError'' ''error'' error (delete_deployment_failure_error_from_proto x))"

fun wf_api_delete_deployment :: "ApiDeleteDeploymentError \<Rightarrow> bool" where
  "wf_api_delete_deployment (ApiDeleteDeploymentIllegalState c name actual required_states) \<longleftrightarrow> valid_cluster_name name"
| "wf_api_delete_deployment (ApiDeleteDeploymentInternal c name cause) \<longleftrightarrow> (\<forall>n. name = Some n \<longrightarrow> valid_cluster_name n)"
| "wf_api_delete_deployment (ApiDeleteDeploymentNotFound c) \<longleftrightarrow> True"

interpretation delete_deployment_failure_conversion:
  exact_conversion "delete_deployment_failure_to_proto x" "delete_deployment_failure_from_proto x"
    "\<lambda>e. ext_ok x \<and> wf_api_delete_deployment e" for x
proof (rule exact_conversionI)
  fix e
  assume "ext_ok x \<and> wf_api_delete_deployment e"
  then show "delete_deployment_failure_from_proto x (delete_deployment_failure_to_proto x e) = Inr e"
    by (cases e) (simp_all add: delete_deployment_failure_from_proto_def Let_def option.map_ident)
qed

section \<open>The states of a cluster's peers\<close>

datatype ApiClusterPeerStates = ApiClusterPeerStates "(PeerId \<times> PeerState) list" | ApiClusterPeerStatesFailed string

datatype ProtoClusterPeerStatesResult =
    ProtoClusterPeerStatesFailure string
  | ProtoClusterPeerStatesSuccess "(string \<times> ProtoPeerState) list"

datatype ProtoClusterPeerStates = ProtoClusterPeerStates "ProtoClusterPeerStatesResult option"

fun peer_states_to_proto :: "ext \<Rightarrow> (PeerId \<times> PeerState) list \<Rightarrow> (string \<times> ProtoPeerState) list" where
  "peer_states_to_proto x states = collect_map (map (\<lambda>(p, s). (uuid_to_string x (peer_uuid p), peer_state_to_proto x s)) states)"

fun cluster_peer_states_to_proto :: "ext \<Rightarrow> ApiClusterPeerStates \<Rightarrow> ProtoClusterPeerStates" where
  "cluster_peer_states_to_proto x (ApiClusterPeerStates states) =
     ProtoClusterPeerStates (Some (ProtoClusterPeerStatesSuccess (peer_states_to_proto x states)))"
| "cluster_peer_states_to_proto x (ApiClusterPeerStatesFailed m) =
     ProtoClusterPeerStates (Some (ProtoClusterPeerStatesFailure m))"

definition peer_state_entry_from_proto :: "ext \<Rightarrow> string \<times> ProtoPeerState \<Rightarrow> (PeerId \<times> PeerState) conversion_result" where
  "peer_state_entry_from_proto x entry =
     (case (peer_id_try_from x (fst entry), peer_state_from_proto x (snd entry)) of
        (Inr peer_id, Inr peer_state) \<Rightarrow> Inr (peer_id, peer_state)
      | (_, Inl (SlicePanic n)) \<Rightarrow> Inl (SlicePanic n)
      | _ \<Rightarrow> Inl (ConversionError ''proto::services::cluster_manager::ListClusterPeerStatesResponse''
              ''carl::cluster::ListClusterPeerStatesResponse'' ''Invalid peer state''))"

definition cluster_peer_states_from_proto :: "ext \<Rightarrow> ProtoClusterPeerStates \<Rightarrow> ApiClusterPeerStates conversion_result" where
  "cluster_peer_states_from_proto x p =
     (case p of ProtoClusterPeerStates answer \<Rightarrow>
        required ''proto::services::cluster_manager::ListClusterPeerStatesResponse''
          ''carl::cluster::ListClusterPeerStatesResponse'' ''result'' answer (\<lambda>answer.
        case answer of
          ProtoClusterPeerStatesSuccess states \<Rightarrow>
            map_ok (\<lambda>states. ApiClusterPeerStates (collect_map states)) (traverse (peer_state_entry_from_proto x) states)
        | ProtoClusterPeerStatesFailure cause \<Rightarrow> Inr (ApiClusterPeerStatesFailed cause)))"

fun wf_cluster_peer_states :: "ApiClusterPeerStates \<Rightarrow> bool" where
  "wf_cluster_peer_states (ApiClusterPeerStates states) \<longleftrightarrow> hash_map states \<and> (\<forall>(p, s)\<in>set states. wf_peer_state s)"
| "wf_cluster_peer_states (ApiClusterPeerStatesFailed m) \<longleftrightarrow> True"

lemma hash_map_by_text:
  assumes "ext_ok x" and "hash_map ps"
  shows "hash_map (map (\<lambda>(p, s). (uuid_to_string x (peer_uuid p), f s)) ps)"
proof -
  have keys: "keys_of (map (\<lambda>(p, s). (uuid_to_string x (peer_uuid p), f s)) ps) =
      map (\<lambda>p. uuid_to_string x (peer_uuid p)) (keys_of ps)"
    by (induction ps) auto
  have "inj_on (\<lambda>p. uuid_to_string x (peer_uuid p)) (set (keys_of ps))"
    using uuid_to_string_inject [OF \<open>ext_ok x\<close>] by (auto intro!: inj_onI PeerId.expand)
  then show ?thesis
    using assms(2) unfolding hash_map_def keys by (simp only: distinct_map [of "\<lambda>p. uuid_to_string x (peer_uuid p)"])
qed

lemma peer_states_trip:
  assumes "ext_ok x" and "hash_map states" and "\<forall>(p, s)\<in>set states. wf_peer_state s"
  shows "traverse (peer_state_entry_from_proto x) (peer_states_to_proto x states) = Inr states"
proof -
  have entry: "peer_state_entry_from_proto x (uuid_to_string x (peer_uuid p), peer_state_to_proto x s) = Inr (p, s)"
    if "(p, s) \<in> set states" for p s
    using that assms by (cases p) (auto simp: peer_state_entry_from_proto_def peer_id_try_from_def wf_peer_state_def)
  have "traverse (peer_state_entry_from_proto x)
      (map (\<lambda>(p, s). (uuid_to_string x (peer_uuid p), peer_state_to_proto x s)) states) = Inr states"
    unfolding traverse_map
    using traverse_Inr [of states "\<lambda>e. peer_state_entry_from_proto x (case e of (p, s) \<Rightarrow>
        (uuid_to_string x (peer_uuid p), peer_state_to_proto x s))" "\<lambda>e. e"] entry by auto
  then show ?thesis using assms(1,2) by (simp add: collect_map_distinct hash_map_by_text)
qed

interpretation cluster_peer_states_conversion:
  exact_conversion "cluster_peer_states_to_proto x" "cluster_peer_states_from_proto x" "\<lambda>r. ext_ok x \<and> wf_cluster_peer_states r" for x
proof (rule exact_conversionI)
  fix r
  assume "ext_ok x \<and> wf_cluster_peer_states r"
  then show "cluster_peer_states_from_proto x (cluster_peer_states_to_proto x r) = Inr r"
    by (cases r) (simp_all add: cluster_peer_states_from_proto_def peer_states_trip collect_map_distinct del: peer_states_to_proto.simps)
qed

end
