(* ===== verification/ObserverBroker.thy ===== *)
theory ObserverBroker
  imports ApiClusterErrors
begin

text \<open>
  Waiting for peers to come online (opendut-carl/src/manager/observer_messaging_broker): an
  \<open>ObservePeersOnline\<close> starts from the table of connection states and follows the events of a
  subscription; a task answers its client after every event or timeout. The task, the changes to
  the table and the client interleave as a step relation. With the messages
  (opendut-carl-api), the gRPC facade, and CLEO's loop over the answers (\<open>cleo wait\<close>).
\<close>

section \<open>Requests and answers (carl/observer.rs)\<close>

record Duration =
  as_secs :: u64
  subsec_nanos :: u32

definition duration_from_secs :: "u64 \<Rightarrow> Duration" where
  "duration_from_secs s = \<lparr> as_secs = s, subsec_nanos = 0 \<rparr>"

definition as_nanos :: "Duration \<Rightarrow> nat" where
  "as_nanos d = unat (as_secs d) * 1000000000 + unat (subsec_nanos d)"

record WaitForPeersOnlineRequest =
  wfr_peer_ids :: "PeerId list"
  wfr_max_observation_duration :: Duration
  wfr_peers_may_not_yet_exist :: bool

definition MIN_OBSERVATION_TIME_SECONDS :: u64 where "MIN_OBSERVATION_TIME_SECONDS = 30"

definition MAX_OBSERVATION_TIME_SECONDS :: u64 where "MAX_OBSERVATION_TIME_SECONDS = 60 * 60"

datatype WaitForPeersOnlineResponseStatus =
    WaitForPeersOnlineSuccess
  | WaitForPeersOnlineFailure (failure_reason: string)
  | WaitForPeersOnlinePending

record WaitForPeersOnlineResponse =
  wfo_peers :: "(PeerId \<times> PeerConnectionState) list"
  wfo_status :: WaitForPeersOnlineResponseStatus

section \<open>Messages (proto/services/observer_messaging_broker.rs)\<close>

record ProtoWaitForPeersOnlineRequest =
  pwr_peer_ids :: "ProtoPeerId list"
  pwr_max_observation_duration :: u64
  pwr_peers_may_not_yet_exist :: bool

definition wait_request_to_proto :: "ext \<Rightarrow> WaitForPeersOnlineRequest \<Rightarrow> ProtoWaitForPeersOnlineRequest" where
  "wait_request_to_proto x r =
     \<lparr> pwr_peer_ids = map (peer_id_to_proto x) (wfr_peer_ids r),
       pwr_max_observation_duration = as_secs (wfr_max_observation_duration r),
       pwr_peers_may_not_yet_exist = wfr_peers_may_not_yet_exist r \<rparr>"

definition illegal_duration_message :: "u64 \<Rightarrow> string" where
  "illegal_duration_message d =
     ''Requested observation duration of <'' @ show_nat (unat d) @ ''> seconds is not allowed. Allowed range: '' @
     show_nat (unat MIN_OBSERVATION_TIME_SECONDS) @ '' to '' @ show_nat (unat MAX_OBSERVATION_TIME_SECONDS) @ '' seconds.''"

definition wait_request_from_proto :: "ext \<Rightarrow> ProtoWaitForPeersOnlineRequest \<Rightarrow> WaitForPeersOnlineRequest conversion_result" where
  "wait_request_from_proto x p =
     bind_sum (traverse (peer_id_from_proto x) (pwr_peer_ids p)) (\<lambda>peer_ids.
       if pwr_max_observation_duration p < MIN_OBSERVATION_TIME_SECONDS \<or>
          MAX_OBSERVATION_TIME_SECONDS < pwr_max_observation_duration p
       then Inl (ConversionError ''proto::services::observer_messaging_broker::WaitForPeersOnlineRequest''
         ''carl::observer::WaitForPeersOnlineRequest'' (illegal_duration_message (pwr_max_observation_duration p)))
       else Inr \<lparr> wfr_peer_ids = remdups peer_ids,
                  wfr_max_observation_duration = duration_from_secs (pwr_max_observation_duration p),
                  wfr_peers_may_not_yet_exist = pwr_peers_may_not_yet_exist p \<rparr>)"

text \<open>Only whole seconds between half a minute and an hour arrive.\<close>

definition norm_wait_request :: "WaitForPeersOnlineRequest \<Rightarrow> WaitForPeersOnlineRequest" where
  "norm_wait_request r =
     r\<lparr> wfr_max_observation_duration := duration_from_secs (as_secs (wfr_max_observation_duration r)) \<rparr>"

definition wf_wait_request :: "WaitForPeersOnlineRequest \<Rightarrow> bool" where
  "wf_wait_request r \<longleftrightarrow> distinct (wfr_peer_ids r) \<and>
     30 \<le> unat (as_secs (wfr_max_observation_duration r)) \<and> unat (as_secs (wfr_max_observation_duration r)) \<le> 3600"

interpretation wait_request_conversion:
  conversion "wait_request_to_proto x" "wait_request_from_proto x" "\<lambda>r. ext_ok x \<and> wf_wait_request r" norm_wait_request for x
  by unfold_locales
    (auto simp: wait_request_to_proto_def wait_request_from_proto_def norm_wait_request_def wf_wait_request_def
      MIN_OBSERVATION_TIME_SECONDS_def MAX_OBSERVATION_TIME_SECONDS_def duration_from_secs_def word_less_nat_alt)

datatype ProtoWaitStatus = ProtoWaitSuccess | ProtoWaitFailure string | ProtoWaitPending

record ProtoWaitForPeersOnlineResponse =
  pwo_peer_states :: "(string \<times> ProtoPeerConnectionState) list"
  pwo_status :: "ProtoWaitStatus option"

fun wait_status_to_proto :: "WaitForPeersOnlineResponseStatus \<Rightarrow> ProtoWaitStatus" where
  "wait_status_to_proto WaitForPeersOnlineSuccess = ProtoWaitSuccess"
| "wait_status_to_proto (WaitForPeersOnlineFailure reason) = ProtoWaitFailure reason"
| "wait_status_to_proto WaitForPeersOnlinePending = ProtoWaitPending"

fun wait_status_from_proto :: "ProtoWaitStatus \<Rightarrow> WaitForPeersOnlineResponseStatus" where
  "wait_status_from_proto ProtoWaitSuccess = WaitForPeersOnlineSuccess"
| "wait_status_from_proto (ProtoWaitFailure reason) = WaitForPeersOnlineFailure reason"
| "wait_status_from_proto ProtoWaitPending = WaitForPeersOnlinePending"

definition wait_response_to_proto :: "ext \<Rightarrow> WaitForPeersOnlineResponse \<Rightarrow> ProtoWaitForPeersOnlineResponse" where
  "wait_response_to_proto x r =
     \<lparr> pwo_peer_states = collect_map (map (\<lambda>(peer_id, peer_state).
         (uuid_to_string x (peer_uuid peer_id), connection_state_to_proto peer_state)) (wfo_peers r)),
       pwo_status = Some (wait_status_to_proto (wfo_status r)) \<rparr>"

definition wait_entry_from_proto ::
    "ext \<Rightarrow> string \<times> ProtoPeerConnectionState \<Rightarrow> (PeerId \<times> PeerConnectionState) conversion_result" where
  "wait_entry_from_proto x entry =
     (case (peer_id_try_from x (fst entry), connection_state_from_proto (snd entry)) of
        (Inr peer_id, Inr peer_state) \<Rightarrow> Inr (peer_id, peer_state)
      | (_, Inl (SlicePanic n)) \<Rightarrow> Inl (SlicePanic n)
      | _ \<Rightarrow> Inl (ConversionError ''proto::services::observer_messaging_broker::WaitForPeersOnlineResponse''
              ''carl::observer::WaitForPeersOnlineResponse'' ''Invalid peer connection state''))"

definition wait_response_from_proto :: "ext \<Rightarrow> ProtoWaitForPeersOnlineResponse \<Rightarrow> WaitForPeersOnlineResponse conversion_result" where
  "wait_response_from_proto x p =
     bind_sum (map_ok collect_map (traverse (wait_entry_from_proto x) (pwo_peer_states p))) (\<lambda>peer_connection_states.
     bind_sum (extract_field ''proto::services::observer_messaging_broker::WaitForPeersOnlineResponse''
         ''carl::observer::WaitForPeersOnlineResponse'' ''status'' (pwo_status p)) (\<lambda>proto_status.
       Inr \<lparr> wfo_peers = peer_connection_states, wfo_status = wait_status_from_proto proto_status \<rparr>))"

definition wf_wait_response :: "WaitForPeersOnlineResponse \<Rightarrow> bool" where
  "wf_wait_response r \<longleftrightarrow> hash_map (wfo_peers r) \<and> (\<forall>(p, s)\<in>set (wfo_peers r). wf_connection s)"

lemma wait_status_trip [simp]: "wait_status_from_proto (wait_status_to_proto s) = s"
  by (cases s) simp_all

interpretation wait_response_conversion:
  exact_conversion "wait_response_to_proto x" "wait_response_from_proto x" "\<lambda>r. ext_ok x \<and> wf_wait_response r" for x
proof (rule exact_conversionI)
  fix r
  assume ok: "ext_ok x \<and> wf_wait_response r"
  have entry: "wait_entry_from_proto x (uuid_to_string x (peer_uuid p), connection_state_to_proto s) = Inr (p, s)"
    if "(p, s) \<in> set (wfo_peers r)" for p s
    using that ok by (cases p) (auto simp: wait_entry_from_proto_def peer_id_try_from_def wf_wait_response_def)
  have "traverse (wait_entry_from_proto x)
      (map (\<lambda>(p, s). (uuid_to_string x (peer_uuid p), connection_state_to_proto s)) (wfo_peers r)) = Inr (wfo_peers r)"
    unfolding traverse_map
    using traverse_Inr [of "wfo_peers r" "\<lambda>e. wait_entry_from_proto x (case e of (p, s) \<Rightarrow>
        (uuid_to_string x (peer_uuid p), connection_state_to_proto s))" "\<lambda>e. e"] entry by auto
  with ok show "wait_response_from_proto x (wait_response_to_proto x r) = Inr r"
    by (simp add: wait_response_from_proto_def wait_response_to_proto_def wf_wait_response_def hash_map_by_text
        collect_map_distinct)
qed

section \<open>The observer (observe_peers_online.rs)\<close>

text \<open>
  A subscription is a position in the list of events that were sent. A receiver that has fallen
  behind by more than the capacity of the channel gets an error and goes on at the oldest event kept.
\<close>

type_synonym connection_event = "(PeerId, PeerConnectionState) SubscriptionEvent"

record ObservePeersOnline =
  ob_peers :: "(PeerId \<times> PeerConnectionState) list"
  ob_position :: nat
  ob_max_observation_duration :: nat
  ob_observation_start :: nat

definition state_or_offline :: "(PeerId \<times> PeerConnectionState) list \<Rightarrow> PeerId \<Rightarrow> PeerConnectionState" where
  "state_or_offline states p = (case map_of states p of None \<Rightarrow> Offline | Some s \<Rightarrow> s)"

definition selected_peer_connection_states ::
    "PeerId list \<Rightarrow> (PeerId \<times> PeerConnectionState) list \<Rightarrow> (PeerId \<times> PeerConnectionState) list" where
  "selected_peer_connection_states peer_ids all = map (\<lambda>p. (p, state_or_offline all p)) peer_ids"

text \<open>\<open>Entry::Occupied\<close>: only an entry that is there is overwritten.\<close>

definition set_occupied :: "PeerId \<Rightarrow> PeerConnectionState \<Rightarrow> (PeerId \<times> PeerConnectionState) list \<Rightarrow> (PeerId \<times> PeerConnectionState) list" where
  "set_occupied p s peers = (if map_of peers p = None then peers else AList.update p s peers)"

fun observed_online :: "PeerId \<Rightarrow> PeerConnectionState \<Rightarrow> ObservePeersOnline \<Rightarrow> ObservePeersOnline" where
  "observed_online p (Online host) ob = ob\<lparr> ob_peers := set_occupied p (Online host) (ob_peers ob) \<rparr>"
| "observed_online p Offline ob = ob"

definition observed_offline :: "PeerId \<Rightarrow> ObservePeersOnline \<Rightarrow> ObservePeersOnline" where
  "observed_offline p ob = ob\<lparr> ob_peers := set_occupied p Offline (ob_peers ob) \<rparr>"

fun handle_event :: "connection_event \<Rightarrow> ObservePeersOnline \<Rightarrow> ObservePeersOnline" where
  "handle_event (Inserted p (Online host)) ob = observed_online p (Online host) ob"
| "handle_event (Inserted p Offline) ob = observed_offline p ob"
| "handle_event (Removed p s) ob = observed_offline p ob"

datatype reception = ReceivedEvent connection_event | ReceivedLagged | ReceiveTimeout

definition receive :: "nat \<Rightarrow> connection_event list \<Rightarrow> ObservePeersOnline \<Rightarrow> ObservePeersOnline \<times> reception" where
  "receive capacity events ob =
     (if ob_position ob + capacity < length events
      then (ob\<lparr> ob_position := length events - capacity \<rparr>, ReceivedLagged)
      else if ob_position ob < length events
      then (ob\<lparr> ob_position := Suc (ob_position ob) \<rparr>, ReceivedEvent (events ! ob_position ob))
      else (ob, ReceiveTimeout))"

definition observe :: "nat \<Rightarrow> connection_event list \<Rightarrow> ObservePeersOnline \<Rightarrow> ObservePeersOnline" where
  "observe capacity events ob =
     (case receive capacity events ob of
        (ob, ReceivedEvent event) \<Rightarrow> handle_event event ob
      | (ob, _) \<Rightarrow> ob)"

definition offline_peers :: "ObservePeersOnline \<Rightarrow> PeerId list" where
  "offline_peers ob = map fst (filter (\<lambda>(_, s). s = Offline) (ob_peers ob))"

definition determine_response :: "nat \<Rightarrow> ObservePeersOnline \<Rightarrow> WaitForPeersOnlineResponse" where
  "determine_response now ob =
     (if offline_peers ob = [] then \<lparr> wfo_peers = ob_peers ob, wfo_status = WaitForPeersOnlineSuccess \<rparr>
      else
        let observation_duration = now - ob_observation_start ob in
        if observation_duration < ob_max_observation_duration ob
        then \<lparr> wfo_peers = ob_peers ob, wfo_status = WaitForPeersOnlinePending \<rparr>
        else \<lparr> wfo_peers = ob_peers ob, wfo_status = WaitForPeersOnlineFailure ''Maximum observation time'' \<rparr>)"

section \<open>The task that answers a client (mod.rs)\<close>

text \<open>\<open>Creating\<close> is the moment in \<open>create\<close> between listing the states and subscribing.\<close>

datatype observer_phase = Creating | Starting | Waiting | Left

record observer_task =
  ot_observer :: ObservePeersOnline
  ot_phase :: observer_phase
  ot_sent :: "WaitForPeersOnlineResponse list"
  ot_closed :: bool
  ot_lagged :: nat
  ot_now :: nat

abbreviation connection_events :: "resource_manager \<Rightarrow> connection_event list" where
  "connection_events m \<equiv> ch_peer_connection_state (rm_sent m)"

definition list_states :: "env \<Rightarrow> resource_manager \<Rightarrow> PeerId list \<Rightarrow> nat \<Rightarrow> nat \<Rightarrow> PersistenceError + observer_task" where
  "list_states E m peer_ids max_observation_duration now =
     map_ok (\<lambda>all. \<lparr> ot_observer = \<lparr> ob_peers = selected_peer_connection_states peer_ids all, ob_position = 0,
         ob_max_observation_duration = max_observation_duration, ob_observation_start = 0 \<rparr>,
       ot_phase = Creating, ot_sent = [], ot_closed = False, ot_lagged = 0, ot_now = now \<rparr>)
     (manager_list E PeerConnectionStates m)"

definition subscribe :: "resource_manager \<Rightarrow> observer_task \<Rightarrow> observer_task" where
  "subscribe m t =
     t\<lparr> ot_observer := (ot_observer t)\<lparr> ob_position := length (connection_events m), ob_observation_start := ot_now t \<rparr>,
        ot_phase := Starting \<rparr>"

definition is_success :: "WaitForPeersOnlineResponse \<Rightarrow> bool" where
  "is_success r \<longleftrightarrow> wfo_status r = WaitForPeersOnlineSuccess"

definition answer_first :: "observer_task \<Rightarrow> observer_task" where
  "answer_first t =
     (let response = determine_response (ot_now t) (ot_observer t) in
      if is_success response then t\<lparr> ot_sent := ot_sent t @ [response], ot_phase := Left \<rparr>
      else t\<lparr> ot_phase := Waiting \<rparr>)"

definition observe_and_answer :: "nat \<Rightarrow> resource_manager \<Rightarrow> observer_task \<Rightarrow> observer_task" where
  "observe_and_answer capacity m t =
     (let t = t\<lparr> ot_observer := observe capacity (connection_events m) (ot_observer t),
                 ot_lagged := ot_lagged t +
                   (if snd (receive capacity (connection_events m) (ot_observer t)) = ReceivedLagged then 1 else 0) \<rparr> in
      if ot_closed t then t\<lparr> ot_phase := Left \<rparr>
      else
        let response = determine_response (ot_now t) (ot_observer t);
            t = t\<lparr> ot_sent := ot_sent t @ [response] \<rparr> in
        if is_success response then t\<lparr> ot_phase := Left \<rparr> else t)"

text \<open>
  What another task does to the table is announced: the events sent are those that lead from the
  old states to the new ones.
\<close>

fun apply_event :: "connection_event \<Rightarrow> (PeerId \<Rightarrow> PeerConnectionState) \<Rightarrow> PeerId \<Rightarrow> PeerConnectionState" where
  "apply_event (Inserted p s) view = view(p := s)"
| "apply_event (Removed p s) view = view(p := Offline)"

definition announced :: "resource_manager \<Rightarrow> resource_manager \<Rightarrow> bool" where
  "announced m m' \<longleftrightarrow>
     (\<exists>events. connection_events m' = connection_events m @ events \<and>
        state_or_offline (connections m') = fold apply_event events (state_or_offline (connections m)))"

inductive observer_step :: "nat \<Rightarrow> resource_manager \<times> observer_task \<Rightarrow> resource_manager \<times> observer_task \<Rightarrow> bool"
  for capacity :: nat where
  changed: "announced m m' \<Longrightarrow> observer_step capacity (m, t) (m', t)"
| time_passes: "observer_step capacity (m, t) (m, t\<lparr> ot_now := ot_now t + d \<rparr>)"
| client_closes: "observer_step capacity (m, t) (m, t\<lparr> ot_closed := True \<rparr>)"
| subscribes: "ot_phase t = Creating \<Longrightarrow> observer_step capacity (m, t) (m, subscribe m t)"
| answers_first: "ot_phase t = Starting \<Longrightarrow> observer_step capacity (m, t) (m, answer_first t)"
| observes: "ot_phase t = Waiting \<Longrightarrow> observer_step capacity (m, t) (m, observe_and_answer capacity m t)"

inductive observer_reachable :: "nat \<Rightarrow> resource_manager \<times> observer_task \<Rightarrow> resource_manager \<times> observer_task \<Rightarrow> bool"
  for capacity :: nat and start :: "resource_manager \<times> observer_task" where
  start: "observer_reachable capacity start start"
| step: "observer_reachable capacity start s \<Longrightarrow> observer_step capacity s s' \<Longrightarrow> observer_reachable capacity start s'"

section \<open>Changes are announced\<close>

lemma announced_refl: "announced m m"
  by (auto simp: announced_def)

lemma announced_quiet:
  "connection_events m' = connection_events m \<Longrightarrow> connections m' = connections m \<Longrightarrow> announced m m'"
  by (auto simp: announced_def)

lemma state_or_offline_update: "state_or_offline (AList.update p s ts) = (state_or_offline ts)(p := s)"
  by (rule ext) (simp add: state_or_offline_def)

lemma state_or_offline_delete: "state_or_offline (AList.delete p ts) = (state_or_offline ts)(p := Offline)"
  by (rule ext) (simp add: state_or_offline_def)

lemma manager_insert_announced:
  assumes "0 < channel_capacity E"
  shows "announced m (fst (manager_insert E PeerConnectionStates p s m))"
proof -
  obtain m' r where run: "resources_mut E (resources_insert E PeerConnectionStates p s) m = (m', r)" by fastforce
  obtain t res where code: "resources_insert E PeerConnectionStates p s \<lparr> r_tables = rm_tables m, r_events = no_events \<rparr> = (t, res)"
    by fastforce
  from resources_mut_cases [OF run code] have "announced m m'"
  proof (elim disjE exE conjE)
    fix a
    assume "res = Inr a" "rm_tables m' = r_tables t"
      "rm_sent m' = send_relayed_subscription_events (channel_capacity E) (r_events t) (rm_sent m)"
    with code assms show ?thesis
      by (intro announced_def [THEN iffD2] exI [of _ "[Inserted p s]"])
        (auto simp: resources_insert_def kind_defs no_events_def send_relayed_subscription_events_def relay_def
          state_or_offline_update split: option.splits)
  qed (auto simp: announced_refl persistent_part_def intro: announced_quiet)
  with run show ?thesis by (simp add: manager_insert_def collapse_def)
qed

lemma manager_remove_announced:
  assumes "0 < channel_capacity E"
  shows "announced m (fst (manager_remove E PeerConnectionStates p m))"
proof -
  obtain m' r where run: "resources_mut E (resources_remove E PeerConnectionStates p) m = (m', r)" by fastforce
  obtain t res where code: "resources_remove E PeerConnectionStates p \<lparr> r_tables = rm_tables m, r_events = no_events \<rparr> = (t, res)"
    by fastforce
  from resources_mut_cases [OF run code] have "announced m m'"
  proof (elim disjE exE conjE)
    fix a
    assume committed: "res = Inr a" "rm_tables m' = r_tables t"
      "rm_sent m' = send_relayed_subscription_events (channel_capacity E) (r_events t) (rm_sent m)"
    show ?thesis
    proof (cases "map_of (connections m) p")
      case None
      then have "state_or_offline (connections m) p = Offline" by (simp add: state_or_offline_def)
      with None committed code show ?thesis
        by (intro announced_def [THEN iffD2] exI [of _ "[]"])
          (auto simp: resources_remove_def kind_defs no_events_def send_relayed_subscription_events_def relay_def Let_def
            state_or_offline_delete split: option.splits)
    next
      case (Some s)
      with committed code assms show ?thesis
        by (intro announced_def [THEN iffD2] exI [of _ "[Removed p s]"])
          (auto simp: resources_remove_def kind_defs no_events_def send_relayed_subscription_events_def relay_def Let_def
            state_or_offline_delete split: option.splits)
    qed
  qed (auto simp: announced_refl persistent_part_def intro: announced_quiet)
  with run show ?thesis by (simp add: manager_remove_def collapse_def)
qed

section \<open>The observer catches up\<close>

text \<open>What the observer will know of its peers once it has handled the events it has not received yet.\<close>

definition view_of :: "ObservePeersOnline \<Rightarrow> PeerId \<Rightarrow> PeerConnectionState" where
  "view_of ob = state_or_offline (ob_peers ob)"

definition in_sync :: "PeerId list \<Rightarrow> resource_manager \<Rightarrow> ObservePeersOnline \<Rightarrow> bool" where
  "in_sync peer_ids m ob \<longleftrightarrow>
     dom (map_of (ob_peers ob)) = set peer_ids \<and> ob_position ob \<le> length (connection_events m) \<and>
     (\<forall>p\<in>set peer_ids.
        fold apply_event (drop (ob_position ob) (connection_events m)) (view_of ob) p = state_or_offline (connections m) p)"

lemma fold_apply_cong: "(\<forall>p\<in>S. f p = g p) \<Longrightarrow> \<forall>p\<in>S. fold apply_event es f p = fold apply_event es g p"
proof (induction es arbitrary: f g)
  case (Cons e es)
  then have "\<forall>p\<in>S. apply_event e f p = apply_event e g p" by (cases e) auto
  with Cons.IH show ?case by simp
qed simp

lemma dom_set_occupied [simp]: "dom (map_of (set_occupied p s peers)) = dom (map_of peers)"
  by (auto simp: set_occupied_def)

lemma view_set_occupied:
  "q \<in> dom (map_of peers) \<Longrightarrow> state_or_offline (set_occupied p s peers) q = ((state_or_offline peers)(p := s)) q"
  by (auto simp: set_occupied_def state_or_offline_def)

lemma handle_event_view:
  "dom (map_of (ob_peers (handle_event e ob))) = dom (map_of (ob_peers ob)) \<and>
   ob_position (handle_event e ob) = ob_position ob \<and>
   (\<forall>q\<in>dom (map_of (ob_peers ob)). view_of (handle_event e ob) q = apply_event e (view_of ob) q)"
  by (cases "(e, ob)" rule: handle_event.cases) (simp_all add: observed_offline_def view_of_def view_set_occupied)

lemma in_sync_announced:
  assumes "in_sync ids m ob" and "announced m m'"
  shows "in_sync ids m' ob"
proof -
  obtain es where es: "connection_events m' = connection_events m @ es"
    "state_or_offline (connections m') = fold apply_event es (state_or_offline (connections m))"
    using assms(2) by (auto simp: announced_def)
  with assms(1) have "\<forall>p\<in>set ids. fold apply_event es (fold apply_event (drop (ob_position ob) (connection_events m)) (view_of ob)) p =
      fold apply_event es (state_or_offline (connections m)) p"
    by (intro fold_apply_cong) (simp add: in_sync_def)
  with assms(1) es show ?thesis by (simp add: in_sync_def)
qed

lemma in_sync_observe:
  assumes "in_sync ids m ob" and "snd (receive capacity (connection_events m) ob) \<noteq> ReceivedLagged"
  shows "in_sync ids m (observe capacity (connection_events m) ob)"
proof (cases "ob_position ob < length (connection_events m)")
  case True
  let ?e = "connection_events m ! ob_position ob" and ?ob = "ob\<lparr> ob_position := Suc (ob_position ob) \<rparr>"
  have ob: "observe capacity (connection_events m) ob = handle_event ?e ?ob"
    using True assms(2) by (simp add: observe_def receive_def split: if_splits)
  have "\<forall>p\<in>set ids. view_of (handle_event ?e ?ob) p = apply_event ?e (view_of ob) p"
    using handle_event_view [of ?e ?ob] assms(1) unfolding in_sync_def view_of_def by simp
  then have "\<forall>p\<in>set ids. fold apply_event (drop (Suc (ob_position ob)) (connection_events m)) (view_of (handle_event ?e ?ob)) p =
      fold apply_event (drop (Suc (ob_position ob)) (connection_events m)) (apply_event ?e (view_of ob)) p"
    by (rule fold_apply_cong)
  moreover have "drop (ob_position ob) (connection_events m) = ?e # drop (Suc (ob_position ob)) (connection_events m)"
    using True by (simp add: Cons_nth_drop_Suc)
  ultimately show ?thesis
    using assms(1) True handle_event_view [of ?e ?ob] by (simp add: in_sync_def ob)
next
  case False
  with assms have "observe capacity (connection_events m) ob = ob" by (simp add: observe_def receive_def split: if_splits)
  with assms(1) show ?thesis by simp
qed

lemma reachable_in_sync:
  assumes "observer_reachable capacity (m0, t0) (m, t)" and "in_sync ids m0 (ot_observer t0)" and "ot_phase t0 = Starting"
  shows "(ot_lagged t = 0 \<longrightarrow> in_sync ids m (ot_observer t)) \<and> ot_phase t \<noteq> Creating"
  using assms
proof (induction "(m, t)" arbitrary: m t rule: observer_reachable.induct)
  case start
  then show ?case by simp
next
  case (step s m' t')
  obtain m t where s: "s = (m, t)" by (cases s)
  have IH: "(ot_lagged t = 0 \<longrightarrow> in_sync ids m (ot_observer t)) \<and> ot_phase t \<noteq> Creating"
    using step.hyps(2) [OF s] step.prems by blast
  from step.hyps(3) [unfolded s] show ?case
  proof cases
    case changed
    with IH in_sync_announced [of ids m "ot_observer t" m'] show ?thesis by auto
  next
    case observes
    with IH in_sync_observe [of ids m "ot_observer t" capacity] show ?thesis
      by (auto simp: observe_and_answer_def Let_def)
  qed (use IH in \<open>auto simp: answer_first_def Let_def\<close>)
qed

lemma subscribed_in_sync:
  assumes "list_states E m ids dur now = Inr t"
  shows "in_sync ids m (ot_observer (subscribe m t))"
proof -
  have "manager_list E PeerConnectionStates m = Inr all \<Longrightarrow> all = connections m" for all
    by (auto simp: manager_list_def resources_read_def resources_list_def kind_defs split: option.splits)
  with assms have peers: "ob_peers (ot_observer t) = selected_peer_connection_states ids (connections m)"
    by (auto simp: list_states_def map_ok_Inr_iff)
  have "map_of (selected_peer_connection_states ids ts) p = Some (state_or_offline ts p)" if "p \<in> set ids" for ts p
    using that by (induction ids) (auto simp: selected_peer_connection_states_def)
  moreover have "fst ` set (selected_peer_connection_states ids ts) = set ids" for ts
    by (force simp: selected_peer_connection_states_def)
  ultimately show ?thesis
    by (simp add: in_sync_def subscribe_def peers view_of_def dom_map_of_conv_image_fst) (simp add: state_or_offline_def)
qed


text \<open>A manager whose table has one state, and a run in which the peer goes online and is observed.\<close>

definition manager_with :: "(PeerId \<times> PeerConnectionState) list \<Rightarrow> resource_manager" where
  "manager_with states = \<lparr> rm_tables = no_tables\<lparr> t_peer_connection_states := states \<rparr>, rm_sent = no_events \<rparr>"

definition online_now :: "resource_manager \<Rightarrow> resource_manager" where
  "online_now m = fst (manager_insert fair_env PeerConnectionStates (PeerId 3) (Online (V4 [10, 0, 0, 1])) m)"

definition listed_task :: "observer_task" where
  "listed_task =
     \<lparr> ot_observer = \<lparr> ob_peers = [(PeerId 3, Offline)], ob_position = 0, ob_max_observation_duration = 100, ob_observation_start = 0 \<rparr>,
       ot_phase = Creating, ot_sent = [], ot_closed = False, ot_lagged = 0, ot_now = 0 \<rparr>"

lemma no_connection_events [simp]: "connection_events (manager_with states) = []"
  by (simp add: manager_with_def no_events_def)

lemma listed_task: "list_states fair_env (manager_with []) [PeerId 3] 100 0 = Inr listed_task"
  by (simp add: list_states_def manager_list_def manager_with_def listed_task_def kind_defs no_tables_def
      selected_peer_connection_states_def state_or_offline_def)

lemma online_now_announced: "announced m (online_now m)"
  unfolding online_now_def by (rule manager_insert_announced) (simp add: fair_env_def)

lemma online_now_effect:
  "connections (online_now (manager_with [])) = [(PeerId 3, Online (V4 [10, 0, 0, 1]))]"
  "connection_events (online_now (manager_with [])) = [Inserted (PeerId 3) (Online (V4 [10, 0, 0, 1]))]"
  by (simp_all add: online_now_def manager_insert_def collapse_def resources_mut_fair resources_insert_def manager_with_def
      kind_defs no_tables_def no_events_def send_relayed_subscription_events_def relay_def fair_env_def fair_def resources_mut_eq)

definition caught_up_task :: "observer_task" where
  "caught_up_task = observe_and_answer 16 (online_now (manager_with [])) (answer_first (subscribe (manager_with []) listed_task))"



section \<open>The facade (grpc/observer_messaging_broker.rs)\<close>

datatype grpc_status = InvalidArgument string | Internal string | InternalPersistence PersistenceError
  | InternalConversion conversion_fault | UnknownPeers "PeerId list"

definition check_peer_ids_exist_and_nonempty :: "env \<Rightarrow> resource_manager \<Rightarrow> PeerId list \<Rightarrow> grpc_status + unit" where
  "check_peer_ids_exist_and_nonempty E m peer_ids =
     (if peer_ids = [] then Inl (InvalidArgument ''No peer IDs provided'')
      else
        bind_sum (map_err InternalPersistence (manager_list E PeerDescriptors m)) (\<lambda>all.
        let unknown_peers = filter (\<lambda>p. p \<notin> set (keys_of all)) peer_ids in
        if unknown_peers \<noteq> [] then Inl (UnknownPeers unknown_peers) else Inr ()))"

definition accept_wait_request ::
    "ext \<Rightarrow> env \<Rightarrow> resource_manager \<Rightarrow> ProtoWaitForPeersOnlineRequest \<Rightarrow> nat \<Rightarrow> grpc_status + observer_task" where
  "accept_wait_request x E m p now =
     bind_sum (map_err InternalConversion (wait_request_from_proto x p)) (\<lambda>request.
     bind_sum (if \<not> wfr_peers_may_not_yet_exist request
               then check_peer_ids_exist_and_nonempty E m (wfr_peer_ids request) else Inr ()) (\<lambda>_.
       map_err InternalPersistence
         (list_states E m (wfr_peer_ids request) (as_nanos (wfr_max_observation_duration request)) now)))"

section \<open>CLEO waits (opendut-cleo/src/commands/wait)\<close>

text \<open>What a bounded wait for the next message of the stream can give; \<open>None\<close>: the loop goes on.\<close>

datatype stream_item = StreamMessage ProtoWaitForPeersOnlineResponse | StreamEnd | StreamError | StreamTimeout

datatype wait_fault =
    CarlDisconnected "PeerId list" | NoPeerIds | OpenStreamFailed string | PeerStatesRefused string | PeerStatesFailed string

fun await_peers_online :: "ext \<Rightarrow> PeerId list \<Rightarrow> stream_item list \<Rightarrow> (wait_fault + unit) option" where
  "await_peers_online x peer_ids [] = None"
| "await_peers_online x peer_ids (StreamMessage p # items) =
     (case wait_response_from_proto x p of
        Inr response \<Rightarrow>
          (case wfo_status response of
             WaitForPeersOnlineSuccess \<Rightarrow> Some (Inr ())
           | WaitForPeersOnlineFailure _ \<Rightarrow> Some (Inr ())
           | WaitForPeersOnlinePending \<Rightarrow> await_peers_online x peer_ids items)
      | Inl _ \<Rightarrow> await_peers_online x peer_ids items)"
| "await_peers_online x peer_ids (StreamEnd # items) = Some (Inl (CarlDisconnected peer_ids))"
| "await_peers_online x peer_ids (StreamError # items) = await_peers_online x peer_ids items"
| "await_peers_online x peer_ids (StreamTimeout # items) = await_peers_online x peer_ids items"

definition wait_peer_online_execute :: "ext \<Rightarrow> PeerId list \<Rightarrow> string + stream_item list \<Rightarrow> (wait_fault + unit) option" where
  "wait_peer_online_execute x ids stream =
     (if ids = [] then Some (Inl NoPeerIds)
      else case stream of
        Inl cause \<Rightarrow> Some (Inl (OpenStreamFailed cause))
      | Inr items \<Rightarrow> await_peers_online x (remdups ids) items)"

text \<open>The peers of a cluster are asked for first; a cluster without peers opens a stream all the same.\<close>

definition wait_peers_in_cluster_execute ::
    "ext \<Rightarrow> string + ApiClusterPeerStates \<Rightarrow> (PeerId list \<Rightarrow> string + stream_item list) \<Rightarrow> (wait_fault + unit) option" where
  "wait_peers_in_cluster_execute x response wait_stream =
     (case response of
        Inl cause \<Rightarrow> Some (Inl (PeerStatesRefused cause))
      | Inr (ApiClusterPeerStatesFailed m) \<Rightarrow> Some (Inl (PeerStatesFailed m))
      | Inr (ApiClusterPeerStates peer_states) \<Rightarrow>
          (case wait_stream (remdups (keys_of peer_states)) of
             Inl cause \<Rightarrow> Some (Inl (OpenStreamFailed cause))
           | Inr items \<Rightarrow> await_peers_online x (remdups (keys_of peer_states)) items))"

text \<open>The command ends well when the peers did not come online in time.\<close>

lemma failed_wait_ends_well:
  assumes "ext_ok x" and "wf_wait_response r" and "wfo_status r = WaitForPeersOnlineFailure reason"
  shows "await_peers_online x ids (StreamMessage (wait_response_to_proto x r) # items) = Some (Inr ())"
  using assms wait_response_conversion.trip [of x r] by simp

end
