(* ===== verification/CarlFacade.thy ===== *)
theory CarlFacade
  imports ApiClusterErrors
begin

text \<open>
  The gRPC services in front of the managers (opendut-carl/src/manager/grpc: mod.rs,
  peer_manager.rs, cluster_manager.rs). A service converts the request, runs the manager's
  operation in a transaction and turns the outcome into a response; an argument that cannot be
  converted is answered with the status \<open>invalid_argument\<close> before anything is done. The services
  act on the world of the cluster manager: the resource manager, the messaging broker and the
  outside servers.
\<close>

section \<open>Statuses, panics, responses\<close>

text \<open>\<open>tonic::Code\<close>, as far as the code names them.\<close>

datatype status_code = CodeInvalidArgument | CodeInternal | CodeOther nat

record Status =
  status_code :: status_code
  status_message :: string

definition invalid_argument :: "string \<Rightarrow> Status" where
  "invalid_argument m = \<lparr> status_code = CodeInvalidArgument, status_message = m \<rparr>"

definition internal_status :: "string \<Rightarrow> Status" where
  "internal_status m = \<lparr> status_code = CodeInternal, status_message = m \<rparr>"

text \<open>A handler answers with a status, or its task panics.\<close>

datatype server_fault = ServerStatus Status | ServerPanic string

datatype ('s, 'f) reply = ReplySuccess 's | ReplyFailure 'f

type_synonym ('s, 'f) response = "('s, 'f) reply option"

fun conversion_fault_display :: "conversion_fault \<Rightarrow> string" where
  "conversion_fault_display (ConversionError frm to details) = conversion_error_message frm to details"
| "conversion_fault_display (SlicePanic n) = ''range end index out of range for slice''"

text \<open>The macro \<open>extract!\<close> of mod.rs; the field is the text of the expression.\<close>

definition extract_or_invalid_argument ::
    "string \<Rightarrow> 'p option \<Rightarrow> ('p \<Rightarrow> 'm conversion_result) \<Rightarrow> server_fault + 'm" where
  "extract_or_invalid_argument field opt convert =
     (case opt of
        None \<Rightarrow> Inl (ServerStatus (invalid_argument (''Field '' @ quote_char @ field @ quote_char @ '' not set'')))
      | Some p \<Rightarrow>
          (case convert p of
             Inr m \<Rightarrow> Inr m
           | Inl (SlicePanic n) \<Rightarrow> Inl (ServerPanic (conversion_fault_display (SlicePanic n)))
           | Inl cause \<Rightarrow> Inl (ServerStatus (invalid_argument
               (''Field '' @ quote_char @ field @ quote_char @ '' is not valid: '' @ conversion_fault_display cause)))))"

text \<open>What a handler makes of an operation's outcome: a reply, or a panic of the operation passed on.\<close>

definition replying ::
    "('e \<Rightarrow> string + 'f) \<Rightarrow> ('a \<Rightarrow> 's) \<Rightarrow> ('w, 'e, 'a) run \<Rightarrow> ('w, server_fault, ('s, 'f) response) run" where
  "replying failure success operation w =
     (case operation w of
        (w', Inr a) \<Rightarrow> (w', Inr (Some (ReplySuccess (success a))))
      | (w', Inl e) \<Rightarrow>
          (case failure e of
             Inl panic \<Rightarrow> (w', Inl (ServerPanic panic))
           | Inr f \<Rightarrow> (w', Inr (Some (ReplyFailure f)))))"

section \<open>The operations of the managers on the world\<close>

text \<open>A transaction with the outside servers, which also the OIDC clients are part of.\<close>

definition with_servers ::
    "(resource_manager \<times> 'w, 'e, 'a) run \<Rightarrow> ('w cluster_world, 'e, 'a) run" where
  "with_servers f cw =
     (case f (cw_manager cw, cw_vpn cw) of ((m, w), r) \<Rightarrow> (cw\<lparr> cw_manager := m, cw_vpn := w \<rparr>, r))"

text \<open>A read transaction whose closure calls the outside servers.\<close>

definition resources_read_io ::
    "env \<Rightarrow> (tables \<times> 'w, 'e, 'a) run \<Rightarrow> (resource_manager \<times> 'w, PersistenceError, 'e + 'a) run" where
  "resources_read_io E code s =
     (case s of (m, w) \<Rightarrow>
       (case begin_fault E of
          Some e \<Rightarrow> ((m, w), Inl e)
        | None \<Rightarrow> (case code (rm_tables m, w) of ((_, w'), r) \<Rightarrow> ((m, w'), Inr r))))"

definition peers_store ::
    "env \<Rightarrow> 'w vpn \<Rightarrow> PeerDescriptor \<Rightarrow> ('w cluster_world, StorePeerDescriptorError, PeerId) run" where
  "peers_store E vpn peer =
     with_servers (collapse
       (\<lambda>source. StorePeerPersistence (pd_id peer) (pd_name peer)
         (error_context ''Persistence error in transaction for storing peer descriptor'' source))
       (resources_mut_io E (store_peer_descriptor E vpn peer)))"

definition peers_delete ::
    "env \<Rightarrow> 'w vpn \<Rightarrow> 'w registration_client option \<Rightarrow> PeerId \<Rightarrow>
     ('w cluster_world, DeletePeerDescriptorError, PeerDescriptor) run" where
  "peers_delete E vpn oidc peer_id =
     with_servers (collapse
       (\<lambda>source. DeletePeerPersistence peer_id None
         (error_context ''Persistence error in transaction for deleting peer descriptor'' source))
       (resources_mut_io E (delete_peer_descriptor E vpn oidc peer_id)))"

definition peers_state :: "env \<Rightarrow> PeerId \<Rightarrow> resource_manager \<Rightarrow> GetPeerStateError + PeerState" where
  "peers_state E peer_id m =
     map_err_to_inner (\<lambda>source. GetPeerStatePersistence peer_id
         (error_context ''Persistence error in transaction for getting peer state'' source))
       (resources_read E (get_peer_state E peer_id) m)"

definition peers_states :: "env \<Rightarrow> resource_manager \<Rightarrow> storage_fault + (PeerId \<times> PeerState) list" where
  "peers_states E m =
     map_err_to_inner (\<lambda>source. Persistence
         (error_context ''Persistence error in transaction for listing peer states'' source))
       (resources_read E (list_peer_states E) m)"

definition peers_devices :: "env \<Rightarrow> resource_manager \<Rightarrow> PersistenceError + DeviceDescriptor list" where
  "peers_devices E m =
     map_err_to_inner (error_context ''Persistence error in transaction for listing peer states'')
       (resources_read E (list_devices E) m)"

definition peers_setup ::
    "env \<Rightarrow> 'w vpn \<Rightarrow> 'w registration_client option \<Rightarrow> PeerId \<Rightarrow> url \<Rightarrow> Certificate \<Rightarrow> string \<Rightarrow>
     ('w cluster_world, GeneratePeerSetupError, PeerSetup) run" where
  "peers_setup E vpn oidc peer_id carl_url ca user_id =
     with_servers (collapse
       (\<lambda>source. PeerSetupPersistence peer_id
         (error_context ''Persistence error in transaction for getting peer state'' source))
       (resources_read_io E (generate_peer_setup E vpn oidc peer_id carl_url ca user_id)))"

definition clusters_create ::
    "env \<Rightarrow> ClusterConfiguration \<Rightarrow> ('w cluster_world, CreateClusterConfigurationError, ClusterId) run" where
  "clusters_create E cluster =
     on_resources (collapse
       (\<lambda>source. CreateConfigurationPersistence (cc_id cluster) (cc_name cluster)
         (error_context ''Persistence error in transaction for creating cluster configuration'' source))
       (resources_mut E (create_cluster_configuration E cluster)))"

definition clusters_delete ::
    "env \<Rightarrow> ClusterId \<Rightarrow> ('w cluster_world, DeleteClusterConfigurationError, ClusterConfiguration) run" where
  "clusters_delete E c =
     on_resources (collapse
       (\<lambda>source. DeleteConfigurationPersistence c None
         (error_context ''Persistence error in transaction for deleting cluster configuration'' source))
       (resources_mut E (delete_cluster_configuration E c)))"

definition clusters_undeploy ::
    "env \<Rightarrow> 'w vpn \<Rightarrow> ClusterId \<Rightarrow> ('w cluster_world, DeleteClusterDeploymentError, ClusterDeployment) run" where
  "clusters_undeploy E vpn c =
     with_servers (collapse
       (\<lambda>source. DeleteDeploymentPersistence c None
         (error_context ''Persistence error in transaction for deleting cluster deployment'' source))
       (resources_mut_io E (delete_cluster_deployment E vpn c)))"

section \<open>The service of the peer manager (peer_manager.rs)\<close>

definition serve_store_peer ::
    "ext \<Rightarrow> env \<Rightarrow> 'w vpn \<Rightarrow> ProtoPeerDescriptor option \<Rightarrow>
     ('w cluster_world, server_fault, (ProtoPeerId option, ProtoStorePeerFailure) response) run" where
  "serve_store_peer x E vpn request_peer =
     and_then (lift_result (extract_or_invalid_argument ''request.peer'' request_peer (peer_from_proto x))) (\<lambda>peer.
     replying (\<lambda>e. Inr (store_peer_failure_to_proto x (api_store_peer_from e))) (\<lambda>p. Some (peer_id_to_proto x p))
       (peers_store E vpn peer))"

definition serve_delete_peer ::
    "ext \<Rightarrow> env \<Rightarrow> 'w vpn \<Rightarrow> 'w registration_client option \<Rightarrow> ProtoPeerId option \<Rightarrow>
     ('w cluster_world, server_fault, (ProtoPeerId option, ProtoDeletePeerFailure) response) run" where
  "serve_delete_peer x E vpn oidc request_peer_id =
     and_then (lift_result (extract_or_invalid_argument ''request.peer_id'' request_peer_id (peer_id_from_proto x))) (\<lambda>peer_id.
     replying (\<lambda>e. map_ok (delete_peer_failure_to_proto x) (api_delete_peer_from e))
       (\<lambda>peer. Some (peer_id_to_proto x (pd_id peer)))
       (peers_delete E vpn oidc peer_id))"

definition found_peer ::
    "PeerId \<Rightarrow> PersistenceError + PeerDescriptor option \<Rightarrow> ApiGetPeerError + PeerDescriptor" where
  "found_peer peer_id found =
     bind_sum (map_err (\<lambda>_. ApiGetPeerInternal peer_id ''Error when accessing persistence while getting peer descriptor'') found)
       (ok_or (ApiGetPeerNotFound peer_id))"

definition serve_get_peer ::
    "ext \<Rightarrow> env \<Rightarrow> ProtoPeerId option \<Rightarrow>
     ('w cluster_world, server_fault, (ProtoPeerDescriptor option, ProtoGetPeerFailure) response) run" where
  "serve_get_peer x E request_peer_id =
     and_then (lift_result (extract_or_invalid_argument ''request.peer_id'' request_peer_id (peer_id_from_proto x))) (\<lambda>peer_id.
     replying (\<lambda>e. Inr (get_peer_failure_to_proto x e)) (\<lambda>peer. Some (peer_to_proto x peer))
       (from_manager (\<lambda>m. found_peer peer_id (manager_get E PeerDescriptors peer_id m))))"

definition serve_list_peers ::
    "ext \<Rightarrow> env \<Rightarrow> ('w cluster_world, server_fault, (ProtoPeerDescriptor list, ProtoListPeersFailure) response) run" where
  "serve_list_peers x E =
     replying (\<lambda>e. Inr (list_peers_failure_to_proto e)) (\<lambda>peers. map (peer_to_proto x) (values_of peers))
       (from_manager (\<lambda>m. map_err
         (\<lambda>_. ApiListPeersInternal ''Error when accessing persistence while listing peer descriptors'')
         (manager_list E PeerDescriptors m)))"

definition serve_get_peer_state ::
    "ext \<Rightarrow> env \<Rightarrow> ProtoPeerId option \<Rightarrow>
     ('w cluster_world, server_fault, (ProtoPeerState option, ProtoGetPeerStateFailure) response) run" where
  "serve_get_peer_state x E request_peer_id =
     and_then (lift_result (extract_or_invalid_argument ''request.peer_id'' request_peer_id (peer_id_from_proto x))) (\<lambda>peer_id.
     replying (\<lambda>e. map_ok (get_peer_state_failure_to_proto x) (api_get_peer_state_from e))
       (\<lambda>state. Some (peer_state_to_proto x state))
       (from_manager (peers_state E peer_id)))"

definition serve_list_peer_states ::
    "ext \<Rightarrow> env \<Rightarrow>
     ('w cluster_world, server_fault,
      ((ProtoPeerId option \<times> ProtoPeerState option) list, ProtoListPeerStatesFailure) response) run" where
  "serve_list_peer_states x E =
     replying (\<lambda>e. map_ok list_peer_states_failure_to_proto (api_list_peer_states_from e))
       (map (\<lambda>(p, s). (Some (peer_id_to_proto x p), Some (peer_state_to_proto x s))))
       (from_manager (peers_states E))"

definition serve_list_devices ::
    "ext \<Rightarrow> env \<Rightarrow> ('w cluster_world, server_fault, ProtoDeviceDescriptor list) run" where
  "serve_list_devices x E =
     and_then (map_run_err (\<lambda>_. ServerStatus (internal_status ''Internal error when listing devices''))
       (from_manager (peers_devices E))) (\<lambda>devices.
     return_ok (map (device_to_proto x) devices))"

definition serve_peer_setup ::
    "ext \<Rightarrow> env \<Rightarrow> 'w vpn \<Rightarrow> 'w registration_client option \<Rightarrow> url \<Rightarrow> Certificate \<Rightarrow> ProtoPeerId option \<Rightarrow> string \<Rightarrow>
     ('w cluster_world, server_fault, (ProtoPeerId option \<times> ProtoPeerSetup option, unit) response) run" where
  "serve_peer_setup x E vpn oidc carl_url ca request_peer user_id =
     and_then (lift_result (extract_or_invalid_argument ''request.peer'' request_peer (peer_id_from_proto x))) (\<lambda>peer_id.
     and_then (map_run_err (\<lambda>_. ServerStatus (internal_status ''Peer setup could not be created''))
       (peers_setup E vpn oidc peer_id carl_url ca user_id)) (\<lambda>setup.
     return_ok (Some (ReplySuccess (Some (peer_id_to_proto x peer_id), Some (peer_setup_to_proto x setup))))))"

definition serve_cleo_setup ::
    "ext \<Rightarrow> 'w registration_client option \<Rightarrow> url \<Rightarrow> Certificate \<Rightarrow> CleoId \<Rightarrow> string \<Rightarrow>
     ('w cluster_world, server_fault, (ProtoCleoId option \<times> ProtoCleoSetup option, unit) response) run" where
  "serve_cleo_setup x oidc carl_url ca random_id user_id =
     and_then (map_run_err (\<lambda>_. ServerStatus (internal_status ''CLEO Setup could not be created''))
       (on_vpn (generate_cleo_setup oidc random_id carl_url ca user_id))) (\<lambda>setup.
     return_ok (Some (ReplySuccess (Some (cleo_id_to_proto x random_id), Some (cleo_setup_to_proto x setup)))))"

section \<open>The service of the cluster manager (cluster_manager.rs)\<close>

definition serve_create_configuration ::
    "ext \<Rightarrow> env \<Rightarrow> ProtoClusterConfiguration option \<Rightarrow>
     ('w cluster_world, server_fault, (ProtoClusterId option, ProtoCreateConfigurationFailure) response) run" where
  "serve_create_configuration x E request_configuration =
     and_then (lift_result (extract_or_invalid_argument ''request.cluster_configuration'' request_configuration
         (cluster_configuration_from_proto x))) (\<lambda>cluster.
     replying (\<lambda>e. Inr (create_configuration_failure_to_proto x (api_create_configuration_from e)))
       (\<lambda>c. Some (cluster_id_to_proto x c))
       (clusters_create E cluster))"

definition serve_delete_configuration ::
    "ext \<Rightarrow> env \<Rightarrow> ProtoClusterId option \<Rightarrow>
     ('w cluster_world, server_fault, (ProtoClusterConfiguration option, ProtoDeleteConfigurationFailure) response) run" where
  "serve_delete_configuration x E request_cluster_id =
     and_then (lift_result (extract_or_invalid_argument ''request.cluster_id'' request_cluster_id (cluster_id_from_proto x))) (\<lambda>c.
     replying (\<lambda>e. Inr (delete_configuration_failure_to_proto x (api_delete_configuration_from e)))
       (\<lambda>configuration. Some (cluster_configuration_to_proto x configuration))
       (clusters_delete E c))"

definition get_configuration_status :: "ext \<Rightarrow> ClusterId \<times> PersistenceError \<Rightarrow> server_fault" where
  "get_configuration_status x e =
     ServerStatus (internal_status (''ClusterConfiguration '' @ cluster_display x None (fst e) @ '' could not be retrieved''))"

definition serve_get_configuration ::
    "ext \<Rightarrow> env \<Rightarrow> ProtoClusterId option \<Rightarrow>
     ('w cluster_world, server_fault, (ProtoClusterConfiguration option, unit) response) run" where
  "serve_get_configuration x E request_id =
     and_then (lift_result (extract_or_invalid_argument ''request.id'' request_id (cluster_id_from_proto x))) (\<lambda>c.
     and_then (map_run_err (get_configuration_status x) (from_manager (get_cluster_configuration E c))) (\<lambda>configuration.
     return_ok (Some (case configuration of
         Some configuration \<Rightarrow> ReplySuccess (Some (cluster_configuration_to_proto x configuration))
       | None \<Rightarrow> ReplyFailure ()))))"

definition serve_list_configurations ::
    "ext \<Rightarrow> env \<Rightarrow> ('w cluster_world, server_fault, (ProtoClusterConfiguration list, unit) response) run" where
  "serve_list_configurations x E =
     and_then (map_run_err (\<lambda>_. ServerStatus (internal_status ''Error while listing cluster configurations''))
       (from_manager (list_cluster_configuration E))) (\<lambda>configurations.
     return_ok (Some (ReplySuccess (map (cluster_configuration_to_proto x) configurations))))"

definition serve_store_deployment ::
    "ext \<Rightarrow> env \<Rightarrow> ClusterManagerOptions \<Rightarrow> 'w vpn \<Rightarrow> ProtoClusterDeployment option \<Rightarrow>
     ('w cluster_world, server_fault, (ProtoClusterId option, ProtoStoreDeploymentFailure) response) run" where
  "serve_store_deployment x E opts vpn request_deployment =
     and_then (lift_result (extract_or_invalid_argument ''request.cluster_deployment'' request_deployment
         (cluster_deployment_from_proto x))) (\<lambda>deployment.
     replying (\<lambda>e. map_ok (store_deployment_failure_to_proto x) (api_store_deployment_from e))
       (\<lambda>c. Some (cluster_id_to_proto x c))
       (store_cluster_deployment x E opts vpn deployment))"

definition serve_delete_deployment ::
    "ext \<Rightarrow> env \<Rightarrow> 'w vpn \<Rightarrow> ProtoClusterId option \<Rightarrow>
     ('w cluster_world, server_fault, (ProtoClusterDeployment option, ProtoDeleteDeploymentFailure) response) run" where
  "serve_delete_deployment x E vpn request_cluster_id =
     and_then (lift_result (extract_or_invalid_argument ''request.cluster_id'' request_cluster_id (cluster_id_from_proto x))) (\<lambda>c.
     replying (\<lambda>e. Inr (delete_deployment_failure_to_proto x (api_delete_deployment_from e)))
       (\<lambda>deployment. Some (cluster_deployment_to_proto x deployment))
       (clusters_undeploy E vpn c))"

definition get_deployment_status :: "ext \<Rightarrow> ClusterId \<times> PersistenceError \<Rightarrow> server_fault" where
  "get_deployment_status x e =
     ServerStatus (internal_status (''Error when accessing persistence while retrieving cluster deployment for cluster '' @
       cluster_display x None (fst e)))"

definition serve_get_deployment ::
    "ext \<Rightarrow> env \<Rightarrow> ProtoClusterId option \<Rightarrow>
     ('w cluster_world, server_fault, (ProtoClusterDeployment option, unit) response) run" where
  "serve_get_deployment x E request_id =
     and_then (lift_result (extract_or_invalid_argument ''request.id'' request_id (cluster_id_from_proto x))) (\<lambda>c.
     and_then (map_run_err (get_deployment_status x) (from_manager (get_cluster_deployment E c))) (\<lambda>deployment.
     return_ok (Some (case deployment of
         Some deployment \<Rightarrow> ReplySuccess (Some (cluster_deployment_to_proto x deployment))
       | None \<Rightarrow> ReplyFailure ()))))"

definition serve_list_deployments ::
    "ext \<Rightarrow> env \<Rightarrow> ('w cluster_world, server_fault, (ProtoClusterDeployment list, unit) response) run" where
  "serve_list_deployments x E =
     and_then (map_run_err (\<lambda>_. ServerStatus (internal_status ''Error while listing cluster deployments''))
       (from_manager (list_cluster_deployment E))) (\<lambda>deployments.
     return_ok (Some (ReplySuccess (map (cluster_deployment_to_proto x) deployments))))"

fun peer_states_fault :: "ext \<Rightarrow> ListClusterPeerStatesError \<Rightarrow> server_fault" where
  "peer_states_fault x (StatesListClusterPeers c source) =
     ServerStatus (internal_status (''Listing the peer states for cluster '' @ cluster_display x None c @
       '' was not possible, because determining the peers of the cluster failed.''))"
| "peer_states_fault x (StatesListPeerStates c source) =
     ServerStatus (internal_status (''Failed to list peer states for cluster '' @ cluster_display x None c @ ''.''))"
| "peer_states_fault x (StatesPersistence c source) =
     ServerStatus (internal_status (''Persistence error while listing cluster peer states for cluster '' @ cluster_display x None c @ ''.''))"
| "peer_states_fault x (StatesPanic m) = ServerPanic m"

text \<open>A failure of the transaction itself is answered with the text of the persistence error.\<close>

fun persistence_kind_message :: "PersistenceErrorKind \<Rightarrow> string" where
  "persistence_kind_message (Custom resource_name operation identifier source) =
     ''Error while '' @ verb operation @ '' resource '' @ quote_char @ resource_name @ quote_char @
     (case identifier of Some i \<Rightarrow> '' <'' @ i @ ''>'' | None \<Rightarrow> '''') @ newline @
     (case source of Some s \<Rightarrow> ''  Source: '' @ s @ newline | None \<Rightarrow> '''')"
| "persistence_kind_message (ProtobufDecode source) =
     ''Error while converting stored bytes to ProtoBuf model while loading from persistence: '' @ source @ newline"
| "persistence_kind_message (ProtobufConversion frm to details) =
     ''Error while converting from ProtoBuf model to internal model while loading from persistence: '' @
     conversion_error_message frm to details @ newline"
| "persistence_kind_message (KeyValueStore source) = ''Error occurred in the key-value store: '' @ source @ newline"

definition persistence_message :: "PersistenceError \<Rightarrow> string" where
  "persistence_message e =
     ''Error while accessing persistence.'' @ newline @
     ''  Cause: '' @ persistence_kind_message (perr_source e) @ newline @
     concat (map (\<lambda>m. ''  Context: '' @ m @ newline) (perr_context_messages e))"

definition serve_cluster_peer_states ::
    "ext \<Rightarrow> env \<Rightarrow> ProtoClusterId option \<Rightarrow> ('w cluster_world, server_fault, ProtoClusterPeerStates) run" where
  "serve_cluster_peer_states x E request_cluster_id =
     and_then (lift_result (extract_or_invalid_argument ''request.cluster_id'' request_cluster_id (cluster_id_from_proto x))) (\<lambda>c.
     and_then (map_run_err (\<lambda>cause. ServerStatus (internal_status (persistence_message cause)))
       (on_resources (resources_mut E (read_resources (list_cluster_peer_states E c))))) (\<lambda>answer.
     and_then (lift_result (map_err (peer_states_fault x) answer)) (\<lambda>states.
     return_ok (cluster_peer_states_to_proto x (ApiClusterPeerStates (cps_peer_states states))))))"

section \<open>What is invalid touches nothing\<close>

lemma extract_valid [simp]:
  "convert p = Inr m \<Longrightarrow> extract_or_invalid_argument field (Some p) convert = Inr m"
  by (simp add: extract_or_invalid_argument_def)

lemma extract_invalid:
  "extract_or_invalid_argument field opt convert = Inl fault \<Longrightarrow> and_then (lift_result (extract_or_invalid_argument field opt convert)) k w = (w, Inl fault)"
  by (simp add: run_defs)

lemma with_valid [simp]: "and_then (lift_result (Inr m)) k = k m"
  by (simp add: run_defs fun_eq_iff)

lemma replying_fst [simp]: "fst (replying failure success operation w) = fst (operation w)"
  by (simp add: replying_def split: prod.split sum.split)

end
