(* ===== verification/CarlClient.thy ===== *)
theory CarlClient
  imports CarlFacade
begin

text \<open>
  The client library of CARL (opendut-carl/opendut-carl-api/src/carl/mod.rs, peer.rs, cluster.rs)
  that CLEO and the web front end call: each method converts its argument, calls the service and
  reads the response. The connection between them (tonic, HTTP/2, TLS) is the parameter \<open>link\<close>.
  The locale \<open>answered\<close> is the contract of a service and its method: what the manager answers is
  what the caller gets.
\<close>

section \<open>Errors of the client (mod.rs)\<close>

text \<open>\<open>ClientPanic\<close> is the panic of a conversion in the client.\<close>

datatype 'e ClientError =
    TransportError string
  | InvalidRequest string
  | InvalidResponse string
  | UsageError 'e
  | ClientPanic string

definition client_error_of_status :: "Status \<Rightarrow> 'e ClientError" where
  "client_error_of_status status =
     (case status_code status of
        CodeInvalidArgument \<Rightarrow> InvalidRequest (status_message status)
      | _ \<Rightarrow> TransportError (status_message status))"

fun client_error_of_conversion :: "conversion_fault \<Rightarrow> 'e ClientError" where
  "client_error_of_conversion (SlicePanic n) = ClientPanic (conversion_fault_display (SlicePanic n))"
| "client_error_of_conversion (ConversionError frm to details) =
     InvalidResponse (conversion_fault_display (ConversionError frm to details))"

fun client_error_message :: "('e \<Rightarrow> string) \<Rightarrow> 'e ClientError \<Rightarrow> string" where
  "client_error_message display (TransportError m) = m"
| "client_error_message display (InvalidRequest m) = m"
| "client_error_message display (InvalidResponse m) = m"
| "client_error_message display (UsageError e) = display e"
| "client_error_message display (ClientPanic m) = m"

text \<open>\<open>extract!\<close>: a missing or invalid field of the response.\<close>

definition missing_field :: "string \<Rightarrow> 'e ClientError" where
  "missing_field field = InvalidResponse (''Field '' @ quote_char @ field @ quote_char @ '' not set'')"

definition extract_or_client_error ::
    "string \<Rightarrow> 'p option \<Rightarrow> ('p \<Rightarrow> 'm conversion_result) \<Rightarrow> 'e ClientError + 'm" where
  "extract_or_client_error field opt convert =
     (case opt of
        None \<Rightarrow> Inl (missing_field field)
      | Some p \<Rightarrow>
          (case convert p of
             Inr m \<Rightarrow> Inr m
           | Inl (SlicePanic n) \<Rightarrow> Inl (ClientPanic (conversion_fault_display (SlicePanic n)))
           | Inl cause \<Rightarrow> Inl (InvalidResponse
               (''Field '' @ quote_char @ field @ quote_char @ '' is not valid: '' @ conversion_fault_display cause))))"

lemma extract_answer [simp]:
  "convert p = Inr m \<Longrightarrow> extract_or_client_error field (Some p) convert = Inr m"
  by (simp add: extract_or_client_error_def)

section \<open>The connection\<close>

text \<open>
  A call can fail before it reaches the service or after the service has answered; when the
  service's task panics, the connection reports some status. \<open>link_status_text\<close> prints a status.
\<close>

record link =
  link_request_lost :: "Status option"
  link_response_lost :: "Status option"
  link_panic :: "string \<Rightarrow> Status"
  link_status_text :: "Status \<Rightarrow> string"

definition link_up :: "link \<Rightarrow> bool" where
  "link_up L \<longleftrightarrow> link_request_lost L = None \<and> link_response_lost L = None"

definition rpc :: "link \<Rightarrow> ('w, server_fault, 'r) run \<Rightarrow> ('w, Status, 'r) run" where
  "rpc L serve w =
     (case link_request_lost L of
        Some status \<Rightarrow> (w, Inl status)
      | None \<Rightarrow>
          (case serve w of (w', answer) \<Rightarrow>
             (case link_response_lost L of
                Some status \<Rightarrow> (w', Inl status)
              | None \<Rightarrow>
                  (case answer of
                     Inr response \<Rightarrow> (w', Inr response)
                   | Inl (ServerStatus status) \<Rightarrow> (w', Inl status)
                   | Inl (ServerPanic m) \<Rightarrow> (w', Inl (link_panic L m))))))"

definition reply_of :: "('s, 'f) response \<Rightarrow> 'e ClientError + ('s, 'f) reply" where
  "reply_of response = (case response of None \<Rightarrow> Inl (missing_field ''response.reply'') | Some reply \<Rightarrow> Inr reply)"

text \<open>What most methods do with the response.\<close>

definition client_call ::
    "('f \<Rightarrow> 'e conversion_result) \<Rightarrow> ('s \<Rightarrow> 'e ClientError + 'b) \<Rightarrow>
     ('w, Status, ('s, 'f) response) run \<Rightarrow> ('w, 'e ClientError, 'b) run" where
  "client_call failure success call =
     and_then (map_run_err client_error_of_status call) (\<lambda>response.
     lift_result (bind_sum (reply_of response) (\<lambda>reply.
       case reply of
         ReplyFailure f \<Rightarrow> bind_sum (map_err client_error_of_conversion (failure f)) (\<lambda>e. Inl (UsageError e))
       | ReplySuccess s \<Rightarrow> success s)))"

section \<open>Peers (peer.rs)\<close>

definition client_store_peer ::
    "link \<Rightarrow> ext \<Rightarrow> env \<Rightarrow> 'w vpn \<Rightarrow> PeerDescriptor \<Rightarrow> ('w cluster_world, ApiStorePeerError ClientError, PeerId) run" where
  "client_store_peer L x E vpn descriptor =
     client_call (store_peer_failure_from_proto x) (\<lambda>peer_id. extract_or_client_error ''success.peer_id'' peer_id (peer_id_from_proto x))
       (rpc L (serve_store_peer x E vpn (Some (peer_to_proto x descriptor))))"

definition client_delete_peer ::
    "link \<Rightarrow> ext \<Rightarrow> env \<Rightarrow> 'w vpn \<Rightarrow> 'w registration_client option \<Rightarrow> PeerId \<Rightarrow>
     ('w cluster_world, ApiDeletePeerError ClientError, PeerId) run" where
  "client_delete_peer L x E vpn oidc peer_id =
     client_call (delete_peer_failure_from_proto x) (\<lambda>peer_id. extract_or_client_error ''success.peer_id'' peer_id (peer_id_from_proto x))
       (rpc L (serve_delete_peer x E vpn oidc (Some (peer_id_to_proto x peer_id))))"

definition client_get_peer ::
    "link \<Rightarrow> ext \<Rightarrow> env \<Rightarrow> PeerId \<Rightarrow> ('w cluster_world, ApiGetPeerError ClientError, PeerDescriptor) run" where
  "client_get_peer L x E peer_id =
     client_call (get_peer_failure_from_proto x) (\<lambda>descriptor. extract_or_client_error ''success.descriptor'' descriptor (peer_from_proto x))
       (rpc L (serve_get_peer x E (Some (peer_id_to_proto x peer_id))))"

definition client_list_peers ::
    "link \<Rightarrow> ext \<Rightarrow> env \<Rightarrow> ('w cluster_world, ApiListPeersError ClientError, PeerDescriptor list) run" where
  "client_list_peers L x E =
     client_call list_peers_failure_from_proto
       (\<lambda>peers. map_err client_error_of_conversion (traverse (peer_from_proto x) peers))
       (rpc L (serve_list_peers x E))"

definition client_get_peer_state ::
    "link \<Rightarrow> ext \<Rightarrow> env \<Rightarrow> PeerId \<Rightarrow> ('w cluster_world, ApiGetPeerStateError ClientError, PeerState) run" where
  "client_get_peer_state L x E peer_id =
     client_call (get_peer_state_failure_from_proto x) (\<lambda>state. extract_or_client_error ''success.state'' state (peer_state_from_proto x))
       (rpc L (serve_get_peer_state x E (Some (peer_id_to_proto x peer_id))))"

definition peer_states_entry ::
    "ext \<Rightarrow> ProtoPeerId option \<times> ProtoPeerState option \<Rightarrow> ApiListPeerStatesError ClientError + PeerId \<times> PeerState" where
  "peer_states_entry x entry =
     bind_sum (ok_or (InvalidResponse ''peer_id field not set'') (fst entry)) (\<lambda>peer_id.
     bind_sum (map_err client_error_of_conversion (peer_id_from_proto x peer_id)) (\<lambda>peer_id.
     bind_sum (ok_or (InvalidResponse ''peer_state field not set'') (snd entry)) (\<lambda>peer_state.
     bind_sum (map_err client_error_of_conversion (peer_state_from_proto x peer_state)) (\<lambda>peer_state.
       Inr (peer_id, peer_state)))))"

definition client_list_peer_states ::
    "link \<Rightarrow> ext \<Rightarrow> env \<Rightarrow> ('w cluster_world, ApiListPeerStatesError ClientError, (PeerId \<times> PeerState) list) run" where
  "client_list_peer_states L x E =
     client_call list_peer_states_failure_from_proto
       (\<lambda>entries. map_ok collect_map (traverse (peer_states_entry x) entries))
       (rpc L (serve_list_peer_states x E))"

datatype ApiListDevicesError = ApiListDevicesInternal string

definition api_list_devices_message :: "ApiListDevicesError \<Rightarrow> string" where
  "api_list_devices_message e =
     (case e of ApiListDevicesInternal cause \<Rightarrow>
        ''An internal error occurred computing the list of devices:'' @ newline @ ''  '' @ cause)"

definition client_list_devices ::
    "link \<Rightarrow> ext \<Rightarrow> env \<Rightarrow> ('w cluster_world, ApiListDevicesError, DeviceDescriptor list) run" where
  "client_list_devices L x E =
     and_then (map_run_err (\<lambda>status. ApiListDevicesInternal (''gRPC failure: '' @ link_status_text L status))
       (rpc L (serve_list_devices x E))) (\<lambda>devices.
     lift_result (map_err (\<lambda>cause. ApiListDevicesInternal (conversion_fault_display cause))
       (traverse (device_from_proto x) devices)))"

datatype CreateSetupError = CreateSetupError string

definition client_peer_setup ::
    "link \<Rightarrow> ext \<Rightarrow> env \<Rightarrow> 'w vpn \<Rightarrow> 'w registration_client option \<Rightarrow> url \<Rightarrow> Certificate \<Rightarrow> PeerId \<Rightarrow> string \<Rightarrow>
     ('w cluster_world, CreateSetupError, PeerSetup) run" where
  "client_peer_setup L x E vpn oidc carl_url ca peer_id user_id =
     and_then (map_run_err (\<lambda>status. CreateSetupError (''gRPC failure: '' @ link_status_text L status))
       (rpc L (serve_peer_setup x E vpn oidc carl_url ca (Some (peer_id_to_proto x peer_id)) user_id))) (\<lambda>response.
     lift_result (case response of
       Some (ReplySuccess (_, setup)) \<Rightarrow>
         bind_sum (ok_or (CreateSetupError (''Failed to create setup-string for peer <'' @ peer_id_display x peer_id @
           ''>! Got no PeerSetup!'')) setup) (\<lambda>setup.
         map_err (\<lambda>cause. CreateSetupError (conversion_fault_display cause)) (peer_setup_from_proto x setup))
     | _ \<Rightarrow> Inl (CreateSetupError (''Failed to create setup-string for peer <'' @ peer_id_display x peer_id @ ''>!''))))"

definition client_cleo_setup ::
    "link \<Rightarrow> ext \<Rightarrow> 'w registration_client option \<Rightarrow> url \<Rightarrow> Certificate \<Rightarrow> CleoId \<Rightarrow> string \<Rightarrow>
     ('w cluster_world, CreateSetupError, CleoSetup) run" where
  "client_cleo_setup L x oidc carl_url ca random_id user_id =
     and_then (map_run_err (\<lambda>status. CreateSetupError (''gRPC failure: '' @ link_status_text L status))
       (rpc L (serve_cleo_setup x oidc carl_url ca random_id user_id))) (\<lambda>response.
     lift_result (case response of
       Some (ReplySuccess (_, setup)) \<Rightarrow>
         bind_sum (ok_or (CreateSetupError ''Failed to create setup-string for CLEO! Got no CleoSetup!'') setup) (\<lambda>setup.
         map_err (\<lambda>cause. CreateSetupError (conversion_fault_display cause)) (cleo_setup_from_proto x setup))
     | _ \<Rightarrow> Inl (CreateSetupError ''Failed to create setup-string for CLEO!'')))"

section \<open>Clusters (cluster.rs)\<close>

definition client_store_configuration ::
    "link \<Rightarrow> ext \<Rightarrow> env \<Rightarrow> ClusterConfiguration \<Rightarrow> ('w cluster_world, ApiCreateConfigurationError ClientError, ClusterId) run" where
  "client_store_configuration L x E configuration =
     client_call (create_configuration_failure_from_proto x)
       (\<lambda>c. extract_or_client_error ''success.cluster_id'' c (cluster_id_from_proto x))
       (rpc L (serve_create_configuration x E (Some (cluster_configuration_to_proto x configuration))))"

definition client_delete_configuration ::
    "link \<Rightarrow> ext \<Rightarrow> env \<Rightarrow> ClusterId \<Rightarrow> ('w cluster_world, ApiDeleteConfigurationError ClientError, ClusterConfiguration) run" where
  "client_delete_configuration L x E c =
     client_call (delete_configuration_failure_from_proto x)
       (\<lambda>configuration. extract_or_client_error ''success.cluster_configuration'' configuration (cluster_configuration_from_proto x))
       (rpc L (serve_delete_configuration x E (Some (cluster_id_to_proto x c))))"

definition client_store_deployment ::
    "link \<Rightarrow> ext \<Rightarrow> env \<Rightarrow> ClusterManagerOptions \<Rightarrow> 'w vpn \<Rightarrow> ClusterDeployment \<Rightarrow>
     ('w cluster_world, ApiStoreDeploymentError ClientError, ClusterId) run" where
  "client_store_deployment L x E opts vpn deployment =
     client_call (store_deployment_failure_from_proto x)
       (\<lambda>c. extract_or_client_error ''success.cluster_id'' c (cluster_id_from_proto x))
       (rpc L (serve_store_deployment x E opts vpn (Some (cluster_deployment_to_proto x deployment))))"

definition client_delete_deployment ::
    "link \<Rightarrow> ext \<Rightarrow> env \<Rightarrow> 'w vpn \<Rightarrow> ClusterId \<Rightarrow> ('w cluster_world, ApiDeleteDeploymentError ClientError, ClusterDeployment) run" where
  "client_delete_deployment L x E vpn c =
     client_call (delete_deployment_failure_from_proto x)
       (\<lambda>deployment. extract_or_client_error ''success.cluster_deployment'' deployment (cluster_deployment_from_proto x))
       (rpc L (serve_delete_deployment x E vpn (Some (cluster_id_to_proto x c))))"

text \<open>The methods that only read have errors with a message of their own.\<close>

definition client_read ::
    "link \<Rightarrow> (string \<Rightarrow> 'e) \<Rightarrow> string \<Rightarrow> ('s \<Rightarrow> 'e + 'b) \<Rightarrow> ('w, server_fault, ('s, unit) response) run \<Rightarrow> ('w, 'e, 'b) run" where
  "client_read L failed no_result success serve =
     and_then (map_run_err (\<lambda>status. failed (''gRPC failure: '' @ link_status_text L status)) (rpc L serve)) (\<lambda>response.
     lift_result (bind_sum (ok_or (failed ''Response contains no result!'') response) (\<lambda>answer.
       case answer of
         ReplyFailure _ \<Rightarrow> Inl (failed no_result)
       | ReplySuccess s \<Rightarrow> success s)))"

datatype ApiGetConfigurationError = ApiGetConfigurationError ClusterId string

definition client_get_configuration ::
    "link \<Rightarrow> ext \<Rightarrow> env \<Rightarrow> ClusterId \<Rightarrow> ('w cluster_world, ApiGetConfigurationError, ClusterConfiguration) run" where
  "client_get_configuration L x E c =
     client_read L (ApiGetConfigurationError c) ''Failed to get cluster configuration!''
       (\<lambda>configuration.
         bind_sum (ok_or (ApiGetConfigurationError c ''Response contains no cluster configuration!'') configuration) (\<lambda>p.
         map_err (\<lambda>_. ApiGetConfigurationError c ''Conversion failed for cluster configurations!'')
           (cluster_configuration_from_proto x p)))
       (serve_get_configuration x E (Some (cluster_id_to_proto x c)))"

datatype ApiListConfigurationsError = ApiListConfigurationsError string

definition client_list_configurations ::
    "link \<Rightarrow> ext \<Rightarrow> env \<Rightarrow> ('w cluster_world, ApiListConfigurationsError, ClusterConfiguration list) run" where
  "client_list_configurations L x E =
     client_read L ApiListConfigurationsError ''Failed to list clusters!''
       (\<lambda>configurations. map_err (\<lambda>_. ApiListConfigurationsError ''Conversion failed for list of cluster configurations!'')
         (traverse (cluster_configuration_from_proto x) configurations))
       (serve_list_configurations x E)"

datatype ApiGetDeploymentError = ApiGetDeploymentInternal ClusterId string

definition client_get_deployment ::
    "link \<Rightarrow> ext \<Rightarrow> env \<Rightarrow> ClusterId \<Rightarrow> ('w cluster_world, ApiGetDeploymentError, ClusterDeployment) run" where
  "client_get_deployment L x E c =
     client_read L (ApiGetDeploymentInternal c) ''Failed to get cluster deployment!''
       (\<lambda>deployment.
         bind_sum (ok_or (ApiGetDeploymentInternal c ''Response contains no cluster deployment!'') deployment) (\<lambda>p.
         map_err (\<lambda>_. ApiGetDeploymentInternal c ''Conversion failed for cluster deployment!'')
           (cluster_deployment_from_proto x p)))
       (serve_get_deployment x E (Some (cluster_id_to_proto x c)))"

datatype ApiListDeploymentsError = ApiListDeploymentsError string

definition client_list_deployments ::
    "link \<Rightarrow> ext \<Rightarrow> env \<Rightarrow> ('w cluster_world, ApiListDeploymentsError, ClusterDeployment list) run" where
  "client_list_deployments L x E =
     client_read L ApiListDeploymentsError ''Failed to list clusters!''
       (\<lambda>deployments. map_err (\<lambda>_. ApiListDeploymentsError ''Conversion failed for list of cluster deployments!'')
         (traverse (cluster_deployment_from_proto x) deployments))
       (serve_list_deployments x E)"

datatype ApiListClusterPeersError = ApiListClusterPeersError string

definition client_cluster_peer_states ::
    "link \<Rightarrow> ext \<Rightarrow> env \<Rightarrow> ClusterId \<Rightarrow> ('w cluster_world, ApiListClusterPeersError, ApiClusterPeerStates) run" where
  "client_cluster_peer_states L x E c =
     and_then (map_run_err (\<lambda>status. ApiListClusterPeersError (''gRPC failure: '' @ link_status_text L status))
       (rpc L (serve_cluster_peer_states x E (Some (cluster_id_to_proto x c))))) (\<lambda>response.
     lift_result (map_err (\<lambda>error. ApiListClusterPeersError (''Failed to convert response: '' @ conversion_fault_display error))
       (cluster_peer_states_from_proto x response)))"

section \<open>A service and its method\<close>

text \<open>What the caller sees of an error of the manager, when the connection works.\<close>

definition as_seen :: "link \<Rightarrow> ('d \<Rightarrow> string + 'e) \<Rightarrow> 'd \<Rightarrow> 'e ClientError" where
  "as_seen L convert error =
     (case convert error of Inr e \<Rightarrow> UsageError e | Inl m \<Rightarrow> client_error_of_status (link_panic L m))"

locale answered =
  fixes failure_to :: "'e \<Rightarrow> 'f"
    and failure_from :: "'f \<Rightarrow> 'e conversion_result"
    and good_error :: "'e \<Rightarrow> bool"
    and success_to :: "'a \<Rightarrow> 's"
    and success_from :: "'s \<Rightarrow> 'e ClientError + 'b"
    and good :: "'a \<Rightarrow> bool"
    and view :: "'a \<Rightarrow> 'b"
  assumes failure_trip: "good_error e \<Longrightarrow> failure_from (failure_to e) = Inr e"
    and success_trip: "good a \<Longrightarrow> success_from (success_to a) = Inr (view a)"
begin

lemma answer:
  assumes "link_up L" and fail: "\<And>e. fail e = map_ok failure_to (convert e)"
    and run: "operation w = (w', r)"
    and good_error: "\<And>e f. r = Inl e \<Longrightarrow> convert e = Inr f \<Longrightarrow> good_error f"
    and good: "\<And>a. r = Inr a \<Longrightarrow> good a"
  shows "client_call failure_from success_from (rpc L (replying fail success_to operation)) w =
    (w', case r of Inr a \<Rightarrow> Inr (view a) | Inl e \<Rightarrow> Inl (as_seen L convert e))"
proof (cases r)
  case (Inr a)
  with assms(1) run good success_trip [of a] show ?thesis
    by (simp add: client_call_def rpc_def link_up_def replying_def run_defs reply_of_def)
next
  case (Inl e)
  show ?thesis
  proof (cases "convert e")
    case (Inl m)
    with \<open>r = Inl e\<close> assms(1) run fail show ?thesis
      by (simp add: client_call_def rpc_def link_up_def replying_def run_defs as_seen_def)
  next
    case (Inr f)
    with \<open>r = Inl e\<close> good_error failure_trip [of f] assms(1) run fail show ?thesis
      by (simp add: client_call_def rpc_def link_up_def replying_def run_defs reply_of_def as_seen_def)
  qed
qed

text \<open>A lost answer hides what was done.\<close>

lemma lost_answer:
  assumes "link_request_lost L = None" "link_response_lost L = Some status"
  shows "client_call failure_from success_from (rpc L (replying fail success_to operation)) w =
    (fst (operation w), Inl (client_error_of_status status))"
  using assms replying_fst [of fail success_to operation w]
  by (cases "replying fail success_to operation w") (simp add: client_call_def rpc_def run_defs)

end

interpretation store_peer_answer:
  answered "store_peer_failure_to_proto x" "store_peer_failure_from_proto x" "\<lambda>e. ext_ok x \<and> wf_api_store_peer e"
    "\<lambda>p. Some (peer_id_to_proto x p)" "\<lambda>s. extract_or_client_error ''success.peer_id'' s (peer_id_from_proto x)"
    "\<lambda>_. ext_ok x" "\<lambda>p. p" for x
  by unfold_locales simp_all

interpretation delete_peer_answer:
  answered "delete_peer_failure_to_proto x" "delete_peer_failure_from_proto x" "\<lambda>e. ext_ok x \<and> wf_api_delete_peer e"
    "\<lambda>peer. Some (peer_id_to_proto x (pd_id peer))" "\<lambda>s. extract_or_client_error ''success.peer_id'' s (peer_id_from_proto x)"
    "\<lambda>_. ext_ok x" pd_id for x
  by unfold_locales simp_all

interpretation get_peer_answer:
  answered "get_peer_failure_to_proto x" "get_peer_failure_from_proto x" "\<lambda>_. ext_ok x"
    "\<lambda>peer. Some (peer_to_proto x peer)" "\<lambda>s. extract_or_client_error ''success.descriptor'' s (peer_from_proto x)"
    "\<lambda>peer. ext_ok x \<and> wf_peer peer" norm_peer for x
  by unfold_locales simp_all

interpretation list_peers_answer:
  answered list_peers_failure_to_proto list_peers_failure_from_proto "\<lambda>_. True"
    "\<lambda>peers :: (PeerId \<times> PeerDescriptor) list. map (peer_to_proto x) (values_of peers)"
    "\<lambda>peers. map_err client_error_of_conversion (traverse (peer_from_proto x) peers)"
    "\<lambda>peers. ext_ok x \<and> (\<forall>peer\<in>set (values_of peers). wf_peer peer)" "\<lambda>peers. map norm_peer (values_of peers)" for x
proof unfold_locales
  fix peers :: "(PeerId \<times> PeerDescriptor) list"
  assume ok: "ext_ok x \<and> (\<forall>peer\<in>set (values_of peers). wf_peer peer)"
  have "traverse (peer_from_proto x) (map (peer_to_proto x) (values_of peers)) = Inr (map norm_peer (values_of peers))"
    by (rule peer_conversion.trips) (use ok in blast)
  then show "map_err client_error_of_conversion (traverse (peer_from_proto x) (map (peer_to_proto x) (values_of peers))) =
      Inr (map norm_peer (values_of peers))"
    by simp
qed simp

interpretation create_configuration_answer:
  answered "create_configuration_failure_to_proto x" "create_configuration_failure_from_proto x"
    "\<lambda>e. ext_ok x \<and> wf_api_create_configuration e"
    "\<lambda>c. Some (cluster_id_to_proto x c)" "\<lambda>s. extract_or_client_error ''success.cluster_id'' s (cluster_id_from_proto x)"
    "\<lambda>_. ext_ok x" "\<lambda>c. c" for x
  by unfold_locales simp_all

interpretation delete_configuration_answer:
  answered "delete_configuration_failure_to_proto x" "delete_configuration_failure_from_proto x"
    "\<lambda>e. ext_ok x \<and> wf_api_delete_configuration e"
    "\<lambda>configuration. Some (cluster_configuration_to_proto x configuration)"
    "\<lambda>s. extract_or_client_error ''success.cluster_configuration'' s (cluster_configuration_from_proto x)"
    "\<lambda>configuration. ext_ok x \<and> wf_cluster configuration" "\<lambda>configuration. configuration" for x
  by unfold_locales simp_all

interpretation store_deployment_answer:
  answered "store_deployment_failure_to_proto x" "store_deployment_failure_from_proto x"
    "\<lambda>e. ext_ok x \<and> wf_api_store_deployment e"
    "\<lambda>c. Some (cluster_id_to_proto x c)" "\<lambda>s. extract_or_client_error ''success.cluster_id'' s (cluster_id_from_proto x)"
    "\<lambda>_. ext_ok x" "\<lambda>c. c" for x
  by unfold_locales simp_all

interpretation delete_deployment_answer:
  answered "delete_deployment_failure_to_proto x" "delete_deployment_failure_from_proto x"
    "\<lambda>e. ext_ok x \<and> wf_api_delete_deployment e"
    "\<lambda>deployment. Some (cluster_deployment_to_proto x deployment)"
    "\<lambda>s. extract_or_client_error ''success.cluster_deployment'' s (cluster_deployment_from_proto x)"
    "\<lambda>_. ext_ok x" "\<lambda>deployment. deployment" for x
  by unfold_locales simp_all

end
