(* ===== verification/WireTypes.thy ===== *)
theory WireTypes
  imports PeerManager
begin

text \<open>
  What comes off the wire is well-formed: every value that the conversions of opendut-types accept
  consists of parts that their own parsers could have produced, so it can be sent on and read back.
  The typed tables of the resource manager are refined by the tables of bytes of the storage.
\<close>

section \<open>Accepted values are well-formed\<close>

named_theorems accepted \<open>what an accepted message says of the value\<close>

lemma traverse_accepted: "traverse f xs = Inr ys \<Longrightarrow> (\<And>x y. f x = Inr y \<Longrightarrow> P y) \<Longrightarrow> \<forall>y\<in>set ys. P y"
  unfolding traverse_eq_Inr_iff by (induction xs ys rule: list_all2_induct) auto

lemma transpose_accepted: "transpose_map f m = Inr r \<Longrightarrow> (\<And>x y. f x = Inr y \<Longrightarrow> P y) \<Longrightarrow> \<forall>y. r = Some y \<longrightarrow> P y"
  by (cases m) (auto simp: map_ok_Inr_iff)

lemma names_accepted [accepted]:
  "device_name_from_proto p1 = Inr n1 \<Longrightarrow> valid_device_name n1"
  "device_description_from_proto p2 = Inr n2 \<Longrightarrow> valid_device_description n2"
  "device_tag_from_proto p3 = Inr n3 \<Longrightarrow> valid_device_tag n3"
  "peer_name_from_proto p4 = Inr n4 \<Longrightarrow> valid_peer_name n4"
  "peer_location_from_proto p5 = Inr n5 \<Longrightarrow> valid_peer_location n5"
  "network_interface_name_from_proto p6 = Inr n6 \<Longrightarrow> valid_network_interface_name n6"
  by (auto simp: device_name_from_proto_def device_description_from_proto_def device_tag_from_proto_def
      peer_name_from_proto_def peer_location_from_proto_def network_interface_name_from_proto_def map_err_Inr_iff
      dest: device_name.parsed_valid device_description.parsed_valid device_tag.parsed_valid peer_name.parsed_valid
        peer_location.parsed_valid network_interface_name.parsed_valid)

lemma container_parts_accepted [accepted]:
  "container_name_from_proto p1 = Inr n1 \<Longrightarrow> valid_container_name n1"
  "container_image_from_proto p2 = Inr n2 \<Longrightarrow> valid_container_image n2"
  "container_volume_from_proto p3 = Inr n3 \<Longrightarrow> valid_container_volume n3"
  "container_device_from_proto p4 = Inr n4 \<Longrightarrow> valid_container_device n4"
  "environment_variable_from_proto p5 = Inr n5 \<Longrightarrow> valid_environment_variable n5"
  "container_port_spec_from_proto p6 = Inr n6 \<Longrightarrow> valid_container_port_spec n6"
  "container_command_from_proto p7 = Inr n7 \<Longrightarrow> valid_container_command n7"
  "container_command_argument_from_proto p8 = Inr n8 \<Longrightarrow> valid_container_command_argument n8"
  by (auto simp: container_name_from_proto_def container_image_from_proto_def container_volume_from_proto_def
      container_device_from_proto_def environment_variable_from_proto_def container_port_spec_from_proto_def
      container_command_from_proto_def container_command_argument_from_proto_def map_err_Inr_iff
      container_environment_variable_new_def valid_environment_variable_def container_command_from_def valid_container_command_def
      split: if_splits
      dest: container_name.parsed_valid container_image.parsed_valid container_volume.parsed_valid
        container_device.parsed_valid container_port_spec.parsed_valid container_command.parsed_valid
        container_command_argument.parsed_valid)

lemma interface_accepted [accepted]: "network_interface_from_proto x p = Inr i \<Longrightarrow> wf_interface i"
proof -
  have "interface_configuration_from_proto q = Inr c \<Longrightarrow> wf_interface_configuration c" for q c
    by (cases q) (auto simp: sum_iffs sample_point_from_proto_def can_sample_point_Inr_iff)
  moreover assume "network_interface_from_proto x p = Inr i"
  ultimately show ?thesis
    by (auto simp: network_interface_from_proto_def wf_interface_def sum_iffs dest: names_accepted)
qed

lemma network_accepted [accepted]: "peer_network_from_proto x p = Inr n \<Longrightarrow> wf_network n"
  by (auto simp: peer_network_from_proto_def wf_network_def sum_iffs
      dest: traverse_accepted [where P = wf_interface] transpose_accepted [where P = valid_network_interface_name]
        intro: interface_accepted names_accepted)

lemma device_accepted [accepted]: "device_from_proto x p = Inr d \<Longrightarrow> wf_device d"
  by (auto simp: device_from_proto_def wf_device_def sum_iffs
      dest: names_accepted traverse_accepted [where P = valid_device_tag] transpose_accepted [where P = valid_device_description])

lemma bind_sum_InrE: "bind_sum r f = Inr b \<Longrightarrow> (\<And>a. r = Inr a \<Longrightarrow> f a = Inr b \<Longrightarrow> P) \<Longrightarrow> P"
  by (cases r) auto

lemma container_accepted [accepted]:
  assumes "container_from_proto p = Inr c"
  shows "wf_container c"
  using assms unfolding container_from_proto_def
proof (elim bind_sum_InrE)
  fix engine name image volumes devices envs ports command args engine' name' image' command'
  assume parts: "container_name_from_proto name' = Inr name" "container_image_from_proto image' = Inr image"
      "traverse container_volume_from_proto (pc_volumes p) = Inr volumes"
      "traverse container_device_from_proto (pc_devices p) = Inr devices"
      "traverse environment_variable_from_proto (pc_envs p) = Inr envs"
      "traverse container_port_spec_from_proto (pc_ports p) = Inr ports"
      "container_command_from_proto command' = Inr command"
      "traverse container_command_argument_from_proto (pc_args p) = Inr args"
    and c: "Inr \<lparr> c_engine = engine, c_name = name, c_image = image, c_volumes = volumes, c_devices = devices,
        c_envs = envs, c_ports = ports, c_command = command, c_args = args \<rparr> = (Inr c :: Container conversion_result)"
  from c have "c = \<lparr> c_engine = engine, c_name = name, c_image = image, c_volumes = volumes, c_devices = devices,
      c_envs = envs, c_ports = ports, c_command = command, c_args = args \<rparr>" by simp
  then show ?thesis
    using container_parts_accepted(1) [OF parts(1)] container_parts_accepted(2) [OF parts(2)]
      traverse_accepted [OF parts(3), of valid_container_volume] traverse_accepted [OF parts(4), of valid_container_device]
      traverse_accepted [OF parts(5), of valid_environment_variable] traverse_accepted [OF parts(6), of valid_container_port_spec]
      container_parts_accepted(7) [OF parts(7)] traverse_accepted [OF parts(8), of valid_container_command_argument]
      container_parts_accepted
    by (simp add: wf_container_def)
qed

lemma executor_accepted [accepted]: "executor_from_proto x p = Inr e \<Longrightarrow> wf_executor e"
proof -
  have "executor_kind_from_proto q = Inr k \<Longrightarrow> wf_executor_kind k" for q k
    by (cases q) (auto simp: sum_iffs container_accepted)
  moreover assume "executor_from_proto x p = Inr e"
  ultimately show ?thesis by (auto simp: executor_from_proto_def wf_executor_def sum_iffs)
qed

lemma peer_accepted [accepted]: "peer_from_proto x p = Inr d \<Longrightarrow> wf_peer d"
  unfolding peer_from_proto_def wf_peer_def sum_iffs
  by (elim exE conjE)
    (auto simp: topology_from_proto_def executors_from_proto_def sum_iffs
      dest: accepted traverse_accepted [OF _ device_accepted] traverse_accepted [OF _ executor_accepted]
        transpose_accepted [where P = valid_peer_location])

text \<open>C31: a peer descriptor that is accepted from the wire or from the storage is well-formed: every name,
  location, tag, interface and container setting in it passes its own validation, so the value
  can be sent on and is read back, up to the texts that are left out and come back empty.\<close>

theorem received_peer_is_well_formed:
  assumes "ext_ok x" and "peer_from_proto x p = Inr d"
  shows "wf_peer d \<and> peer_from_proto x (peer_to_proto x d) = Inr (norm_peer d)"
  using peer_accepted [OF assms(2)] assms(1) peer_conversion.trip by blast

theorem received_peer_is_well_formed_witness:
  "\<exists>p d. peer_from_proto decimal_ext p = Inr d \<and> wf_peer d \<and> pd_id d = PeerId 3 \<and>
     peer_from_proto decimal_ext (peer_to_proto decimal_ext d) = Inr (norm_peer d)"
proof -
  let ?d = "sample_peer 3 [sample_device 10]"
  have accepted: "peer_from_proto decimal_ext (peer_to_proto decimal_ext ?d) = Inr (norm_peer ?d)"
    using peer_conversion.trip [of decimal_ext ?d] by (simp add: wf_sample_peer)
  have "pd_id (norm_peer ?d) = PeerId 3" by (simp add: norm_peer_def sample_peer_def)
  with accepted received_peer_is_well_formed [OF ext_ok_decimal accepted] show ?thesis by blast
qed

section \<open>The storage refines the typed tables\<close>

text \<open>C32: the storage implements the typed tables. If the typed tables are the decoded tables of bytes, they
  still are after any sequence of insertions of well-formed values and of removals in all six
  tables, carried out by the operations of the storage on the one side and by those of the
  resource manager on the other; and every entry of the storage can still be decoded.\<close>

theorem storage_refines_typed_tables:
  assumes "ext_ok x" and "prost_ok c" and "fair E" and "storage_ok x c st" and "\<forall>ch\<in>set changes. good_change ch"
    and "r_tables s = abs_tables x c st"
  shows "r_tables (run_on_tables E changes s) = abs_tables x c (run_on_storage x c changes st) \<and>
    storage_ok x c (run_on_storage x c changes st)"
  using assms(4-)
proof (induction changes arbitrary: s st)
  case Nil
  then show ?case by (simp add: run_on_tables_def run_on_storage_def)
next
  case (Cons ch changes)
  have "good_change ch" using Cons.prems by simp
  from storage_change_refines [OF assms(1-3) Cons.prems(1) this Cons.prems(3)]
  have "r_tables (tables_change E ch s) = abs_tables x c (storage_change x c ch st)" "storage_ok x c (storage_change x c ch st)"
    by simp_all
  with Cons.IH [of "storage_change x c ch st" "tables_change E ch s"] Cons.prems show ?case
    by (simp add: run_on_tables_def run_on_storage_def)
qed

text \<open>A codec that keeps the message as it is.\<close>

datatype kept_message =
    KeptCluster ProtoClusterConfiguration | KeptDeployment ProtoClusterDeployment
  | KeptOld ProtoOldPeerConfiguration | KeptConfiguration ProtoPeerConfiguration
  | KeptConnection ProtoPeerConnectionState | KeptPeer ProtoPeerDescriptor

definition keeping_codec :: "kept_message prost" where
  "keeping_codec =
     \<lparr> encode_cluster_configuration = KeptCluster,
       decode_cluster_configuration = (\<lambda>b. case b of KeptCluster m \<Rightarrow> Inr m | _ \<Rightarrow> Inl ''cluster''),
       encode_cluster_deployment = KeptDeployment,
       decode_cluster_deployment = (\<lambda>b. case b of KeptDeployment m \<Rightarrow> Inr m | _ \<Rightarrow> Inl ''deployment''),
       encode_old_peer_configuration = KeptOld,
       decode_old_peer_configuration = (\<lambda>b. case b of KeptOld m \<Rightarrow> Inr m | _ \<Rightarrow> Inl ''old configuration''),
       encode_peer_configuration = KeptConfiguration,
       decode_peer_configuration = (\<lambda>b. case b of KeptConfiguration m \<Rightarrow> Inr m | _ \<Rightarrow> Inl ''configuration''),
       encode_peer_connection_state = KeptConnection,
       decode_peer_connection_state = (\<lambda>b. case b of KeptConnection m \<Rightarrow> Inr m | _ \<Rightarrow> Inl ''connection''),
       encode_peer_descriptor = KeptPeer,
       decode_peer_descriptor = (\<lambda>b. case b of KeptPeer m \<Rightarrow> Inr m | _ \<Rightarrow> Inl ''peer'') \<rparr>"

theorem storage_refines_typed_tables_witness:
  "let changes = [Insert_peer_descriptor (PeerId 3) (sample_peer 3 [sample_device 10]), Remove_peer_descriptor (PeerId 4)];
       empty = \<lparr> st_db = [], st_memory = [] \<rparr>
   in r_tables (run_on_tables fair_env changes \<lparr> r_tables = no_tables, r_events = no_events \<rparr>) =
        abs_tables decimal_ext keeping_codec (run_on_storage decimal_ext keeping_codec changes empty) \<and>
      storage_ok decimal_ext keeping_codec (run_on_storage decimal_ext keeping_codec changes empty)"
  unfolding Let_def
proof (rule storage_refines_typed_tables)
  show "prost_ok keeping_codec" by (simp add: prost_ok_def keeping_codec_def)
  show "storage_ok decimal_ext keeping_codec \<lparr> st_db = [], st_memory = [] \<rparr>"
    "r_tables \<lparr> r_tables = no_tables, r_events = no_events \<rparr> = abs_tables decimal_ext keeping_codec \<lparr> st_db = [], st_memory = [] \<rparr>"
    by (simp_all add: storage_ok_def table_ok_def the_table_def get_db_for_resource_def abs_tables_def decoded_def no_tables_def
        split: StorageKind.split)
  show "\<forall>ch\<in>set [Insert_peer_descriptor (PeerId 3) (sample_peer 3 [sample_device 10]), Remove_peer_descriptor (PeerId 4)].
      good_change ch"
    by (simp add: wf_sample_peer)
qed simp_all

end
