(* ===== verification/CarlApi.thy ===== *)
theory CarlApi
  imports CarlClient WireTypes
begin

text \<open>
  CARL seen through its API: the client library and the services put together. The tables hold
  well-formed values whatever the messages say (\<open>stored_ok\<close>), so every answer of a manager can be
  sent, and a caller of the client library gets what the manager answered.
\<close>

section \<open>What is stored is well-formed\<close>

definition stored_ok :: "tables \<Rightarrow> bool" where
  "stored_ok t \<longleftrightarrow>
     (\<forall>d\<in>set (values_of (t_peer_descriptors t)). wf_peer d \<and> norm_peer d = d) \<and>
     (\<forall>k\<in>set (values_of (t_cluster_configurations t)). wf_cluster k)"

lemma stored_ok_entries:
  "stored_ok t \<longleftrightarrow> (\<forall>(p, d)\<in>set (t_peer_descriptors t). wf_peer d \<and> norm_peer d = d) \<and>
     (\<forall>(c, k)\<in>set (t_cluster_configurations t). wf_cluster k)"
  by (auto simp: stored_ok_def)

lemma entry_of_update: "(j, w) \<in> set (AList.update i v m) \<Longrightarrow> w = v \<or> (j, w) \<in> set m"
  by (induction m) (auto split: if_splits)

lemma entry_of_delete: "(j, w) \<in> set (AList.delete i m) \<Longrightarrow> (j, w) \<in> set m"
  by (induction m) (auto split: if_splits)

lemma stored_ok_peer: "stored_ok t \<Longrightarrow> map_of (t_peer_descriptors t) p = Some d \<Longrightarrow> wf_peer d \<and> norm_peer d = d"
  by (auto simp: stored_ok_def dest!: map_of_SomeD)

lemma stored_ok_cluster: "stored_ok t \<Longrightarrow> map_of (t_cluster_configurations t) c = Some k \<Longrightarrow> wf_cluster k"
  by (auto simp: stored_ok_def dest!: map_of_SomeD)

lemma stored_ok_persistent [simp]: "stored_ok (persistent_part t' t) \<longleftrightarrow> stored_ok t'"
  by (simp add: stored_ok_def persistent_part_def)

definition keeps_stored :: "resources \<Rightarrow> resources \<Rightarrow> bool" where
  "keeps_stored s s' \<longleftrightarrow> (stored_ok (r_tables s) \<longrightarrow> stored_ok (r_tables s'))"

definition keeps_stored_io :: "resources \<times> 'w \<Rightarrow> resources \<times> 'w \<Rightarrow> bool" where
  "keeps_stored_io s s' \<longleftrightarrow> keeps_stored (fst s) (fst s')"

definition keeps_stored_world :: "'w cluster_world \<Rightarrow> 'w cluster_world \<Rightarrow> bool" where
  "keeps_stored_world cw cw' \<longleftrightarrow>
     (stored_ok (rm_tables (cw_manager cw)) \<longrightarrow> stored_ok (rm_tables (cw_manager cw')))"

lemmas keeps_stored_defs = keeps_stored_def keeps_stored_io_def keeps_stored_world_def

lemma keeps_stored_order:
  "reflp keeps_stored" "transp keeps_stored" "reflp keeps_stored_io" "transp keeps_stored_io"
  "reflp keeps_stored_world" "transp keeps_stored_world"
  by (auto simp: keeps_stored_defs reflp_def transp_def)

lemma keeps_stored_peer_table:
  assumes "wf_peer d"
  shows "keeps keeps_stored (resources_insert E PeerDescriptors p d)"
proof -
  have "stored_ok (t\<lparr> t_peer_descriptors := AList.update p (norm_peer d) (t_peer_descriptors t) \<rparr>)" if "stored_ok t" for t
    using that assms by (auto simp: stored_ok_entries dest!: entry_of_update)
  then show ?thesis
    by (simp add: keeps_def keeps_stored_def resources_insert_def PeerDescriptors_def split: option.split)
qed

lemma keeps_stored_cluster_table:
  assumes "wf_cluster k"
  shows "keeps keeps_stored (resources_insert E ClusterConfigurations c k)"
proof -
  have "stored_ok (t\<lparr> t_cluster_configurations := AList.update c k (t_cluster_configurations t) \<rparr>)" if "stored_ok t" for t
    using that assms by (auto simp: stored_ok_entries dest!: entry_of_update)
  then show ?thesis
    by (simp add: keeps_def keeps_stored_def resources_insert_def ClusterConfigurations_def split: option.split)
qed

lemma keeps_stored_removals:
  "keeps keeps_stored (resources_remove E PeerDescriptors p)"
  "keeps keeps_stored (resources_remove E ClusterConfigurations c)"
proof -
  have "stored_ok (t\<lparr> t_peer_descriptors := AList.delete p (t_peer_descriptors t) \<rparr>)"
    "stored_ok (t\<lparr> t_cluster_configurations := AList.delete c (t_cluster_configurations t) \<rparr>)" if "stored_ok t" for t
    using that by (auto simp: stored_ok_entries dest!: entry_of_delete)
  then show "keeps keeps_stored (resources_remove E PeerDescriptors p)"
    "keeps keeps_stored (resources_remove E ClusterConfigurations c)"
    by (simp_all add: keeps_def keeps_stored_def resources_remove_def kind_defs Let_def split: option.split)
qed

lemma keeps_stored_other_accesses:
  "keeps keeps_stored (read_resources f)"
  "keeps keeps_stored (resources_insert E ClusterDeployments c y)"
  "keeps keeps_stored (resources_remove E ClusterDeployments c)"
  by (simp_all add: keeps_def keeps_stored_def stored_ok_def read_resources_def resources_insert_def resources_remove_def
      ClusterDeployments_def Let_def split: option.split)

lemmas keeps_stored_accesses = keeps_stored_peer_table keeps_stored_cluster_table keeps_stored_removals keeps_stored_other_accesses

lemma keeps_stored_pairs:
  "keeps keeps_stored f \<Longrightarrow> keeps keeps_stored_io (on_fst f)" "keeps keeps_stored_io (on_snd g)"
  by (auto simp: keeps_def keeps_stored_io_def on_fst_def on_snd_def keeps_stored_def case_prod_beta)

lemmas keeps_stored_rules = keeps_and_then keeps_map_run_err keeps_same keeps_stored_order keeps_stored_pairs keeps_stored_accesses

lemma transaction_stored:
  assumes "keeps keeps_stored_io code" "resources_mut_io E code (m, w) = ((m', w'), r)" "stored_ok (rm_tables m)"
  shows "stored_ok (rm_tables m')"
proof -
  obtain s v a where run: "code (\<lparr> r_tables = rm_tables m, r_events = no_events \<rparr>, w) = ((s, v), a)"
    by (metis surj_pair)
  have "stored_ok (r_tables s)"
    using keepsD [OF assms(1), of "(\<lparr> r_tables = rm_tables m, r_events = no_events \<rparr>, w)"] assms(3)
    by (simp add: run keeps_stored_io_def keeps_stored_def)
  with run assms(2,3) show ?thesis
    by (auto simp: resources_mut_io_def split: option.splits sum.splits)
qed

lemma keeps_stored_transaction:
  assumes "keeps keeps_stored_io code"
  shows "keeps keeps_stored_world (with_servers (collapse f (resources_mut_io E code)))"
  unfolding keeps_def
proof
  fix cw :: "'a cluster_world"
  obtain m w r where run: "resources_mut_io E code (cw_manager cw, cw_vpn cw) = ((m, w), r)"
    by (metis surj_pair)
  with transaction_stored [OF assms run]
  show "keeps_stored_world cw (fst (with_servers (collapse f (resources_mut_io E code)) cw))"
    by (simp add: keeps_stored_world_def with_servers_def collapse_def)
qed

lemma keeps_stored_resources:
  assumes "keeps keeps_stored code"
  shows "keeps keeps_stored_world (on_resources (collapse f (resources_mut E code)))"
  unfolding keeps_def
proof
  fix cw :: "'w cluster_world"
  obtain m w r where run: "resources_mut_io E (on_fst code) (cw_manager cw, ()) = ((m, w), r)"
    by (metis surj_pair)
  with transaction_stored [OF keeps_stored_pairs(1) [OF assms] run]
  show "keeps_stored_world cw (fst (on_resources (collapse f (resources_mut E code)) cw))"
    by (simp add: keeps_stored_world_def on_resources_def collapse_def resources_mut_def)
qed

section \<open>Every operation keeps it\<close>

lemma stored_store_peer: "wf_peer d \<Longrightarrow> keeps keeps_stored_world (peers_store E vpn d)"
  unfolding peers_store_def
proof (rule keeps_stored_transaction)
  assume d: "wf_peer d"
  show "keeps keeps_stored_io (store_peer_descriptor E vpn d)"
    unfolding keeps_def
  proof
    fix sw :: "resources \<times> 'a"
    obtain s w where sw: "sw = (s, w)" by (cases sw)
    obtain s' r where run: "resources_insert E PeerDescriptors (pd_id d) d s = (s', r)"
      by (metis surj_pair)
    with keepsD [OF keeps_stored_peer_table [OF d, of E "pd_id d"], of s] have "keeps_stored s s'" by simp
    with run show "keeps_stored_io sw (fst (store_peer_descriptor E vpn d sw))"
      by (auto simp: sw store_peer_descriptor_eq keeps_stored_io_def keeps_stored_def split: sum.split prod.split)
  qed
qed

lemma stored_delete_peer: "keeps keeps_stored_world (peers_delete E vpn oidc p)"
  unfolding peers_delete_def delete_peer_descriptor_def
  by (rule keeps_stored_transaction)
    (auto intro!: keeps_stored_rules split: option.split PeerMemberState.split)

lemma stored_create_configuration: "wf_cluster k \<Longrightarrow> keeps keeps_stored_world (clusters_create E k)"
  unfolding clusters_create_def create_cluster_configuration_def
  by (rule keeps_stored_resources) (auto intro!: keeps_stored_rules)

lemma stored_delete_configuration: "keeps keeps_stored_world (clusters_delete E c)"
  unfolding clusters_delete_def delete_cluster_configuration_def
  by (rule keeps_stored_resources) (auto intro!: keeps_stored_rules split: option.split)

lemma stored_delete_deployment: "keeps keeps_stored_world (clusters_undeploy E vpn c)"
  unfolding clusters_undeploy_def delete_cluster_deployment_def
  by (rule keeps_stored_transaction) (auto intro!: keeps_stored_rules)

lemma keeps_ignoring_error: "keeps R f \<Longrightarrow> keeps R (ignoring_error f)"
  by (simp add: keeps_def)

lemma stored_frame: "keeps world_configurations_only f \<Longrightarrow> keeps keeps_stored_world f"
  by (auto simp: keeps_def keeps_stored_world_def world_configurations_only_def only_configurations_def stored_ok_def)

lemma stored_store_deployment: "keeps keeps_stored_world (store_cluster_deployment x E opts vpn y)"
proof -
  have "keeps keeps_stored_world (on_resources (collapse f (resources_mut E (insert_deployment E y))))" for f
    unfolding insert_deployment_def Let_def
    by (rule keeps_stored_resources) (intro keeps_stored_rules)
  then show ?thesis
    unfolding store_cluster_deployment_def Let_def
    by (intro keeps_stored_rules keeps_ignoring_error stored_frame [OF deploy_if_available_frame]
        stored_frame [OF keeps_from_manager(1)]) (auto intro: keeps_stored_rules split: ClusterDeployable.split)
qed

section \<open>Any messages, in any order\<close>

text \<open>
  The requests that write, as they come off the wire, each with the storage faults met while it is
  served, and the connection events that the cluster manager reacts to.
\<close>

datatype 'w api_request =
    RequestStorePeer env "ProtoPeerDescriptor option"
  | RequestDeletePeer env "'w registration_client option" "ProtoPeerId option"
  | RequestCreateConfiguration env "ProtoClusterConfiguration option"
  | RequestDeleteConfiguration env "ProtoClusterId option"
  | RequestStoreDeployment env "ProtoClusterDeployment option"
  | RequestDeleteDeployment env "ProtoClusterId option"
  | ConnectionChanged env "(PeerId, PeerConnectionState) SubscriptionEvent"

fun serve_request ::
    "ext \<Rightarrow> ClusterManagerOptions \<Rightarrow> 'w vpn \<Rightarrow> 'w api_request \<Rightarrow> 'w cluster_world \<Rightarrow> 'w cluster_world" where
  "serve_request x opts vpn (RequestStorePeer E p) cw = fst (serve_store_peer x E vpn p cw)"
| "serve_request x opts vpn (RequestDeletePeer E oidc p) cw = fst (serve_delete_peer x E vpn oidc p cw)"
| "serve_request x opts vpn (RequestCreateConfiguration E p) cw = fst (serve_create_configuration x E p cw)"
| "serve_request x opts vpn (RequestDeleteConfiguration E p) cw = fst (serve_delete_configuration x E p cw)"
| "serve_request x opts vpn (RequestStoreDeployment E p) cw = fst (serve_store_deployment x E opts vpn p cw)"
| "serve_request x opts vpn (RequestDeleteDeployment E p) cw = fst (serve_delete_deployment x E vpn p cw)"
| "serve_request x opts vpn (ConnectionChanged E event) cw = on_connection_event x E opts vpn event cw"

definition serve_requests ::
    "ext \<Rightarrow> ClusterManagerOptions \<Rightarrow> 'w vpn \<Rightarrow> 'w api_request list \<Rightarrow> 'w cluster_world \<Rightarrow> 'w cluster_world" where
  "serve_requests x opts vpn requests cw = fold (serve_request x opts vpn) requests cw"

lemma keeps_extracted:
  assumes "reflp R" "\<And>p m. convert p = Inr m \<Longrightarrow> keeps R (k m)"
  shows "keeps R (and_then (lift_result (extract_or_invalid_argument field opt convert)) k)"
proof (cases "extract_or_invalid_argument field opt convert")
  case (Inl fault)
  with assms(1) show ?thesis by (simp add: keeps_def run_defs reflp_def)
next
  case (Inr m)
  then obtain p where "convert p = Inr m"
    by (auto simp: extract_or_invalid_argument_def split: option.splits sum.splits conversion_fault.splits)
  with assms(2) Inr show ?thesis by simp
qed

lemma keeps_replying: "keeps R operation \<Longrightarrow> keeps R (replying failure success operation)"
  by (simp add: keeps_def)

lemma cluster_configuration_accepted: "cluster_configuration_from_proto x p = Inr k \<Longrightarrow> wf_cluster k"
  by (auto simp: cluster_configuration_from_proto_def cluster_name_from_proto_def wf_cluster_def sum_iffs
      dest: cluster_name.parsed_valid)

lemma stored_connection_event:
  "keeps_stored_world cw (on_connection_event x E opts vpn event cw)"
proof -
  have "keeps keeps_stored_world (on_resources (collapse f (resources_mut E (read_resources g))))" for f g
    by (rule keeps_stored_resources) (rule keeps_stored_other_accesses)
  then have "keeps keeps_stored_world (deploy_all_clusters_containing_newly_available_peer x E opts vpn p)" for p
    unfolding deploy_all_clusters_containing_newly_available_peer_def
    by (intro keeps_stored_rules keeps_run_list stored_frame [OF deploy_if_available_frame])
  then have "keeps_stored_world cw (fst (deploy_all_clusters_containing_newly_available_peer x E opts vpn p cw))" for p
    by (rule keepsD)
  then show ?thesis
    by (cases "(x, E, opts, vpn, event, cw)" rule: on_connection_event.cases) (simp_all add: keeps_stored_world_def)
qed

lemma serve_request_stored: "keeps_stored_world cw (serve_request x opts vpn request cw)"
proof (cases request)
  case (RequestStorePeer E p)
  have "keeps keeps_stored_world (serve_store_peer x E vpn p)"
    unfolding serve_store_peer_def
    by (intro keeps_extracted keeps_replying keeps_stored_order stored_store_peer peer_accepted)
  then show ?thesis unfolding RequestStorePeer serve_request.simps by (rule keepsD)
next
  case (RequestDeletePeer E oidc p)
  have "keeps keeps_stored_world (serve_delete_peer x E vpn oidc p)"
    unfolding serve_delete_peer_def
    by (intro keeps_extracted keeps_replying keeps_stored_order stored_delete_peer)
  then show ?thesis unfolding RequestDeletePeer serve_request.simps by (rule keepsD)
next
  case (RequestCreateConfiguration E p)
  have "keeps keeps_stored_world (serve_create_configuration x E p)"
    unfolding serve_create_configuration_def
    by (intro keeps_extracted keeps_replying keeps_stored_order stored_create_configuration cluster_configuration_accepted)
  then show ?thesis unfolding RequestCreateConfiguration serve_request.simps by (rule keepsD)
next
  case (RequestDeleteConfiguration E p)
  have "keeps keeps_stored_world (serve_delete_configuration x E p)"
    unfolding serve_delete_configuration_def
    by (intro keeps_extracted keeps_replying keeps_stored_order stored_delete_configuration)
  then show ?thesis unfolding RequestDeleteConfiguration serve_request.simps by (rule keepsD)
next
  case (RequestStoreDeployment E p)
  have "keeps keeps_stored_world (serve_store_deployment x E opts vpn p)"
    unfolding serve_store_deployment_def
    by (intro keeps_extracted keeps_replying keeps_stored_order stored_store_deployment)
  then show ?thesis unfolding RequestStoreDeployment serve_request.simps by (rule keepsD)
next
  case (RequestDeleteDeployment E p)
  have "keeps keeps_stored_world (serve_delete_deployment x E vpn p)"
    unfolding serve_delete_deployment_def
    by (intro keeps_extracted keeps_replying keeps_stored_order stored_delete_deployment)
  then show ?thesis unfolding RequestDeleteDeployment serve_request.simps by (rule keepsD)
next
  case (ConnectionChanged E event)
  then show ?thesis by (simp add: stored_connection_event)
qed

lemma serve_requests_stored: "keeps_stored_world cw (serve_requests x opts vpn requests cw)"
  unfolding serve_requests_def
proof (induction requests arbitrary: cw)
  case (Cons request requests)
  from serve_request_stored [of cw x opts vpn request] Cons [of "serve_request x opts vpn request cw"] show ?case
    by (simp add: keeps_stored_world_def)
qed (simp add: keeps_stored_world_def)

lemma client_list_peers_answer:
  assumes "ext_ok x" "fair E" "link_up L" "stored_ok (rm_tables (cw_manager cw))"
  shows "client_list_peers L x E cw = (cw, Inr (values_of (t_peer_descriptors (rm_tables (cw_manager cw)))))"
proof -
  let ?t = "t_peer_descriptors (rm_tables (cw_manager cw))"
  have ok: "\<forall>peer\<in>set (values_of ?t). wf_peer peer \<and> norm_peer peer = peer"
    using assms(4) by (auto simp: stored_ok_def)
  have "map norm_peer (values_of ?t) = values_of ?t"
    using ok by (auto intro: map_idI)
  moreover have "client_list_peers L x E cw = (cw, Inr (map norm_peer (values_of ?t)))"
    unfolding client_list_peers_def serve_list_peers_def
    by (subst list_peers_answer.answer [where convert = "\<lambda>e. Inr e" and r = "Inr ?t" and w' = cw])
      (use assms ok in \<open>auto simp: from_manager_def manager_list_def PeerDescriptors_def\<close>)
  ultimately show ?thesis by simp
qed

lemma client_list_configurations_answer:
  assumes "ext_ok x" "fair E" "link_up L" "stored_ok (rm_tables (cw_manager cw))"
  shows "client_list_configurations L x E cw = (cw, Inr (values_of (t_cluster_configurations (rm_tables (cw_manager cw)))))"
proof -
  let ?t = "t_cluster_configurations (rm_tables (cw_manager cw))"
  have "traverse (cluster_configuration_from_proto x) (map (cluster_configuration_to_proto x) (values_of ?t)) = Inr (map (\<lambda>k. k) (values_of ?t))"
    by (rule cluster_configuration_conversion.trips) (use assms in \<open>auto simp: stored_ok_def\<close>)
  moreover have "list_cluster_configuration E (cw_manager cw) = Inr (values_of ?t)"
    using assms(2) by (simp add: list_cluster_configuration_def manager_list_def ClusterConfigurations_def)
  ultimately show ?thesis
    using assms(3) by (simp add: client_list_configurations_def client_read_def serve_list_configurations_def
        rpc_def link_up_def run_defs from_manager_def)
qed

text \<open>C15: whatever requests are sent to the API, in any order, well-formed or not, and whatever storage
  faults and errors of the other servers they meet: afterwards the stored peers and cluster
  configurations can still be listed through the client, which gets exactly what is stored. No
  request can put an entry into the tables that a later answer cannot carry.\<close>

theorem whatever_was_sent_can_be_listed:
  assumes "ext_ok x" "fair E" "link_up L" "stored_ok (rm_tables (cw_manager cw))"
    and "cw' = serve_requests x opts vpn requests cw"
  shows "client_list_peers L x E cw' = (cw', Inr (values_of (t_peer_descriptors (rm_tables (cw_manager cw'))))) \<and>
    client_list_configurations L x E cw' = (cw', Inr (values_of (t_cluster_configurations (rm_tables (cw_manager cw')))))"
proof -
  have "stored_ok (rm_tables (cw_manager cw'))"
    using serve_requests_stored [of cw x opts vpn requests] assms(4,5) by (simp add: keeps_stored_world_def)
  then show ?thesis
    using client_list_peers_answer [OF assms(1-3)] client_list_configurations_answer [OF assms(1-3)] by blast
qed

section \<open>The client sees what the manager answers\<close>

lemma as_seen_Inr [simp]: "as_seen L (\<lambda>e. Inr (convert e)) = (\<lambda>e. UsageError (convert e))"
  by (simp add: as_seen_def fun_eq_iff)

lemma wf_peer_name: "wf_peer d \<Longrightarrow> valid_peer_name (pd_name d)"
  by (simp add: wf_peer_def)

lemma wf_cluster_name: "wf_cluster k \<Longrightarrow> valid_cluster_name (cc_name k)"
  by (simp add: wf_cluster_def)

text \<open>Which errors a run can end with.\<close>

definition errors_are :: "('e \<Rightarrow> bool) \<Rightarrow> ('s, 'e, 'a) run \<Rightarrow> 's \<Rightarrow> bool" where
  "errors_are P f s \<longleftrightarrow> (\<forall>e. snd (f s) = Inl e \<longrightarrow> P e)"

lemma errors_areD: "errors_are P f s \<Longrightarrow> f s = (s', Inl e) \<Longrightarrow> P e"
  by (simp add: errors_are_def)

lemma errors_and_then:
  assumes "errors_are P f s" "\<And>s' a. f s = (s', Inr a) \<Longrightarrow> errors_are P (g a) s'"
  shows "errors_are P (and_then f g) s"
  using assms by (cases "f s"; cases "snd (f s)") (auto simp: errors_are_def and_then_def)

lemma errors_simple [simp]:
  "errors_are P (return_ok a) s" "errors_are P (ignoring_error f) s" "errors_are P (fail_with e) s \<longleftrightarrow> P e"
  by (simp_all add: errors_are_def run_defs)

lemma errors_from_manager: "(\<And>e. P (g e)) \<Longrightarrow> errors_are P (from_manager (\<lambda>m. map_err g (f m))) cw"
  by (auto simp: errors_are_def from_manager_def map_err_Inl_iff)

lemma errors_transaction:
  assumes "\<And>e. P (f e)" "errors_are P code \<lparr> r_tables = rm_tables (cw_manager cw), r_events = no_events \<rparr>"
  shows "errors_are P (on_resources (collapse f (resources_mut E code))) cw"
  using assms
  by (cases "code \<lparr> r_tables = rm_tables (cw_manager cw), r_events = no_events \<rparr>")
    (auto simp: errors_are_def on_resources_def collapse_def resources_mut_eq split: option.splits sum.splits)

lemma errors_map: "(\<And>e. P (h e)) \<Longrightarrow> errors_are P (map_run_err h f) s"
  by (auto simp: errors_are_def map_run_err_def map_err_Inl_iff split: prod.splits)

lemma errors_ok_or: "P e \<Longrightarrow> errors_are P (lift_result (ok_or e r)) s"
  by (cases r) (simp_all add: errors_are_def lift_result_def)

lemma errors_transaction_io:
  assumes "\<And>e. P (f e)" "errors_are P code (\<lparr> r_tables = rm_tables (cw_manager cw), r_events = no_events \<rparr>, cw_vpn cw)"
  shows "errors_are P (with_servers (collapse f (resources_mut_io E code))) cw"
  using assms
  by (cases "code (\<lparr> r_tables = rm_tables (cw_manager cw), r_events = no_events \<rparr>, cw_vpn cw)")
    (auto simp: errors_are_def with_servers_def collapse_def resources_mut_io_def split: option.splits sum.splits)

lemmas error_rules = errors_and_then errors_map errors_ok_or

lemma peers_store_errors:
  assumes "wf_peer d"
  shows "errors_are (\<lambda>e. wf_api_store_peer (api_store_peer_from e)) (peers_store E vpn d) cw"
  unfolding peers_store_def
  by (rule errors_transaction_io)
    (use wf_peer_name [OF assms] in \<open>auto simp: errors_are_def store_peer_descriptor_eq split: sum.splits prod.splits\<close>)

text \<open>What is read or removed in a transaction that keeps the tables well-formed is well-formed.\<close>

lemma removed_peer:
  "resources_remove E PeerDescriptors p s = (s', Inr (Some d)) \<Longrightarrow> stored_ok (r_tables s) \<Longrightarrow> wf_peer d"
  by (auto simp: resources_remove_def PeerDescriptors_def Let_def dest!: stored_ok_peer split: option.splits)

lemma removed_cluster:
  "resources_remove E ClusterConfigurations c s = (s', Inr (Some k)) \<Longrightarrow> stored_ok (r_tables s) \<Longrightarrow> wf_cluster k"
  by (auto simp: resources_remove_def ClusterConfigurations_def Let_def dest!: stored_ok_cluster split: option.splits)

lemma read_cluster:
  "resources_get E ClusterConfigurations c t = Inr (Some k) \<Longrightarrow> stored_ok t \<Longrightarrow> wf_cluster k"
  by (auto simp: resources_get_def ClusterConfigurations_def dest!: stored_ok_cluster split: option.splits)

lemma delete_peer_fault_error: "api_delete_peer_from (delete_peer_fault p e) = Inr f \<Longrightarrow> wf_api_delete_peer f"
  by (cases e) auto

lemma peers_delete_errors:
  assumes "stored_ok (rm_tables (cw_manager cw))"
  shows "errors_are (\<lambda>e. \<forall>f. api_delete_peer_from e = Inr f \<longrightarrow> wf_api_delete_peer f) (peers_delete E vpn oidc p) cw"
  unfolding peers_delete_def
proof (rule errors_transaction_io)
  let ?s = "\<lparr> r_tables = rm_tables (cw_manager cw), r_events = no_events \<rparr>" and ?w = "cw_vpn cw"
  show "errors_are (\<lambda>e. \<forall>f. api_delete_peer_from e = Inr f \<longrightarrow> wf_api_delete_peer f)
      (delete_peer_descriptor E vpn oidc p) (?s, ?w)"
    unfolding delete_peer_descriptor_def
  proof (intro errors_and_then)
    fix s1 states
    assume "map_run_err (delete_peer_fault p) (on_fst (read_resources (list_peer_member_states E))) (?s, ?w) = (s1, Inr states)"
    then have s1: "s1 = (?s, ?w)" by (simp add: map_run_err_Inr_iff on_fst_def read_resources_def)
    have "errors_are (\<lambda>e. \<forall>f. api_delete_peer_from e = Inr f \<longrightarrow> wf_api_delete_peer f)
        (and_then (map_run_err (DeletePeerPersistence p None) (on_fst (resources_remove E PeerDescriptors p))) (\<lambda>removed.
         and_then (lift_result (ok_or (DeletePeerNotFound p) removed)) (\<lambda>peer_descriptor.
         and_then (map_run_err (DeletePeerAuthRegistration p (pd_name peer_descriptor)) (on_snd (delete_oidc_clients oidc p))) (\<lambda>_.
         and_then (map_run_err (DeletePeerVpnClient p (pd_name peer_descriptor)) (on_snd (delete_vpn_peer vpn p))) (\<lambda>_.
         return_ok peer_descriptor))))) s1"
    proof (intro error_rules errors_simple)
      fix s2 removed s3 d
      assume "map_run_err (DeletePeerPersistence p None) (on_fst (resources_remove E PeerDescriptors p)) s1 = (s2, Inr removed)"
        and "lift_result (ok_or (DeletePeerNotFound p) removed) s2 = (s3, Inr d)"
      then have "\<exists>s'. resources_remove E PeerDescriptors p ?s = (s', Inr (Some d))"
        by (auto simp: s1 map_run_err_Inr_iff on_fst_def lift_result_iff ok_or_Inr_iff split: prod.splits)
      then have name: "valid_peer_name (pd_name d)"
        using removed_peer assms wf_peer_name by (metis resources.select_convs(1))
      fix e
      show "\<forall>f. api_delete_peer_from (DeletePeerAuthRegistration p (pd_name d) e) = Inr f \<longrightarrow> wf_api_delete_peer f"
        "\<forall>f. api_delete_peer_from (DeletePeerVpnClient p (pd_name d) e) = Inr f \<longrightarrow> wf_api_delete_peer f"
        using name by auto
    qed auto
    then show "errors_are (\<lambda>e. \<forall>f. api_delete_peer_from e = Inr f \<longrightarrow> wf_api_delete_peer f)
        (case map_of states p of
           Some (Blocked cluster) \<Rightarrow> fail_with (DeletePeerDeploymentExists p cluster)
         | _ \<Rightarrow>
        (and_then (map_run_err (DeletePeerPersistence p None) (on_fst (resources_remove E PeerDescriptors p))) (\<lambda>removed.
         and_then (lift_result (ok_or (DeletePeerNotFound p) removed)) (\<lambda>peer_descriptor.
         and_then (map_run_err (DeletePeerAuthRegistration p (pd_name peer_descriptor)) (on_snd (delete_oidc_clients oidc p))) (\<lambda>_.
         and_then (map_run_err (DeletePeerVpnClient p (pd_name peer_descriptor)) (on_snd (delete_vpn_peer vpn p))) (\<lambda>_.
         return_ok peer_descriptor)))))) s1"
      by (auto split: option.split PeerMemberState.split)
  qed (auto intro: errors_map dest: delete_peer_fault_error)
qed auto

lemma clusters_create_errors:
  assumes "wf_cluster k"
  shows "errors_are (\<lambda>e. wf_api_create_configuration (api_create_configuration_from e)) (clusters_create E k) cw"
  unfolding clusters_create_def create_cluster_configuration_def
  by (intro errors_transaction error_rules errors_simple) (simp_all add: wf_cluster_name [OF assms])

lemma clusters_delete_errors:
  "errors_are (\<lambda>e. wf_api_delete_configuration (api_delete_configuration_from e)) (clusters_delete E c) cw"
  unfolding clusters_delete_def delete_cluster_configuration_def
  by (intro errors_transaction errors_and_then errors_map) (auto intro!: error_rules split: option.split)

lemma clusters_delete_answer:
  assumes "stored_ok (rm_tables (cw_manager cw))" "clusters_delete E c cw = (cw', Inr k)"
  shows "wf_cluster k"
  using assms
  by (auto simp: clusters_delete_def on_resources_def collapse_def resources_mut_eq delete_cluster_configuration_def
      resources_remove_def ClusterConfigurations_def Let_def run_unfolds map_err_Inr_iff ok_or_Inr_iff dest!: stored_ok_cluster
      split: option.splits sum.splits prod.splits)

lemma clusters_undeploy_errors:
  assumes "stored_ok (rm_tables (cw_manager cw))"
  shows "errors_are (\<lambda>e. wf_api_delete_deployment (api_delete_deployment_from e)) (clusters_undeploy E vpn c) cw"
  unfolding clusters_undeploy_def delete_cluster_deployment_def
proof (intro errors_transaction_io error_rules errors_simple)
  let ?s = "(\<lparr> r_tables = rm_tables (cw_manager cw), r_events = no_events \<rparr>, cw_vpn cw)"
  fix s1 removed s2 deployment s3 cluster
  assume "map_run_err (DeleteDeploymentPersistence c None) (on_fst (resources_remove E ClusterDeployments c)) ?s = (s1, Inr removed)"
    and "lift_result (ok_or (DeleteDeploymentNotFound c) removed) s1 = (s2, Inr deployment)"
    and get: "map_run_err (DeleteDeploymentPersistence c None)
      (on_fst (read_resources (resources_get E ClusterConfigurations c))) s2 = (s3, Inr cluster)"
  then have "resources_remove E ClusterDeployments c (fst ?s) = (fst s1, Inr removed)" "s2 = s1"
    by (auto simp: map_run_err_Inr_iff on_fst_def lift_result_iff split: prod.splits)
  then have "stored_ok (r_tables (fst s2))"
    using keepsD [OF keeps_stored_other_accesses(3) [of E c], of "fst ?s"] assms by (simp add: keeps_stored_def)
  moreover have "resources_get E ClusterConfigurations c (r_tables (fst s2)) = Inr cluster"
    using get by (auto simp: map_run_err_Inr_iff on_fst_def read_resources_def split: prod.splits)
  ultimately have "\<forall>k. cluster = Some k \<longrightarrow> valid_cluster_name (cc_name k)"
    using read_cluster wf_cluster_name by blast
  then show "errors_are (\<lambda>e. wf_api_delete_deployment (api_delete_deployment_from e)) (on_snd (delete_vpn_cluster vpn c cluster)) s3"
    by (auto simp: errors_are_def on_snd_def delete_vpn_cluster_def run_defs map_err_Inl_iff split: prod.splits option.splits vpn.splits)
qed simp_all

lemma valid_unknown_cluster: "valid_cluster_name unknown_cluster"
  using sample_names by (simp add: unknown_cluster_def)

lemma insert_deployment_error:
  assumes "stored_ok t" "insert_deployment E y \<lparr> r_tables = t, r_events = ev \<rparr> = (s', Inl e)"
  shows "\<exists>name source. e = StoreDeploymentPersistence (cd_id y) name source \<and> (\<forall>n. name = Some n \<longrightarrow> valid_cluster_name n)"
  using assms valid_unknown_cluster
  by (auto simp: insert_deployment_def Let_def run_unfolds resources_get_def resources_insert_def ClusterConfigurations_def
      dest!: stored_ok_cluster wf_cluster_name split: option.splits sum.splits prod.splits)

text \<open>What a sent error of storing a deployment is made from.\<close>

fun sendable_deployment_error :: "StoreClusterDeploymentError \<Rightarrow> bool" where
  "sendable_deployment_error (StoreDeploymentIllegalPeerState c name ps) \<longleftrightarrow> name = None"
| "sendable_deployment_error (StoreDeploymentListClusterPeerStates c source) \<longleftrightarrow> True"
| "sendable_deployment_error (StoreDeploymentPersistence c name source) \<longleftrightarrow> (\<forall>n. name = Some n \<longrightarrow> valid_cluster_name n)"

lemma store_deployment_errors:
  assumes "stored_ok (rm_tables (cw_manager cw))"
  shows "errors_are sendable_deployment_error (store_cluster_deployment x E opts vpn y) cw"
proof -
  have "errors_are sendable_deployment_error (insert_deployment E y) \<lparr> r_tables = rm_tables (cw_manager cw), r_events = no_events \<rparr>"
    using insert_deployment_error [OF assms] unfolding errors_are_def
    by (metis prod.collapse sendable_deployment_error.simps(3))
  then have insert: "errors_are sendable_deployment_error (on_resources (collapse (StoreDeploymentPersistence (cd_id y) None)
      (resources_mut E (insert_deployment E y)))) cw"
    by (intro errors_transaction) simp_all
  show ?thesis
    unfolding store_cluster_deployment_def Let_def
  proof (intro errors_and_then errors_simple)
    fix cw1 states
    assume "from_manager (\<lambda>m. map_err (StoreDeploymentListClusterPeerStates (cd_id y)) (cluster_peer_states E (cd_id y) m)) cw =
      (cw1, Inr states)"
    then have "cw1 = cw" by (simp add: from_manager_def)
    with insert show "errors_are sendable_deployment_error
        (case check_all_peers_are_available_not_necessarily_online states of
          AllPeersAvailable \<Rightarrow> on_resources (collapse (StoreDeploymentPersistence (cd_id y) None)
            (resources_mut E (insert_deployment E y)))
        | NotAllPeersAvailable unavailable \<Rightarrow> fail_with (StoreDeploymentIllegalPeerState (cps_cluster_id states) None unavailable)
        | AlreadyDeployed \<Rightarrow> return_ok ()) cw1"
      by (simp split: ClusterDeployable.split)
  qed (simp add: errors_from_manager)
qed

lemma sendable_deployment_error: "sendable_deployment_error e \<Longrightarrow> api_store_deployment_from e = Inr f \<Longrightarrow> wf_api_store_deployment f"
  by (cases e rule: api_store_deployment_from.cases) auto

lemma client_store_peer_answer:
  assumes "ext_ok x" "link_up L" "wf_peer d"
  shows "client_store_peer L x E vpn d cw = map_run_err (\<lambda>e. UsageError (api_store_peer_from e)) (peers_store E vpn (norm_peer d)) cw"
proof -
  obtain cw' r where run: "peers_store E vpn (norm_peer d) cw = (cw', r)" by (metis surj_pair)
  have "wf_api_store_peer (api_store_peer_from e)" if "r = Inl e" for e
    using errors_areD [OF peers_store_errors [of "norm_peer d"]] run that assms(3) by (metis wf_norm_peer)
  then have "client_call (store_peer_failure_from_proto x) (\<lambda>peer_id. extract_or_client_error ''success.peer_id'' peer_id (peer_id_from_proto x))
      (rpc L (replying (\<lambda>e. Inr (store_peer_failure_to_proto x (api_store_peer_from e))) (\<lambda>p. Some (peer_id_to_proto x p))
        (peers_store E vpn (norm_peer d)))) cw =
    (cw', case r of Inr a \<Rightarrow> Inr a | Inl e \<Rightarrow> Inl (as_seen L (\<lambda>e. Inr (api_store_peer_from e)) e))"
    using assms(1,2) run
    by - (rule store_peer_answer.answer [where operation = "peers_store E vpn (norm_peer d)" and w = cw and r = r], simp_all)
  then show ?thesis
    using assms(1,3) run by (cases r) (simp_all add: client_store_peer_def serve_store_peer_def map_run_err_def)
qed

lemma client_delete_peer_answer:
  assumes "ext_ok x" "link_up L" "stored_ok (rm_tables (cw_manager cw))"
  shows "client_delete_peer L x E vpn oidc p cw =
    map_run_err (as_seen L api_delete_peer_from) (and_then (peers_delete E vpn oidc p) (\<lambda>d. return_ok (pd_id d))) cw"
proof -
  obtain cw' r where run: "peers_delete E vpn oidc p cw = (cw', r)" by (metis surj_pair)
  have "wf_api_delete_peer f" if "r = Inl e" "api_delete_peer_from e = Inr f" for e f
    using errors_areD [OF peers_delete_errors [OF assms(3)]] run that by metis
  then have "client_call (delete_peer_failure_from_proto x) (\<lambda>peer_id. extract_or_client_error ''success.peer_id'' peer_id (peer_id_from_proto x))
      (rpc L (replying (\<lambda>e. map_ok (delete_peer_failure_to_proto x) (api_delete_peer_from e)) (\<lambda>peer. Some (peer_id_to_proto x (pd_id peer)))
        (peers_delete E vpn oidc p))) cw =
    (cw', case r of Inr a \<Rightarrow> Inr (pd_id a) | Inl e \<Rightarrow> Inl (as_seen L api_delete_peer_from e))"
    using assms(1,2) run
    by - (rule delete_peer_answer.answer [where operation = "peers_delete E vpn oidc p" and w = cw and r = r], simp_all)
  then show ?thesis
    using assms(1) run
    by (cases r) (simp_all add: client_delete_peer_def serve_delete_peer_def run_defs)
qed

lemma client_store_configuration_answer:
  assumes "ext_ok x" "link_up L" "wf_cluster k"
  shows "client_store_configuration L x E k cw =
    map_run_err (\<lambda>e. UsageError (api_create_configuration_from e)) (clusters_create E k) cw"
proof -
  obtain cw' r where run: "clusters_create E k cw = (cw', r)" by (metis surj_pair)
  have "wf_api_create_configuration (api_create_configuration_from e)" if "r = Inl e" for e
    using errors_areD [OF clusters_create_errors [OF assms(3)]] run that by metis
  then have "client_call (create_configuration_failure_from_proto x) (\<lambda>c. extract_or_client_error ''success.cluster_id'' c (cluster_id_from_proto x))
      (rpc L (replying (\<lambda>e. Inr (create_configuration_failure_to_proto x (api_create_configuration_from e)))
        (\<lambda>c. Some (cluster_id_to_proto x c)) (clusters_create E k))) cw =
    (cw', case r of Inr a \<Rightarrow> Inr a | Inl e \<Rightarrow> Inl (as_seen L (\<lambda>e. Inr (api_create_configuration_from e)) e))"
    using assms(1,2) run
    by - (rule create_configuration_answer.answer [where operation = "clusters_create E k" and w = cw and r = r], simp_all)
  then show ?thesis
    using assms(1,3) run by (cases r) (simp_all add: client_store_configuration_def serve_create_configuration_def map_run_err_def)
qed

lemma client_delete_configuration_answer:
  assumes "ext_ok x" "link_up L" "stored_ok (rm_tables (cw_manager cw))"
  shows "client_delete_configuration L x E c cw =
    map_run_err (\<lambda>e. UsageError (api_delete_configuration_from e)) (clusters_delete E c) cw"
proof -
  obtain cw' r where run: "clusters_delete E c cw = (cw', r)" by (metis surj_pair)
  have "wf_api_delete_configuration (api_delete_configuration_from e)" if "r = Inl e" for e
    using errors_areD [OF clusters_delete_errors] run that by metis
  moreover have "wf_cluster k" if "r = Inr k" for k
    using clusters_delete_answer [OF assms(3)] run that by metis
  ultimately have "client_call (delete_configuration_failure_from_proto x)
      (\<lambda>configuration. extract_or_client_error ''success.cluster_configuration'' configuration (cluster_configuration_from_proto x))
      (rpc L (replying (\<lambda>e. Inr (delete_configuration_failure_to_proto x (api_delete_configuration_from e)))
        (\<lambda>configuration. Some (cluster_configuration_to_proto x configuration)) (clusters_delete E c))) cw =
    (cw', case r of Inr a \<Rightarrow> Inr a | Inl e \<Rightarrow> Inl (as_seen L (\<lambda>e. Inr (api_delete_configuration_from e)) e))"
    using assms(1,2) run
    by - (rule delete_configuration_answer.answer [where operation = "clusters_delete E c" and w = cw and r = r], simp_all)
  then show ?thesis
    using assms(1) run by (cases r) (simp_all add: client_delete_configuration_def serve_delete_configuration_def map_run_err_def)
qed

lemma client_store_deployment_answer:
  assumes "ext_ok x" "link_up L" "stored_ok (rm_tables (cw_manager cw))"
  shows "client_store_deployment L x E opts vpn y cw =
    map_run_err (as_seen L api_store_deployment_from) (store_cluster_deployment x E opts vpn y) cw"
proof -
  obtain cw' r where run: "store_cluster_deployment x E opts vpn y cw = (cw', r)" by (metis surj_pair)
  have "wf_api_store_deployment f" if "r = Inl e" "api_store_deployment_from e = Inr f" for e f
    using errors_areD [OF store_deployment_errors [OF assms(3)]] run that sendable_deployment_error by metis
  then have "client_call (store_deployment_failure_from_proto x) (\<lambda>c. extract_or_client_error ''success.cluster_id'' c (cluster_id_from_proto x))
      (rpc L (replying (\<lambda>e. map_ok (store_deployment_failure_to_proto x) (api_store_deployment_from e))
        (\<lambda>c. Some (cluster_id_to_proto x c)) (store_cluster_deployment x E opts vpn y))) cw =
    (cw', case r of Inr a \<Rightarrow> Inr a | Inl e \<Rightarrow> Inl (as_seen L api_store_deployment_from e))"
    using assms(1,2) run
    by - (rule store_deployment_answer.answer [where operation = "store_cluster_deployment x E opts vpn y" and w = cw and r = r], simp_all)
  then show ?thesis
    using assms(1) run by (cases r) (simp_all add: client_store_deployment_def serve_store_deployment_def map_run_err_def)
qed

lemma client_delete_deployment_answer:
  assumes "ext_ok x" "link_up L" "stored_ok (rm_tables (cw_manager cw))"
  shows "client_delete_deployment L x E vpn c cw =
    map_run_err (\<lambda>e. UsageError (api_delete_deployment_from e)) (clusters_undeploy E vpn c) cw"
proof -
  obtain cw' r where run: "clusters_undeploy E vpn c cw = (cw', r)" by (metis surj_pair)
  have "wf_api_delete_deployment (api_delete_deployment_from e)" if "r = Inl e" for e
    using errors_areD [OF clusters_undeploy_errors [OF assms(3)]] run that by metis
  then have "client_call (delete_deployment_failure_from_proto x)
      (\<lambda>deployment. extract_or_client_error ''success.cluster_deployment'' deployment (cluster_deployment_from_proto x))
      (rpc L (replying (\<lambda>e. Inr (delete_deployment_failure_to_proto x (api_delete_deployment_from e)))
        (\<lambda>deployment. Some (cluster_deployment_to_proto x deployment)) (clusters_undeploy E vpn c))) cw =
    (cw', case r of Inr a \<Rightarrow> Inr a | Inl e \<Rightarrow> Inl (as_seen L (\<lambda>e. Inr (api_delete_deployment_from e)) e))"
    using assms(1,2) run
    by - (rule delete_deployment_answer.answer [where operation = "clusters_undeploy E vpn c" and w = cw and r = r], simp_all)
  then show ?thesis
    using assms(1) run by (cases r) (simp_all add: client_delete_deployment_def serve_delete_deployment_def map_run_err_def)
qed


section \<open>A lost answer\<close>

lemma update_again: "AList.update i v (AList.update i v m) = AList.update i v m"
  by (induction m) auto

lemma peers_store_fair:
  assumes "fair E"
  shows "peers_store E vpn d cw =
    (case vpn_create_new vpn (map_of (t_peer_descriptors (rm_tables (cw_manager cw))) (pd_id d) = None) (pd_id d) (cw_vpn cw) of
       (w, Inl e) \<Rightarrow> (cw\<lparr> cw_vpn := w \<rparr>, Inl (StorePeerVpnClient (pd_id d) (pd_name d) e))
     | (w, Inr _) \<Rightarrow>
         (cw\<lparr> cw_manager :=
            \<lparr> rm_tables = (rm_tables (cw_manager cw))\<lparr> t_peer_descriptors :=
                AList.update (pd_id d) (norm_peer d) (t_peer_descriptors (rm_tables (cw_manager cw))) \<rparr>,
              rm_sent = send_relayed_subscription_events (channel_capacity E)
                (no_events\<lparr> ch_peer_descriptor := [Inserted (pd_id d) d] \<rparr>) (rm_sent (cw_manager cw)) \<rparr>,
            cw_vpn := w \<rparr>, Inr (pd_id d)))"
  using assms
  by (auto simp: peers_store_def with_servers_def collapse_def resources_mut_io_fair store_peer_descriptor_eq
      resources_insert_def PeerDescriptors_def no_events_def split: prod.split sum.split)

text \<open>C23: storing a peer may be repeated. When the answer to a store is lost on its way back, the caller
  gets an error although the peer has been stored; sending the same descriptor again succeeds,
  leaves all tables as the first call has left them, and does not register the peer at the VPN
  server a second time.\<close>

theorem repeating_a_store_is_safe:
  assumes "ext_ok x" "fair E" "wf_peer d"
    and lost: "link_request_lost L = None" "link_response_lost L = Some status" and "link_up L'"
    and stored: "peers_store E vpn (norm_peer d) cw = (cw1, Inr p)"
  shows "client_store_peer L x E vpn d cw = (cw1, Inl (client_error_of_status status)) \<and>
    (\<exists>cw2. client_store_peer L' x E vpn d cw1 = (cw2, Inr p) \<and>
       rm_tables (cw_manager cw2) = rm_tables (cw_manager cw1) \<and> cw_vpn cw2 = cw_vpn cw1)"
proof
  have "client_store_peer L x E vpn d cw = (fst (peers_store E vpn (norm_peer d) cw), Inl (client_error_of_status status))"
    using store_peer_answer.lost_answer [OF lost] assms(1,3) by (simp add: client_store_peer_def serve_store_peer_def)
  then show "client_store_peer L x E vpn d cw = (cw1, Inl (client_error_of_status status))" by (simp add: stored)
  let ?t = "rm_tables (cw_manager cw)" and ?i = "pd_id (norm_peer d)"
  have t1: "rm_tables (cw_manager cw1) = ?t\<lparr> t_peer_descriptors := AList.update ?i (norm_peer d) (t_peer_descriptors ?t) \<rparr>"
    and p: "p = ?i"
    using stored by (auto simp: peers_store_fair [OF assms(2)] split: prod.splits sum.splits)
  obtain cw2 where second: "peers_store E vpn (norm_peer d) cw1 = (cw2, Inr p)"
    and same: "rm_tables (cw_manager cw2) = rm_tables (cw_manager cw1)" "cw_vpn cw2 = cw_vpn cw1"
    by (simp add: peers_store_fair [OF assms(2)] t1 p vpn_create_new_def return_ok_def update_again)
  have "client_store_peer L' x E vpn d cw1 = (cw2, Inr p)"
    using second by (simp add: client_store_peer_answer [OF assms(1) \<open>link_up L'\<close> assms(3)] map_run_err_def)
  with same show "\<exists>cw2. client_store_peer L' x E vpn d cw1 = (cw2, Inr p) \<and>
       rm_tables (cw_manager cw2) = rm_tables (cw_manager cw1) \<and> cw_vpn cw2 = cw_vpn cw1" by blast
qed

section \<open>Concrete runs\<close>

definition direct_link :: link where
  "direct_link = \<lparr> link_request_lost = None, link_response_lost = None, link_panic = internal_status, link_status_text = status_message \<rparr>"

definition losing_link :: link where
  "losing_link = direct_link\<lparr> link_response_lost := Some (internal_status ''transport error'') \<rparr>"

lemma direct_link [simp]: "link_up direct_link"
  by (simp add: link_up_def direct_link_def)

text \<open>The sample tables with the peer as it is read back from the storage.\<close>

definition stored_tables :: tables where
  "stored_tables = sample_tables\<lparr> t_peer_descriptors := [(PeerId 3, norm_peer (sample_peer 3 [sample_device 10]))] \<rparr>"

lemma stored_tables_ok: "stored_ok stored_tables"
  by (simp add: stored_ok_def stored_tables_def sample_tables_def no_tables_def wf_sample_peer wf_sample_cluster)

text \<open>A peer is stored, a message without its field and one without an id follow; then the peer is listed.\<close>

definition three_requests :: "unit api_request list" where
  "three_requests = [RequestStorePeer fair_env (Some (peer_to_proto decimal_ext (sample_peer 3 [sample_device 10]))),
     RequestStorePeer full_disk_env None, RequestDeleteDeployment fair_env None]"

lemma three_requests_served:
  "t_peer_descriptors (rm_tables (cw_manager (serve_requests decimal_ext sample_options VpnOff three_requests (world_of no_tables)))) =
     [(PeerId 3, norm_peer (sample_peer 3 [sample_device 10]))]"
proof -
  have "extract_or_invalid_argument ''request.peer'' (Some (peer_to_proto decimal_ext (sample_peer 3 [sample_device 10])))
      (peer_from_proto decimal_ext) = Inr (norm_peer (sample_peer 3 [sample_device 10]))"
    by (rule extract_valid) (simp add: wf_sample_peer)
  moreover have "pd_id (norm_peer (sample_peer 3 [sample_device 10])) = PeerId 3"
    by (simp add: norm_peer_def sample_peer_def)
  ultimately show ?thesis
    by (simp add: three_requests_def serve_requests_def serve_store_peer_def serve_delete_deployment_def peers_store_fair
        vpn_create_new_def extract_or_invalid_argument_def run_defs no_tables_def)
qed

theorem whatever_was_sent_can_be_listed_witness:
  "snd (client_list_peers direct_link decimal_ext fair_env
      (serve_requests decimal_ext sample_options VpnOff three_requests (world_of no_tables))) =
    Inr [norm_peer (sample_peer 3 [sample_device 10])]"
proof -
  have "stored_ok no_tables" by (simp add: stored_ok_def no_tables_def)
  then have "stored_ok (rm_tables (cw_manager (world_of no_tables)))" by simp
  from whatever_was_sent_can_be_listed [OF ext_ok_decimal fair_env direct_link this refl, of sample_options VpnOff three_requests]
  show ?thesis by (simp add: three_requests_served)
qed


theorem repeating_a_store_is_safe_witness:
  "\<exists>cw2. client_store_peer direct_link decimal_ext fair_env (VpnEnabled list_vpn_client) (sample_peer 3 [sample_device 10])
      (fst (client_store_peer losing_link decimal_ext fair_env (VpnEnabled list_vpn_client) (sample_peer 3 [sample_device 10])
        \<lparr> cw_manager = empty_manager, cw_broker = no_broker, cw_vpn = [], can_server_port_counter = 10000 \<rparr>)) =
      (cw2, Inr (PeerId 3)) \<and> cw_vpn cw2 = [PeerId 3]"
proof -
  let ?cw = "\<lparr> cw_manager = empty_manager, cw_broker = no_broker, cw_vpn = [], can_server_port_counter = 10000 \<rparr>"
  have id: "pd_id (norm_peer (sample_peer 3 [sample_device 10])) = PeerId 3"
    by (simp add: norm_peer_def sample_peer_def)
  obtain cw1 where first: "peers_store fair_env (VpnEnabled list_vpn_client) (norm_peer (sample_peer 3 [sample_device 10])) ?cw = (cw1, Inr (PeerId 3))"
    and vpn: "cw_vpn cw1 = [PeerId 3]"
    by (simp add: peers_store_fair id empty_manager_def no_tables_def vpn_create_new_def list_vpn_client_def)
  have "link_request_lost losing_link = None" "link_response_lost losing_link = Some (internal_status ''transport error'')"
    by (simp_all add: losing_link_def direct_link_def)
  from repeating_a_store_is_safe [OF ext_ok_decimal fair_env wf_sample_peer this direct_link first] vpn
  show ?thesis by auto
qed

end
