(* ===== verification/SamplePoints.thy ===== *)
theory SamplePoints
  imports Types
begin

text \<open>
  Sample points given as \<open>f32\<close> (opendut-types/src/util/net.rs). The floats are modelled by their
  sign, mantissa and exponent, with the operations the code uses of them: the product with 1000 and
  the quotient of two integers, rounded to the nearest float with ties to even, \<open>round()\<close> (ties away
  from zero), and \<open>as u32\<close>, which saturates and sends not-a-number to zero.
\<close>

section \<open>Single precision floats\<close>

text \<open>\<open>F32Finite negative m e\<close> is \<open>m * 2 ^ e\<close>, with \<open>m < 2 ^ 24\<close> and \<open>e\<close> from -149 to 104.\<close>

datatype f32 = F32Nan | F32Infinite bool | F32Finite bool nat int

fun bit_length :: "nat \<Rightarrow> nat" where
  "bit_length n = (if n = 0 then 0 else Suc (bit_length (n div 2)))"

declare bit_length.simps [simp del]

lemma bit_length_le_iff: "bit_length n \<le> k \<longleftrightarrow> n < 2 ^ k"
proof (induction n arbitrary: k rule: bit_length.induct)
  case (1 n)
  show ?case
  proof (cases "n = 0")
    case False
    then show ?thesis using 1 [OF False, of "k - 1"]
      by (cases k) (auto simp: bit_length.simps [of n])
  qed (simp add: bit_length.simps)
qed

lemma bit_length_eqI: "2 ^ k \<le> n \<Longrightarrow> n < 2 ^ Suc k \<Longrightarrow> bit_length n = Suc k"
  using bit_length_le_iff [of n k] bit_length_le_iff [of n "Suc k"] by linarith

text \<open>The quotient of two integers, rounded to the nearest one with ties to even.\<close>

definition round_half_even :: "nat \<Rightarrow> nat \<Rightarrow> nat" where
  "round_half_even a b =
     (let q = a div b; r = a mod b in if b < 2 * r \<or> (2 * r = b \<and> odd q) then Suc q else q)"

lemma round_half_even_near:
  assumes "0 < b"
  shows "2 * a \<le> 2 * (b * round_half_even a b) + b" and "2 * (b * round_half_even a b) \<le> 2 * a + b"
proof -
  obtain q r where qr: "a div b = q" "a mod b = r" by simp
  then have "a = b * q + r" "r < b" using assms by auto
  then show "2 * a \<le> 2 * (b * round_half_even a b) + b" "2 * (b * round_half_even a b) \<le> 2 * a + b"
    by (simp_all add: round_half_even_def Let_def qr)
qed

text \<open>A rounded mantissa of 25 bits is \<open>2 ^ 24\<close>; beyond the range of the floats is infinity.\<close>

definition f32_finite :: "bool \<Rightarrow> nat \<Rightarrow> int \<Rightarrow> f32" where
  "f32_finite negative m e =
     (let (m, e) = (if m = 2 ^ 24 then (2 ^ 23, e + 1) else (m, e))
      in if 0 \<le> e \<and> 2 ^ 128 \<le> m * 2 ^ nat e then F32Infinite negative else F32Finite negative m e)"

fun f32_times_1000 :: "f32 \<Rightarrow> f32" where
  "f32_times_1000 F32Nan = F32Nan"
| "f32_times_1000 (F32Infinite negative) = F32Infinite negative"
| "f32_times_1000 (F32Finite negative m e) =
     (let p = m * 1000; k = bit_length p - 24
      in f32_finite negative (round_half_even p (2 ^ k)) (e + int k))"

definition f32_of_quotient :: "nat \<Rightarrow> nat \<Rightarrow> f32" where
  "f32_of_quotient n d =
     (if n = 0 then F32Finite False 0 0
      else let b = int (bit_length n) - int (bit_length d);
               at_least = (if 0 \<le> b then d * 2 ^ nat b \<le> n else d \<le> n * 2 ^ nat (- b));
               e = (if at_least then b - 23 else b - 24)
           in f32_finite False
                (if 0 \<le> e then round_half_even n (d * 2 ^ nat e) else round_half_even (n * 2 ^ nat (- e)) d) e)"

fun f32_round :: "f32 \<Rightarrow> f32" where
  "f32_round F32Nan = F32Nan"
| "f32_round (F32Infinite negative) = F32Infinite negative"
| "f32_round (F32Finite negative m e) =
     (if 0 \<le> e then F32Finite negative m e
      else F32Finite negative ((2 * m + 2 ^ nat (- e)) div (2 * 2 ^ nat (- e))) 0)"

definition saturated_u32 :: "nat \<Rightarrow> u32" where
  "saturated_u32 n = word_of_nat (min n (2 ^ 32 - 1))"

fun f32_as_u32 :: "f32 \<Rightarrow> u32" where
  "f32_as_u32 F32Nan = 0"
| "f32_as_u32 (F32Infinite negative) = (if negative then 0 else saturated_u32 (2 ^ 32 - 1))"
| "f32_as_u32 (F32Finite negative m e) =
     (if negative then 0
      else saturated_u32 (if 0 \<le> e then m * 2 ^ nat e else m div 2 ^ nat (- e)))"

section \<open>Sample points\<close>

text \<open>The variant of \<open>CanSamplePointError\<close> for floats, with the value itself in place of its text.\<close>

datatype CanSamplePointFloatError = SamplePointOutOfRangeFloat f32

definition can_sample_point_try_from_f32 :: "f32 \<Rightarrow> CanSamplePointFloatError + CanSamplePoint" where
  "can_sample_point_try_from_f32 value =
     (let sample_point_times_1000 = f32_as_u32 (f32_round (f32_times_1000 value))
      in if 0 \<le> sample_point_times_1000 \<and> sample_point_times_1000 < 1000
         then Inr (CanSamplePoint sample_point_times_1000)
         else Inl (SamplePointOutOfRangeFloat value))"

definition can_sample_point_as_f32 :: "CanSamplePoint \<Rightarrow> f32" where
  "can_sample_point_as_f32 p = f32_of_quotient (unat (sample_point_times_1000 p)) 1000"

lemma sample_point_of_float_valid: "can_sample_point_try_from_f32 v = Inr p \<Longrightarrow> valid_sample_point p"
  by (auto simp: can_sample_point_try_from_f32_def valid_sample_point_def Let_def word_less_nat_alt split: if_splits)

text \<open>Not-a-number and every negative float pass the test of the range, as the sample point zero.\<close>

lemma nan_is_a_sample_point: "can_sample_point_try_from_f32 F32Nan = Inr (CanSamplePoint 0)"
  by (simp add: can_sample_point_try_from_f32_def)

lemma negative_floats_are_sample_points: "can_sample_point_try_from_f32 (F32Finite True m e) = Inr (CanSamplePoint 0)"
  by (simp add: can_sample_point_try_from_f32_def f32_finite_def Let_def)

text \<open>The quotient \<open>n / 1000\<close>, rounded, has a mantissa of 24 bits and an exponent below -22.\<close>

lemma f32_finite_small: "m < 2 ^ 24 \<Longrightarrow> f32_finite s m (- int k) = F32Finite s m (- int k)"
  by (auto simp: f32_finite_def)

lemma f32_finite_full: "0 < k \<Longrightarrow> f32_finite s (2 ^ 24) (- int k) = F32Finite s (2 ^ 23) (- int (k - 1))"
  by (auto simp: f32_finite_def)

text \<open>Mantissas that are rounded to 24 bits lie between \<open>2 ^ 23\<close> and \<open>2 ^ 24\<close>.\<close>

lemma round_half_even_ge: "0 < b \<Longrightarrow> b * c \<le> a \<Longrightarrow> c \<le> round_half_even a b"
proof -
  assume "0 < b" "b * c \<le> a"
  then have "c \<le> a div b" by (simp add: less_eq_div_iff_mult_less_eq mult.commute)
  then show ?thesis by (auto simp: round_half_even_def Let_def)
qed

lemma round_half_even_le: "a < b * c \<Longrightarrow> round_half_even a b \<le> c"
proof -
  assume "a < b * c"
  then have "a div b < c" by (simp add: less_mult_imp_div_less mult.commute)
  then show ?thesis by (auto simp: round_half_even_def Let_def)
qed

text \<open>The quotient of a number below 1000 and 1000, before and after scaling it into the range of mantissas.\<close>

lemma f32_of_thousandth:
  assumes "0 < n" and "n < 1000"
  obtains m k where "f32_of_quotient n 1000 = F32Finite False m (- int k)" and "23 \<le> k" and "2 ^ 23 \<le> m" and "m < 2 ^ 24"
    and "2 * (n * 2 ^ k) \<le> 2 * (1000 * m) + 1000" and "2 * (1000 * m) \<le> 2 * (n * 2 ^ k) + 1000"
proof -
  define l where "l = bit_length n"
  have "bit_length 1000 = 10" using bit_length_eqI [of 9 1000] by simp
  have "l \<le> 10" using assms bit_length_le_iff [of n 10] by (simp add: l_def)
  have "0 < l" using assms by (simp add: l_def bit_length.simps [of n])
  define N where "N = n * 2 ^ (10 - l)"
  have "n < 2 ^ l" using bit_length_le_iff [of n l] by (simp add: l_def)
  moreover have "2 ^ (l - 1) \<le> n"
    using bit_length_le_iff [of n "l - 1"] \<open>0 < l\<close> unfolding l_def by linarith
  ultimately have "n < 2 ^ l" "2 ^ (l - 1) \<le> n" .
  then have "N < 2 ^ l * 2 ^ (10 - l)" "2 ^ (l - 1) * 2 ^ (10 - l) \<le> N" by (simp_all add: N_def)
  then have N: "N < 1024" "512 \<le> N"
    using \<open>l \<le> 10\<close> \<open>0 < l\<close> by (simp_all add: power_add [symmetric])
  define k where "k = (if 1000 \<le> N then 33 - l else 34 - l)"
  define m where "m = round_half_even (n * 2 ^ k) 1000"
  have b: "int l - int 10 = - int (10 - l)" using \<open>l \<le> 10\<close> by simp
  have exponent: "(if 1000 \<le> N then - int (10 - l) - 23 else - int (10 - l) - 24) = - int k"
    using \<open>l \<le> 10\<close> by (simp add: k_def of_nat_diff)
  have at_least: "(if 0 \<le> - int (10 - l) then 1000 * 2 ^ nat (- int (10 - l)) \<le> n else 1000 \<le> n * 2 ^ nat (- (- int (10 - l)))) \<longleftrightarrow> 1000 \<le> N"
  proof -
    have "(if 0 \<le> - int r then 1000 * 2 ^ nat (- int r) \<le> n else 1000 \<le> n * 2 ^ nat (- (- int r))) \<longleftrightarrow> 1000 \<le> n * 2 ^ r" for r
      using assms by (cases "r = 0") simp_all
    then show ?thesis unfolding N_def .
  qed
  have "23 \<le> k" using \<open>l \<le> 10\<close> by (auto simp: k_def)
  have scaled: "n * 2 ^ k = N * 2 ^ (k - (10 - l))"
    using \<open>23 \<le> k\<close> \<open>l \<le> 10\<close> by (simp add: N_def power_add [symmetric])
  have "1000 * 2 ^ 23 \<le> n * 2 ^ k \<and> n * 2 ^ k < 1000 * (2 ^ 24 - 1)"
    using N \<open>l \<le> 10\<close> unfolding scaled by (auto simp: k_def)
  then have "2 ^ 23 \<le> m" "m \<le> 2 ^ 24 - 1"
    unfolding m_def by (simp_all only: round_half_even_ge round_half_even_le zero_less_numeral)
  then have "m < 2 ^ 24" by simp
  have "f32_of_quotient n 1000 =
      (if n = 0 then F32Finite False 0 0
       else f32_finite False (if 0 \<le> - int k then round_half_even n (1000 * 2 ^ nat (- int k)) else round_half_even (n * 2 ^ nat (- (- int k))) 1000) (- int k))"
    unfolding f32_of_quotient_def Let_def \<open>bit_length 1000 = 10\<close> l_def [symmetric] b at_least exponent by (rule refl)
  also have "\<dots> = F32Finite False m (- int k)"
    using assms \<open>23 \<le> k\<close> \<open>m < 2 ^ 24\<close> by (simp add: m_def [symmetric] f32_finite_small)
  finally have "f32_of_quotient n 1000 = F32Finite False m (- int k)" .
  with that \<open>23 \<le> k\<close> \<open>2 ^ 23 \<le> m\<close> \<open>m < 2 ^ 24\<close> round_half_even_near [of 1000 "n * 2 ^ k"] show thesis
    by (simp add: m_def)
qed

text \<open>Scaling the quotient back by 1000 and rounding gives the number: the two roundings of a mantissa of
  24 bits are too small to reach the next half.\<close>

lemma div_half_up: "2 * (n * d) \<le> 2 * m + d \<Longrightarrow> 2 * m + d < 2 * (n * d) + 2 * d \<Longrightarrow> 0 < d \<Longrightarrow> (2 * m + d) div (2 * d) = n"
  for n d m :: nat
  by (rule div_nat_eqI) (simp_all add: algebra_simps)

lemma f32_round_half_up:
  assumes "2 * (n * 2 ^ d) \<le> 2 * m + 2 ^ d" and "2 * m + 2 ^ d < 2 * (n * 2 ^ d) + 2 * 2 ^ d" and "0 < d"
  shows "f32_round (F32Finite s m (- int d)) = F32Finite s n 0"
  using div_half_up [OF assms(1,2)] assms(3) by simp

lemma f32_round_half_up_finite:
  assumes "2 * (n * 2 ^ d) \<le> 2 * m + 2 ^ d" and "2 * m + 2 ^ d < 2 * (n * 2 ^ d) + 2 * 2 ^ d" and "1 < d" and "m \<le> 2 ^ 24"
  shows "f32_round (f32_finite s m (- int d)) = F32Finite s n 0"
proof (cases "m = 2 ^ 24")
  case True
  obtain d' where d: "d = Suc d'" "0 < d'" using \<open>1 < d\<close> by (cases d) auto
  then have "f32_finite s m (- int d) = F32Finite s (2 ^ 23) (- int d')"
    using f32_finite_full [of d s] True by simp
  moreover have "2 * (n * 2 ^ d') \<le> 2 * 2 ^ 23 + 2 ^ d'" "2 * 2 ^ 23 + 2 ^ d' < 2 * (n * 2 ^ d') + 2 * 2 ^ d'"
    using assms(1,2) True d by simp_all
  ultimately show ?thesis using f32_round_half_up [of n d' "2 ^ 23" s] d by simp
next
  case False
  with assms show ?thesis using f32_round_half_up [of n d m] by (simp add: f32_finite_small)
qed

lemma sample_point_roundtrip_code:
  assumes "2 ^ 23 \<le> m" and "m < 2 ^ 24" and "n < 1000" and "23 \<le> k"
    and "2 * (n * 2 ^ k) \<le> 2 * (1000 * m) + 1000" and "2 * (1000 * m) \<le> 2 * (n * 2 ^ k) + 1000"
  shows "f32_round (f32_times_1000 (F32Finite False m (- int k))) = F32Finite False n 0"
proof -
  define j where "j = bit_length (m * 1000) - 24"
  define m' where "m' = round_half_even (m * 1000) (2 ^ j)"
  have "bit_length (m * 1000) = Suc 32 \<or> bit_length (m * 1000) = Suc 33"
  proof (cases "m * 1000 < 2 ^ Suc 32")
    case True
    with assms(1) have "bit_length (m * 1000) = Suc 32" by (intro bit_length_eqI) simp_all
    then show ?thesis ..
  next
    case False
    with assms(2) have "bit_length (m * 1000) = Suc 33" by (intro bit_length_eqI) simp_all
    then show ?thesis ..
  qed
  then have j: "j = 9 \<or> j = 10" "m * 1000 < 2 ^ j * 2 ^ 24"
    using bit_length_le_iff [of "m * 1000" "bit_length (m * 1000)"] by (auto simp: j_def)
  define d where "d = k - j"
  have d: "13 \<le> d" "k = j + d" using \<open>23 \<le> k\<close> j by (auto simp: d_def)
  then have "(2::nat) ^ 13 \<le> 2 ^ d" by (intro power_increasing) simp_all
  moreover have "n * 2 ^ k = 2 ^ j * (n * 2 ^ d)" by (simp add: d power_add)
  moreover have "2 * (m * 1000) \<le> 2 * (2 ^ j * m') + 2 ^ j" "2 * (2 ^ j * m') \<le> 2 * (m * 1000) + 2 ^ j"
    unfolding m'_def by (rule round_half_even_near; simp)+
  ultimately have "2 * (n * 2 ^ d) \<le> 2 * m' + 2 ^ d \<and> 2 * m' + 2 ^ d < 2 * (n * 2 ^ d) + 2 * 2 ^ d"
    using assms(5,6) j(1) by auto
  moreover have "m' \<le> 2 ^ 24" unfolding m'_def by (rule round_half_even_le [OF j(2)])
  moreover have "- int k + int j = - int d" by (simp add: d)
  ultimately show ?thesis
    using f32_round_half_up_finite [of n d m' False] \<open>13 \<le> d\<close>
    by (simp add: j_def [symmetric] m'_def [symmetric] Let_def)
qed

text \<open>Every sample point survives being turned into a float and back.\<close>

lemma sample_point_survives_float:
  assumes "valid_sample_point p"
  shows "can_sample_point_try_from_f32 (can_sample_point_as_f32 p) = Inr p"
proof -
  define n where "n = unat (sample_point_times_1000 p)"
  have "n < 1000" using assms by (simp add: n_def valid_sample_point_def)
  have "f32_as_u32 (f32_round (f32_times_1000 (f32_of_quotient n 1000))) = word_of_nat n"
  proof (cases "n = 0")
    case True
    then show ?thesis
      by (simp add: f32_of_quotient_def f32_finite_def Let_def saturated_u32_def bit_length.simps [of 0] round_half_even_def)
  next
    case False
    with f32_of_thousandth [OF _ \<open>n < 1000\<close>] sample_point_roundtrip_code [OF _ _ \<open>n < 1000\<close>]
    obtain v where "f32_of_quotient n 1000 = v" "f32_round (f32_times_1000 v) = F32Finite False n 0" by blast
    then show ?thesis using \<open>n < 1000\<close> by (simp add: saturated_u32_def)
  qed
  moreover have "word_of_nat n = sample_point_times_1000 p" by (simp add: n_def)
  ultimately show ?thesis
    using \<open>n < 1000\<close> by (cases p)
      (simp add: can_sample_point_try_from_f32_def can_sample_point_as_f32_def n_def [symmetric] word_less_nat_alt n_def)
qed

end
