(* ===== verification/Specifications.thy ===== *)
theory Specifications
  imports SamplePoints ProtoCluster
begin

text \<open>
  Specification documents (opendut-types/src/specs): the data a user writes in YAML or JSON, the kinds
  and versions of documents, and the two parsers that turn a document with an unparsed body into a
  specification. Reading the text is the work of \<open>serde_yaml\<close> and \<open>serde_json\<close>, whose functions are
  collected in one record for each.
\<close>

section \<open>Documents (specs/mod.rs, specs/cluster.rs, specs/peer.rs)\<close>

record SpecificationMetadata =
  meta_id :: uuid
  meta_name :: string

datatype SpecificationVersion = SpecificationV1 | SpecificationV2

record ClusterConfigurationSpecificationV1 =
  cs_leader_id :: uuid
  cs_devices :: "uuid list"

datatype ClusterConfigurationSpecification = ClusterSpecificationV1 ClusterConfigurationSpecificationV1

datatype NetworkInterfaceKind = EthernetKind | CanKind

record NetworkInterfaceConfigurationSpecification =
  ics_bitrate_kbps :: u32
  ics_sample_point :: f32
  ics_fd :: bool
  ics_data_bitrate_kbps :: u32
  ics_data_sample_point :: f32

record NetworkInterfaceDescriptorSpecificationV1 =
  ns_id :: uuid
  ns_name :: string
  ns_kind :: NetworkInterfaceKind
  ns_parameters :: "NetworkInterfaceConfigurationSpecification option"

record NetworkDescriptorSpecificationV1 =
  nws_interfaces :: "NetworkInterfaceDescriptorSpecificationV1 list"
  nws_bridge_name :: "string option"

record DeviceSpecificationV1 =
  ds_id :: uuid
  ds_name :: string
  ds_description :: "string option"
  ds_interface_id :: uuid
  ds_tags :: "string list"

record TopologySpecificationV1 = ts_devices :: "DeviceSpecificationV1 list"

datatype SpecificationExecutorKind = ExecutableSpecification | ContainerSpecification

datatype SpecificationEngineKind = DockerSpecification | PodmanSpecification

record SpecificationEnvVariable =
  evs_name :: string
  evs_value :: string

record ExecutorConfigurationSpecification =
  ecs_engine :: SpecificationEngineKind
  ecs_name :: "string option"
  ecs_image :: string
  ecs_volumes :: "string list"
  ecs_devices :: "string list"
  ecs_envs :: "SpecificationEnvVariable list"
  ecs_ports :: "string list"
  ecs_command :: "string option"
  ecs_command_args :: "string list"

record ExecutorSpecificationV1 =
  es_id :: uuid
  es_results_url :: "string option"
  es_kind :: SpecificationExecutorKind
  es_parameters :: "ExecutorConfigurationSpecification option"

record PeerDescriptorSpecificationV1 =
  ps_location :: "string option"
  ps_network :: NetworkDescriptorSpecificationV1
  ps_topology :: TopologySpecificationV1
  ps_executors :: "ExecutorSpecificationV1 list"

datatype PeerDescriptorSpecification = PeerSpecificationV1 PeerDescriptorSpecificationV1

datatype Specification =
    PeerDescriptorSpec PeerDescriptorSpecification
  | ClusterConfigurationSpec ClusterConfigurationSpecification

record SpecificationDocument =
  sd_version :: string
  sd_metadata :: SpecificationMetadata
  sd_spec :: Specification

section \<open>Parsing (specs/parse)\<close>

datatype ResourceKind = PeerDescriptorResource | ClusterConfigurationResource

datatype ParseSpecificationError =
    IllegalResourceKind string
  | IllegalSpecificationVersion string
  | UnknownVersion ResourceKind SpecificationVersion
  | IllegalYamlSpecification string
  | IllegalJsonSpecification string

text \<open>A document whose body is a value \<open>'v\<close> of the library.\<close>

record 'v raw_document =
  rd_kind :: string
  rd_version :: string
  rd_metadata :: SpecificationMetadata
  rd_spec :: 'v

text \<open>\<open>from_str\<close> and \<open>from_value\<close> of the library at the types the parsers use, and the documents of a
  text; the error is the library's message.\<close>

record 'v serde =
  serde_kind :: "string \<Rightarrow> string + ResourceKind"
  serde_version :: "string \<Rightarrow> string + SpecificationVersion"
  serde_cluster_specification :: "'v \<Rightarrow> string + ClusterConfigurationSpecificationV1"
  serde_peer_specification :: "'v \<Rightarrow> string + PeerDescriptorSpecificationV1"
  serde_document :: "'v \<Rightarrow> string + 'v raw_document"
  serde_document_from_str :: "string \<Rightarrow> string + 'v raw_document"
  serde_values_of_stream :: "string \<Rightarrow> (string + 'v) list"

subsection \<open>YAML (parse/yaml/document.rs, parse/yaml/file.rs)\<close>

definition yaml_parse_kind :: "'v serde \<Rightarrow> string \<Rightarrow> ParseSpecificationError + ResourceKind" where
  "yaml_parse_kind Y s = map_err (\<lambda>_. IllegalResourceKind s) (serde_kind Y s)"

definition yaml_parse_version :: "'v serde \<Rightarrow> string \<Rightarrow> ParseSpecificationError + SpecificationVersion" where
  "yaml_parse_version Y s =
     (case serde_version Y s of
        Inr version \<Rightarrow>
          (case version of SpecificationV1 \<Rightarrow> Inr SpecificationV1 | SpecificationV2 \<Rightarrow> Inr SpecificationV2)
      | Inl _ \<Rightarrow> Inl (IllegalSpecificationVersion s))"

fun yaml_parse_spec ::
    "'v serde \<Rightarrow> ResourceKind \<Rightarrow> SpecificationVersion \<Rightarrow> 'v \<Rightarrow> ParseSpecificationError + Specification" where
  "yaml_parse_spec Y ClusterConfigurationResource SpecificationV1 spec =
     map_ok (\<lambda>s. ClusterConfigurationSpec (ClusterSpecificationV1 s))
       (map_err IllegalYamlSpecification (serde_cluster_specification Y spec))"
| "yaml_parse_spec Y PeerDescriptorResource SpecificationV1 spec =
     map_ok (\<lambda>s. PeerDescriptorSpec (PeerSpecificationV1 s))
       (map_err IllegalYamlSpecification (serde_peer_specification Y spec))"
| "yaml_parse_spec Y kind version spec = Inl (UnknownVersion kind version)"

definition specification_from_yaml ::
    "'v serde \<Rightarrow> 'v raw_document \<Rightarrow> ParseSpecificationError + SpecificationDocument" where
  "specification_from_yaml Y doc =
     bind_sum (yaml_parse_kind Y (rd_kind doc)) (\<lambda>kind.
     bind_sum (yaml_parse_version Y (rd_version doc)) (\<lambda>version.
     bind_sum (yaml_parse_spec Y kind version (rd_spec doc)) (\<lambda>spec.
       Inr \<lparr> sd_version = rd_version doc, sd_metadata = rd_metadata doc, sd_spec = spec \<rparr>)))"

definition yaml_file_try_from_str :: "'v serde \<Rightarrow> string \<Rightarrow> ParseSpecificationError + 'v raw_document list" where
  "yaml_file_try_from_str Y s =
     map_err IllegalYamlSpecification
       (traverse (\<lambda>yaml_document. bind_sum yaml_document (serde_document Y)) (serde_values_of_stream Y s))"

subsection \<open>JSON (parse/json.rs)\<close>

definition json_document_try_from_str :: "'v serde \<Rightarrow> string \<Rightarrow> ParseSpecificationError + 'v raw_document" where
  "json_document_try_from_str J s =
     map_err IllegalJsonSpecification (serde_document_from_str J s)"

definition json_parse_kind :: "'v serde \<Rightarrow> string \<Rightarrow> ParseSpecificationError + ResourceKind" where
  "json_parse_kind J s = map_err (\<lambda>_. IllegalResourceKind s) (serde_kind J s)"

definition json_parse_version :: "'v serde \<Rightarrow> string \<Rightarrow> ParseSpecificationError + SpecificationVersion" where
  "json_parse_version J s = map_err (\<lambda>_. IllegalSpecificationVersion s) (serde_version J s)"

fun json_parse_spec ::
    "'v serde \<Rightarrow> ResourceKind \<Rightarrow> SpecificationVersion \<Rightarrow> 'v \<Rightarrow> ParseSpecificationError + Specification" where
  "json_parse_spec J ClusterConfigurationResource SpecificationV1 spec =
     map_ok (\<lambda>s. ClusterConfigurationSpec (ClusterSpecificationV1 s))
       (map_err IllegalJsonSpecification (serde_cluster_specification J spec))"
| "json_parse_spec J PeerDescriptorResource SpecificationV1 spec =
     map_ok (\<lambda>s. PeerDescriptorSpec (PeerSpecificationV1 s))
       (map_err IllegalJsonSpecification (serde_peer_specification J spec))"
| "json_parse_spec J kind version spec = Inl (UnknownVersion kind version)"

definition specification_from_json ::
    "'v serde \<Rightarrow> 'v raw_document \<Rightarrow> ParseSpecificationError + SpecificationDocument" where
  "specification_from_json J doc =
     bind_sum (json_parse_kind J (rd_kind doc)) (\<lambda>kind.
     bind_sum (json_parse_version J (rd_version doc)) (\<lambda>version.
     bind_sum (json_parse_spec J kind version (rd_spec doc)) (\<lambda>spec.
       Inr \<lparr> sd_version = rd_version doc, sd_metadata = rd_metadata doc, sd_spec = spec \<rparr>)))"

section \<open>What the parsers accept\<close>

text \<open>Only the first version of a specification exists, whatever the library reads as the second.\<close>

lemma yaml_second_version_unknown:
  "serde_kind Y (rd_kind doc) = Inr kind \<Longrightarrow> serde_version Y (rd_version doc) = Inr SpecificationV2 \<Longrightarrow>
     specification_from_yaml Y doc = Inl (UnknownVersion kind SpecificationV2)"
  by (cases kind) (simp_all add: specification_from_yaml_def yaml_parse_kind_def yaml_parse_version_def)

lemma specification_from_yaml_Inr:
  "specification_from_yaml Y doc = Inr d \<longleftrightarrow>
     sd_version d = rd_version doc \<and> sd_metadata d = rd_metadata doc \<and> SpecificationDocument.more d = () \<and>
     serde_version Y (rd_version doc) = Inr SpecificationV1 \<and>
     ((\<exists>s. serde_kind Y (rd_kind doc) = Inr PeerDescriptorResource \<and>
         serde_peer_specification Y (rd_spec doc) = Inr s \<and> sd_spec d = PeerDescriptorSpec (PeerSpecificationV1 s)) \<or>
      (\<exists>s. serde_kind Y (rd_kind doc) = Inr ClusterConfigurationResource \<and>
         serde_cluster_specification Y (rd_spec doc) = Inr s \<and>
         sd_spec d = ClusterConfigurationSpec (ClusterSpecificationV1 s)))"
  (is "?l \<longleftrightarrow> ?r")
proof -
  have spec: "yaml_parse_spec Y k v spec = Inr s \<longleftrightarrow> v = SpecificationV1 \<and>
      (k = PeerDescriptorResource \<and> (\<exists>p. serde_peer_specification Y spec = Inr p \<and> s = PeerDescriptorSpec (PeerSpecificationV1 p)) \<or>
       k = ClusterConfigurationResource \<and>
         (\<exists>c. serde_cluster_specification Y spec = Inr c \<and> s = ClusterConfigurationSpec (ClusterSpecificationV1 c)))" for k v spec s
    by (cases k; cases v) (auto simp: sum_iffs)
  have version: "yaml_parse_version Y s = Inr v \<longleftrightarrow> serde_version Y s = Inr v" for s v
    by (cases v) (auto simp: yaml_parse_version_def split: sum.split SpecificationVersion.split)
  show ?thesis
    by (cases d) (auto simp: specification_from_yaml_def yaml_parse_kind_def sum_iffs spec version)
qed

text \<open>
  A JSON text that stands for a variant of an enumeration is a string in quotation marks or an
  object with one such key. The parser hands the kind of the document to \<open>serde_json\<close> without its
  quotation marks.
\<close>

definition quotation_mark :: char where
  "quotation_mark = char_of (34::nat)"

lemma quotation_mark_char: "quotation_mark = CHR 0x22"
  unfolding quotation_mark_def by (rule char_of_eq_iff [THEN iffD2]) simp

definition json_enums_are_quoted :: "'v serde \<Rightarrow> bool" where
  "json_enums_are_quoted J \<longleftrightarrow> (\<forall>s k. serde_kind J s = Inr k \<longrightarrow> quotation_mark \<in> set s)"

definition resource_kind_name :: "ResourceKind \<Rightarrow> string" where
  "resource_kind_name k =
     (case k of PeerDescriptorResource \<Rightarrow> ''PeerDescriptor'' | ClusterConfigurationResource \<Rightarrow> ''ClusterConfiguration'')"

lemma json_kind_names_refused:
  assumes "json_enums_are_quoted J"
  shows "json_parse_kind J (resource_kind_name k) = Inl (IllegalResourceKind (resource_kind_name k))"
proof -
  have "quotation_mark \<notin> set (resource_kind_name k)"
    by (cases k) (simp_all add: quotation_mark_char resource_kind_name_def)
  then obtain e where "serde_kind J (resource_kind_name k) = Inl e"
    using assms unfolding json_enums_are_quoted_def by (cases "serde_kind J (resource_kind_name k)") blast+
  then show ?thesis by (simp add: json_parse_kind_def)
qed

end
