(* ===== verification/CleoApply.thy ===== *)
theory CleoApply
  imports Specifications WireTypes
begin

text \<open>
  The command \<open>cleo apply\<close> (opendut-cleo/src/commands/apply.rs, peer/apply.rs,
  cluster_configuration/apply.rs and the functions of create.rs it calls): reading the specification
  documents of a file or of an inline JSON text, converting them to peer descriptors and cluster
  configurations, and sending these to CARL. The file system and the client of CARL are parameters.
  An error is a text in the code; here it is the value that is formatted into the text.
\<close>

section \<open>Converting a peer (peer/apply.rs)\<close>

datatype specification_fault =
    BadPeerName IllegalPeerName
  | BadLocation IllegalLocation
  | BadBridgeName NetworkInterfaceNameError
  | BadInterfaceName NetworkInterfaceNameError
  | BadSamplePoint uuid CanSamplePointFloatError
  | BadDataSamplePoint uuid CanSamplePointFloatError
  | MissingCanParameters
  | BadDeviceTag uuid IllegalDeviceTag
  | BadDeviceDescription IllegalDeviceDescription
  | BadDeviceName uuid IllegalDeviceName
  | BadResultsUrl uuid IllegalResultsUrl
  | BadContainerName uuid IllegalContainerName
  | BadContainerImage uuid IllegalContainerImage
  | BadContainerVolume uuid IllegalContainerVolume
  | BadContainerDevice uuid IllegalContainerDevice
  | BadContainerEnv uuid IllegalContainerEnvironmentVariable
  | BadContainerPort uuid IllegalContainerPortSpec
  | BadContainerArgument uuid IllegalContainerCommandArgument
  | MissingContainerParameters
  | BadClusterName IllegalClusterName

text \<open>The product with 1000 is taken in \<open>u32\<close>: it wraps around in a release build.\<close>

definition convert_can_parameters ::
    "uuid \<Rightarrow> NetworkInterfaceConfigurationSpecification \<Rightarrow> specification_fault + NetworkInterfaceConfiguration" where
  "convert_can_parameters i parameters =
     bind_sum (map_err (BadSamplePoint i) (can_sample_point_try_from_f32 (ics_sample_point parameters))) (\<lambda>sample_point.
     bind_sum (map_err (BadDataSamplePoint i) (can_sample_point_try_from_f32 (ics_data_sample_point parameters))) (\<lambda>data_sample_point.
       Inr (Can (ics_bitrate_kbps parameters * 1000) sample_point (ics_fd parameters)
         (ics_data_bitrate_kbps parameters * 1000) data_sample_point)))"

definition convert_network_specification_to_descriptor ::
    "NetworkInterfaceDescriptorSpecificationV1 \<Rightarrow> specification_fault + NetworkInterfaceDescriptor" where
  "convert_network_specification_to_descriptor specification =
     bind_sum (map_err BadInterfaceName (network_interface_name_try_from (ns_name specification))) (\<lambda>name.
     bind_sum
       (case ns_kind specification of
          EthernetKind \<Rightarrow> Inr Ethernet
        | CanKind \<Rightarrow>
            (case ns_parameters specification of
               Some parameters \<Rightarrow> convert_can_parameters (ns_id specification) parameters
             | None \<Rightarrow> Inl MissingCanParameters)) (\<lambda>configuration.
       Inr \<lparr> ni_id = NetworkInterfaceId (ns_id specification), ni_name = name, ni_configuration = configuration \<rparr>))"

definition convert_device_specification_to_descriptor ::
    "DeviceSpecificationV1 \<Rightarrow> specification_fault + DeviceDescriptor" where
  "convert_device_specification_to_descriptor specification =
     bind_sum (traverse (\<lambda>tag. map_err (BadDeviceTag (ds_id specification)) (device_tag_try_from tag)) (ds_tags specification)) (\<lambda>tags.
     bind_sum (map_err BadDeviceDescription (transpose_map device_description_try_from (ds_description specification))) (\<lambda>description.
     bind_sum (map_err (BadDeviceName (ds_id specification)) (device_name_try_from (ds_name specification))) (\<lambda>name.
       Inr \<lparr> dev_id = DeviceId (ds_id specification), dev_name = name, dev_description = description,
             dev_interface = NetworkInterfaceId (ds_interface_id specification), dev_tags = tags \<rparr>)))"

definition convert_container_parameters ::
    "uuid \<Rightarrow> ExecutorConfigurationSpecification \<Rightarrow> specification_fault + Container" where
  "convert_container_parameters i parameters =
     (let engine = (case ecs_engine parameters of DockerSpecification \<Rightarrow> Docker | PodmanSpecification \<Rightarrow> Podman) in
     bind_sum (map_err (BadContainerName i) (transpose_map container_name_try_from (ecs_name parameters))) (\<lambda>name.
     bind_sum (map_err (BadContainerImage i) (container_image_try_from (ecs_image parameters))) (\<lambda>image.
     bind_sum (traverse (\<lambda>volume. map_err (BadContainerVolume i) (container_volume_try_from volume)) (ecs_volumes parameters)) (\<lambda>volumes.
     bind_sum (traverse (\<lambda>device. map_err (BadContainerDevice i) (container_device_try_from device)) (ecs_devices parameters)) (\<lambda>devices.
     bind_sum (traverse (\<lambda>env. map_err (BadContainerEnv i) (container_environment_variable_new (evs_name env) (evs_value env)))
         (ecs_envs parameters)) (\<lambda>envs.
     bind_sum (traverse (\<lambda>port. map_err (BadContainerPort i) (container_port_spec_try_from port)) (ecs_ports parameters)) (\<lambda>ports.
     bind_sum (traverse (\<lambda>arg. map_err (BadContainerArgument i) (container_command_argument_try_from arg)) (ecs_command_args parameters)) (\<lambda>args.
       Inr \<lparr> c_engine = engine, c_name = unwrap_or_default ContainerNameEmpty name, c_image = image,
             c_volumes = volumes, c_devices = devices, c_envs = envs, c_ports = ports,
             c_command = unwrap_or_default ContainerCommandDefault (map_option container_command_from (ecs_command parameters)),
             c_args = args \<rparr>))))))))"

definition convert_executor_specification_to_descriptor ::
    "ext \<Rightarrow> ExecutorSpecificationV1 \<Rightarrow> specification_fault + ExecutorDescriptor" where
  "convert_executor_specification_to_descriptor x specification =
     bind_sum (map_err (BadResultsUrl (es_id specification))
         (transpose_map (results_url_try_from x) (es_results_url specification))) (\<lambda>results_url.
     bind_sum
       (case es_kind specification of
          ExecutableSpecification \<Rightarrow> Inr Executable
        | ContainerSpecification \<Rightarrow>
            (case es_parameters specification of
               Some parameters \<Rightarrow> map_ok ContainerKind (convert_container_parameters (es_id specification) parameters)
             | None \<Rightarrow> Inl MissingContainerParameters)) (\<lambda>kind.
       Inr \<lparr> ed_id = ExecutorId (es_id specification), ed_kind = kind, ed_results_url = results_url \<rparr>))"

definition convert_document_to_peer_descriptor ::
    "ext \<Rightarrow> SpecificationMetadata \<Rightarrow> PeerDescriptorSpecificationV1 \<Rightarrow> specification_fault + PeerDescriptor" where
  "convert_document_to_peer_descriptor x metadata peer =
     bind_sum (map_err BadPeerName (peer_name_try_from (meta_name metadata))) (\<lambda>name.
     bind_sum (map_err BadLocation (transpose_map peer_location_try_from (ps_location peer))) (\<lambda>location.
     bind_sum (traverse convert_network_specification_to_descriptor (nws_interfaces (ps_network peer))) (\<lambda>network_interfaces.
     bind_sum (map_err BadBridgeName (transpose_map network_interface_name_try_from (nws_bridge_name (ps_network peer)))) (\<lambda>bridge_name.
     bind_sum (traverse convert_device_specification_to_descriptor (ts_devices (ps_topology peer))) (\<lambda>topology.
     bind_sum (traverse (convert_executor_specification_to_descriptor x) (ps_executors peer)) (\<lambda>executors.
       Inr \<lparr> pd_id = PeerId (meta_id metadata), pd_name = name, pd_location = location,
             pd_network = \<lparr> pn_interfaces = network_interfaces, pn_bridge_name = bridge_name \<rparr>,
             pd_topology = \<lparr> topology_devices = topology \<rparr>,
             pd_executors = \<lparr> eds_executors = executors \<rparr> \<rparr>))))))"

section \<open>Converting a cluster configuration (cluster_configuration/apply.rs)\<close>

text \<open>The devices are collected into a \<open>HashSet\<close>.\<close>

definition convert_document_to_cluster_configuration ::
    "SpecificationMetadata \<Rightarrow> ClusterConfigurationSpecificationV1 \<Rightarrow> specification_fault + ClusterConfiguration" where
  "convert_document_to_cluster_configuration metadata cluster =
     bind_sum (map_err BadClusterName (cluster_name_try_from (meta_name metadata))) (\<lambda>name.
       Inr \<lparr> cc_id = ClusterId (meta_id metadata), cc_name = name, cc_leader = PeerId (cs_leader_id cluster),
             cc_devices = remdups (map DeviceId (cs_devices cluster)) \<rparr>)"

section \<open>The command (apply.rs)\<close>

datatype ResourceModel = PeerDescriptorModel PeerDescriptor | ClusterConfigurationModel ClusterConfiguration

datatype document_fault =
    PeerSpecificationRejected uuid specification_fault
  | ClusterSpecificationRejected uuid specification_fault
  | DocumentRejected ParseSpecificationError
  | FileRejected ParseSpecificationError
  | JsonRejected ParseSpecificationError
  | JsonDocumentRejected ParseSpecificationError
  | CarlRejected string
  | DocumentPanic string

definition convert_document_to_model :: "ext \<Rightarrow> SpecificationDocument \<Rightarrow> document_fault + ResourceModel" where
  "convert_document_to_model x document =
     (case sd_spec document of
        PeerDescriptorSpec (PeerSpecificationV1 peer) \<Rightarrow>
          map_ok PeerDescriptorModel
            (map_err (PeerSpecificationRejected (meta_id (sd_metadata document)))
              (convert_document_to_peer_descriptor x (sd_metadata document) peer))
      | ClusterConfigurationSpec (ClusterSpecificationV1 cluster) \<Rightarrow>
          map_ok ClusterConfigurationModel
            (map_err (ClusterSpecificationRejected (meta_id (sd_metadata document)))
              (convert_document_to_cluster_configuration (sd_metadata document) cluster)))"

text \<open>The operations of CARL's client that the command uses, on a state \<open>'w\<close> of CARL.\<close>

record 'w carl_client =
  carl_store_peer_descriptor :: "PeerDescriptor \<Rightarrow> ('w, string, PeerId) run"
  carl_store_cluster_configuration :: "ClusterConfiguration \<Rightarrow> ('w, string, ClusterId) run"
  carl_list_devices :: "('w, string, DeviceDescriptor list) run"

definition cleo_create_peer :: "'w carl_client \<Rightarrow> PeerDescriptor \<Rightarrow> ('w, document_fault, unit) run" where
  "cleo_create_peer carl descriptor =
     and_then (map_run_err CarlRejected (carl_store_peer_descriptor carl descriptor)) (\<lambda>_. return_ok ())"

text \<open>The names of the devices are only printed, but a failure to list the devices is an error.\<close>

definition cleo_create_cluster_configuration :: "'w carl_client \<Rightarrow> ClusterConfiguration \<Rightarrow> ('w, document_fault, unit) run" where
  "cleo_create_cluster_configuration carl cluster =
     and_then (map_run_err CarlRejected (carl_store_cluster_configuration carl cluster)) (\<lambda>_.
     and_then (map_run_err CarlRejected (carl_list_devices carl)) (\<lambda>_. return_ok ()))"

fun create_resource_in_carl_from_model :: "'w carl_client \<Rightarrow> ResourceModel \<Rightarrow> ('w, document_fault, unit) run" where
  "create_resource_in_carl_from_model carl (PeerDescriptorModel model) = cleo_create_peer carl model"
| "create_resource_in_carl_from_model carl (ClusterConfigurationModel model) = cleo_create_cluster_configuration carl model"

datatype Source = SourceFile string | SourceInlineJson string

record files =
  path_exists :: "string \<Rightarrow> bool"
  path_is_file :: "string \<Rightarrow> bool"
  path_is_dir :: "string \<Rightarrow> bool"
  read_to_string :: "string \<Rightarrow> string + string"

datatype SourceParsingError = SourceParsingError (spe_arg: string) (spe_details: string)

definition parse_source :: "files \<Rightarrow> string \<Rightarrow> SourceParsingError + Source" where
  "parse_source fs arg =
     (if starts_with arg CHR ''{'' \<and> ends_with arg CHR ''}'' then Inr (SourceInlineJson arg)
      else if \<not> path_exists fs arg then Inl (SourceParsingError arg ''Path does not exist.'')
      else if path_is_file fs arg \<or> path_is_dir fs arg then Inr (SourceFile arg)
      else Inl (SourceParsingError arg ''Path designates neither a file nor a directory.''))"

definition models_of_file :: "ext \<Rightarrow> files \<Rightarrow> 'v serde \<Rightarrow> string \<Rightarrow> document_fault + ResourceModel list" where
  "models_of_file x fs Y path =
     bind_sum (map_err DocumentPanic (read_to_string fs path)) (\<lambda>content.
     bind_sum (map_err FileRejected (yaml_file_try_from_str Y content)) (\<lambda>documents.
     bind_sum (traverse (\<lambda>doc. map_err DocumentRejected (specification_from_yaml Y doc)) documents) (\<lambda>specification_documents.
       traverse (convert_document_to_model x) specification_documents)))"

definition model_of_json :: "ext \<Rightarrow> 'v serde \<Rightarrow> string \<Rightarrow> document_fault + ResourceModel" where
  "model_of_json x J json =
     bind_sum (map_err JsonRejected (json_document_try_from_str J json)) (\<lambda>json_document.
     bind_sum (map_err JsonDocumentRejected (specification_from_json J json_document)) (\<lambda>document.
       convert_document_to_model x document))"

definition apply_execute ::
    "ext \<Rightarrow> files \<Rightarrow> 'v serde \<Rightarrow> 'j serde \<Rightarrow> 'w carl_client \<Rightarrow> Source \<Rightarrow> ('w, document_fault, unit) run" where
  "apply_execute x fs Y J carl source =
     (case source of
        SourceFile path \<Rightarrow>
          and_then (lift_result (models_of_file x fs Y path)) (run_list (create_resource_in_carl_from_model carl))
      | SourceInlineJson json \<Rightarrow>
          and_then (lift_result (model_of_json x J json)) (create_resource_in_carl_from_model carl))"

section \<open>What is converted is well-formed\<close>

lemma converted_interface: "convert_network_specification_to_descriptor s = Inr i \<Longrightarrow> wf_interface i"
  by (auto simp: convert_network_specification_to_descriptor_def convert_can_parameters_def wf_interface_def sum_iffs
      dest: network_interface_name.parsed_valid sample_point_of_float_valid
      split: NetworkInterfaceKind.splits option.splits)

lemma converted_device:
  assumes "convert_device_specification_to_descriptor s = Inr d"
  shows "wf_device d"
proof -
  from assms obtain tags description name where
    tags: "traverse (\<lambda>tag. map_err (BadDeviceTag (ds_id s)) (device_tag_try_from tag)) (ds_tags s) = Inr tags"
    and description: "transpose_map device_description_try_from (ds_description s) = Inr description"
    and name: "device_name_try_from (ds_name s) = Inr name"
    and d: "dev_tags d = tags" "dev_description d = description" "dev_name d = name"
    by (auto simp: convert_device_specification_to_descriptor_def sum_iffs)
  have "\<forall>t\<in>set tags. valid_device_tag t"
    by (rule traverse_accepted [OF tags]) (auto simp: sum_iffs dest: device_tag.parsed_valid)
  moreover have "\<forall>t. description = Some t \<longrightarrow> valid_device_description t"
    by (rule transpose_accepted [OF description]) (rule device_description.parsed_valid)
  ultimately show ?thesis using device_name.parsed_valid [OF name] d by (simp add: wf_device_def)
qed

lemma converted_container:
  assumes "convert_container_parameters i p = Inr c"
  shows "wf_container c"
  using assms unfolding convert_container_parameters_def Let_def
proof (elim bind_sum_InrE)
  fix name image volumes devices envs ports args
  assume parts: "map_err (BadContainerName i) (transpose_map container_name_try_from (ecs_name p)) = Inr name"
      "map_err (BadContainerImage i) (container_image_try_from (ecs_image p)) = Inr image"
      "traverse (\<lambda>volume. map_err (BadContainerVolume i) (container_volume_try_from volume)) (ecs_volumes p) = Inr volumes"
      "traverse (\<lambda>device. map_err (BadContainerDevice i) (container_device_try_from device)) (ecs_devices p) = Inr devices"
      "traverse (\<lambda>env. map_err (BadContainerEnv i) (container_environment_variable_new (evs_name env) (evs_value env))) (ecs_envs p) = Inr envs"
      "traverse (\<lambda>port. map_err (BadContainerPort i) (container_port_spec_try_from port)) (ecs_ports p) = Inr ports"
      "traverse (\<lambda>arg. map_err (BadContainerArgument i) (container_command_argument_try_from arg)) (ecs_command_args p) = Inr args"
    and c: "Inr \<lparr> c_engine = (case ecs_engine p of DockerSpecification \<Rightarrow> Docker | PodmanSpecification \<Rightarrow> Podman),
        c_name = unwrap_or_default ContainerNameEmpty name, c_image = image, c_volumes = volumes, c_devices = devices,
        c_envs = envs, c_ports = ports,
        c_command = unwrap_or_default ContainerCommandDefault (map_option container_command_from (ecs_command p)),
        c_args = args \<rparr> = (Inr c :: specification_fault + Container)"
  have "valid_container_name (unwrap_or_default ContainerNameEmpty name)"
    using parts(1) container_name.parsed_valid by (cases "ecs_name p") (auto simp: sum_iffs)
  moreover have "valid_container_image image"
    using parts(2) container_image.parsed_valid by (simp add: sum_iffs)
  moreover have "\<forall>v\<in>set volumes. valid_container_volume v"
    by (rule traverse_accepted [OF parts(3)]) (auto simp: sum_iffs dest: container_volume.parsed_valid)
  moreover have "\<forall>v\<in>set devices. valid_container_device v"
    by (rule traverse_accepted [OF parts(4)]) (auto simp: sum_iffs dest: container_device.parsed_valid)
  moreover have "\<forall>v\<in>set envs. valid_environment_variable v"
    by (rule traverse_accepted [OF parts(5)])
      (auto simp: sum_iffs container_environment_variable_new_def valid_environment_variable_def split: if_splits)
  moreover have "\<forall>v\<in>set ports. valid_container_port_spec v"
    by (rule traverse_accepted [OF parts(6)]) (auto simp: sum_iffs dest: container_port_spec.parsed_valid)
  moreover have "\<forall>v\<in>set args. valid_container_command_argument v"
    by (rule traverse_accepted [OF parts(7)]) (auto simp: sum_iffs dest: container_command_argument.parsed_valid)
  moreover have "valid_container_command (unwrap_or_default ContainerCommandDefault (map_option container_command_from (ecs_command p)))"
    by (cases "ecs_command p") (simp_all add: valid_container_command_def container_command_from_def)
  ultimately show ?thesis using c by (auto simp: wf_container_def)
qed

lemma converted_executor: "convert_executor_specification_to_descriptor x s = Inr e \<Longrightarrow> wf_executor e"
  by (auto simp: convert_executor_specification_to_descriptor_def wf_executor_def sum_iffs dest: converted_container
      split: SpecificationExecutorKind.splits option.splits)

lemma converted_peer:
  assumes "convert_document_to_peer_descriptor x m p = Inr d"
  shows "wf_peer d"
  using assms unfolding convert_document_to_peer_descriptor_def
  by (elim bind_sum_InrE)
    (auto simp: wf_peer_def wf_network_def sum_iffs
      dest: peer_name.parsed_valid peer_location.parsed_valid network_interface_name.parsed_valid
        traverse_accepted [OF _ converted_interface] traverse_accepted [OF _ converted_device]
        traverse_accepted [OF _ converted_executor]
        transpose_accepted [where P = valid_peer_location] transpose_accepted [where P = valid_network_interface_name])

lemma converted_cluster: "convert_document_to_cluster_configuration m c = Inr d \<Longrightarrow> wf_cluster d"
  by (auto simp: convert_document_to_cluster_configuration_def wf_cluster_def sum_iffs dest: cluster_name.parsed_valid)

fun wf_model :: "ResourceModel \<Rightarrow> bool" where
  "wf_model (PeerDescriptorModel d) = wf_peer d"
| "wf_model (ClusterConfigurationModel c) = wf_cluster c"

lemma converted_model: "convert_document_to_model x document = Inr m \<Longrightarrow> wf_model m"
  by (auto simp: convert_document_to_model_def sum_iffs dest: converted_peer converted_cluster
      split: Specification.splits PeerDescriptorSpecification.splits ClusterConfigurationSpecification.splits)

section \<open>Every peer can be written down\<close>

text \<open>The specification of a descriptor, as the tests of the conversion write it. Bitrates are given in
  kilobaud, so only multiples of 1000 baud can be written.\<close>

fun writable_configuration :: "NetworkInterfaceConfiguration \<Rightarrow> bool" where
  "writable_configuration Ethernet = True"
| "writable_configuration (Can b sp f db dsp) = (1000 dvd unat b \<and> 1000 dvd unat db)"

definition writable_peer :: "PeerDescriptor \<Rightarrow> bool" where
  "writable_peer d \<longleftrightarrow> (\<forall>i\<in>set (pn_interfaces (pd_network d)). writable_configuration (ni_configuration i))"

definition in_kbps :: "u32 \<Rightarrow> u32" where
  "in_kbps b = word_of_nat (unat b div 1000)"

lemma in_kbps [simp]: "1000 dvd unat b \<Longrightarrow> in_kbps b * 1000 = b"
proof -
  assume "1000 dvd unat b"
  then have "word_of_nat (unat b div 1000 * 1000) = b" by simp
  then show ?thesis unfolding in_kbps_def by (metis of_nat_mult of_nat_numeral)
qed

fun parameters_of :: "NetworkInterfaceConfiguration \<Rightarrow> NetworkInterfaceConfigurationSpecification option" where
  "parameters_of Ethernet = None"
| "parameters_of (Can b sp f db dsp) =
     Some \<lparr> ics_bitrate_kbps = in_kbps b, ics_sample_point = can_sample_point_as_f32 sp, ics_fd = f,
            ics_data_bitrate_kbps = in_kbps db, ics_data_sample_point = can_sample_point_as_f32 dsp \<rparr>"

definition interface_as_specification :: "NetworkInterfaceDescriptor \<Rightarrow> NetworkInterfaceDescriptorSpecificationV1" where
  "interface_as_specification i =
     \<lparr> ns_id = interface_uuid (ni_id i), ns_name = network_interface_name (ni_name i),
       ns_kind = (case ni_configuration i of Ethernet \<Rightarrow> EthernetKind | Can _ _ _ _ _ \<Rightarrow> CanKind),
       ns_parameters = parameters_of (ni_configuration i) \<rparr>"

definition device_as_specification :: "DeviceDescriptor \<Rightarrow> DeviceSpecificationV1" where
  "device_as_specification d =
     \<lparr> ds_id = device_uuid (dev_id d), ds_name = device_name_value (dev_name d),
       ds_description = map_option device_description_value (dev_description d),
       ds_interface_id = interface_uuid (dev_interface d), ds_tags = map device_tag_value (dev_tags d) \<rparr>"

definition container_as_specification :: "Container \<Rightarrow> ExecutorConfigurationSpecification" where
  "container_as_specification c =
     \<lparr> ecs_engine = (case c_engine c of Docker \<Rightarrow> DockerSpecification | Podman \<Rightarrow> PodmanSpecification),
       ecs_name = (case c_name c of ContainerNameEmpty \<Rightarrow> None | ContainerNameValue v \<Rightarrow> Some v),
       ecs_image = container_image_value (c_image c),
       ecs_volumes = map container_volume_value (c_volumes c), ecs_devices = map container_device_value (c_devices c),
       ecs_envs = map (\<lambda>e. \<lparr> evs_name = env_name e, evs_value = env_value e \<rparr>) (c_envs c),
       ecs_ports = map container_port_spec_value (c_ports c), ecs_command = Some (container_command_text (c_command c)),
       ecs_command_args = map container_command_argument_value (c_args c) \<rparr>"

definition executor_as_specification :: "ext \<Rightarrow> ExecutorDescriptor \<Rightarrow> ExecutorSpecificationV1" where
  "executor_as_specification x e =
     \<lparr> es_id = executor_uuid (ed_id e), es_results_url = map_option (results_url_text x) (ed_results_url e),
       es_kind = (case ed_kind e of Executable \<Rightarrow> ExecutableSpecification | ContainerKind _ \<Rightarrow> ContainerSpecification),
       es_parameters = (case ed_kind e of Executable \<Rightarrow> None | ContainerKind c \<Rightarrow> Some (container_as_specification c)) \<rparr>"

definition peer_as_document :: "ext \<Rightarrow> PeerDescriptor \<Rightarrow> SpecificationDocument" where
  "peer_as_document x d =
     \<lparr> sd_version = ''v1'', sd_metadata = \<lparr> meta_id = peer_uuid (pd_id d), meta_name = peer_name_value (pd_name d) \<rparr>,
       sd_spec = PeerDescriptorSpec (PeerSpecificationV1
         \<lparr> ps_location = map_option peer_location_value (pd_location d),
           ps_network = \<lparr> nws_interfaces = map interface_as_specification (pn_interfaces (pd_network d)),
                          nws_bridge_name = map_option network_interface_name (pn_bridge_name (pd_network d)) \<rparr>,
           ps_topology = \<lparr> ts_devices = map device_as_specification (pd_devices d) \<rparr>,
           ps_executors = map (executor_as_specification x) (eds_executors (pd_executors d)) \<rparr>) \<rparr>"

lemma traverse_written:
  "\<forall>a\<in>set as. P a \<Longrightarrow> (\<And>a. P a \<Longrightarrow> f (g a) = Inr a) \<Longrightarrow> traverse f (map g as) = Inr as"
  by (induction as) auto

lemma transpose_written:
  "\<forall>a. m = Some a \<longrightarrow> P a \<Longrightarrow> (\<And>a. P a \<Longrightarrow> f (g a) = Inr a) \<Longrightarrow> transpose_map f (map_option g m) = Inr m"
  by (cases m) auto

lemma written_interface:
  assumes "wf_interface i" and "writable_configuration (ni_configuration i)"
  shows "convert_network_specification_to_descriptor (interface_as_specification i) = Inr i"
proof -
  have point: "can_sample_point_try_from_f32 (can_sample_point_as_f32 p) = Inr p" if "valid_sample_point p" for p
    using that by (rule sample_point_survives_float)
  show ?thesis
    using assms by (cases "ni_id i"; cases "ni_configuration i")
      (simp_all add: convert_network_specification_to_descriptor_def interface_as_specification_def wf_interface_def
        convert_can_parameters_def point network_interface_name.parse_print)
qed

lemma written_device: "wf_device d \<Longrightarrow> convert_device_specification_to_descriptor (device_as_specification d) = Inr d"
  by (cases "dev_id d"; cases "dev_interface d")
    (simp add: convert_device_specification_to_descriptor_def device_as_specification_def wf_device_def
      traverse_written [where P = valid_device_tag] transpose_written [where P = valid_device_description]
      device_tag.parse_print device_description.parse_print device_name.parse_print)

lemma written_container_name:
  "valid_container_name n \<Longrightarrow>
     map_ok (unwrap_or_default ContainerNameEmpty) (transpose_map container_name_try_from
       (case n of ContainerNameEmpty \<Rightarrow> None | ContainerNameValue v \<Rightarrow> Some v)) = Inr n"
  using container_name.parse_print [of n] by (cases n) simp_all

lemma written_environment_variable:
  "valid_environment_variable e \<Longrightarrow> container_environment_variable_new (env_name e) (env_value e) = Inr e"
  by (simp add: valid_environment_variable_def container_environment_variable_new_def)

lemma written_container_command: "valid_container_command c \<Longrightarrow> container_command_from (container_command_text c) = c"
  using container_command.parse_print [of c] by simp

lemma written_container:
  assumes "wf_container c"
  shows "convert_container_parameters i (container_as_specification c) = Inr c"
proof -
  obtain n where n: "transpose_map container_name_try_from
      (case c_name c of ContainerNameEmpty \<Rightarrow> None | ContainerNameValue v \<Rightarrow> Some v) = Inr n"
    "unwrap_or_default ContainerNameEmpty n = c_name c"
    using written_container_name [of "c_name c"] assms by (auto simp: wf_container_def map_ok_Inr_iff)
  have "(case (case c_engine c of Docker \<Rightarrow> DockerSpecification | Podman \<Rightarrow> PodmanSpecification) of
      DockerSpecification \<Rightarrow> Docker | PodmanSpecification \<Rightarrow> Podman) = c_engine c"
    by (cases "c_engine c") simp_all
  with assms n show ?thesis
    by (simp add: convert_container_parameters_def container_as_specification_def wf_container_def Let_def
      traverse_written [where P = valid_container_volume] traverse_written [where P = valid_container_device]
      traverse_written [where P = valid_environment_variable] traverse_written [where P = valid_container_port_spec]
      traverse_written [where P = valid_container_command_argument]
      container_volume.parse_print container_device.parse_print container_port_spec.parse_print
      container_command_argument.parse_print container_image.parse_print
      written_environment_variable written_container_command)
qed

lemma written_executor:
  assumes "ext_ok x" and "wf_executor e"
  shows "convert_executor_specification_to_descriptor x (executor_as_specification x e) = Inr e"
proof -
  have "transpose_map (results_url_try_from x) (map_option (results_url_text x) u) = Inr u" for u
    using \<open>ext_ok x\<close> by (cases u) simp_all
  then show ?thesis
    using assms by (cases "ed_id e"; cases "ed_kind e")
      (simp_all add: convert_executor_specification_to_descriptor_def executor_as_specification_def wf_executor_def
        written_container)
qed

text \<open>C36: every peer can be written down as a document: for each well-formed descriptor whose bitrates are whole
  kilobauds, the conversion of its document gives back the descriptor, with all its
  interfaces, CAN parameters, devices, executors and containers; the sample points go through floats.\<close>

theorem every_peer_can_be_written:
  assumes "ext_ok x" and "wf_peer d" and "writable_peer d"
  shows "convert_document_to_model x (peer_as_document x d) = Inr (PeerDescriptorModel d)"
proof -
  have "traverse convert_network_specification_to_descriptor (map interface_as_specification (pn_interfaces (pd_network d))) =
      Inr (pn_interfaces (pd_network d))"
    using assms(2,3) by (intro traverse_written [where P = "\<lambda>i. wf_interface i \<and> writable_configuration (ni_configuration i)"])
      (auto simp: wf_peer_def wf_network_def writable_peer_def intro: written_interface)
  moreover have "traverse (convert_executor_specification_to_descriptor x)
      (map (executor_as_specification x) (eds_executors (pd_executors d))) = Inr (eds_executors (pd_executors d))"
    using assms(1,2) by (intro traverse_written [where P = wf_executor]) (auto simp: wf_peer_def intro: written_executor)
  ultimately show ?thesis
    using assms(2) by (cases "pd_id d")
      (simp add: convert_document_to_model_def convert_document_to_peer_descriptor_def peer_as_document_def wf_peer_def wf_network_def
        peer_name.parse_print transpose_written [where P = valid_peer_location] peer_location.parse_print
        transpose_written [where P = valid_network_interface_name] network_interface_name.parse_print
        traverse_written [where P = wf_device] written_device)
qed

definition can_sample_peer :: PeerDescriptor where
  "can_sample_peer =
     (sample_peer 3 [sample_device 10])
       \<lparr> pd_network := \<lparr> pn_interfaces = [\<lparr> ni_id = NetworkInterfaceId 7, ni_name = NetworkInterfaceName ''eth0'',
           ni_configuration = Can 500000 (CanSamplePoint 875) True 2000000 (CanSamplePoint 700) \<rparr>], pn_bridge_name = None \<rparr> \<rparr>"

theorem every_peer_can_be_written_witness:
  "convert_document_to_model decimal_ext (peer_as_document decimal_ext can_sample_peer) = Inr (PeerDescriptorModel can_sample_peer)"
proof (rule every_peer_can_be_written)
  show "wf_peer can_sample_peer"
    using sample_names by (simp add: can_sample_peer_def wf_peer_def sample_peer_def sample_device_def wf_network_def wf_interface_def wf_device_def valid_sample_point_def)
  have "1000 dvd (500000::nat)" "1000 dvd (2000000::nat)" by simp_all
  then show "writable_peer can_sample_peer"
    by (simp add: can_sample_peer_def sample_peer_def writable_peer_def)
qed simp

text \<open>In a release build a bitrate above 4294967 kilobaud wraps around.\<close>

lemma bitrate_wraps_around:
  "convert_can_parameters i \<lparr> ics_bitrate_kbps = 4294968, ics_sample_point = F32Finite True 1 0, ics_fd = False,
       ics_data_bitrate_kbps = 1, ics_data_sample_point = F32Nan \<rparr> =
     Inr (Can 704 (CanSamplePoint 0) False 1000 (CanSamplePoint 0))"
  by (simp add: convert_can_parameters_def negative_floats_are_sample_points nan_is_a_sample_point)

section \<open>The command\<close>

text \<open>
  The requests CARL gets are recorded. \<open>recording\<close> adds the record to any client.
\<close>

definition recording :: "'w carl_client \<Rightarrow> ('w \<times> ResourceModel list) carl_client" where
  "recording carl =
     \<lparr> carl_store_peer_descriptor = (\<lambda>d (w, sent). case carl_store_peer_descriptor carl d w of (w', r) \<Rightarrow> ((w', sent @ [PeerDescriptorModel d]), r)),
       carl_store_cluster_configuration =
         (\<lambda>c (w, sent). case carl_store_cluster_configuration carl c w of (w', r) \<Rightarrow> ((w', sent @ [ClusterConfigurationModel c]), r)),
       carl_list_devices = (\<lambda>(w, sent). case carl_list_devices carl w of (w', r) \<Rightarrow> ((w', sent), r)) \<rparr>"

lemma create_resource_recorded:
  "\<exists>w' r. create_resource_in_carl_from_model (recording carl) m (w, sent) = ((w', sent @ [m]), r)"
  by (cases m)
    (auto simp: cleo_create_peer_def cleo_create_cluster_configuration_def recording_def run_defs split: prod.split sum.split)

lemma run_list_recorded:
  "\<exists>w' k r. run_list (create_resource_in_carl_from_model (recording carl)) ms (w, sent) = ((w', sent @ take k ms), r) \<and>
     (r = Inr () \<longrightarrow> k = length ms) \<and> (ms \<noteq> [] \<longrightarrow> 0 < k)"
proof (induction ms arbitrary: w sent)
  case Nil
  then show ?case by (auto simp: return_ok_def)
next
  case (Cons m ms)
  obtain w1 r1 where step: "create_resource_in_carl_from_model (recording carl) m (w, sent) = ((w1, sent @ [m]), r1)"
    using create_resource_recorded [of carl m w sent] by blast
  obtain w' k r where rest: "run_list (create_resource_in_carl_from_model (recording carl)) ms (w1, sent @ [m]) =
      ((w', (sent @ [m]) @ take k ms), r)" "r = Inr () \<longrightarrow> k = length ms"
    using Cons.IH [of w1 "sent @ [m]"] by blast
  show ?case
  proof (cases r1)
    case (Inl e)
    then show ?thesis by (intro exI [of _ w1] exI [of _ 1] exI [of _ "Inl e"]) (simp add: and_then_def step)
  next
    case (Inr u)
    then show ?thesis
      using rest by (intro exI [of _ w'] exI [of _ "Suc k"] exI [of _ r]) (simp add: and_then_def step)
  qed
qed

lemma models_of_file_wf:
  assumes "models_of_file x fs Y path = Inr models"
  shows "list_all wf_model models"
proof -
  obtain docs where "traverse (convert_document_to_model x) docs = Inr models"
    using assms unfolding models_of_file_def by (elim bind_sum_InrE)
  then show ?thesis
    unfolding list_all_iff by (rule traverse_accepted) (rule converted_model)
qed

text \<open>C37: applying a file sends nothing unless every document of it is valid. If one document cannot be read or
  converted, CARL gets no request and the error is reported; otherwise the resources are sent in the
  order of the documents up to the first one CARL refuses, and all of them are well-formed.\<close>

theorem apply_validates_before_sending:
  "case apply_execute x fs Y J (recording carl) (SourceFile path) (w, []) of ((w', sent), r) \<Rightarrow>
     (case models_of_file x fs Y path of
        Inl e \<Rightarrow> w' = w \<and> sent = [] \<and> r = Inl e
      | Inr models \<Rightarrow>
          list_all wf_model models \<and>
          (\<exists>k. sent = take k models \<and> (k = length models \<or> (\<exists>cause. r = Inl cause))))"
proof (cases "models_of_file x fs Y path")
  case (Inl e)
  then show ?thesis by (simp add: apply_execute_def and_then_def lift_result_def)
next
  case (Inr models)
  from Inr have "list_all wf_model models" by (rule models_of_file_wf)
  moreover obtain w' k r where "run_list (create_resource_in_carl_from_model (recording carl)) models (w, []) =
      ((w', [] @ take k models), r)" "r = Inr () \<longrightarrow> k = length models"
    using run_list_recorded [of carl models w "[]"] by blast
  ultimately show ?thesis
    by (cases r) (auto simp: apply_execute_def and_then_def lift_result_def Inr)
qed

text \<open>\<open>cleo apply\<close> refuses every JSON document, although the documented kinds are accepted in YAML. The parser
  asks \<open>serde_json\<close> to read the kind as a JSON text, but hands it the kind without quotation marks.\<close>

lemma inline_json_is_always_refused:
  assumes "json_enums_are_quoted J"
    and "json_document_try_from_str J json = Inr doc" and "rd_kind doc = resource_kind_name kind"
  shows "apply_execute x fs Y J carl (SourceInlineJson json) s =
    (s, Inl (JsonDocumentRejected (IllegalResourceKind (resource_kind_name kind))))"
  using assms json_kind_names_refused [OF assms(1), of kind]
  by (simp add: apply_execute_def model_of_json_def specification_from_json_def and_then_def lift_result_def)

text \<open>A JSON reader of one document and of quoted kinds, and a client of CARL that accepts everything.\<close>

definition quoted :: "string \<Rightarrow> string" where
  "quoted s = quotation_mark # s @ [quotation_mark]"

definition sample_json :: "unit serde" where
  "sample_json =
     \<lparr> serde_kind = (\<lambda>s. if s = quoted ''PeerDescriptor'' then Inr PeerDescriptorResource else Inl ''expected value''),
       serde_version = (\<lambda>s. if s = quoted ''v1'' then Inr SpecificationV1 else Inl ''expected value''),
       serde_cluster_specification = (\<lambda>_. Inl ''missing field''), serde_peer_specification = (\<lambda>_. Inl ''missing field''),
       serde_document = (\<lambda>_. Inl ''missing field''),
       serde_document_from_str = (\<lambda>_. Inr \<lparr> rd_kind = ''PeerDescriptor'', rd_version = ''v1'',
         rd_metadata = \<lparr> meta_id = 1, meta_name = ''peer'' \<rparr>, rd_spec = () \<rparr>),
       serde_values_of_stream = (\<lambda>_. []) \<rparr>"

definition accepting_carl :: "unit carl_client" where
  "accepting_carl =
     \<lparr> carl_store_peer_descriptor = (\<lambda>d. return_ok (pd_id d)),
       carl_store_cluster_configuration = (\<lambda>c. return_ok (cc_id c)), carl_list_devices = return_ok [] \<rparr>"

definition empty_disk :: files where
  "empty_disk = \<lparr> path_exists = (\<lambda>_. False), path_is_file = (\<lambda>_. False), path_is_dir = (\<lambda>_. False),
     read_to_string = (\<lambda>_. Inl ''not found'') \<rparr>"

end
