(* ===== verification/CleoCommands.thy ===== *)
theory CleoCommands
  imports CleoApply
begin

text \<open>
  The commands of CLEO that change what CARL stores (opendut-cleo/src/commands): devices, network
  interfaces and executors of a peer are edited by fetching the descriptor, changing it and storing
  it; cluster configurations are put together from devices given by id or name; deletions look
  for users first. Random identifiers are parameters; what is printed is left out.
\<close>

section \<open>The client of CARL\<close>

record 'w carl_server = "'w carl_client" +
  carl_get_peer_descriptor :: "PeerId \<Rightarrow> ('w, string, PeerDescriptor) run"
  carl_list_peer_descriptors :: "('w, string, PeerDescriptor list) run"
  carl_delete_peer_descriptor :: "PeerId \<Rightarrow> ('w, string, PeerId) run"
  carl_list_cluster_configurations :: "('w, string, ClusterConfiguration list) run"
  carl_list_cluster_deployments :: "('w, string, ClusterDeployment list) run"
  carl_delete_cluster_configuration :: "ClusterId \<Rightarrow> ('w, string, ClusterConfiguration) run"

datatype cleo_fault =
    CarlFailed string
  | MissingDeviceName
  | MissingInterfaceName
  | UnknownInterface "NetworkInterfaceName list"
  | DeviceWithoutPeer DeviceId
  | DeviceInClusters "ClusterId list"
  | PeerInClusters "ClusterId list"
  | InterfaceExists NetworkInterfaceName
  | InvalidInterfaceName NetworkInterfaceNameError
  | NoSuchInterface PeerId NetworkInterfaceName
  | InterfaceInUse NetworkInterfaceName "DeviceName list"
  | InvalidEnv IllegalContainerEnvironmentVariable
  | ClusterDeployed ClusterId
  | SelectedDevices "cleo_fault list"
  | DeviceNotFoundById DeviceId
  | DeviceNotFoundByName DeviceName
  | SeveralDevicesForName DeviceName
  | DuplicateDevices "DeviceDescriptor list"
  | TooFewDevices
  | CleoPanic string

definition carl_call :: "('w, string, 'a) run \<Rightarrow> ('w, cleo_fault, 'a) run" where
  "carl_call call = map_run_err CarlFailed call"

text \<open>Fetch the descriptor, edit it, store it: the frame of five commands.\<close>

definition edit_peer ::
    "'w carl_server \<Rightarrow> PeerId \<Rightarrow> (PeerDescriptor \<Rightarrow> cleo_fault + PeerDescriptor) \<Rightarrow> ('w, cleo_fault, PeerDescriptor) run" where
  "edit_peer carl peer_id edit =
     and_then (carl_call (carl_get_peer_descriptor carl peer_id)) (\<lambda>peer_descriptor.
     and_then (lift_result (edit peer_descriptor)) (\<lambda>edited.
     and_then (carl_call (carl_store_peer_descriptor carl edited)) (\<lambda>_. return_ok edited)))"

section \<open>Devices (commands/device)\<close>

record create_device_args =
  cda_name :: "DeviceName option"
  cda_description :: "DeviceDescription option"
  cda_interface :: "NetworkInterfaceName option"
  cda_tags :: "DeviceTag list option"

definition interface_called :: "PeerDescriptor \<Rightarrow> NetworkInterfaceName \<Rightarrow> cleo_fault + NetworkInterfaceDescriptor" where
  "interface_called peer interface_name =
     (case find (\<lambda>descriptor. ni_name descriptor = interface_name) (pn_interfaces (pd_network peer)) of
        Some interface \<Rightarrow> Inr interface
      | None \<Rightarrow> Inl (UnknownInterface (map ni_name (pn_interfaces (pd_network peer)))))"

definition new_device :: "create_device_args \<Rightarrow> DeviceId \<Rightarrow> PeerDescriptor \<Rightarrow> cleo_fault + DeviceDescriptor" where
  "new_device args device_id peer =
     bind_sum (ok_or MissingDeviceName (cda_name args)) (\<lambda>name.
     bind_sum (ok_or MissingInterfaceName (cda_interface args)) (\<lambda>interface_name.
     bind_sum (interface_called peer interface_name) (\<lambda>interface.
       Inr \<lparr> dev_id = device_id, dev_name = name, dev_description = cda_description args,
             dev_interface = ni_id interface, dev_tags = unwrap_or_default [] (cda_tags args) \<rparr>)))"

definition updated_device :: "create_device_args \<Rightarrow> PeerDescriptor \<Rightarrow> DeviceDescriptor \<Rightarrow> cleo_fault + DeviceDescriptor" where
  "updated_device args peer device =
     bind_sum
       (case cda_interface args of
          Some interface_name \<Rightarrow> map_ok ni_id (interface_called peer interface_name)
        | None \<Rightarrow> Inr (dev_interface device)) (\<lambda>interface.
       Inr \<lparr> dev_id = dev_id device, dev_name = unwrap_or_default (dev_name device) (cda_name args),
             dev_description = cda_description args, dev_interface = interface,
             dev_tags = unwrap_or_default (dev_tags device) (cda_tags args) \<rparr>)"

text \<open>The first device with the id is updated in place.\<close>

fun update_first :: "('a \<Rightarrow> bool) \<Rightarrow> 'a \<Rightarrow> 'a list \<Rightarrow> 'a list" where
  "update_first P y [] = []"
| "update_first P y (x # xs) = (if P x then y # xs else x # update_first P y xs)"

definition set_devices :: "DeviceDescriptor list \<Rightarrow> PeerDescriptor \<Rightarrow> PeerDescriptor" where
  "set_devices devices peer = peer\<lparr> pd_topology := \<lparr> topology_devices = devices \<rparr> \<rparr>"

definition create_device :: "create_device_args \<Rightarrow> DeviceId \<Rightarrow> PeerDescriptor \<Rightarrow> cleo_fault + PeerDescriptor" where
  "create_device args device_id peer =
     (case find (\<lambda>device. dev_id device = device_id) (pd_devices peer) of
        None \<Rightarrow> map_ok (\<lambda>device. set_devices (pd_devices peer @ [device]) peer) (new_device args device_id peer)
      | Some device \<Rightarrow>
          map_ok (\<lambda>device. set_devices (update_first (\<lambda>device. dev_id device = device_id) device (pd_devices peer)) peer)
            (updated_device args peer device))"

definition create_device_execute ::
    "'w carl_server \<Rightarrow> PeerId \<Rightarrow> DeviceId \<Rightarrow> create_device_args \<Rightarrow> ('w, cleo_fault, PeerDescriptor) run" where
  "create_device_execute carl peer_id device_id args = edit_peer carl peer_id (create_device args device_id)"

definition clusters_of_device :: "ClusterConfiguration list \<Rightarrow> DeviceId \<Rightarrow> ClusterId list" where
  "clusters_of_device clusters device_id =
     concat (map (\<lambda>cluster. map (\<lambda>_. cc_id cluster) (filter (\<lambda>device. device = device_id) (cc_devices cluster))) clusters)"

definition without_device :: "DeviceId \<Rightarrow> PeerDescriptor \<Rightarrow> PeerDescriptor" where
  "without_device device_id peer = set_devices (filter (\<lambda>device. dev_id device \<noteq> device_id) (pd_devices peer)) peer"

definition delete_device_execute :: "'w carl_server \<Rightarrow> DeviceId \<Rightarrow> ('w, cleo_fault, unit) run" where
  "delete_device_execute carl device_to_delete =
     and_then (carl_call (carl_list_peer_descriptors carl)) (\<lambda>peers.
     and_then (lift_result (ok_or (DeviceWithoutPeer device_to_delete)
         (find (\<lambda>peer. list_ex (\<lambda>device. dev_id device = device_to_delete) (pd_devices peer)) peers))) (\<lambda>peer.
     and_then (carl_call (carl_list_cluster_configurations carl)) (\<lambda>clusters.
     let devices_in_cluster = clusters_of_device clusters device_to_delete in
     if devices_in_cluster \<noteq> [] then fail_with (DeviceInClusters devices_in_cluster)
     else and_then (carl_call (carl_store_peer_descriptor carl (without_device device_to_delete peer))) (\<lambda>_. return_ok ()))))"

section \<open>Network interfaces (commands/network_interface)\<close>

datatype NetworkInterfaceType = EthernetType | CanType

definition interface_configuration_of_type :: "NetworkInterfaceType \<Rightarrow> cleo_fault + NetworkInterfaceConfiguration" where
  "interface_configuration_of_type t =
     (case t of
        EthernetType \<Rightarrow> Inr Ethernet
      | CanType \<Rightarrow>
          (case can_sample_point_try_from_f32 (f32_of_quotient 7 10) of
             Inr point \<Rightarrow> Inr (Can 500000 point True 2000000 point)
           | Inl _ \<Rightarrow> Inl (CleoPanic ''called Result::unwrap() on an Err value'')))"

definition set_interfaces :: "NetworkInterfaceDescriptor list \<Rightarrow> PeerDescriptor \<Rightarrow> PeerDescriptor" where
  "set_interfaces interfaces peer = peer\<lparr> pd_network := (pd_network peer)\<lparr> pn_interfaces := interfaces \<rparr> \<rparr>"

definition create_network_interface ::
    "NetworkInterfaceType \<Rightarrow> NetworkInterfaceName \<Rightarrow> NetworkInterfaceId \<Rightarrow> PeerDescriptor \<Rightarrow> cleo_fault + PeerDescriptor" where
  "create_network_interface interface_type interface_name interface_id peer =
     bind_sum (interface_configuration_of_type interface_type) (\<lambda>configuration.
       if List.member (map ni_name (pn_interfaces (pd_network peer))) interface_name then Inl (InterfaceExists interface_name)
       else Inr (set_interfaces (pn_interfaces (pd_network peer) @
         [\<lparr> ni_id = interface_id, ni_name = interface_name, ni_configuration = configuration \<rparr>]) peer))"

definition create_network_interface_execute ::
    "'w carl_server \<Rightarrow> PeerId \<Rightarrow> NetworkInterfaceId \<Rightarrow> NetworkInterfaceType \<Rightarrow> NetworkInterfaceName \<Rightarrow>
     ('w, cleo_fault, PeerDescriptor) run" where
  "create_network_interface_execute carl peer_id interface_id interface_type interface_name =
     edit_peer carl peer_id (create_network_interface interface_type interface_name interface_id)"

definition devices_on_interface :: "PeerDescriptor \<Rightarrow> NetworkInterfaceId \<Rightarrow> DeviceName list" where
  "devices_on_interface peer i = map dev_name (filter (\<lambda>device. dev_interface device = i) (pd_devices peer))"

fun remove_interfaces :: "NetworkInterfaceDescriptor list \<Rightarrow> PeerDescriptor \<Rightarrow> cleo_fault + PeerDescriptor" where
  "remove_interfaces [] peer = Inr peer"
| "remove_interfaces (interface # interfaces) peer =
     (if devices_on_interface peer (ni_id interface) \<noteq> []
      then Inl (InterfaceInUse (ni_name interface) (devices_on_interface peer (ni_id interface)))
      else remove_interfaces interfaces
        (set_interfaces (filter (\<lambda>i. ni_id i \<noteq> ni_id interface) (pn_interfaces (pd_network peer))) peer))"

definition delete_network_interfaces ::
    "PeerId \<Rightarrow> string list \<Rightarrow> PeerDescriptor \<Rightarrow> cleo_fault + PeerDescriptor" where
  "delete_network_interfaces peer_id interfaces peer =
     bind_sum (map_err InvalidInterfaceName (traverse network_interface_name_try_from interfaces)) (\<lambda>names.
     bind_sum (traverse (\<lambda>name. ok_or (NoSuchInterface peer_id name)
         (find (\<lambda>interface. ni_name interface = name) (pn_interfaces (pd_network peer)))) names) (\<lambda>network_interfaces.
       remove_interfaces network_interfaces peer))"

definition delete_network_interface_execute ::
    "'w carl_server \<Rightarrow> PeerId \<Rightarrow> string list \<Rightarrow> ('w, cleo_fault, unit) run" where
  "delete_network_interface_execute carl peer_id interfaces =
     and_then (edit_peer carl peer_id (delete_network_interfaces peer_id interfaces)) (\<lambda>_. return_ok ())"

section \<open>Executors (commands/executor)\<close>

fun split_once :: "char \<Rightarrow> string \<Rightarrow> (string \<times> string) option" where
  "split_once c [] = None"
| "split_once c (d # s) =
     (if d = c then Some ([], s) else map_option (\<lambda>(name, value). (d # name, value)) (split_once c s))"

text \<open>An argument without \<open>=\<close> is passed over.\<close>

fun environment_variables :: "string list \<Rightarrow> cleo_fault + ContainerEnvironmentVariable list" where
  "environment_variables [] = Inr []"
| "environment_variables (env # envs) =
     (case split_once CHR ''='' env of
        None \<Rightarrow> environment_variables envs
      | Some (name, value) \<Rightarrow>
          bind_sum (map_err InvalidEnv (container_environment_variable_new name value)) (\<lambda>env.
            map_ok (\<lambda>envs. env # envs) (environment_variables envs)))"

record create_container_args =
  cca_engine :: Engine
  cca_name :: "ContainerName option"
  cca_image :: ContainerImage
  cca_volumes :: "ContainerVolume list option"
  cca_devices :: "ContainerDevice list option"
  cca_envs :: "string list option"
  cca_ports :: "ContainerPortSpec list option"
  cca_command :: "ContainerCommand option"
  cca_args :: "ContainerCommandArgument list option"
  cca_results_url :: "ResultsUrl option"

definition container_executor :: "create_container_args \<Rightarrow> ExecutorId \<Rightarrow> cleo_fault + ExecutorDescriptor" where
  "container_executor args executor_id =
     bind_sum (environment_variables (unwrap_or_default [] (cca_envs args))) (\<lambda>envs.
       Inr \<lparr> ed_id = executor_id,
             ed_kind = ContainerKind \<lparr> c_engine = cca_engine args, c_name = unwrap_or_default ContainerNameEmpty (cca_name args),
               c_image = cca_image args, c_volumes = unwrap_or_default [] (cca_volumes args),
               c_devices = unwrap_or_default [] (cca_devices args), c_envs = envs,
               c_ports = unwrap_or_default [] (cca_ports args),
               c_command = unwrap_or_default ContainerCommandDefault (cca_command args),
               c_args = unwrap_or_default [] (cca_args args) \<rparr>,
             ed_results_url = cca_results_url args \<rparr>)"

definition set_executors :: "ExecutorDescriptor list \<Rightarrow> PeerDescriptor \<Rightarrow> PeerDescriptor" where
  "set_executors executors peer = peer\<lparr> pd_executors := \<lparr> eds_executors = executors \<rparr> \<rparr>"

definition create_container_executor_execute ::
    "'w carl_server \<Rightarrow> PeerId \<Rightarrow> ExecutorId \<Rightarrow> create_container_args \<Rightarrow> ('w, cleo_fault, PeerDescriptor) run" where
  "create_container_executor_execute carl peer_id executor_id args =
     and_then (lift_result (container_executor args executor_id)) (\<lambda>executor.
       edit_peer carl peer_id (\<lambda>peer. Inr (set_executors (eds_executors (pd_executors peer) @ [executor]) peer)))"

definition runs_image :: "ContainerImage \<Rightarrow> ExecutorDescriptor \<Rightarrow> bool" where
  "runs_image img executor =
     (case ed_kind executor of Executable \<Rightarrow> False | ContainerKind c \<Rightarrow> c_image c = img)"

fun remove_images :: "ContainerImage list \<Rightarrow> ExecutorDescriptor list \<Rightarrow> ExecutorDescriptor list" where
  "remove_images [] executors = executors"
| "remove_images (img # images) executors = remove_images images (filter (\<lambda>e. \<not> runs_image img e) executors)"

definition delete_container_executor_execute ::
    "'w carl_server \<Rightarrow> PeerId \<Rightarrow> ContainerImage list \<Rightarrow> ('w, cleo_fault, unit) run" where
  "delete_container_executor_execute carl peer_id images =
     and_then (edit_peer carl peer_id
         (\<lambda>peer. Inr (set_executors (remove_images images (eds_executors (pd_executors peer))) peer))) (\<lambda>_. return_ok ())"

section \<open>Peers (commands/peer/create.rs, delete.rs)\<close>

record create_peer_args =
  cpa_name :: PeerName
  cpa_location :: "PeerLocation option"
  cpa_bridge_name :: "NetworkInterfaceName option"

definition created_peer :: "create_peer_args \<Rightarrow> PeerId \<Rightarrow> PeerDescriptor" where
  "created_peer args peer_id =
     \<lparr> pd_id = peer_id, pd_name = cpa_name args, pd_location = cpa_location args,
       pd_network = \<lparr> pn_interfaces = [], pn_bridge_name = cpa_bridge_name args \<rparr>,
       pd_topology = \<lparr> topology_devices = [] \<rparr>, pd_executors = \<lparr> eds_executors = [] \<rparr> \<rparr>"

definition create_peer_execute :: "'w carl_server \<Rightarrow> PeerId \<Rightarrow> create_peer_args \<Rightarrow> ('w, document_fault, unit) run" where
  "create_peer_execute carl peer_id args = cleo_create_peer (carl_client.truncate carl) (created_peer args peer_id)"

definition clusters_of_devices :: "ClusterConfiguration list \<Rightarrow> DeviceId list \<Rightarrow> ClusterId list" where
  "clusters_of_devices clusters device_ids =
     remdups (concat (map (\<lambda>cluster. map (\<lambda>_. cc_id cluster) (filter (\<lambda>device. device \<in> set device_ids) (cc_devices cluster))) clusters))"

definition delete_peer_execute :: "'w carl_server \<Rightarrow> PeerId \<Rightarrow> ('w, cleo_fault, unit) run" where
  "delete_peer_execute carl peer_id =
     and_then (carl_call (carl_get_peer_descriptor carl peer_id)) (\<lambda>peer_descriptor.
     and_then (carl_call (carl_list_cluster_configurations carl)) (\<lambda>clusters.
     let clusters_with_configured_devices = clusters_of_devices clusters (pd_device_ids peer_descriptor) in
     if clusters_with_configured_devices \<noteq> [] then fail_with (PeerInClusters clusters_with_configured_devices)
     else and_then (carl_call (carl_delete_peer_descriptor carl peer_id)) (\<lambda>_. return_ok ())))"

section \<open>Cluster configurations (commands/cluster_configuration)\<close>

definition select_devices_by_ids ::
    "DeviceId list \<Rightarrow> DeviceDescriptor list \<Rightarrow> (cleo_fault + DeviceDescriptor) list" where
  "select_devices_by_ids device_ids devices_list =
     map (\<lambda>device_id. ok_or (DeviceNotFoundById device_id) (find (\<lambda>device. dev_id device = device_id) devices_list)) device_ids"

definition select_devices_by_names ::
    "DeviceName list \<Rightarrow> DeviceDescriptor list \<Rightarrow> (cleo_fault + DeviceDescriptor) list" where
  "select_devices_by_names device_names devices_list =
     map (\<lambda>device_name.
       case filter (\<lambda>device. dev_name device = device_name) devices_list of
         [] \<Rightarrow> Inl (DeviceNotFoundByName device_name)
       | [device] \<Rightarrow> Inr device
       | _ \<Rightarrow> Inl (SeveralDevicesForName device_name)) device_names"

fun chunk_by :: "('a \<Rightarrow> 'a \<Rightarrow> bool) \<Rightarrow> 'a list \<Rightarrow> 'a list list" where
  "chunk_by same [] = []"
| "chunk_by same [x] = [[x]]"
| "chunk_by same (x # y # xs) =
     (if same x y
      then (case chunk_by same (y # xs) of [] \<Rightarrow> [[x]] | chunk # chunks \<Rightarrow> (x # chunk) # chunks)
      else [x] # chunk_by same (y # xs))"

definition select_duplicate_devices :: "DeviceDescriptor list \<Rightarrow> DeviceDescriptor list" where
  "select_duplicate_devices devices =
     map hd (filter (\<lambda>chunk. 1 < length chunk)
       (chunk_by (\<lambda>a b. a = b) (sort_key (\<lambda>device. device_uuid (dev_id device)) devices)))"

fun partition_results :: "('e + 'a) list \<Rightarrow> 'a list \<times> 'e list" where
  "partition_results [] = ([], [])"
| "partition_results (Inr a # rs) = (case partition_results rs of (oks, errs) \<Rightarrow> (a # oks, errs))"
| "partition_results (Inl e # rs) = (case partition_results rs of (oks, errs) \<Rightarrow> (oks, e # errs))"

definition selected_devices ::
    "DeviceId list \<Rightarrow> DeviceName list \<Rightarrow> DeviceDescriptor list \<Rightarrow> cleo_fault + DeviceDescriptor list" where
  "selected_devices device_ids device_names all_devices =
     (case partition_results (select_devices_by_ids device_ids all_devices @ select_devices_by_names device_names all_devices) of
        (devices, device_errors) \<Rightarrow>
          if device_errors \<noteq> [] then Inl (SelectedDevices device_errors)
          else if select_duplicate_devices devices \<noteq> [] then Inl (DuplicateDevices (select_duplicate_devices devices))
          else if length devices < 2 then Inl TooFewDevices
          else Inr devices)"

record create_cluster_args =
  ccl_name :: ClusterName
  ccl_leader_id :: PeerId
  ccl_device_ids :: "DeviceId list"
  ccl_device_names :: "DeviceName list"

datatype create_cluster_fault = CreateClusterFault cleo_fault | StoreClusterFault document_fault

definition create_cluster_configuration_execute ::
    "'w carl_server \<Rightarrow> ClusterId \<Rightarrow> create_cluster_args \<Rightarrow> ('w, create_cluster_fault, unit) run" where
  "create_cluster_configuration_execute carl cluster_id args =
     and_then (map_run_err CreateClusterFault (carl_call (carl_list_cluster_deployments carl))) (\<lambda>cluster_deployments.
     if list_ex (\<lambda>deployment. cd_id deployment = cluster_id) cluster_deployments
     then fail_with (CreateClusterFault (ClusterDeployed cluster_id))
     else
       and_then (map_run_err CreateClusterFault (carl_call (carl_list_devices carl))) (\<lambda>all_devices.
       and_then (map_run_err CreateClusterFault
           (lift_result (selected_devices (ccl_device_ids args) (ccl_device_names args) all_devices))) (\<lambda>devices.
       map_run_err StoreClusterFault
         (cleo_create_cluster_configuration (carl_client.truncate carl)
           \<lparr> cc_id = cluster_id, cc_name = ccl_name args, cc_leader = ccl_leader_id args,
             cc_devices = remdups (map dev_id devices) \<rparr>))))"

definition delete_cluster_configuration_execute :: "'w carl_server \<Rightarrow> ClusterId \<Rightarrow> ('w, cleo_fault, unit) run" where
  "delete_cluster_configuration_execute carl cluster_id =
     and_then (carl_call (carl_list_cluster_deployments carl)) (\<lambda>cluster_deployments.
     if list_ex (\<lambda>deployment. cd_id deployment = cluster_id) cluster_deployments
     then fail_with (ClusterDeployed cluster_id)
     else and_then (carl_call (carl_delete_cluster_configuration carl cluster_id)) (\<lambda>_. return_ok ()))"

section \<open>Edits keep the devices on interfaces\<close>

text \<open>What the commands do to the descriptor of a peer.\<close>

datatype peer_edit =
    CreateDevice create_device_args DeviceId
  | DeleteDevice DeviceId
  | CreateInterface NetworkInterfaceType NetworkInterfaceName NetworkInterfaceId
  | DeleteInterfaces "string list"
  | CreateContainer create_container_args ExecutorId
  | DeleteImages "ContainerImage list"

fun edit_descriptor :: "peer_edit \<Rightarrow> PeerDescriptor \<Rightarrow> cleo_fault + PeerDescriptor" where
  "edit_descriptor (CreateDevice args device_id) peer = create_device args device_id peer"
| "edit_descriptor (DeleteDevice device_id) peer = Inr (without_device device_id peer)"
| "edit_descriptor (CreateInterface t name i) peer = create_network_interface t name i peer"
| "edit_descriptor (DeleteInterfaces names) peer = delete_network_interfaces (pd_id peer) names peer"
| "edit_descriptor (CreateContainer args i) peer =
     map_ok (\<lambda>executor. set_executors (eds_executors (pd_executors peer) @ [executor]) peer) (container_executor args i)"
| "edit_descriptor (DeleteImages images) peer = Inr (set_executors (remove_images images (eds_executors (pd_executors peer))) peer)"

text \<open>An edit that is refused leaves the descriptor as it is.\<close>

definition edit_or_keep :: "PeerDescriptor \<Rightarrow> peer_edit \<Rightarrow> PeerDescriptor" where
  "edit_or_keep peer edit = (case edit_descriptor edit peer of Inr edited \<Rightarrow> edited | Inl _ \<Rightarrow> peer)"

lemma set_update_first: "set (update_first P y xs) \<subseteq> insert y (set xs)"
  by (induction xs) auto

lemma interface_called_mem: "interface_called peer name = Inr i \<Longrightarrow> i \<in> set (pn_interfaces (pd_network peer))"
  by (auto simp: interface_called_def dest: find_SomeD split: option.splits)

lemma devices_have_interfacesI:
  assumes "devices_have_interfaces p" and "set (pd_devices q) \<subseteq> D \<union> set (pd_devices p)"
    and "\<And>d. d \<in> D \<Longrightarrow> \<exists>i\<in>set (pn_interfaces (pd_network q)). ni_id i = dev_interface d"
    and "set (pn_interfaces (pd_network p)) \<subseteq> set (pn_interfaces (pd_network q))"
  shows "devices_have_interfaces q"
  using assms unfolding devices_have_interfaces_def by blast

lemma create_device_keeps:
  assumes "devices_have_interfaces p" and "create_device args i p = Inr q"
  shows "devices_have_interfaces q"
proof -
  have new: "\<exists>i\<in>set (pn_interfaces (pd_network p)). ni_id i = dev_interface d" if "new_device args i p = Inr d" for d
    using that interface_called_mem by (auto simp: new_device_def sum_iffs)
  have updated: "\<exists>i\<in>set (pn_interfaces (pd_network p)). ni_id i = dev_interface d"
    if "updated_device args p d' = Inr d" "d' \<in> set (pd_devices p)" for d d'
    using that assms(1) interface_called_mem
    by (auto simp: updated_device_def sum_iffs devices_have_interfaces_def split: option.splits)
  show ?thesis
  proof (cases "find (\<lambda>device. dev_id device = i) (pd_devices p)")
    case None
    then obtain d where "new_device args i p = Inr d" "q = set_devices (pd_devices p @ [d]) p"
      using assms(2) by (auto simp: create_device_def map_ok_Inr_iff)
    with new show ?thesis
      by (intro devices_have_interfacesI [OF assms(1), where D = "{d}"]) (auto simp: set_devices_def)
  next
    case (Some d')
    then obtain d where d: "updated_device args p d' = Inr d"
      "q = set_devices (update_first (\<lambda>device. dev_id device = i) d (pd_devices p)) p"
      using assms(2) by (auto simp: create_device_def map_ok_Inr_iff)
    with updated [of d' d] find_SomeD [OF Some] show ?thesis
      using set_update_first [of "\<lambda>device. dev_id device = i" d "pd_devices p"]
      by (intro devices_have_interfacesI [OF assms(1), where D = "{d}"]) (auto simp: set_devices_def)
  qed
qed

lemma remove_interfaces_keeps:
  "devices_have_interfaces p \<Longrightarrow> remove_interfaces is p = Inr q \<Longrightarrow> devices_have_interfaces q"
proof (induction "is" arbitrary: p)
  case (Cons i "is")
  let ?p = "set_interfaces (filter (\<lambda>j. ni_id j \<noteq> ni_id i) (pn_interfaces (pd_network p))) p"
  have unused: "devices_on_interface p (ni_id i) = []" and rest: "remove_interfaces is ?p = Inr q"
    using Cons.prems(2) by (auto split: if_splits)
  have "dev_interface d \<noteq> ni_id i" if "d \<in> set (pd_devices p)" for d
    using unused that by (auto simp: devices_on_interface_def filter_empty_conv)
  then have "devices_have_interfaces ?p"
    using Cons.prems(1) by (fastforce simp: devices_have_interfaces_def set_interfaces_def)
  with Cons.IH rest show ?case by blast
qed simp

lemma edit_keeps_interfaces:
  assumes "devices_have_interfaces p" and "edit_descriptor e p = Inr q"
  shows "devices_have_interfaces q"
proof (cases e)
  case (CreateDevice args i)
  with assms create_device_keeps show ?thesis by simp
next
  case (DeleteDevice i)
  with assms show ?thesis
    by (auto simp: without_device_def set_devices_def devices_have_interfaces_def)
next
  case (CreateInterface t name i)
  with assms show ?thesis
    by (auto simp: create_network_interface_def set_interfaces_def devices_have_interfaces_def bind_sum_Inr_iff split: if_splits)
next
  case (DeleteInterfaces names)
  with assms remove_interfaces_keeps show ?thesis
    by (auto simp: delete_network_interfaces_def sum_iffs)
next
  case (CreateContainer args i)
  with assms show ?thesis by (auto simp: map_ok_Inr_iff set_executors_def devices_have_interfaces_def)
next
  case (DeleteImages images)
  with assms show ?thesis by (auto simp: set_executors_def devices_have_interfaces_def)
qed


text \<open>A document can describe a peer whose device names an interface the peer does not have.\<close>

lemma document_with_dangling_interface:
  "\<exists>d. convert_document_to_model x
     \<lparr> sd_version = ''v1'', sd_metadata = \<lparr> meta_id = 1, meta_name = ''peer'' \<rparr>,
       sd_spec = PeerDescriptorSpec (PeerSpecificationV1
         \<lparr> ps_location = None, ps_network = \<lparr> nws_interfaces = [], nws_bridge_name = None \<rparr>,
           ps_topology = \<lparr> ts_devices = [\<lparr> ds_id = 2, ds_name = ''dev'', ds_description = None, ds_interface_id = 3, ds_tags = [] \<rparr>] \<rparr>,
           ps_executors = [] \<rparr>) \<rparr> = Inr (PeerDescriptorModel d) \<and>
     interfaces_zipped_with_devices (pd_network d) (pd_devices d) = None"
proof -
  have "peer_name_try_from ''peer'' = Inr (PeerName ''peer'')" "device_name_try_from ''dev'' = Inr (DeviceName ''dev'')"
    using sample_names peer_name.parse_print [of "PeerName ''peer''"] device_name.parse_print [of "DeviceName ''dev''"] by simp_all
  then show ?thesis
    by (simp add: convert_document_to_model_def convert_document_to_peer_descriptor_def convert_device_specification_to_descriptor_def)
qed

section \<open>Devices of a new cluster\<close>

text \<open>In a sorted list equal elements are next to each other: the chunks of length two and more are those of the duplicates.\<close>

lemma chunks_of_sorted:
  assumes "sorted (map f xs)" and "inj_on f (set xs)"
  shows "set (map hd (filter (\<lambda>c. 1 < length c) (chunk_by (\<lambda>a b. a = b) xs))) = {d. 1 < count_list xs d} \<and>
    (xs \<noteq> [] \<longrightarrow> (\<exists>c cs. chunk_by (\<lambda>a b. a = b) xs = c # cs \<and> c \<noteq> [] \<and> hd c = hd xs))"
  using assms
proof (induction xs rule: induct_list012)
  case (3 x y zs)
  have rest: "sorted (map f (y # zs))" "inj_on f (set (y # zs))" using "3.prems" by (auto simp: inj_on_def)
  obtain c cs where chunks: "chunk_by (\<lambda>a b. a = b) (y # zs) = c # cs" "c \<noteq> []" "hd c = y"
    using "3.IH"(2) [OF rest] by auto
  let ?heads = "\<lambda>cs. set (map hd (filter (\<lambda>c. 1 < length c) cs))"
  have IH: "?heads (c # cs) = {d. 1 < count_list (y # zs) d}" using "3.IH"(2) [OF rest] chunks(1) by simp
  show ?case
  proof (cases "x = y")
    case True
    have "?heads ((x # c) # cs) = insert x (?heads (c # cs))" using chunks(2,3) True by auto
    also have "\<dots> = {d. 1 < count_list (x # y # zs) d}" unfolding IH using True by auto
    finally show ?thesis using chunks True by simp
  next
    case False
    then have "f x \<noteq> f y" using "3.prems"(2) by (auto simp: inj_on_def)
    then have "f x < f z" if "z \<in> set (y # zs)" for z using "3.prems"(1) that by fastforce
    then have "count_list (y # zs) x = 0" by (auto simp: count_list_0_iff)
    then have "{d. 1 < count_list (x # y # zs) d} = {d. 1 < count_list (y # zs) d}" by auto
    with IH False chunks show ?thesis by simp
  qed
qed auto

lemma count_list_sort_key: "count_list (sort_key f xs) d = count_list xs d"
  by (simp add: count_list_eq_length_filter filter_sort)

lemma duplicate_devices:
  assumes "inj_on dev_id (set devices)"
  shows "set (select_duplicate_devices devices) = {d. 1 < count_list devices d}"
proof -
  have "inj_on (\<lambda>d. device_uuid (dev_id d)) (set devices)"
    using assms unfolding inj_on_def by (metis DeviceId.expand)
  then show ?thesis
    using chunks_of_sorted [of "\<lambda>d. device_uuid (dev_id d)" "sort_key (\<lambda>d. device_uuid (dev_id d)) devices"]
    by (simp add: select_duplicate_devices_def count_list_sort_key)
qed

lemma distinct_count_list: "distinct xs \<longleftrightarrow> {d. 1 < count_list xs d} = {}"
proof (induction xs)
  case (Cons x xs)
  have "{d. 1 < count_list (x # xs) d} = {d. 1 < count_list xs d} \<union> (if x \<in> set xs then {x} else {})"
    using count_list_0_iff [of xs x] by (auto simp: not_less less_Suc_eq)
  with Cons show ?case by simp
qed simp

lemma partition_results_no_error: "partition_results rs = (oks, []) \<longleftrightarrow> rs = map Inr oks"
proof (induction rs arbitrary: oks)
  case (Cons r rs)
  show ?case
    using Cons.IH [of "tl oks"] by (cases r; cases "partition_results rs"; cases oks) auto
qed auto

lemma map_eq_map_iff: "map f xs = map g ys \<longleftrightarrow> list_all2 (\<lambda>x y. f x = g y) xs ys"
  by (induction xs arbitrary: ys) (auto simp: list_all2_Cons1 Cons_eq_map_conv)

lemma selected_by_ids:
  assumes "distinct (map dev_id all)"
  shows "select_devices_by_ids ids all = map Inr ds \<longleftrightarrow> list_all2 (\<lambda>i d. d \<in> set all \<and> dev_id d = i) ids ds"
proof -
  have "find (\<lambda>d. dev_id d = i) all = Some d \<longleftrightarrow> d \<in> set all \<and> dev_id d = i" for i d
  proof
    assume d: "d \<in> set all \<and> dev_id d = i"
    then obtain d' where d': "find (\<lambda>d. dev_id d = i) all = Some d'" by (cases "find (\<lambda>d. dev_id d = i) all") (auto simp: find_None_iff)
    with find_SomeD [OF d'] d assms show "find (\<lambda>d. dev_id d = i) all = Some d" by (auto simp: distinct_map inj_on_def)
  qed (use find_SomeD in fast)
  then have "ok_or e (find (\<lambda>d. dev_id d = i) all) = Inr d \<longleftrightarrow> d \<in> set all \<and> dev_id d = i" for e :: cleo_fault and i d
    by (simp add: ok_or_Inr_iff)
  then show ?thesis
    by (auto simp: select_devices_by_ids_def list_all2_conv_all_nth list_eq_iff_nth_eq)
qed

lemma selected_by_names:
  assumes "distinct all"
  shows "select_devices_by_names names all = map Inr ds \<longleftrightarrow> list_all2 (\<lambda>n d. {d \<in> set all. dev_name d = n} = {d}) names ds"
proof -
  have "(case filter P all of [] \<Rightarrow> Inl e | [d] \<Rightarrow> Inr d | _ \<Rightarrow> Inl e') = (Inr d :: cleo_fault + DeviceDescriptor) \<longleftrightarrow>
      {d \<in> set all. P d} = {d}" for P e e' d
  proof -
    have "distinct (filter P all)" "set (filter P all) = {d \<in> set all. P d}" using assms by auto
    then show ?thesis
      by (cases "filter P all"; cases "tl (filter P all)") (auto simp: doubleton_eq_iff)
  qed
  then show ?thesis unfolding select_devices_by_names_def map_eq_map_iff by presburger
qed

lemma list_all2_subset: "list_all2 P xs ys \<Longrightarrow> (\<And>x y. P x y \<Longrightarrow> y \<in> A) \<Longrightarrow> set ys \<subseteq> A"
  by (induction xs ys rule: list_all2_induct) auto



end
