(* ===== verification/CleoEndToEnd.thy ===== *)
theory CleoEndToEnd
  imports CarlApi CleoCommands
begin

text \<open>
  CLEO in front of CARL: the client that CLEO's commands are given is the client library of CARL
  (opendut-carl/opendut-carl-api/src/carl), which reaches the services and the managers. What a
  user writes into a file and applies is followed to the tables of the resource manager.
\<close>

section \<open>CARL as CLEO sees it\<close>

text \<open>CLEO prints the errors of the client library.\<close>

definition carl_of ::
    "link \<Rightarrow> ext \<Rightarrow> env \<Rightarrow> 'w vpn \<Rightarrow> 'w registration_client option \<Rightarrow> 'w cluster_world carl_server" where
  "carl_of L x E vpn oidc =
     \<lparr> carl_store_peer_descriptor =
         (\<lambda>d. map_run_err (client_error_message (api_store_peer_message x)) (client_store_peer L x E vpn d)),
       carl_store_cluster_configuration =
         (\<lambda>k. map_run_err (client_error_message (api_create_configuration_message x)) (client_store_configuration L x E k)),
       carl_list_devices = map_run_err api_list_devices_message (client_list_devices L x E),
       carl_get_peer_descriptor =
         (\<lambda>p. map_run_err (client_error_message (api_get_peer_message x)) (client_get_peer L x E p)),
       carl_list_peer_descriptors = map_run_err (client_error_message api_list_peers_message) (client_list_peers L x E),
       carl_delete_peer_descriptor =
         (\<lambda>p. map_run_err (client_error_message (api_delete_peer_message x)) (client_delete_peer L x E vpn oidc p)),
       carl_list_cluster_configurations =
         map_run_err (\<lambda>e. case e of ApiListConfigurationsError m \<Rightarrow> m) (client_list_configurations L x E),
       carl_list_cluster_deployments =
         map_run_err (\<lambda>e. case e of ApiListDeploymentsError m \<Rightarrow> m) (client_list_deployments L x E),
       carl_delete_cluster_configuration =
         (\<lambda>c. map_run_err (client_error_message (api_delete_configuration_message x)) (client_delete_configuration L x E c)) \<rparr>"

lemma client_list_devices_answer:
  assumes "ext_ok x" "fair E" "link_up L" "stored_ok (rm_tables (cw_manager cw))"
  shows "\<exists>ds. client_list_devices L x E cw = (cw, Inr ds)"
proof -
  let ?peers = "t_peer_descriptors (rm_tables (cw_manager cw))"
  let ?all = "map (\<lambda>d. (dev_id d, d)) (concat (map pd_devices (values_of ?peers)))"
  have "\<forall>d\<in>set (values_of (collect_map ?all)). wf_device d"
  proof
    fix d
    assume "d \<in> set (values_of (collect_map ?all))"
    then obtain i where "map_of (collect_map ?all) i = Some d"
      by (auto simp flip: set_hash_map [OF hash_map_collect])
    then have "map_of (rev ?all) i = Some d" unfolding map_of_collect .
    then have "(i, d) \<in> set (rev ?all)" by (rule map_of_SomeD)
    then have "(i, d) \<in> set ?all" unfolding set_rev .
    then show "wf_device d"
      using assms(4) by (auto simp: stored_ok_def wf_peer_def)
  qed
  then have "traverse (device_from_proto x) (map (device_to_proto x) (values_of (collect_map ?all))) =
      Inr (map norm_device (values_of (collect_map ?all)))"
    using assms(1) by (intro device_conversion.trips) blast
  then show ?thesis
    using assms(2,3)
    by (simp add: client_list_devices_def serve_list_devices_def peers_devices_def list_devices_def PeerDescriptors_def
        from_manager_def rpc_def link_up_def run_defs)
qed

section \<open>Applying documents\<close>

text \<open>What a document asks for.\<close>

fun with_model :: "ResourceModel \<Rightarrow> tables \<Rightarrow> tables" where
  "with_model (PeerDescriptorModel d) t =
     t\<lparr> t_peer_descriptors := AList.update (pd_id d) (norm_peer d) (t_peer_descriptors t) \<rparr>"
| "with_model (ClusterConfigurationModel k) t =
     t\<lparr> t_cluster_configurations := AList.update (cc_id k) k (t_cluster_configurations t) \<rparr>"

definition vpn_accepts :: "'w vpn \<Rightarrow> bool" where
  "vpn_accepts vpn \<longleftrightarrow> (\<forall>new p w. snd (vpn_create_new vpn new p w) = Inr ())"

lemma stored_with_model: "wf_model m \<Longrightarrow> stored_ok t \<Longrightarrow> stored_ok (with_model m t)"
  by (cases m) (auto simp: stored_ok_entries dest!: entry_of_update)

lemma pd_id_norm: "pd_id (norm_peer d) = pd_id d"
  by (simp add: norm_peer_def)

lemma model_is_stored:
  assumes "ext_ok x" "fair E" "link_up L" "vpn_accepts vpn" "stored_ok (rm_tables (cw_manager cw))" "wf_model m"
  shows "\<exists>cw'. create_resource_in_carl_from_model (carl_client.truncate (carl_of L x E vpn oidc)) m cw = (cw', Inr ()) \<and>
    rm_tables (cw_manager cw') = with_model m (rm_tables (cw_manager cw))"
proof (cases m)
  case (PeerDescriptorModel d)
  let ?t = "t_peer_descriptors (rm_tables (cw_manager cw))"
  obtain w where vpn: "vpn_create_new vpn (map_of ?t (pd_id d) = None) (pd_id d) (cw_vpn cw) = (w, Inr ())"
    using assms(4) by (metis vpn_accepts_def prod.collapse)
  from PeerDescriptorModel assms(6) have "client_store_peer L x E vpn d cw =
      map_run_err (\<lambda>e. UsageError (api_store_peer_from e)) (peers_store E vpn (norm_peer d)) cw"
    by (intro client_store_peer_answer [OF assms(1,3)]) simp
  with vpn show ?thesis
    by (simp add: PeerDescriptorModel cleo_create_peer_def carl_of_def carl_client.truncate_def
        peers_store_fair [OF assms(2)] pd_id_norm run_defs)
next
  case (ClusterConfigurationModel k)
  let ?t = "rm_tables (cw_manager cw)"
  obtain sent where create: "clusters_create E k cw =
      (cw\<lparr> cw_manager := \<lparr> rm_tables = with_model m ?t, rm_sent = sent \<rparr> \<rparr>, Inr (cc_id k))"
    using assms(2) by (simp add: ClusterConfigurationModel clusters_create_def on_resources_def collapse_def resources_mut_fair
        create_cluster_configuration_fair resources_insert_def ClusterConfigurations_def)
  let ?cw = "cw\<lparr> cw_manager := \<lparr> rm_tables = with_model m ?t, rm_sent = sent \<rparr> \<rparr>"
  from ClusterConfigurationModel assms(6) have "client_store_configuration L x E k cw =
      map_run_err (\<lambda>e. UsageError (api_create_configuration_from e)) (clusters_create E k) cw"
    by (intro client_store_configuration_answer [OF assms(1,3)]) simp
  moreover obtain ds where "client_list_devices L x E ?cw = (?cw, Inr ds)"
    using client_list_devices_answer [OF assms(1-3), of ?cw] stored_with_model [OF assms(6,5)] by auto
  ultimately show ?thesis
    by (simp add: ClusterConfigurationModel cleo_create_cluster_configuration_def carl_of_def carl_client.truncate_def
        create [unfolded ClusterConfigurationModel] run_defs del: with_model.simps)
qed

lemma models_are_stored:
  assumes "ext_ok x" "fair E" "link_up L" "vpn_accepts vpn"
  shows "stored_ok (rm_tables (cw_manager cw)) \<Longrightarrow> list_all wf_model ms \<Longrightarrow>
    \<exists>cw'. run_list (create_resource_in_carl_from_model (carl_client.truncate (carl_of L x E vpn oidc))) ms cw = (cw', Inr ()) \<and>
      rm_tables (cw_manager cw') = fold with_model ms (rm_tables (cw_manager cw))"
proof (induction ms arbitrary: cw)
  case Nil
  then show ?case by (simp add: return_ok_def)
next
  case (Cons m ms)
  obtain cw1 where step: "create_resource_in_carl_from_model (carl_client.truncate (carl_of L x E vpn oidc)) m cw = (cw1, Inr ())"
    and t1: "rm_tables (cw_manager cw1) = with_model m (rm_tables (cw_manager cw))"
    using model_is_stored [OF assms Cons.prems(1)] Cons.prems(2) by fastforce
  have "stored_ok (rm_tables (cw_manager cw1))"
    using Cons.prems stored_with_model by (simp add: t1)
  from Cons.IH [OF this] Cons.prems(2) show ?case
    by (auto simp: and_then_def step t1)
qed

text \<open>C13: applying a file, from the text to the tables. With a working connection and storage and a VPN server
  that accepts new peers, \<open>cleo apply\<close> of a file with a faulty document changes nothing in CARL;
  otherwise it succeeds and CARL stores exactly what the documents say, in their order: each peer
  in normalised form under its id, each cluster configuration under its id, everything else
  as before.\<close>

theorem applied_documents_are_stored:
  assumes "ext_ok x" "fair E" "link_up L" "vpn_accepts vpn" "stored_ok (rm_tables (cw_manager cw))"
    and "apply_execute x fs Y J (carl_client.truncate (carl_of L x E vpn oidc)) (SourceFile path) cw = (cw', r)"
  shows "case models_of_file x fs Y path of
      Inl fault \<Rightarrow> cw' = cw \<and> r = Inl fault
    | Inr models \<Rightarrow> r = Inr () \<and> rm_tables (cw_manager cw') = fold with_model models (rm_tables (cw_manager cw))"
proof (cases "models_of_file x fs Y path")
  case (Inl fault)
  with assms(6) show ?thesis by (simp add: apply_execute_def run_defs)
next
  case (Inr models)
  from models_are_stored [OF assms(1-5) models_of_file_wf [OF Inr], of oidc] Inr assms(6)
  show ?thesis by (auto simp: apply_execute_def run_defs)
qed

text \<open>A file with one peer, and a reader of such files.\<close>

definition bare_peer_specification :: PeerDescriptorSpecificationV1 where
  "bare_peer_specification =
     \<lparr> ps_location = None, ps_network = \<lparr> nws_interfaces = [], nws_bridge_name = None \<rparr>,
       ps_topology = \<lparr> ts_devices = [] \<rparr>, ps_executors = [] \<rparr>"

definition bare_peer :: PeerDescriptor where
  "bare_peer =
     \<lparr> pd_id = PeerId 1, pd_name = PeerName ''peer'', pd_location = None,
       pd_network = \<lparr> pn_interfaces = [], pn_bridge_name = None \<rparr>,
       pd_topology = \<lparr> topology_devices = [] \<rparr>, pd_executors = \<lparr> eds_executors = [] \<rparr> \<rparr>"

definition sample_yaml :: "PeerDescriptorSpecificationV1 serde" where
  "sample_yaml =
     \<lparr> serde_kind = (\<lambda>s. if s = ''PeerDescriptor'' then Inr PeerDescriptorResource else Inl ''unknown variant''),
       serde_version = (\<lambda>s. if s = ''v1'' then Inr SpecificationV1 else Inl ''unknown variant''),
       serde_cluster_specification = (\<lambda>_. Inl ''missing field''), serde_peer_specification = Inr,
       serde_document = (\<lambda>v. Inr \<lparr> rd_kind = ''PeerDescriptor'', rd_version = ''v1'',
         rd_metadata = \<lparr> meta_id = 1, meta_name = ''peer'' \<rparr>, rd_spec = v \<rparr>),
       serde_document_from_str = (\<lambda>_. Inl ''missing field''),
       serde_values_of_stream = (\<lambda>_. [Inr bare_peer_specification]) \<rparr>"

definition one_file :: files where
  "one_file = empty_disk\<lparr> read_to_string := (\<lambda>_. Inr ''kind: PeerDescriptor'') \<rparr>"

lemma sample_file: "models_of_file decimal_ext one_file sample_yaml ''peer.yaml'' = Inr [PeerDescriptorModel bare_peer]"
proof -
  have "peer_name_try_from ''peer'' = Inr (PeerName ''peer'')"
    using sample_names peer_name.parse_print [of "PeerName ''peer''"] by simp
  then show ?thesis
    by (simp add: models_of_file_def one_file_def yaml_file_try_from_str_def sample_yaml_def specification_from_yaml_def
        yaml_parse_kind_def yaml_parse_version_def convert_document_to_model_def convert_document_to_peer_descriptor_def
        bare_peer_specification_def bare_peer_def)
qed

theorem applied_documents_are_stored_witness:
  "rm_tables (cw_manager (fst (apply_execute decimal_ext one_file sample_yaml sample_json
      (carl_client.truncate (carl_of direct_link decimal_ext fair_env VpnOff None)) (SourceFile ''peer.yaml'') (world_of stored_tables)))) =
    stored_tables\<lparr> t_peer_descriptors := t_peer_descriptors stored_tables @ [(PeerId 1, norm_peer bare_peer)] \<rparr>"
proof -
  let ?run = "apply_execute decimal_ext one_file sample_yaml sample_json
      (carl_client.truncate (carl_of direct_link decimal_ext fair_env VpnOff None)) (SourceFile ''peer.yaml'') (world_of stored_tables)"
  have accepts: "vpn_accepts VpnOff" by (simp add: vpn_accepts_def vpn_create_new_def return_ok_def)
  have ok: "stored_ok (rm_tables (cw_manager (world_of stored_tables)))" by (simp add: stored_tables_ok)
  obtain cw' r where run: "?run = (cw', r)" by (metis surj_pair)
  have "rm_tables (cw_manager cw') = with_model (PeerDescriptorModel bare_peer) stored_tables"
    using applied_documents_are_stored [OF ext_ok_decimal fair_env direct_link accepts ok run] by (simp add: sample_file)
  moreover have "with_model (PeerDescriptorModel bare_peer) stored_tables =
      stored_tables\<lparr> t_peer_descriptors := t_peer_descriptors stored_tables @ [(PeerId 1, norm_peer bare_peer)] \<rparr>"
    by (simp add: stored_tables_def bare_peer_def)
  ultimately show ?thesis by (simp add: run)
qed

end
