(* ===== verification/Spec2Isabelle.thy ===== *)
theory Spec2Isabelle
  imports EdgarEndToEnd NetbirdClaims EdgarContainer ObserverBroker CleoEndToEnd
begin

text \<open>
  A verification development for openDuT, a distributed test bench for electronic control units.

  \<^bold>\<open>The program.\<close> CARL (src/opendut-carl) is the server: it stores descriptors of peers and
  configurations and deployments of clusters, keeps a stream to every connected peer, and rolls a
  cluster out when all its peers are online. EDGAR (src/opendut-edgar) runs on each peer: it
  receives its configuration over the stream and sets up bridges, GRE tunnels, CAN routes and
  test executors. The types and their protobuf form are in src/opendut-types, the VPN that
  connects the peers is managed through src/opendut-vpn. A roll-out goes: the cluster manager asks
  the tables which peers a cluster uses and whether they are free and online (PeerQueries),
  hands out CAN server ports and maps devices to peers (ClusterDeploy), creates the VPN cluster
  (Netbird), computes, stores and sends the configuration of each member (AssignCluster,
  PeerBroker); the message passes the wire conversions (ProtoConfiguration) and is applied by
  EDGAR (EdgarService, EdgarCluster, EdgarTunnels, EdgarCan).

  \<^bold>\<open>Conventions.\<close> A Rust struct is a record, an enum a datatype, u16/u32/u64 are words, a string
  is the list of its UTF-8 bytes, a \<open>HashMap\<close> or table an association list with distinct keys.
  \<open>Result\<close> is a sum with the error on the left. A method that changes state and may fail is a
  function of the type \<open>run\<close> of theory Prelude: what was changed before an error stays changed.
  Panics are values of their own error types. An await is sequential unless several tasks
  interleave on shared state; then there is a step relation (\<open>broker_step\<close>, \<open>cannelloni_step\<close>,
  \<open>observer_step\<close>).

  \<^bold>\<open>Theories and sources.\<close>
  Prelude: results, runs, hash maps, decimal rendering. Externals: the crates uuid and url.
  Names, Containers, Types, PeerConfiguration: src/opendut-types/src (util, peer, cluster,
  topology, vpn, cleo): validated names with their error messages, executor descriptors, peers,
  clusters, states, peer configurations with \<open>set\<close>.
  ProtoUtil, ProtoCluster, ProtoPeer, ProtoConfiguration: src/opendut-types/src/proto and the
  messages of src/opendut-types/proto; for each type the conversion to and from the message, the
  error for each missing field, and a round trip (collection \<open>conv_simps\<close>).
  Storage, Resources: src/opendut-carl/src/resource: tables of encoded values, the typed tables
  with a kind per resource, transactions with rollback, subscription events.
  PeerQueries: the read-only queries of both managers; \<open>well_formed\<close> tables and the predicate
  \<open>exclusive\<close> (no peer in two deployed clusters) are the invariants of CARL's data.
  PeerManager: storing and deleting peers, setups of peers and CLEOs.
  PeerBroker, BrokerRuns: the messaging broker, its tasks as a step relation, reachable runs.
  AssignCluster, ClusterDeploy, DeployEffects: the roll-out and what it leaves behind.
  ClusterManager: configurations and deployments and the reaction to peers that come online.
  EdgarNetwork, EdgarTunnels, EdgarCan, EdgarCluster: network interfaces, GRE, CAN, who connects
  to whom. EdgarTasks: the task runner. EdgarService, EdgarEndToEnd: the receiving loop,
  executors, and the path of a configuration from CARL's tables to EDGAR.
  EdgarContainer: the manager of a test container, whose polling loop may not end.
  Netbird, NetbirdManagement, NetbirdBooks, NetbirdServer, NetbirdClaims: the VPN client.
  WireTypes: accepted messages are well-formed values, the storage refines the typed tables.
  SamplePoints: binary32 numbers and the sample points of CAN interfaces (opendut-types, util/net.rs).
  Specifications: src/opendut-types/src/specs, the YAML and JSON documents and how they are parsed.
  CleoApply, CleoCommands: src/opendut-cleo/src/commands: documents turned into resources and sent
  to CARL, and the commands that fetch a peer, edit it and store it.
  ApiErrors, ApiClusterErrors: the errors of CARL's API and the failure messages that carry them
  (opendut-carl-api/src/carl, src/proto/services; opendut-carl/src/manager/grpc/error.rs).
  CarlFacade: the gRPC services in front of the two managers (opendut-carl/src/manager/grpc).
  CarlClient: the client library that CLEO and the web front end call (opendut-carl-api/src/carl).
  CarlApi: services and client put together; the tables stay well-formed under any requests.
  CleoEndToEnd: \<open>cleo apply\<close> from the text of a file to CARL's tables.
  ObserverBroker: waiting for peers to come online, from the command through the gRPC facade to
  the task that observes the table of connection states, as a step relation.

  \<^bold>\<open>Interfaces.\<close> What is not under src/ is a parameter: the record \<open>ext\<close> (with \<open>ext_ok\<close>: printing
  and parsing, splitting and joining are inverse), \<open>env\<close> (which access of the database fails),
  \<open>vpn_client\<close>, \<open>registration_client\<close>, \<open>netlink\<close> (the kernel, with the predicate \<open>honest_netlink\<close>),
  \<open>netbird_http\<close> (HTTP and JSON), \<open>container_host\<close> (container engine, files, WebDAV), \<open>serde\<close> (the
  YAML and JSON libraries), \<open>files\<close> (the file system CLEO reads), \<open>link\<close> (the connection between
  client and services, which may lose a request or an answer). Contracts
  between the program's own parts are locales, each interpreted on the model's definitions:
  \<open>validated_text\<close> (a parser accepts the text of exactly the valid values; every checked name),
  \<open>conversion\<close> and \<open>exact_conversion\<close> (what survives the wire; every message),
  \<open>parameter_list\<close> (the three lists of a peer configuration), \<open>resource_store\<close> (a table that
  can be looked up after a change; the storage's tables of bytes and the typed tables),
  \<open>answered\<close> (a service and the method of the client that calls it; eight such pairs) and
  \<open>netbird_books\<close> (what the NetBird client does to the server's books). The predicate
  \<open>vpn_keeps_books\<close> is what the peer manager needs of a VPN client; the NetBird client has it.

  \<^bold>\<open>What the claims show.\<close> Each claim has its text above it, with its number. In CARL: one stream
  per peer, an exact description of a successful roll-out, ports within their range (and the
  overflow that breaks it), the invariants under every operation, what failures leave behind. In
  EDGAR: exactly the wanted tunnels, a star around the leader whose two ends agree, idempotent
  tasks, executors restarted. Across: what CARL stores is what EDGAR applies, what a user applies is what
  CARL stores, a method of the client library is the manager's operation. Some claims are
  about runs that go wrong: a stream that blocks its peer, a peer that is online but cannot be
  reached, a configuration that makes every query panic.

  \<^bold>\<open>Bounds.\<close> There is no fuel: loops over collections are structural, the search for a container's
  name has a measure, the loop that polls a container is a partial function into an option
  whose value \<open>None\<close> is characterised, the two loops of concurrent tasks are step relations, and
  EDGAR's receiving loop is a function of the finite list of stream events.

  \<^bold>\<open>Not modelled.\<close> The web front end (LEA), CLEO's commands that only list or print, EDGAR's setup, the
  restbus simulation and the plugin host, the HTTP servers that carry the gRPC services (routing, TLS),
  the Postgres variant of the storage, OIDC, settings, telemetry: they parse, print, or call systems
  outside the repository. Except for the observer's clock, time does not appear: timeouts are
  steps that may always be taken.
  Setup strings (brotli, base64) are library code around the modelled protobuf conversion.
\<close>

end
